(* ===== verification/Muxtop_Prelude.thy ===== *)
theory Muxtop_Prelude
  imports Main "HOL-Library.Word" "HOL-Library.Multiset"
begin

text \<open>
  Prelude of the muxtop development: the names of the machine integer types, the saturating
  arithmetic of Rust's \<open>saturating_add\<close>, \<open>saturating_sub\<close> and \<open>saturating_mul\<close>, the
  iterator operations of the standard library the sources use on slices (\<open>position\<close>,
  \<open>get\<close>, the bounded \<open>VecDeque\<close> push), stable sorting by a comparator and the contract
  of an unstable sort. Every lemma here is about lists, options, words or orders only; the
  components add their facts to the collections declared first.
\<close>

named_theorems app_simps \<open>field projections and small handlers of the application state\<close>
named_theorems float_simps \<open>evaluation rules for floating-point operations\<close>

type_synonym u8 = "8 word"
type_synonym u16 = "16 word"
type_synonym u32 = "32 word"
type_synonym u64 = "64 word"
type_synonym usize = nat

text \<open>Instants and durations of \<open>std::time\<close> are counted in nanoseconds.\<close>

type_synonym instant = nat
type_synonym duration = nat

definition nanos_per_sec :: nat where
  "nanos_per_sec = 1000000000"

definition from_secs :: "nat \<Rightarrow> duration" where
  "from_secs s = s * nanos_per_sec"

definition from_millis :: "nat \<Rightarrow> duration" where
  "from_millis s = s * 1000000"

text \<open>\<open>Instant::duration_since\<close> saturates at zero when the argument is later.\<close>

definition duration_since :: "instant \<Rightarrow> instant \<Rightarrow> duration" where
  "duration_since later earlier = later - earlier"

section \<open>Saturating word arithmetic\<close>

definition sat_add :: "'a::len word \<Rightarrow> 'a word \<Rightarrow> 'a word" where
  "sat_add a b = (if unat a + unat b < 2 ^ LENGTH('a) then a + b else - 1)"

definition sat_sub :: "'a::len word \<Rightarrow> 'a word \<Rightarrow> 'a word" where
  "sat_sub a b = (if b \<le> a then a - b else 0)"

definition sat_mul :: "'a::len word \<Rightarrow> 'a word \<Rightarrow> 'a word" where
  "sat_mul a b = (if unat a * unat b < 2 ^ LENGTH('a) then a * b else - 1)"

lemma unat_max_word: "unat (- 1 :: 'a::len word) = 2 ^ LENGTH('a) - 1"
  by (simp add: unsigned_minus_1_eq_mask mask_eq_exp_minus_1)

lemma unat_sat_add: "unat (sat_add a b) = min (unat a + unat b) (2 ^ LENGTH('a) - 1)"
  for a b :: "'a::len word"
proof (cases "unat a + unat b < 2 ^ LENGTH('a)")
  case True
  then have "unat (a + b) = unat a + unat b"
    by (simp add: unat_word_ariths)
  with True show ?thesis by (simp add: sat_add_def)
next
  case False
  then show ?thesis by (simp add: sat_add_def unat_max_word)
qed

lemma unat_sat_sub: "unat (sat_sub a b) = unat a - unat b"
  by (simp add: sat_sub_def word_le_nat_alt unat_sub)

lemma unat_sat_mul: "unat (sat_mul a b) = min (unat a * unat b) (2 ^ LENGTH('a) - 1)"
  for a b :: "'a::len word"
proof (cases "unat a * unat b < 2 ^ LENGTH('a)")
  case True
  then have "unat (a * b) = unat a * unat b"
    by (simp add: unat_word_ariths)
  with True show ?thesis by (simp add: sat_mul_def)
next
  case False
  then show ?thesis by (simp add: sat_mul_def unat_max_word)
qed

lemma sat_add_zero [simp]: "sat_add 0 a = a" "sat_add a 0 = a"
  by (simp_all add: sat_add_def)

lemma sat_sub_self [simp]: "sat_sub a a = 0"
  by (simp add: sat_sub_def)

section \<open>Slices\<close>

text \<open>\<open>slice::get\<close>: no value out of range.\<close>

definition get_opt :: "'a list \<Rightarrow> nat \<Rightarrow> 'a option" where
  "get_opt xs i = (if i < length xs then Some (xs ! i) else None)"

lemma get_opt_Some: "get_opt xs i = Some x \<longleftrightarrow> i < length xs \<and> xs ! i = x"
  by (auto simp: get_opt_def)

lemma get_opt_None: "get_opt xs i = None \<longleftrightarrow> length xs \<le> i"
  by (auto simp: get_opt_def)

lemma get_opt_in_set: "get_opt xs i = Some x \<Longrightarrow> x \<in> set xs"
  by (auto simp: get_opt_Some)

text \<open>\<open>Iterator::position\<close>: the index of the first element satisfying the predicate.\<close>

fun position :: "('a \<Rightarrow> bool) \<Rightarrow> 'a list \<Rightarrow> nat option" where
  "position P [] = None"
| "position P (x # xs) = (if P x then Some 0 else map_option Suc (position P xs))"

lemma position_Some:
  "position P xs = Some i \<Longrightarrow> i < length xs \<and> P (xs ! i) \<and> (\<forall>j<i. \<not> P (xs ! j))"
proof (induction xs arbitrary: i)
  case (Cons x xs)
  then show ?case
    by (cases "P x") (auto simp: less_Suc_eq_0_disj)
qed simp

lemma position_None: "position P xs = None \<longleftrightarrow> (\<forall>x\<in>set xs. \<not> P x)"
  by (induction xs) auto

text \<open>\<open>usize::clamp\<close> to the last valid index and friends work on \<open>nat\<close>.\<close>

lemma find_Some_in: "find P xs = Some x \<Longrightarrow> x \<in> set xs \<and> P x"
  by (auto simp: find_Some_iff)

text \<open>A \<open>VecDeque\<close> used as a ring: drop the oldest when full, then append.\<close>

definition push_ring :: "nat \<Rightarrow> 'a list \<Rightarrow> 'a \<Rightarrow> 'a list" where
  "push_ring cap xs x = (if cap \<le> length xs then drop 1 xs else xs) @ [x]"

text \<open>The last \<open>n\<close> elements of a list.\<close>

definition last_n :: "nat \<Rightarrow> 'a list \<Rightarrow> 'a list" where
  "last_n n xs = drop (length xs - n) xs"

lemma length_last_n [simp]: "length (last_n n xs) = min n (length xs)"
  by (simp add: last_n_def)

lemma last_n_all: "length xs \<le> n \<Longrightarrow> last_n n xs = xs"
  by (simp add: last_n_def)

lemma push_ring_last_n:
  assumes "0 < cap"
  shows "push_ring cap (last_n cap xs) x = last_n cap (xs @ [x])"
proof (cases "cap \<le> length xs")
  case True
  then have "drop 1 (drop (length xs - cap) xs) = drop (Suc (length xs) - cap) xs"
    by (simp add: Suc_diff_le)
  moreover from assms True have "Suc (length xs) - cap \<le> length xs" by simp
  ultimately show ?thesis using True
    by (simp add: push_ring_def last_n_def)
next
  case False
  then show ?thesis by (simp add: push_ring_def last_n_def)
qed

lemma length_push_ring: "0 < cap \<Longrightarrow> length xs \<le> cap \<Longrightarrow> length (push_ring cap xs x) \<le> cap"
  by (auto simp: push_ring_def)

section \<open>Sorting\<close>

text \<open>
  \<open>slice::sort_by\<close> is stable: equal elements keep their order. The comparator is given as
  the test that its first argument does not compare greater than its second.
\<close>

fun insert_by :: "('a \<Rightarrow> 'a \<Rightarrow> bool) \<Rightarrow> 'a \<Rightarrow> 'a list \<Rightarrow> 'a list" where
  "insert_by le x [] = [x]"
| "insert_by le x (y # ys) = (if le x y then x # y # ys else y # insert_by le x ys)"

definition sort_by :: "('a \<Rightarrow> 'a \<Rightarrow> bool) \<Rightarrow> 'a list \<Rightarrow> 'a list" where
  "sort_by le xs = foldr (insert_by le) xs []"

definition total_preorder_on :: "'a set \<Rightarrow> ('a \<Rightarrow> 'a \<Rightarrow> bool) \<Rightarrow> bool" where
  "total_preorder_on A le \<longleftrightarrow>
     (\<forall>x\<in>A. \<forall>y\<in>A. le x y \<or> le y x) \<and>
     (\<forall>x\<in>A. \<forall>y\<in>A. \<forall>z\<in>A. le x y \<longrightarrow> le y z \<longrightarrow> le x z)"

lemma mset_insert_by [simp]: "mset (insert_by le x xs) = add_mset x (mset xs)"
  by (induction xs) auto

lemma set_insert_by [simp]: "set (insert_by le x xs) = insert x (set xs)"
  by (induction xs) auto

lemma sort_by_Nil [simp]: "sort_by le [] = []"
  by (simp add: sort_by_def)

lemma sort_by_Cons [simp]: "sort_by le (x # xs) = insert_by le x (sort_by le xs)"
  by (simp add: sort_by_def)

lemma mset_sort_by [simp]: "mset (sort_by le xs) = mset xs"
  by (induction xs) auto

lemma set_sort_by [simp]: "set (sort_by le xs) = set xs"
  by (metis mset_sort_by set_mset_mset)

lemma length_sort_by [simp]: "length (sort_by le xs) = length xs"
  by (metis mset_sort_by size_mset)

lemma total_preorder_onD:
  assumes "total_preorder_on A le" "x \<in> A" "y \<in> A"
  shows "le x y \<or> le y x"
  using assms unfolding total_preorder_on_def by blast

lemma total_preorder_on_trans:
  assumes "total_preorder_on A le" "x \<in> A" "y \<in> A" "z \<in> A" "le x y" "le y z"
  shows "le x z"
  using assms unfolding total_preorder_on_def by blast

lemma total_preorder_on_subset:
  "total_preorder_on A le \<Longrightarrow> B \<subseteq> A \<Longrightarrow> total_preorder_on B le"
  unfolding total_preorder_on_def by blast

lemma total_preorder_on_key:
  fixes f :: "'a \<Rightarrow> 'b::linorder"
  shows "total_preorder_on A (\<lambda>x y. f x \<le> f y)" "total_preorder_on A (\<lambda>x y. f y \<le> f x)"
  by (auto simp: total_preorder_on_def)

lemma sorted_wrt_insert_by:
  assumes "total_preorder_on (insert x (set ys)) le" "sorted_wrt le ys"
  shows "sorted_wrt le (insert_by le x ys)"
  using assms
proof (induction ys)
  case Nil
  then show ?case by simp
next
  case (Cons y ys)
  have sub: "total_preorder_on (insert x (set ys)) le"
    using Cons.prems(1) by (rule total_preorder_on_subset) auto
  show ?case
  proof (cases "le x y")
    case True
    have "le x z" if "z \<in> set ys" for z
      by (rule total_preorder_on_trans [OF Cons.prems(1) _ _ _ True])
        (use that Cons.prems(2) in auto)
    with True Cons.prems(2) show ?thesis by simp
  next
    case False
    then have "le y x"
      using total_preorder_onD [OF Cons.prems(1), of x y] by auto
    with False Cons.prems(2) Cons.IH [OF sub] show ?thesis by simp
  qed
qed

lemma sorted_wrt_sort_by:
  "total_preorder_on (set xs) le \<Longrightarrow> sorted_wrt le (sort_by le xs)"
proof (induction xs)
  case (Cons x xs)
  have "sorted_wrt le (sort_by le xs)"
    by (rule Cons.IH) (rule total_preorder_on_subset [OF Cons.prems], auto)
  with Cons.prems show ?case by (simp add: sorted_wrt_insert_by)
qed simp

lemma insert_by_already: "\<forall>y\<in>set ys. le x y \<Longrightarrow> insert_by le x ys = x # ys"
  by (cases ys) auto

lemma sort_by_sorted: "sorted_wrt le xs \<Longrightarrow> sort_by le xs = xs"
  by (induction xs) (auto simp: insert_by_already)

text \<open>
  \<open>slice::sort_unstable_by\<close> promises a permutation in comparator order and leaves the order of
  equal elements open. The contract is a locale; the components that call an unstable sort take
  the sort as an argument and their results hold for every sort that keeps this contract.
\<close>

locale unstable_sort =
  fixes usort :: "('a \<Rightarrow> 'a \<Rightarrow> bool) \<Rightarrow> 'a list \<Rightarrow> 'a list"
  assumes usort_mset: "mset (usort le xs) = mset xs"
    and usort_sorted: "total_preorder_on (set xs) le \<Longrightarrow> sorted_wrt le (usort le xs)"
begin

lemma usort_length: "length (usort le xs) = length xs"
  by (metis usort_mset size_mset)

lemma usort_set: "set (usort le xs) = set xs"
  by (metis usort_mset set_mset_mset)

lemma usort_rev_sorted:
  "total_preorder_on (set xs) le \<Longrightarrow> sorted_wrt (\<lambda>x y. le y x) (rev (usort le xs))"
  by (simp add: sorted_wrt_rev usort_sorted)

end

interpretation stable: unstable_sort sort_by
  by unfold_locales (simp_all add: sorted_wrt_sort_by)

section \<open>Options\<close>

definition unwrap_or :: "'a option \<Rightarrow> 'a \<Rightarrow> 'a" where
  "unwrap_or x d = (case x of None \<Rightarrow> d | Some v \<Rightarrow> v)"

lemma unwrap_or_simps [simp]: "unwrap_or None d = d" "unwrap_or (Some v) d = v"
  by (simp_all add: unwrap_or_def)

definition or_else :: "'a option \<Rightarrow> 'a option \<Rightarrow> 'a option" where
  "or_else x y = (case x of None \<Rightarrow> y | Some v \<Rightarrow> Some v)"

lemma or_else_simps [simp]: "or_else None y = y" "or_else (Some v) y = Some v"
  by (simp_all add: or_else_def)

section \<open>Step systems\<close>

text \<open>
  A component that reacts to a sequence of inputs: what every reaction preserves holds after any
  sequence, and what holds at the start and is preserved holds in every state on the way.
\<close>

locale step_invariant =
  fixes step :: "'e \<Rightarrow> 's \<Rightarrow> 's" and inv :: "'s \<Rightarrow> bool"
  assumes step_inv: "inv s \<Longrightarrow> inv (step e s)"
begin

lemma run_inv: "inv s \<Longrightarrow> inv (fold step es s)"
  by (induction es arbitrary: s) (simp_all add: step_inv)

lemma run_inv_all: "inv s \<Longrightarrow> k \<le> length es \<Longrightarrow> inv (fold step (take k es) s)"
  by (rule run_inv)

end

end
