(* ===== verification/Rust_Str.thy ===== *)
theory Rust_Str
  imports Muxtop_Prelude "HOL-Library.Char_ord" "HOL-Library.List_Lexorder"
begin

text \<open>
  The parts of Rust's \<open>str\<close> and \<open>String\<close> the sources use. A string is the list of its UTF-8
  bytes, so \<open>len\<close> is \<open>length\<close> and the derived order is the byte order of \<open>Ord for str\<close>.
  Operations that Rust defines on characters (\<open>chars\<close>, \<open>pop\<close>, \<open>trim\<close>) group the bytes into
  encoded characters first. Lower-casing of a string with non-ASCII characters needs the Unicode
  tables, which stand outside this model: it is the argument \<open>ulc\<close> of \<open>to_lowercase\<close>, used on
  non-ASCII input only.
\<close>

abbreviation byte_of :: "char \<Rightarrow> nat" where
  "byte_of c \<equiv> of_char c"

section \<open>Characters of a UTF-8 string\<close>

definition is_cont :: "char \<Rightarrow> bool" where
  "is_cont c \<longleftrightarrow> 128 \<le> byte_of c \<and> byte_of c < 192"

function str_chars :: "string \<Rightarrow> string list" where
  "str_chars [] = []"
| "str_chars (c # cs) = (c # takeWhile is_cont cs) # str_chars (dropWhile is_cont cs)"
  by pat_completeness auto
termination
  by (relation "measure length") (simp_all add: le_imp_less_Suc length_dropWhile_le)

lemma concat_str_chars [simp]: "concat (str_chars s) = s"
  by (induction s rule: str_chars.induct) auto

definition take_chars :: "nat \<Rightarrow> string \<Rightarrow> string" where
  "take_chars n s = concat (take n (str_chars s))"

definition pop_char :: "string \<Rightarrow> string" where
  "pop_char s = concat (butlast (str_chars s))"

text \<open>\<open>char::is_whitespace\<close> (the Unicode property \<open>White_Space\<close>), on encoded characters.\<close>

definition is_whitespace :: "string \<Rightarrow> bool" where
  "is_whitespace ch \<longleftrightarrow>
     (case map byte_of ch of
        [b] \<Rightarrow> (9 \<le> b \<and> b \<le> 13) \<or> b = 32
      | [a, b] \<Rightarrow> a = 194 \<and> (b = 133 \<or> b = 160)
      | [a, b, c] \<Rightarrow>
          a = 225 \<and> b = 154 \<and> c = 128 \<or>
          a = 226 \<and> b = 128 \<and> (128 \<le> c \<and> c \<le> 138 \<or> c = 168 \<or> c = 169 \<or> c = 175) \<or>
          a = 226 \<and> b = 129 \<and> c = 159 \<or>
          a = 227 \<and> b = 128 \<and> c = 128
      | _ \<Rightarrow> False)"

definition trim_end :: "string \<Rightarrow> string" where
  "trim_end s = concat (rev (dropWhile is_whitespace (rev (str_chars s))))"

definition trim_start :: "string \<Rightarrow> string" where
  "trim_start s = concat (dropWhile is_whitespace (str_chars s))"

definition trim :: "string \<Rightarrow> string" where
  "trim s = trim_end (trim_start s)"

section \<open>ASCII\<close>

definition is_ascii :: "string \<Rightarrow> bool" where
  "is_ascii s \<longleftrightarrow> list_all (\<lambda>c. byte_of c < 128) s"

definition is_ascii_digit :: "char \<Rightarrow> bool" where
  "is_ascii_digit c \<longleftrightarrow> 48 \<le> byte_of c \<and> byte_of c \<le> 57"

definition is_ascii_lowercase :: "char \<Rightarrow> bool" where
  "is_ascii_lowercase c \<longleftrightarrow> 97 \<le> byte_of c \<and> byte_of c \<le> 122"

definition ascii_lower :: "char \<Rightarrow> char" where
  "ascii_lower c =
     (if 65 \<le> byte_of c \<and> byte_of c \<le> 90 then char_of (byte_of c + 32) else c)"

definition to_ascii_lowercase :: "string \<Rightarrow> string" where
  "to_ascii_lowercase = map ascii_lower"

definition eq_ignore_ascii_case :: "string \<Rightarrow> string \<Rightarrow> bool" where
  "eq_ignore_ascii_case a b \<longleftrightarrow> to_ascii_lowercase a = to_ascii_lowercase b"

definition to_lowercase :: "(string \<Rightarrow> string) \<Rightarrow> string \<Rightarrow> string" where
  "to_lowercase ulc s = (if is_ascii s then to_ascii_lowercase s else ulc s)"

lemma byte_of_lt: "byte_of c < 256"
  using nat_of_char_less_256 [of c] by simp

lemma byte_of_char_of: "n < 256 \<Longrightarrow> byte_of (char_of n) = n"
  for n :: nat
  by (simp add: of_char_of)

lemma byte_of_inject: "byte_of c = byte_of d \<longleftrightarrow> c = d"
  by (simp add: of_char_eq_iff)

lemma byte_of_ascii_lower:
  "byte_of (ascii_lower c) =
     (if 65 \<le> byte_of c \<and> byte_of c \<le> 90 then byte_of c + 32 else byte_of c)"
  by (simp add: ascii_lower_def byte_of_char_of)

lemma ascii_lower_idem [simp]: "ascii_lower (ascii_lower c) = ascii_lower c"
  unfolding byte_of_inject [symmetric] byte_of_ascii_lower by simp

lemma to_ascii_lowercase_idem [simp]:
  "to_ascii_lowercase (to_ascii_lowercase s) = to_ascii_lowercase s"
  by (simp add: to_ascii_lowercase_def)

lemma length_to_ascii_lowercase [simp]: "length (to_ascii_lowercase s) = length s"
  by (simp add: to_ascii_lowercase_def)

lemma is_ascii_to_ascii_lowercase [simp]: "is_ascii (to_ascii_lowercase s) = is_ascii s"
  by (auto simp: is_ascii_def to_ascii_lowercase_def list_all_iff byte_of_ascii_lower
      split: if_splits)

lemma to_lowercase_Nil [simp]: "to_lowercase ulc [] = []"
  by (simp add: to_lowercase_def is_ascii_def to_ascii_lowercase_def)

lemma to_lowercase_ascii: "is_ascii s \<Longrightarrow> to_lowercase ulc s = to_ascii_lowercase s"
  by (simp add: to_lowercase_def)

section \<open>Searching and splitting\<close>

definition starts_with :: "string \<Rightarrow> string \<Rightarrow> bool" where
  "starts_with s p \<longleftrightarrow> take (length p) s = p"

definition ends_with :: "string \<Rightarrow> string \<Rightarrow> bool" where
  "ends_with s p \<longleftrightarrow> length p \<le> length s \<and> drop (length s - length p) s = p"

definition strip_prefix :: "string \<Rightarrow> string \<Rightarrow> string option" where
  "strip_prefix p s = (if starts_with s p then Some (drop (length p) s) else None)"

definition strip_suffix :: "string \<Rightarrow> string \<Rightarrow> string option" where
  "strip_suffix p s = (if ends_with s p then Some (take (length s - length p) s) else None)"

fun str_contains :: "string \<Rightarrow> string \<Rightarrow> bool" where
  "str_contains [] n \<longleftrightarrow> n = []"
| "str_contains (c # cs) n \<longleftrightarrow> starts_with (c # cs) n \<or> str_contains cs n"

text \<open>Byte index of the first and of the last occurrence of an ASCII character.\<close>

definition find_char :: "char \<Rightarrow> string \<Rightarrow> nat option" where
  "find_char c s = position (\<lambda>x. x = c) s"

definition rfind_char :: "char \<Rightarrow> string \<Rightarrow> nat option" where
  "rfind_char c s = map_option (\<lambda>i. length s - 1 - i) (position (\<lambda>x. x = c) (rev s))"

text \<open>\<open>str::split\<close> at every byte of a set of ASCII characters; never empty.\<close>

fun split_at :: "(char \<Rightarrow> bool) \<Rightarrow> string \<Rightarrow> string list" where
  "split_at P [] = [[]]"
| "split_at P (c # cs) =
     (if P c then [] # split_at P cs
      else (case split_at P cs of [] \<Rightarrow> [[c]] | w # ws \<Rightarrow> (c # w) # ws))"

text \<open>\<open>str::lines\<close>: split at newlines, drop the carriage return before a newline and a final empty line.\<close>

definition lines :: "string \<Rightarrow> string list" where
  "lines s =
     (let ws = split_at (\<lambda>c. byte_of c = 10) s
      in map (\<lambda>w. if w \<noteq> [] \<and> byte_of (last w) = 13 then butlast w else w) (butlast ws) @
         (if last ws = [] then [] else [last ws]))"

text \<open>\<open>[String]::join\<close>.\<close>

fun join :: "string \<Rightarrow> string list \<Rightarrow> string" where
  "join sep [] = []"
| "join sep [s] = s"
| "join sep (s # t # ss) = s @ sep @ join sep (t # ss)"

lemma str_contains_iff: "str_contains h n \<longleftrightarrow> (\<exists>i. take (length n) (drop i h) = n)"
proof (induction h)
  case Nil
  then show ?case by auto
next
  case (Cons c cs)
  show ?case
  proof
    assume "str_contains (c # cs) n"
    then show "\<exists>i. take (length n) (drop i (c # cs)) = n"
    proof (cases "starts_with (c # cs) n")
      case True
      then show ?thesis by (auto simp: starts_with_def intro!: exI [of _ 0])
    next
      case False
      with \<open>str_contains (c # cs) n\<close> Cons.IH obtain i where "take (length n) (drop i cs) = n"
        by auto
      then show ?thesis by (intro exI [of _ "Suc i"]) simp
    qed
  next
    assume "\<exists>i. take (length n) (drop i (c # cs)) = n"
    then obtain i where i: "take (length n) (drop i (c # cs)) = n" ..
    show "str_contains (c # cs) n"
    proof (cases i)
      case 0
      with i show ?thesis by (simp add: starts_with_def)
    next
      case (Suc j)
      with i Cons.IH show ?thesis by auto
    qed
  qed
qed

lemma starts_with_append [simp]: "starts_with (p @ s) p"
  by (simp add: starts_with_def)

lemma strip_prefix_append [simp]: "strip_prefix p (p @ s) = Some s"
  by (simp add: strip_prefix_def)

lemma strip_prefix_Some: "strip_prefix p s = Some r \<longleftrightarrow> s = p @ r"
  by (auto simp: strip_prefix_def starts_with_def split: if_splits)
    (metis append_take_drop_id)+

lemma strip_suffix_append [simp]: "strip_suffix p (s @ p) = Some s"
  by (simp add: strip_suffix_def ends_with_def)

section \<open>Numbers\<close>

definition digit_val :: "char \<Rightarrow> nat" where
  "digit_val c = byte_of c - 48"

definition digits_val :: "string \<Rightarrow> nat" where
  "digits_val s = foldl (\<lambda>n c. 10 * n + digit_val c) 0 s"

text \<open>
  \<open>parse::<uN>\<close> for an unsigned type of the given exclusive bound: an optional plus sign, at
  least one decimal digit and nothing else, and a value below the bound.
\<close>

datatype parse_int_error = Empty | InvalidDigit | PosOverflow

definition parse_uint :: "nat \<Rightarrow> string \<Rightarrow> parse_int_error + nat" where
  "parse_uint bound s =
     (if s = [] then Inl Empty
      else let ds = (if hd s = CHR ''+'' then tl s else s)
           in if ds = [] \<or> \<not> list_all is_ascii_digit ds then Inl InvalidDigit
              else if digits_val ds < bound then Inr (digits_val ds) else Inl PosOverflow)"

definition parse_u64 :: "string \<Rightarrow> u64 option" where
  "parse_u64 s = (case parse_uint (2 ^ 64) s of Inl e \<Rightarrow> None | Inr n \<Rightarrow> Some (of_nat n))"

definition parse_u32 :: "string \<Rightarrow> u32 option" where
  "parse_u32 s = (case parse_uint (2 ^ 32) s of Inl e \<Rightarrow> None | Inr n \<Rightarrow> Some (of_nat n))"

definition digit_char :: "nat \<Rightarrow> char" where
  "digit_char d = char_of (48 + d)"

text \<open>\<open>Display\<close> of an unsigned integer.\<close>

fun dec :: "nat \<Rightarrow> string" where
  "dec n = (if n < 10 then [digit_char n] else dec (n div 10) @ [digit_char (n mod 10)])"

declare dec.simps [simp del]

definition dec_int :: "int \<Rightarrow> string" where
  "dec_int i = (if i < 0 then CHR ''-'' # dec (nat (- i)) else dec (nat i))"

lemma digit_char_facts:
  assumes "d < 10"
  shows "is_ascii_digit (digit_char d)" "digit_val (digit_char d) = d"
  using assms by (simp_all add: is_ascii_digit_def digit_val_def digit_char_def byte_of_char_of)

lemma digits_val_snoc: "digits_val (s @ [c]) = 10 * digits_val s + digit_val c"
  by (simp add: digits_val_def)

lemma dec_nonempty: "dec n \<noteq> []"
  by (subst dec.simps) simp

lemma dec_digits: "list_all is_ascii_digit (dec n)"
proof (induction n rule: dec.induct)
  case (1 n)
  then show ?case
    by (subst dec.simps) (auto simp: digit_char_facts)
qed

lemma digits_val_dec: "digits_val (dec n) = n"
proof (induction n rule: dec.induct)
  case (1 n)
  show ?case
  proof (cases "n < 10")
    case True
    then show ?thesis
      by (subst dec.simps) (simp add: digits_val_def digit_char_facts)
  next
    case False
    with "1.IH" have "digits_val (dec (n div 10)) = n div 10" by simp
    with False show ?thesis
      by (subst dec.simps) (simp add: digits_val_snoc digit_char_facts)
  qed
qed

lemma digit_not_plus: "is_ascii_digit c \<Longrightarrow> c \<noteq> CHR ''+''"
  by (auto simp: is_ascii_digit_def)

lemma parse_uint_digits:
  assumes "ds \<noteq> []" "list_all is_ascii_digit ds" "digits_val ds < bound"
  shows "parse_uint bound ds = Inr (digits_val ds)"
proof -
  from assms have "hd ds \<noteq> CHR ''+''"
    by (cases ds) (auto dest: digit_not_plus)
  with assms show ?thesis by (simp add: parse_uint_def)
qed

lemma parse_uint_dec: "n < bound \<Longrightarrow> parse_uint bound (dec n) = Inr n"
  by (simp add: parse_uint_digits dec_nonempty dec_digits digits_val_dec)

lemma parse_uint_bound: "parse_uint bound s = Inr n \<Longrightarrow> n < bound"
  by (auto simp: parse_uint_def Let_def split: if_splits)

section \<open>Positions of a character\<close>

lemma position_append_None:
  "position P xs = None \<Longrightarrow> position P (xs @ ys) = map_option ((+) (length xs)) (position P ys)"
proof (induction xs)
  case Nil
  then show ?case by (cases "position P ys") auto
next
  case (Cons x xs)
  then show ?case by (cases "position P ys") (auto split: if_splits)
qed

lemma find_char_append:
  "c \<notin> set a \<Longrightarrow> find_char c (a @ c # b) = Some (length a)"
  using position_append_None [of "\<lambda>x. x = c" a "c # b"]
  by (auto simp: find_char_def position_None)

lemma rfind_char_append:
  assumes "c \<notin> set b"
  shows "rfind_char c (a @ c # b) = Some (length a)"
proof -
  have "position (\<lambda>x. x = c) (rev b) = None"
    using assms by (auto simp: position_None)
  then have "position (\<lambda>x. x = c) (rev (a @ c # b)) = Some (length b)"
    by (simp add: position_append_None)
  then show ?thesis by (simp add: rfind_char_def)
qed

lemma find_char_None: "find_char c s = None \<longleftrightarrow> c \<notin> set s"
  by (auto simp: find_char_def position_None)

lemma rfind_char_None: "rfind_char c s = None \<longleftrightarrow> c \<notin> set s"
  by (auto simp: rfind_char_def position_None)

lemma dec_no_char: "\<not> is_ascii_digit c \<Longrightarrow> c \<notin> set (dec n)"
  using dec_digits [of n] by (auto simp: list_all_iff)

end
