(* ===== verification/Rust_Float.thy ===== *)
theory Rust_Float
  imports Muxtop_Prelude Complex_Main "HOL-Library.Log_Nat"
begin

text \<open>
  IEEE 754 binary floating point as Rust's \<open>f32\<close> and \<open>f64\<close> have it: the two infinities, NaN
  and finite values, which are rationals of the format. Every arithmetic result is the exact
  result rounded to nearest, ties to even, with overflow to infinity. The two zeros are one
  value: no operation modelled here tells them apart, and no source division has a zero
  divisor of unknown sign. Besides the operations the theory proves that rounding is monotone
  and exact on representable values, which is what the client proofs rest on.
\<close>

datatype fmt = F32 | F64

datatype fl = NaN | NInf | PInf | Fin rat

primrec prec :: "fmt \<Rightarrow> int" where
  "prec F32 = 24"
| "prec F64 = 53"

primrec emin :: "fmt \<Rightarrow> int" where
  "emin F32 = - 126"
| "emin F64 = - 1022"

primrec emax :: "fmt \<Rightarrow> int" where
  "emax F32 = 127"
| "emax F64 = 1023"

definition pow2 :: "int \<Rightarrow> rat" where
  "pow2 e = (if 0 \<le> e then 2 ^ nat e else 1 / 2 ^ nat (- e))"

text \<open>The exponent of the leading binary digit of a positive rational.\<close>

definition ilog2 :: "rat \<Rightarrow> int" where
  "ilog2 x = (let (n, d) = quotient_of x; k = bitlen n - bitlen d
              in if pow2 k \<le> x then k else k - 1)"

text \<open>Round to the nearest integer, ties to even.\<close>

definition rhe :: "rat \<Rightarrow> int" where
  "rhe q = (let f = \<lfloor>q\<rfloor>; d = q - of_int f
            in if d < 1 / 2 then f else if 1 / 2 < d then f + 1
               else if even f then f else f + 1)"

definition ulp :: "fmt \<Rightarrow> rat \<Rightarrow> rat" where
  "ulp m x = pow2 (max (ilog2 \<bar>x\<bar>) (emin m) - prec m + 1)"

definition rnd :: "fmt \<Rightarrow> rat \<Rightarrow> rat" where
  "rnd m x = (if x = 0 then 0 else of_int (rhe (x / ulp m x)) * ulp m x)"

definition fl_round :: "fmt \<Rightarrow> rat \<Rightarrow> fl" where
  "fl_round m x =
     (let y = rnd m x
      in if \<bar>y\<bar> < pow2 (emax m + 1) then Fin y else if x < 0 then NInf else PInf)"

section \<open>Arithmetic, comparisons, casts\<close>

fun fneg :: "fl \<Rightarrow> fl" where
  "fneg NaN = NaN"
| "fneg NInf = PInf"
| "fneg PInf = NInf"
| "fneg (Fin x) = Fin (- x)"

fun fadd :: "fmt \<Rightarrow> fl \<Rightarrow> fl \<Rightarrow> fl" where
  "fadd m (Fin x) (Fin y) = fl_round m (x + y)"
| "fadd m NaN _ = NaN"
| "fadd m _ NaN = NaN"
| "fadd m PInf NInf = NaN"
| "fadd m NInf PInf = NaN"
| "fadd m PInf _ = PInf"
| "fadd m NInf _ = NInf"
| "fadd m _ PInf = PInf"
| "fadd m _ NInf = NInf"

definition fsub :: "fmt \<Rightarrow> fl \<Rightarrow> fl \<Rightarrow> fl" where
  "fsub m a b = fadd m a (fneg b)"

definition inf_signed :: "bool \<Rightarrow> fl" where
  "inf_signed neg = (if neg then NInf else PInf)"

fun fmul :: "fmt \<Rightarrow> fl \<Rightarrow> fl \<Rightarrow> fl" where
  "fmul m (Fin x) (Fin y) = fl_round m (x * y)"
| "fmul m NaN _ = NaN"
| "fmul m _ NaN = NaN"
| "fmul m (Fin x) PInf = (if x = 0 then NaN else inf_signed (x < 0))"
| "fmul m (Fin x) NInf = (if x = 0 then NaN else inf_signed (0 < x))"
| "fmul m PInf (Fin y) = (if y = 0 then NaN else inf_signed (y < 0))"
| "fmul m NInf (Fin y) = (if y = 0 then NaN else inf_signed (0 < y))"
| "fmul m PInf PInf = PInf"
| "fmul m NInf NInf = PInf"
| "fmul m PInf NInf = NInf"
| "fmul m NInf PInf = NInf"

text \<open>A zero divisor counts as positive zero.\<close>

fun fdiv :: "fmt \<Rightarrow> fl \<Rightarrow> fl \<Rightarrow> fl" where
  "fdiv m (Fin x) (Fin y) =
     (if y = 0 then (if x = 0 then NaN else inf_signed (x < 0)) else fl_round m (x / y))"
| "fdiv m NaN _ = NaN"
| "fdiv m _ NaN = NaN"
| "fdiv m (Fin x) _ = Fin 0"
| "fdiv m PInf (Fin y) = inf_signed (y < 0)"
| "fdiv m NInf (Fin y) = inf_signed (0 \<le> y)"
| "fdiv m _ _ = NaN"

fun flt :: "fl \<Rightarrow> fl \<Rightarrow> bool" where
  "flt (Fin x) (Fin y) \<longleftrightarrow> x < y"
| "flt NaN _ \<longleftrightarrow> False"
| "flt _ NaN \<longleftrightarrow> False"
| "flt NInf b \<longleftrightarrow> b \<noteq> NInf"
| "flt PInf _ \<longleftrightarrow> False"
| "flt (Fin _) b \<longleftrightarrow> b = PInf"

definition fle :: "fl \<Rightarrow> fl \<Rightarrow> bool" where
  "fle a b \<longleftrightarrow> a \<noteq> NaN \<and> b \<noteq> NaN \<and> \<not> flt b a"

definition feq :: "fl \<Rightarrow> fl \<Rightarrow> bool" where
  "feq a b \<longleftrightarrow> a \<noteq> NaN \<and> a = b"

text \<open>
  \<open>a.partial_cmp(b).unwrap_or(Equal) != Greater\<close>: the comparator of the sorts on floats.
\<close>

definition not_gt :: "fl \<Rightarrow> fl \<Rightarrow> bool" where
  "not_gt a b \<longleftrightarrow> \<not> flt b a"

text \<open>\<open>f32::min\<close> and \<open>max\<close> return the other operand when one is NaN.\<close>

definition fmin :: "fl \<Rightarrow> fl \<Rightarrow> fl" where
  "fmin a b = (if a = NaN then b else if b = NaN then a else if flt b a then b else a)"

definition fmax :: "fl \<Rightarrow> fl \<Rightarrow> fl" where
  "fmax a b = (if a = NaN then b else if b = NaN then a else if flt a b then b else a)"

text \<open>\<open>f32::clamp\<close>; its panic on an empty interval does not arise from the callers' bounds.\<close>

definition fclamp :: "fl \<Rightarrow> fl \<Rightarrow> fl \<Rightarrow> fl" where
  "fclamp x lo hi = (if flt x lo then lo else if flt hi x then hi else x)"

definition of_nat_fl :: "fmt \<Rightarrow> nat \<Rightarrow> fl" where
  "of_nat_fl m n = fl_round m (of_nat n)"

text \<open>\<open>as f32\<close> from \<open>f64\<close>.\<close>

fun to_f32 :: "fl \<Rightarrow> fl" where
  "to_f32 (Fin x) = fl_round F32 x"
| "to_f32 a = a"

text \<open>Truncation towards zero; \<open>as\<close> to an integer type saturates and maps NaN to zero.\<close>

definition trunc :: "rat \<Rightarrow> int" where
  "trunc x = (if 0 \<le> x then \<lfloor>x\<rfloor> else - \<lfloor>- x\<rfloor>)"

fun sat_cast :: "int \<Rightarrow> int \<Rightarrow> fl \<Rightarrow> int" where
  "sat_cast lo hi NaN = 0"
| "sat_cast lo hi NInf = lo"
| "sat_cast lo hi PInf = hi"
| "sat_cast lo hi (Fin x) = max lo (min hi (trunc x))"

text \<open>\<open>f64::round\<close>: half-way cases away from zero.\<close>

fun fround :: "fl \<Rightarrow> fl" where
  "fround (Fin x) = Fin (of_int (if 0 \<le> x then \<lfloor>x + 1 / 2\<rfloor> else - \<lfloor>1 / 2 - x\<rfloor>))"
| "fround a = a"

text \<open>\<open>Duration::as_secs_f32\<close> and \<open>as_secs_f64\<close>.\<close>

definition as_secs :: "fmt \<Rightarrow> duration \<Rightarrow> fl" where
  "as_secs m d =
     fadd m (of_nat_fl m (d div nanos_per_sec))
            (fdiv m (of_nat_fl m (d mod nanos_per_sec)) (of_nat_fl m nanos_per_sec))"

section \<open>Powers of two and the binary exponent\<close>

lemma pow2_powi: "pow2 e = 2 powi e"
  by (simp add: pow2_def power_int_def field_simps)

lemma pow2_pos [simp]: "0 < pow2 e"
  by (simp add: pow2_def)

lemma pow2_nonneg [simp]: "0 \<le> pow2 e"
  using pow2_pos [of e] by linarith

lemma abs_pow2 [simp]: "\<bar>pow2 e\<bar> = pow2 e"
  by simp

lemma pow2_nonzero [simp]: "pow2 e \<noteq> 0"
  using pow2_pos [of e] by linarith

lemma pow2_add: "pow2 (a + b) = pow2 a * pow2 b"
  by (simp add: pow2_powi power_int_add)

lemma pow2_mono: "a \<le> b \<Longrightarrow> pow2 a \<le> pow2 b"
  unfolding pow2_powi by (rule power_int_increasing) auto

lemma pow2_less_iff: "pow2 a < pow2 b \<longleftrightarrow> a < b"
  by (metis linorder_not_le order_less_le pow2_mono pow2_powi power_int_strict_increasing
      one_less_numeral_iff semiring_norm(76))

lemma pow2_of_int: "0 \<le> e \<Longrightarrow> pow2 e = of_int (2 ^ nat e)"
  by (simp add: pow2_def)

lemma bitlen_pow2_bounds:
  assumes "0 < n"
  shows "pow2 (bitlen n - 1) \<le> of_int n" "of_int n < pow2 (bitlen n)"
proof -
  have "1 \<le> bitlen n"
    using assms by (simp add: bitlen_alt_def)
  moreover have "of_int (2 ^ nat (bitlen n - 1)) \<le> (of_int n :: rat)"
    and "(of_int n :: rat) < of_int (2 ^ nat (bitlen n))"
    using bitlen_bounds [OF assms] by (simp_all only: of_int_le_iff of_int_less_iff)
  ultimately show "pow2 (bitlen n - 1) \<le> of_int n" "of_int n < pow2 (bitlen n)"
    by (simp_all add: pow2_of_int)
qed

lemma ilog2_bounds:
  assumes "0 < x"
  shows "pow2 (ilog2 x) \<le> x" "x < pow2 (ilog2 x + 1)"
proof -
  obtain n d where q: "quotient_of x = (n, d)" by fastforce
  then have d: "0 < d" and x: "x = of_int n / of_int d"
    using quotient_of_denom_pos quotient_of_div by auto
  with assms have n: "0 < n" by (simp add: zero_less_divide_iff)
  define k where "k = bitlen n - bitlen d"
  have "pow2 (k - 1) * of_int d \<le> pow2 (k - 1) * pow2 (bitlen d)"
    using bitlen_pow2_bounds(2) [OF d] by (intro mult_left_mono) auto
  also have "\<dots> = pow2 (bitlen n - 1)" by (simp add: k_def flip: pow2_add)
  also have "\<dots> \<le> of_int n" by (rule bitlen_pow2_bounds(1) [OF n])
  finally have lo: "pow2 (k - 1) \<le> x" using d by (simp add: x field_simps)
  have "of_int n < pow2 (bitlen n)" by (rule bitlen_pow2_bounds(2) [OF n])
  also have "\<dots> = pow2 (k + 1) * pow2 (bitlen d - 1)" by (simp add: k_def flip: pow2_add)
  also have "\<dots> \<le> pow2 (k + 1) * of_int d"
    using bitlen_pow2_bounds(1) [OF d] by (intro mult_left_mono) (auto intro: less_imp_le)
  finally have hi: "x < pow2 (k + 1)" using d by (simp add: x field_simps)
  show "pow2 (ilog2 x) \<le> x" "x < pow2 (ilog2 x + 1)"
    using lo hi by (auto simp: ilog2_def q k_def [symmetric])
qed

lemma ilog2_mono:
  assumes "0 < x" "x \<le> y"
  shows "ilog2 x \<le> ilog2 y"
proof -
  have "pow2 (ilog2 x) \<le> x" using assms(1) by (rule ilog2_bounds(1))
  also have "\<dots> < pow2 (ilog2 y + 1)"
    using assms ilog2_bounds(2) [of y] by linarith
  finally show ?thesis by (simp add: pow2_less_iff)
qed

lemma ilog2_less: "0 < x \<Longrightarrow> x < pow2 e \<Longrightarrow> ilog2 x < e"
  using ilog2_bounds(1) [of x] by (metis order_le_less_trans pow2_less_iff)

section \<open>Rounding\<close>

lemma rhe_bounds: "\<lfloor>q\<rfloor> \<le> rhe q" "rhe q \<le> \<lfloor>q\<rfloor> + 1"
  by (auto simp: rhe_def Let_def)

lemma rhe_mono:
  assumes "q \<le> r"
  shows "rhe q \<le> rhe r"
proof (cases "\<lfloor>q\<rfloor> = \<lfloor>r\<rfloor>")
  case True
  with assms show ?thesis by (auto simp: rhe_def Let_def)
next
  case False
  with floor_mono [OF assms] have "\<lfloor>q\<rfloor> + 1 \<le> \<lfloor>r\<rfloor>" by linarith
  with rhe_bounds(2) [of q] rhe_bounds(1) [of r] show ?thesis by linarith
qed

lemma rhe_of_int [simp]: "rhe (of_int n) = n"
  by (simp add: rhe_def)

lemma rhe_ge: "of_int n \<le> q \<Longrightarrow> n \<le> rhe q"
  using rhe_mono [of "of_int n" q] by simp

lemma rhe_le: "q \<le> of_int n \<Longrightarrow> rhe q \<le> n"
  using rhe_mono [of q "of_int n"] by simp

lemma ulp_pos [simp]: "0 < ulp m x"
  by (simp add: ulp_def)

lemma ulp_nonzero [simp]: "ulp m x \<noteq> 0"
  using ulp_pos [of m x] by linarith

lemma rnd_zero [simp]: "rnd m 0 = 0"
  by (simp add: rnd_def)

lemma rnd_nonneg: "0 \<le> x \<Longrightarrow> 0 \<le> rnd m x"
proof -
  assume "0 \<le> x"
  then have "of_int 0 \<le> x / ulp m x"
    by (simp add: zero_le_divide_iff less_imp_le)
  then have "0 \<le> rhe (x / ulp m x)" by (rule rhe_ge)
  then show ?thesis by (simp add: rnd_def less_imp_le)
qed

definition bexp :: "fmt \<Rightarrow> rat \<Rightarrow> int" where
  "bexp m x = max (ilog2 x) (emin m)"

lemma prec_pos: "1 < prec m"
  by (cases m) auto

lemma ulp_bexp: "0 \<le> x \<Longrightarrow> ulp m x = pow2 (bexp m x - prec m + 1)"
  by (simp add: ulp_def bexp_def)

lemma rnd_le_next_binade:
  assumes "0 < x" "x < pow2 (bexp m x + 1)"
  shows "rnd m x \<le> pow2 (bexp m x + 1)"
proof -
  let ?u = "pow2 (bexp m x - prec m + 1)"
  have split: "pow2 (bexp m x + 1) = pow2 (prec m) * ?u"
    by (simp flip: pow2_add)
  have "x / ?u \<le> of_int (2 ^ nat (prec m))"
    using assms(2) split prec_pos [of m]
    by (simp add: divide_le_eq pow2_of_int)
  then have "rhe (x / ?u) \<le> 2 ^ nat (prec m)" by (rule rhe_le)
  then have "of_int (rhe (x / ?u)) \<le> (of_int (2 ^ nat (prec m)) :: rat)"
    by (simp only: of_int_le_iff)
  then have "of_int (rhe (x / ?u)) \<le> pow2 (prec m)"
    using prec_pos [of m] by (simp add: pow2_of_int)
  then have "of_int (rhe (x / ?u)) * ?u \<le> pow2 (prec m) * ?u"
    by (rule mult_right_mono) (simp add: less_imp_le)
  with assms(1) split show ?thesis by (simp add: rnd_def ulp_bexp)
qed

lemma rnd_ge_binade:
  assumes "0 < x" "pow2 (bexp m x) \<le> x"
  shows "pow2 (bexp m x) \<le> rnd m x"
proof -
  let ?u = "pow2 (bexp m x - prec m + 1)"
  have split: "pow2 (bexp m x) = pow2 (prec m - 1) * ?u"
    by (simp flip: pow2_add)
  have "of_int (2 ^ nat (prec m - 1)) \<le> x / ?u"
    using assms(2) split prec_pos [of m]
    by (simp add: le_divide_eq pow2_of_int)
  then have "2 ^ nat (prec m - 1) \<le> rhe (x / ?u)" by (rule rhe_ge)
  then have "(of_int (2 ^ nat (prec m - 1)) :: rat) \<le> of_int (rhe (x / ?u))"
    by (simp only: of_int_le_iff)
  then have "pow2 (prec m - 1) \<le> of_int (rhe (x / ?u))"
    using prec_pos [of m] by (simp add: pow2_of_int)
  then have "pow2 (prec m - 1) * ?u \<le> of_int (rhe (x / ?u)) * ?u"
    by (rule mult_right_mono) (simp add: less_imp_le)
  with assms(1) split show ?thesis by (simp add: rnd_def ulp_bexp)
qed

text \<open>Rounding is monotone on non-negative values.\<close>

lemma rnd_mono:
  assumes "0 \<le> x" "x \<le> y"
  shows "rnd m x \<le> rnd m y"
proof (cases "x = 0")
  case True
  with assms show ?thesis by (simp add: rnd_nonneg)
next
  case False
  with assms have x: "0 < x" and y: "0 < y" by auto
  have le: "bexp m x \<le> bexp m y"
    using ilog2_mono [OF x assms(2)] by (auto simp: bexp_def)
  show ?thesis
  proof (cases "bexp m x = bexp m y")
    case True
    have "rhe (x / ulp m x) \<le> rhe (y / ulp m y)"
      using assms True by (intro rhe_mono) (simp add: ulp_bexp divide_right_mono less_imp_le)
    with x y True show ?thesis by (simp add: rnd_def ulp_bexp mult_right_mono less_imp_le)
  next
    case False
    with le have lt: "bexp m x + 1 \<le> bexp m y" by simp
    then have ey: "bexp m y = ilog2 y" by (auto simp: bexp_def)
    have "x < pow2 (bexp m x + 1)"
      using ilog2_bounds(2) [OF x] pow2_mono [of "ilog2 x + 1" "bexp m x + 1"]
      by (fastforce simp: bexp_def)
    then have "rnd m x \<le> pow2 (bexp m x + 1)" by (rule rnd_le_next_binade [OF x])
    also have "\<dots> \<le> pow2 (bexp m y)" using lt by (rule pow2_mono)
    also have "\<dots> \<le> rnd m y"
      using ilog2_bounds(1) [OF y] by (intro rnd_ge_binade [OF y]) (simp add: ey)
    finally show ?thesis .
  qed
qed

text \<open>Rounding is the identity on the values of the format.\<close>

lemma rnd_exact:
  assumes x: "x = of_int n * pow2 e" and n: "\<bar>n\<bar> < 2 ^ nat (prec m)" and e: "emin m - prec m + 1 \<le> e"
  shows "rnd m x = x"
proof (cases "x = 0")
  case False
  have "\<bar>x\<bar> = of_int \<bar>n\<bar> * pow2 e"
    by (simp add: x abs_mult)
  also have "\<dots> < of_int (2 ^ nat (prec m)) * pow2 e"
    using n by (intro mult_strict_right_mono) (simp_all only: of_int_less_iff pow2_pos)
  also have "\<dots> = pow2 (prec m + e)"
    using prec_pos [of m] by (simp add: pow2_add pow2_of_int)
  finally have "ilog2 \<bar>x\<bar> < prec m + e"
    using False by (intro ilog2_less) auto
  define k where "k = max (ilog2 \<bar>x\<bar>) (emin m) - prec m + 1"
  from \<open>ilog2 \<bar>x\<bar> < prec m + e\<close> e have le: "k \<le> e" by (simp add: k_def)
  then have split: "pow2 e = of_int (2 ^ nat (e - k)) * pow2 k"
    using pow2_of_int [of "e - k"] pow2_add [of "e - k" k] by simp
  have u: "ulp m x = pow2 k" by (simp add: ulp_def k_def)
  have quot: "x / ulp m x = of_int (n * 2 ^ nat (e - k))"
    using pow2_pos [of k] unfolding u by (subst x) (simp add: split)
  then have "rhe (x / ulp m x) = n * 2 ^ nat (e - k)" by (metis rhe_of_int)
  with quot have "of_int (rhe (x / ulp m x)) = x / ulp m x" by simp
  with False show ?thesis by (simp add: rnd_def)
qed simp

lemma rnd_nat_exact:
  assumes "n < 2 ^ nat (prec m)"
  shows "rnd m (of_nat n) = of_nat n"
proof -
  have "int n < int (2 ^ nat (prec m))"
    using assms by (simp only: of_nat_less_iff)
  then have small: "\<bar>int n\<bar> < 2 ^ nat (prec m)" by simp
  have "emin m - prec m + 1 \<le> 0" by (cases m) auto
  then have "rnd m (of_int (int n) * pow2 0) = of_int (int n) * pow2 0"
    by (rule rnd_exact [OF refl small])
  then show ?thesis by (simp add: pow2_def)
qed

section \<open>Non-negative values\<close>

text \<open>The values a duration, a count or a non-negative metric takes: no NaN, nothing below zero.\<close>

definition nonneg :: "fl \<Rightarrow> bool" where
  "nonneg a \<longleftrightarrow> fle (Fin 0) a"

lemma nonneg_cases: "nonneg a \<longleftrightarrow> a = PInf \<or> (\<exists>x\<ge>0. a = Fin x)"
  by (cases a) (auto simp: nonneg_def fle_def)

lemma fle_Fin [simp]: "fle (Fin x) (Fin y) \<longleftrightarrow> x \<le> y"
  by (auto simp: fle_def)

lemma fle_PInf [simp]: "nonneg a \<Longrightarrow> fle a PInf"
  by (auto simp: nonneg_cases fle_def)

lemma fle_refl: "a \<noteq> NaN \<Longrightarrow> fle a a"
  by (cases a) (auto simp: fle_def)

lemma fle_trans: "fle a b \<Longrightarrow> fle b c \<Longrightarrow> fle a c"
  by (cases a; cases b; cases c) (auto simp: fle_def)

lemma fle_antisym: "fle a b \<Longrightarrow> fle b a \<Longrightarrow> a = b"
  by (cases a; cases b) (auto simp: fle_def)

lemma not_flt_fle: "a \<noteq> NaN \<Longrightarrow> b \<noteq> NaN \<Longrightarrow> \<not> flt a b \<longleftrightarrow> fle b a"
  by (simp add: fle_def)

lemma fl_round_cases:
  assumes "0 \<le> x"
  shows "fl_round m x = (if rnd m x < pow2 (emax m + 1) then Fin (rnd m x) else PInf)"
  using assms rnd_nonneg [OF assms, of m] by (simp add: fl_round_def Let_def)

lemma fl_round_nonneg: "0 \<le> x \<Longrightarrow> nonneg (fl_round m x)"
  by (simp add: fl_round_cases nonneg_cases rnd_nonneg)

lemma fl_round_mono:
  assumes "0 \<le> x" "x \<le> y"
  shows "fle (fl_round m x) (fl_round m y)"
proof -
  have "0 \<le> y" using assms by linarith
  with assms rnd_mono [OF assms, of m] show ?thesis
    by (auto simp: fl_round_cases fle_def)
qed

lemma fadd_nonneg: "nonneg a \<Longrightarrow> nonneg b \<Longrightarrow> nonneg (fadd m a b)"
  by (auto simp: nonneg_cases) (metis add_nonneg_nonneg fl_round_nonneg nonneg_cases)+

lemma fadd_mono:
  assumes "nonneg a" "nonneg b" "fle a a'" "fle b b'"
  shows "fle (fadd m a b) (fadd m a' b')"
proof (cases "a' = PInf \<or> b' = PInf")
  case True
  have "nonneg a'" "nonneg b'"
    using assms fle_trans nonneg_def by blast+
  with True have "fadd m a' b' = PInf" by (auto simp: nonneg_cases)
  with fadd_nonneg [OF assms(1,2)] show ?thesis by simp
next
  case False
  with assms obtain x y x' y' where "a = Fin x" "b = Fin y" "a' = Fin x'" "b' = Fin y'"
    by (cases a'; cases b') (auto simp: nonneg_cases fle_def)
  with assms show ?thesis by (auto simp: nonneg_cases intro!: fl_round_mono)
qed

lemma fmul_nonneg: "0 \<le> x \<Longrightarrow> 0 \<le> y \<Longrightarrow> nonneg (fmul m (Fin x) (Fin y))"
  by (simp add: fl_round_nonneg)

lemma fmul_mono:
  "0 \<le> x \<Longrightarrow> 0 \<le> r \<Longrightarrow> x \<le> x' \<Longrightarrow> fle (fmul m (Fin x) (Fin r)) (fmul m (Fin x') (Fin r))"
  by (simp add: fl_round_mono mult_right_mono)

lemma fmin_le: "b \<noteq> NaN \<Longrightarrow> fle (fmin a b) b"
  by (cases a; cases b) (auto simp: fmin_def fle_def)

lemma fmin_nonneg: "nonneg a \<Longrightarrow> nonneg b \<Longrightarrow> nonneg (fmin a b)"
  by (auto simp: fmin_def)

lemma fmin_ge_right:
  assumes "a \<noteq> NaN" "b \<noteq> NaN"
  shows "\<not> flt (fmin a b) b \<longleftrightarrow> fle b a"
  using assms by (cases a; cases b) (auto simp: fmin_def fle_def)

lemma fmin_right: "fle b a \<Longrightarrow> fmin a b = b"
  by (cases a; cases b) (auto simp: fmin_def fle_def)

lemma nonneg_not_NaN: "nonneg a \<Longrightarrow> a \<noteq> NaN"
  by (auto simp: nonneg_cases)

section \<open>Elapsed time\<close>

lemma nanos_exact: "of_nat_fl F32 nanos_per_sec = Fin 1000000000"
proof -
  have "rnd F32 (of_int 1953125 * pow2 9) = of_int 1953125 * pow2 9"
    by (rule rnd_exact [OF refl]) auto
  then have "rnd F32 1000000000 = 1000000000" by (simp add: pow2_def)
  then show ?thesis
    by (simp add: of_nat_fl_def nanos_per_sec_def fl_round_cases pow2_def)
qed

lemma of_nat_fl_F32_exact: "n < 2 ^ 24 \<Longrightarrow> of_nat_fl F32 n = Fin (of_nat n)"
proof -
  assume n: "n < 2 ^ 24"
  then have "rnd F32 (of_nat n) = of_nat n" by (simp add: rnd_nat_exact)
  moreover have "(of_nat n :: rat) < of_nat (2 ^ 24)" using n by (simp only: of_nat_less_iff)
  ultimately show ?thesis
    by (simp add: of_nat_fl_def fl_round_cases pow2_def)
qed

definition subsec :: "nat \<Rightarrow> fl" where
  "subsec n = fdiv F32 (of_nat_fl F32 n) (of_nat_fl F32 nanos_per_sec)"

lemma of_nat_fl_nanos: "n \<le> nanos_per_sec \<Longrightarrow> \<exists>x\<ge>0. x \<le> 1000000000 \<and> of_nat_fl F32 n = Fin x"
proof -
  assume "n \<le> nanos_per_sec"
  then have "fle (of_nat_fl F32 n) (of_nat_fl F32 nanos_per_sec)"
    unfolding of_nat_fl_def by (intro fl_round_mono) auto
  moreover have "nonneg (of_nat_fl F32 n)" by (simp add: of_nat_fl_def fl_round_nonneg)
  ultimately show ?thesis
    unfolding nanos_exact by (auto simp: nonneg_cases fle_def)
qed

lemma subsec_mono:
  assumes "a \<le> b" "b \<le> nanos_per_sec"
  shows "fle (subsec a) (subsec b)"
proof -
  obtain x y where x: "0 \<le> x" "of_nat_fl F32 a = Fin x" and y: "of_nat_fl F32 b = Fin y"
    using of_nat_fl_nanos [of a] of_nat_fl_nanos [of b] assms by auto
  have "fle (of_nat_fl F32 a) (of_nat_fl F32 b)"
    using assms unfolding of_nat_fl_def by (intro fl_round_mono) auto
  with x y show ?thesis
    by (auto simp: subsec_def nanos_exact intro!: fl_round_mono divide_right_mono)
qed

lemma subsec_nonneg: "n \<le> nanos_per_sec \<Longrightarrow> nonneg (subsec n)"
  using of_nat_fl_nanos [of n] by (auto simp: subsec_def nanos_exact fl_round_nonneg)

lemma subsec_one: "subsec nanos_per_sec = Fin 1"
  using rnd_nat_exact [of 1 F32]
  by (simp add: subsec_def nanos_exact fl_round_cases pow2_def)

lemma as_secs_F32: "as_secs F32 d = fadd F32 (of_nat_fl F32 (d div nanos_per_sec)) (subsec (d mod nanos_per_sec))"
  by (simp add: as_secs_def subsec_def)

lemma nanos_pos [simp]: "0 < nanos_per_sec"
  by (simp add: nanos_per_sec_def)

lemma of_nat_fl_nonneg: "nonneg (of_nat_fl m n)"
  by (simp add: of_nat_fl_def fl_round_nonneg)

lemma as_secs_nonneg: "nonneg (as_secs F32 d)"
  unfolding as_secs_F32
  by (intro fadd_nonneg of_nat_fl_nonneg subsec_nonneg) (simp add: less_imp_le)

text \<open>
  \<open>as_secs_f32\<close> is monotone while the whole seconds are exact in \<open>f32\<close>, that is for elapsed
  times below 2 to the 24 seconds (194 days).
\<close>

lemma as_secs_mono:
  assumes le: "d \<le> d'" and bound: "d' div nanos_per_sec < 2 ^ 24"
  shows "fle (as_secs F32 d) (as_secs F32 d')"
proof (cases "d div nanos_per_sec = d' div nanos_per_sec")
  case True
  with le have "d mod nanos_per_sec \<le> d' mod nanos_per_sec"
    by (metis div_mult_mod_eq add_le_cancel_left)
  then show ?thesis unfolding as_secs_F32 True
    by (intro fadd_mono of_nat_fl_nonneg subsec_nonneg fle_refl subsec_mono)
      (auto simp: less_imp_le nonneg_not_NaN of_nat_fl_nonneg)
next
  case False
  let ?s = "d div nanos_per_sec" and ?t = "d' div nanos_per_sec"
  have st: "Suc ?s \<le> ?t" using False div_le_mono [OF le, of nanos_per_sec] by simp
  have "fle (as_secs F32 d) (fadd F32 (of_nat_fl F32 ?s) (Fin 1))"
    unfolding as_secs_F32 subsec_one [symmetric]
    by (intro fadd_mono of_nat_fl_nonneg subsec_nonneg fle_refl subsec_mono)
      (auto simp: less_imp_le nonneg_not_NaN of_nat_fl_nonneg)
  also have "fadd F32 (of_nat_fl F32 ?s) (Fin 1) = of_nat_fl F32 (Suc ?s)"
    using st bound by (subst of_nat_fl_F32_exact) (auto simp: of_nat_fl_def add.commute)
  finally have "fle (as_secs F32 d) (of_nat_fl F32 (Suc ?s))" .
  moreover have "fadd F32 (of_nat_fl F32 ?t) (Fin 0) = of_nat_fl F32 ?t"
    using bound by (subst of_nat_fl_F32_exact) (simp_all add: of_nat_fl_def)
  moreover have "fle (of_nat_fl F32 (Suc ?s)) (of_nat_fl F32 ?t)"
    unfolding of_nat_fl_def using st by (intro fl_round_mono) (simp_all only: of_nat_le_iff of_nat_0_le_iff)
  moreover have "fle (fadd F32 (of_nat_fl F32 ?t) (Fin 0)) (as_secs F32 d')"
    unfolding as_secs_F32
    by (intro fadd_mono of_nat_fl_nonneg fle_refl)
      (auto simp: nonneg_not_NaN of_nat_fl_nonneg nonneg_def [symmetric] less_imp_le
        intro!: subsec_nonneg, auto simp: nonneg_cases)
  ultimately show ?thesis by (metis fle_trans)
qed

end
