(* ===== verification/Snapshots.thy ===== *)
theory Snapshots
  imports Rust_Str Rust_Float
begin

text \<open>
  The data model: the snapshot structs and enums of \<open>muxtop-core\<close> (\<open>process.rs\<close>,
  \<open>network.rs\<close>, \<open>containers.rs\<close>, \<open>kube.rs\<close>, \<open>gpu.rs\<close>, \<open>system.rs\<close>) with their
  constructors and small methods. Fields keep the order of the structs, which is the order of
  the wire format; a field or constructor carries a prefix of its type where several types use
  the same name. Floating-point fields hold values of \<open>fl\<close>.
\<close>

section \<open>Processes\<close>

record ProcessInfo =
  pr_pid :: u32
  pr_parent_pid :: "u32 option"
  pr_name :: string
  pr_command :: string
  pr_user :: string
  pr_cpu_percent :: fl
  pr_memory_bytes :: u64
  pr_memory_percent :: fl
  pr_status :: string

section \<open>Network\<close>

record NetworkInterfaceSnapshot =
  if_name :: string
  bytes_rx :: u64
  bytes_tx :: u64
  packets_rx :: u64
  packets_tx :: u64
  errors_rx :: u64
  errors_tx :: u64
  mac_address :: string
  is_up :: bool

record NetworkSnapshot =
  interfaces :: "NetworkInterfaceSnapshot list"
  total_rx :: u64
  total_tx :: u64

section \<open>Containers\<close>

datatype ContainerState =
  CS_Created | CS_Running | CS_Paused | CS_Restarting | CS_Exited | CS_Dead | CS_Removing

datatype EngineKind = EK_Docker | EK_Podman | EK_Unknown

record ContainerSnapshot =
  ct_id :: string
  ct_id_full :: string
  ct_name :: string
  ct_image :: string
  ct_state :: ContainerState
  ct_status_text :: string
  ct_cpu_pct :: fl
  ct_mem_used_bytes :: u64
  ct_mem_limit_bytes :: u64
  ct_net_rx_bytes :: u64
  ct_net_tx_bytes :: u64
  ct_block_read_bytes :: u64
  ct_block_write_bytes :: u64
  ct_started_at_ms :: u64

record ContainersSnapshot =
  cts_engine :: EngineKind
  cts_daemon_up :: bool
  cts_containers :: "ContainerSnapshot list"

definition containers_unavailable :: ContainersSnapshot where
  "containers_unavailable =
     \<lparr>cts_engine = EK_Unknown, cts_daemon_up = False, cts_containers = []\<rparr>"

section \<open>Kubernetes\<close>

datatype PodPhase =
  PP_Pending | PP_Running | PP_Succeeded | PP_Failed | PP_CrashLoop | PP_Terminating | PP_Unknown

datatype QosClass = Guaranteed | Burstable | BestEffort

datatype NodeStatus = NS_Ready | NS_NotReady | NS_SchedulingDisabled | NS_Unknown

datatype DeploymentStrategy = RollingUpdate | Recreate

datatype ClusterKind =
  CK_Generic | CK_Kind | CK_K3d | CK_K3s | CK_Eks | CK_Gke | CK_Aks | CK_Openshift

record PodSnapshot =
  pod_namespace :: string
  pod_name :: string
  pod_phase :: PodPhase
  pod_ready :: "u8 \<times> u8"
  pod_restarts :: u32
  pod_age_seconds :: u64
  pod_node :: string
  pod_cpu_millis :: "u32 option"
  pod_mem_bytes :: "u64 option"
  pod_qos :: QosClass

record NodeSnapshot =
  nd_name :: string
  nd_status :: NodeStatus
  nd_roles :: "string list"
  nd_age_seconds :: u64
  nd_kubelet_version :: string
  nd_cpu_capacity_millis :: u32
  nd_cpu_allocatable_millis :: u32
  nd_cpu_used_millis :: "u32 option"
  nd_mem_capacity_bytes :: u64
  nd_mem_allocatable_bytes :: u64
  nd_mem_used_bytes :: "u64 option"
  nd_pod_count :: u32
  nd_pod_capacity :: u32

record DeploymentSnapshot =
  dp_namespace :: string
  dp_name :: string
  dp_replicas_desired :: u32
  dp_replicas_ready :: u32
  dp_replicas_uptodate :: u32
  dp_replicas_available :: u32
  dp_age_seconds :: u64
  dp_strategy :: DeploymentStrategy

record KubeSnapshot =
  ks_cluster_kind :: ClusterKind
  ks_server_version :: "string option"
  ks_current_namespace :: string
  ks_reachable :: bool
  ks_metrics_available :: bool
  ks_pods :: "PodSnapshot list"
  ks_nodes :: "NodeSnapshot list"
  ks_deployments :: "DeploymentSnapshot list"

definition kube_unavailable :: KubeSnapshot where
  "kube_unavailable =
     \<lparr>ks_cluster_kind = CK_Generic, ks_server_version = None, ks_current_namespace = [],
      ks_reachable = False, ks_metrics_available = False,
      ks_pods = [], ks_nodes = [], ks_deployments = []\<rparr>"

section \<open>GPUs\<close>

datatype GpuVendor = GV_Nvidia | GV_Amd | GV_Intel | GV_Apple | GV_Unknown

fun vendor_label :: "GpuVendor \<Rightarrow> string" where
  "vendor_label GV_Nvidia = ''nvidia''"
| "vendor_label GV_Amd = ''amd''"
| "vendor_label GV_Intel = ''intel''"
| "vendor_label GV_Apple = ''apple''"
| "vendor_label GV_Unknown = ''unknown''"

datatype GpuBackend = Nvml | AmdSysfs | AppleIoReport

fun backend_label :: "GpuBackend \<Rightarrow> string" where
  "backend_label Nvml = ''nvml''"
| "backend_label AmdSysfs = ''amdgpu-sysfs''"
| "backend_label AppleIoReport = ''ioreport''"

datatype GpuProcessKind = GK_Compute | GK_Graphics | GK_Both | GK_Unknown

fun kind_label :: "GpuProcessKind \<Rightarrow> string" where
  "kind_label GK_Compute = ''compute''"
| "kind_label GK_Graphics = ''graphics''"
| "kind_label GK_Both = ''both''"
| "kind_label GK_Unknown = ''unknown''"

definition kind_merge :: "GpuProcessKind \<Rightarrow> GpuProcessKind \<Rightarrow> GpuProcessKind" where
  "kind_merge a b =
     (if a = b then a else if a = GK_Unknown then b else if b = GK_Unknown then a else GK_Both)"

record GpuDeviceSnapshot =
  gd_index :: u32
  gd_vendor :: GpuVendor
  gd_backend :: GpuBackend
  gd_name :: string
  gd_bus_id :: string
  gd_driver_version :: "string option"
  gd_utilization_pct :: "fl option"
  gd_mem_utilization_pct :: "fl option"
  gd_mem_used_bytes :: "u64 option"
  gd_mem_total_bytes :: "u64 option"
  gd_temperature_c :: "fl option"
  gd_power_watts :: "fl option"
  gd_power_limit_watts :: "fl option"
  gd_graphics_clock_mhz :: "u32 option"
  gd_memory_clock_mhz :: "u32 option"
  gd_fan_pct :: "fl option"
  gd_encoder_pct :: "fl option"
  gd_decoder_pct :: "fl option"
  gd_supports_process_stats :: bool

definition gd_mem_pct :: "GpuDeviceSnapshot \<Rightarrow> fl option" where
  "gd_mem_pct d =
     (case (gd_mem_used_bytes d, gd_mem_total_bytes d) of
        (Some used, Some tot) \<Rightarrow>
          if tot = 0 then None
          else Some (to_f32 (fmul F64 (fdiv F64 (of_nat_fl F64 (unat used)) (of_nat_fl F64 (unat tot)))
                       (Fin 100)))
      | _ \<Rightarrow> None)"

definition gd_power_pct :: "GpuDeviceSnapshot \<Rightarrow> fl option" where
  "gd_power_pct d =
     (case (gd_power_watts d, gd_power_limit_watts d) of
        (Some used, Some limit) \<Rightarrow>
          if fle limit (Fin 0) then None else Some (fmul F32 (fdiv F32 used limit) (Fin 100))
      | _ \<Rightarrow> None)"

record GpuProcessSnapshot =
  gp_pid :: u32
  gp_device_index :: u32
  gp_name :: string
  gp_kind :: GpuProcessKind
  gp_mem_bytes :: "u64 option"

record GpusSnapshot =
  gs_backends :: "GpuBackend list"
  gs_available :: bool
  gs_devices :: "GpuDeviceSnapshot list"
  gs_processes :: "GpuProcessSnapshot list"
  gs_detail :: string

definition gpus_unavailable :: GpusSnapshot where
  "gpus_unavailable =
     \<lparr>gs_backends = [], gs_available = False, gs_devices = [], gs_processes = [], gs_detail = []\<rparr>"

definition gpus_unavailable_with :: "string \<Rightarrow> GpusSnapshot" where
  "gpus_unavailable_with detail = gpus_unavailable\<lparr>gs_detail := detail\<rparr>"

definition any_process_stats :: "GpusSnapshot \<Rightarrow> bool" where
  "any_process_stats g \<longleftrightarrow> list_ex gd_supports_process_stats (gs_devices g)"

definition resolve_process_names :: "(u32 \<Rightarrow> string option) \<Rightarrow> GpusSnapshot \<Rightarrow> GpusSnapshot" where
  "resolve_process_names look g =
     g\<lparr>gs_processes := map (\<lambda>p. if gp_name p = [] then
                                   (case look (gp_pid p) of
                                      Some n \<Rightarrow> p\<lparr>gp_name := n\<rparr> | None \<Rightarrow> p)
                                 else p) (gs_processes g)\<rparr>"

fun total_memory_loop :: "GpuDeviceSnapshot list \<Rightarrow> u64 \<Rightarrow> u64 \<Rightarrow> bool \<Rightarrow> (u64 \<times> u64) option" where
  "total_memory_loop [] used tot seen = (if seen then Some (used, tot) else None)"
| "total_memory_loop (d # ds) used tot seen =
     (case (gd_mem_used_bytes d, gd_mem_total_bytes d) of
        (Some u, Some t) \<Rightarrow> total_memory_loop ds (sat_add used u) (sat_add tot t) True
      | _ \<Rightarrow> total_memory_loop ds used tot seen)"

definition total_memory :: "GpusSnapshot \<Rightarrow> (u64 \<times> u64) option" where
  "total_memory g = total_memory_loop (gs_devices g) 0 0 False"

section \<open>The system snapshot\<close>

record CoreSnapshot =
  core_label :: string
  core_usage :: fl
  core_frequency :: u64

record CpuSnapshot =
  global_usage :: fl
  cores :: "CoreSnapshot list"

record MemorySnapshot =
  mem_total :: u64
  mem_used :: u64
  mem_available :: u64
  swap_total :: u64
  swap_used :: u64

record LoadSnapshot =
  load_one :: fl
  load_five :: fl
  load_fifteen :: fl
  load_uptime_secs :: u64

record SystemSnapshot =
  ss_cpu :: CpuSnapshot
  ss_memory :: MemorySnapshot
  ss_load :: LoadSnapshot
  ss_processes :: "ProcessInfo list"
  ss_networks :: NetworkSnapshot
  ss_containers :: "ContainersSnapshot option"
  ss_kube :: "KubeSnapshot option"
  ss_gpu :: "GpusSnapshot option"
  ss_timestamp_ms :: u64

section \<open>Laws of the small methods\<close>

text \<open>Merging observations of a process is a semilattice with \<open>GK_Unknown\<close> at the bottom.\<close>

lemma kind_merge_idem [simp]: "kind_merge a a = a"
  by (simp add: kind_merge_def)

lemma kind_merge_comm: "kind_merge a b = kind_merge b a"
  by (auto simp: kind_merge_def)

lemma kind_merge_assoc: "kind_merge (kind_merge a b) c = kind_merge a (kind_merge b c)"
  by (cases a; cases b; cases c) (simp_all add: kind_merge_def)

lemma kind_merge_Unknown [simp]: "kind_merge GK_Unknown a = a" "kind_merge a GK_Unknown = a"
  by (auto simp: kind_merge_def)

lemma resolve_process_names_simps [simp]:
  "gs_devices (resolve_process_names f g) = gs_devices g"
  "gs_available (resolve_process_names f g) = gs_available g"
  "gs_backends (resolve_process_names f g) = gs_backends g"
  "gs_detail (resolve_process_names f g) = gs_detail g"
  "length (gs_processes (resolve_process_names f g)) = length (gs_processes g)"
  by (simp_all add: resolve_process_names_def)

lemma total_memory_loop_sum:
  "total_memory_loop ds used tot seen =
     (let mem = [(u, t). d \<leftarrow> ds, (u, t) \<leftarrow> (case (gd_mem_used_bytes d, gd_mem_total_bytes d) of
                    (Some u, Some t) \<Rightarrow> [(u, t)] | _ \<Rightarrow> [])]
      in if seen \<or> mem \<noteq> [] then Some (foldl sat_add used (map fst mem), foldl sat_add tot (map snd mem))
         else None)"
proof (induction ds arbitrary: used tot seen)
  case (Cons d ds)
  then show ?case
    by (cases "gd_mem_used_bytes d"; cases "gd_mem_total_bytes d") (auto simp: Let_def)
qed simp

end
