(* ===== verification/Process_Table.thy ===== *)
theory Process_Table
  imports Snapshots
begin

text \<open>
  The process list (\<open>muxtop-core/src/process.rs\<close>): sorting, the case-insensitive filter with its
  ASCII fast path, and the process tree. The tree is built by a depth-bounded walk that marks
  what it has placed; the marks are threaded through the recursion as in the source.
\<close>

section \<open>Sorting\<close>

datatype SortField = SF_Cpu | SF_Mem | SF_Pid | SF_Name | SF_User

datatype SortOrder = Asc | Desc

fun display_sort_field :: "SortField \<Rightarrow> string" where
  "display_sort_field SF_Cpu = ''cpu''"
| "display_sort_field SF_Mem = ''mem''"
| "display_sort_field SF_Pid = ''pid''"
| "display_sort_field SF_Name = ''name''"
| "display_sort_field SF_User = ''user''"

definition sort_field_from_str :: "(string \<Rightarrow> string) \<Rightarrow> string \<Rightarrow> string + SortField" where
  "sort_field_from_str ulc s =
     (let l = to_lowercase ulc s in
      if l = ''cpu'' then Inr SF_Cpu
      else if l = ''mem'' \<or> l = ''memory'' then Inr SF_Mem
      else if l = ''pid'' then Inr SF_Pid
      else if l = ''name'' then Inr SF_Name
      else if l = ''user'' then Inr SF_User
      else Inl (''invalid sort field '' @ [CHR 0x27] @ s @ [CHR 0x27] @ '': expected one of cpu, mem, pid, name, user''))"

text \<open>
  The comparators, as the test that the first process does not compare greater. CPU values that
  cannot be ordered compare equal, as \<open>partial_cmp\<close> with \<open>unwrap_or(Equal)\<close> does.
\<close>

definition proc_le :: "(string \<Rightarrow> string) \<Rightarrow> SortField \<Rightarrow> ProcessInfo \<Rightarrow> ProcessInfo \<Rightarrow> bool" where
  "proc_le ulc field a b =
     (case field of
        SF_Name \<Rightarrow> to_lowercase ulc (pr_name a) \<le> to_lowercase ulc (pr_name b)
      | SF_User \<Rightarrow> to_lowercase ulc (pr_user a) \<le> to_lowercase ulc (pr_user b)
      | SF_Cpu \<Rightarrow> not_gt (pr_cpu_percent a) (pr_cpu_percent b)
      | SF_Mem \<Rightarrow> pr_memory_bytes a \<le> pr_memory_bytes b
      | SF_Pid \<Rightarrow> pr_pid a \<le> pr_pid b)"

type_synonym proc_usort = "(ProcessInfo \<Rightarrow> ProcessInfo \<Rightarrow> bool) \<Rightarrow> ProcessInfo list \<Rightarrow> ProcessInfo list"

definition sort_processes ::
    "(string \<Rightarrow> string) \<Rightarrow> proc_usort \<Rightarrow> SortField \<Rightarrow> SortOrder \<Rightarrow> ProcessInfo list \<Rightarrow> ProcessInfo list" where
  "sort_processes ulc usort field order procs =
     (let sorted =
        (case field of
           SF_Name \<Rightarrow> sort_by (proc_le ulc SF_Name) procs
         | SF_User \<Rightarrow> sort_by (proc_le ulc SF_User) procs
         | SF_Cpu \<Rightarrow> usort (proc_le ulc SF_Cpu) procs
         | SF_Mem \<Rightarrow> usort (proc_le ulc SF_Mem) procs
         | SF_Pid \<Rightarrow> usort (proc_le ulc SF_Pid) procs)
      in case order of Desc \<Rightarrow> rev sorted | Asc \<Rightarrow> sorted)"

section \<open>Filtering\<close>

definition windows :: "nat \<Rightarrow> 'a list \<Rightarrow> 'a list list" where
  "windows n xs = map (\<lambda>i. take n (drop i xs)) [0..<length xs + 1 - n]"

definition contains_ignore_case :: "(string \<Rightarrow> string) \<Rightarrow> string \<Rightarrow> string \<Rightarrow> bool" where
  "contains_ignore_case ulc haystack needle_lower \<longleftrightarrow>
     (if needle_lower = [] then True
      else if is_ascii needle_lower \<and> is_ascii haystack then
        (if length haystack < length needle_lower then False
         else list_ex (\<lambda>w. list_all (\<lambda>(a, b). ascii_lower a = ascii_lower b) (zip w needle_lower))
                (windows (length needle_lower) haystack))
      else str_contains (to_lowercase ulc haystack) needle_lower)"

definition filter_processes :: "(string \<Rightarrow> string) \<Rightarrow> ProcessInfo list \<Rightarrow> string \<Rightarrow> ProcessInfo list" where
  "filter_processes ulc procs pattern =
     (if pattern = [] then procs
      else let lower = to_lowercase ulc pattern in
        filter (\<lambda>p. contains_ignore_case ulc (pr_name p) lower \<or>
                    contains_ignore_case ulc (pr_command p) lower) procs)"

section \<open>The process tree\<close>

datatype TreeNode = TreeNode (tn_process: ProcessInfo) (tn_children: "TreeNode list") (tn_depth: nat)

definition MAX_DEPTH :: nat where
  "MAX_DEPTH = 256"

type_synonym children_map = "u32 \<Rightarrow> nat list"

text \<open>\<open>children_map\<close>: the indices of the children of each listed process id, in input order.\<close>

fun index_children :: "u32 list \<Rightarrow> nat \<Rightarrow> ProcessInfo list \<Rightarrow> children_map \<Rightarrow> children_map" where
  "index_children pids i [] m = m"
| "index_children pids i (p # ps) m =
     index_children pids (Suc i) ps
       (case pr_parent_pid p of
          Some ppid \<Rightarrow> if 0 < ppid \<and> ppid \<in> set pids then m(ppid := m ppid @ [i]) else m
        | None \<Rightarrow> m)"

definition is_root :: "u32 list \<Rightarrow> ProcessInfo \<Rightarrow> bool" where
  "is_root pids p \<longleftrightarrow>
     (case pr_parent_pid p of None \<Rightarrow> True | Some ppid \<Rightarrow> ppid = 0 \<or> ppid \<notin> set pids)"

definition root_indices :: "ProcessInfo list \<Rightarrow> nat list" where
  "root_indices procs = filter (\<lambda>i. is_root (map pr_pid procs) (procs ! i)) [0..<length procs]"

text \<open>
  \<open>build_subtree\<close> places a process and walks its unplaced children; \<open>build_children\<close> is the
  \<open>filter_map\<close> over the children, which stops a cycle at the first process already placed.
\<close>

function build_subtree :: "ProcessInfo list \<Rightarrow> children_map \<Rightarrow> nat \<Rightarrow> nat \<Rightarrow> bool list \<Rightarrow> TreeNode \<times> bool list"
  and build_children :: "ProcessInfo list \<Rightarrow> children_map \<Rightarrow> nat list \<Rightarrow> nat \<Rightarrow> bool list \<Rightarrow> TreeNode list \<times> bool list"
where
  "build_subtree procs cmap idx depth visited =
     (let visited = visited[idx := True]; p = procs ! idx in
      if depth < MAX_DEPTH
      then (case build_children procs cmap (cmap (pr_pid p)) (depth + 1) visited of
              (children, visited) \<Rightarrow> (TreeNode p children depth, visited))
      else (TreeNode p [] depth, visited))"
| "build_children procs cmap [] depth visited = ([], visited)"
| "build_children procs cmap (ci # rest) depth visited =
     (if visited ! ci then build_children procs cmap rest depth visited
      else (case build_subtree procs cmap ci depth visited of
              (t, visited) \<Rightarrow>
                (case build_children procs cmap rest depth visited of
                   (ts, visited) \<Rightarrow> (t # ts, visited))))"
  by pat_completeness auto
termination
  by (relation "measures
      [\<lambda>x. case x of Inl (_, _, _, d, _) \<Rightarrow> Suc MAX_DEPTH - d | Inr (_, _, _, d, _) \<Rightarrow> Suc MAX_DEPTH - d,
       \<lambda>x. case x of Inl _ \<Rightarrow> 0 | Inr (_, _, rest, _, _) \<Rightarrow> Suc (length rest)]") auto

declare build_subtree.simps [simp del]

fun build_roots :: "ProcessInfo list \<Rightarrow> children_map \<Rightarrow> nat list \<Rightarrow> bool list \<Rightarrow> TreeNode list \<times> bool list" where
  "build_roots procs cmap [] visited = ([], visited)"
| "build_roots procs cmap (i # is) visited =
     (case build_subtree procs cmap i 0 visited of
        (t, visited) \<Rightarrow> (case build_roots procs cmap is visited of (ts, visited) \<Rightarrow> (t # ts, visited)))"

definition build_process_tree :: "ProcessInfo list \<Rightarrow> TreeNode list" where
  "build_process_tree procs =
     (if procs = [] then []
      else
        let children = index_children (map pr_pid procs) 0 procs (\<lambda>_. []);
            (forest, visited) =
              build_roots procs children (root_indices procs) (replicate (length procs) False);
            (rerooted, visited) = build_children procs children [0..<length procs] 0 visited
        in forest @ rerooted)"

fun walk :: "TreeNode \<Rightarrow> (ProcessInfo \<times> nat) list" where
  "walk (TreeNode p cs d) = (p, d) # concat (map walk cs)"

definition flatten_tree :: "TreeNode list \<Rightarrow> (ProcessInfo \<times> nat) list" where
  "flatten_tree roots = concat (map walk roots)"

section \<open>Facts about sorting and filtering\<close>

lemma sort_processes_mset:
  assumes "unstable_sort usort"
  shows "mset (sort_processes ulc usort field order procs) = mset procs"
  using unstable_sort.usort_mset [OF assms]
  by (simp add: sort_processes_def Let_def split: SortField.split SortOrder.split)

lemma not_gt_fle: "a \<noteq> NaN \<Longrightarrow> b \<noteq> NaN \<Longrightarrow> not_gt a b \<longleftrightarrow> fle a b"
  by (simp add: not_gt_def fle_def)

lemma not_gt_total:
  assumes "\<forall>p\<in>A. f p \<noteq> NaN"
  shows "total_preorder_on A (\<lambda>a b. not_gt (f a) (f b))"
proof -
  have "fle a b \<or> fle b a" if "a \<noteq> NaN" "b \<noteq> NaN" for a b
    using that by (cases a; cases b) (auto simp: fle_def)
  with assms show ?thesis
    by (auto simp: total_preorder_on_def not_gt_fle intro: fle_trans)
qed

lemma proc_le_total:
  assumes "field = SF_Cpu \<Longrightarrow> \<forall>p\<in>A. pr_cpu_percent p \<noteq> NaN"
  shows "total_preorder_on A (proc_le ulc field)"
  unfolding proc_le_def
  using assms by (cases field) (simp_all add: total_preorder_on_key not_gt_total)

lemma proc_le_swap: "sorted_wrt R (rev xs) = sorted_wrt (\<lambda>a b. R b a) xs"
  by (simp add: sorted_wrt_rev)

lemma windows_any:
  "n \<noteq> [] \<Longrightarrow> list_ex P (windows (length n) h) \<longleftrightarrow>
     (\<exists>i. i + length n \<le> length h \<and> P (take (length n) (drop i h)))"
proof -
  have "i < length h + 1 - length n \<longleftrightarrow> i + length n \<le> length h" if "n \<noteq> []" for i
    using that by (cases n) auto
  then show "n \<noteq> [] \<Longrightarrow> ?thesis" by (auto simp: windows_def list_ex_iff)
qed

lemma zip_all_lower:
  "length w = length n \<Longrightarrow>
   list_all (\<lambda>(a, b). ascii_lower a = ascii_lower b) (zip w n) \<longleftrightarrow>
   to_ascii_lowercase w = to_ascii_lowercase n"
  by (induction w n rule: list_induct2) (simp_all add: to_ascii_lowercase_def)

lemma take_drop_to_ascii_lowercase:
  "take k (drop i (to_ascii_lowercase h)) = to_ascii_lowercase (take k (drop i h))"
  by (simp add: to_ascii_lowercase_def take_map drop_map)

lemma take_drop_len: "n \<noteq> [] \<Longrightarrow> take (length n) (drop i h) = n \<Longrightarrow> i + length n \<le> length h"
  by (metis add.commute diff_is_0_eq' length_drop length_greater_0_conv length_take less_diff_conv2 linorder_not_le min.absorb_iff2 not_less_iff_gr_or_eq order.strict_implies_order take_all_iff take_drop)

lemma contains_fast_path:
  assumes "n \<noteq> []" "to_ascii_lowercase n = n"
  shows "list_ex (\<lambda>w. list_all (\<lambda>(a, b). ascii_lower a = ascii_lower b) (zip w n)) (windows (length n) h)
     \<longleftrightarrow> str_contains (to_ascii_lowercase h) n"
proof -
  have "list_all (\<lambda>(a, b). ascii_lower a = ascii_lower b) (zip (take (length n) (drop i h)) n)
      \<longleftrightarrow> take (length n) (drop i (to_ascii_lowercase h)) = n" if "i + length n \<le> length h" for i
    using that assms(2) by (simp add: zip_all_lower take_drop_to_ascii_lowercase)
  then show ?thesis
    using take_drop_len [OF assms(1), of _ "to_ascii_lowercase h"] assms(1)
    by (auto simp: windows_any str_contains_iff)
qed

lemma str_contains_short: "str_contains h n \<Longrightarrow> length n \<le> length h"
  by (auto simp: str_contains_iff) (metis le_add2 le_trans length_0_conv take_drop_len list.size(3) zero_le)

lemma contains_ignore_case_spec:
  assumes "to_ascii_lowercase n = n"
  shows "contains_ignore_case ulc h n \<longleftrightarrow> str_contains (to_lowercase ulc h) n"
proof (cases "n = []")
  case True
  then show ?thesis by (auto simp: contains_ignore_case_def str_contains_iff)
next
  case False
  then show ?thesis
    using contains_fast_path [OF False assms, of h] str_contains_short [of "to_ascii_lowercase h" n]
    by (auto simp: contains_ignore_case_def to_lowercase_def)
qed

section \<open>Facts about the tree walk\<close>

text \<open>
  \<open>places procs S v v' ps\<close>: going from marks \<open>v\<close> to marks \<open>v'\<close> places the processes \<open>ps\<close>,
  which are those at the newly marked indices, each once, all of them in \<open>S\<close>.
\<close>

definition places :: "ProcessInfo list \<Rightarrow> nat set \<Rightarrow> bool list \<Rightarrow> bool list \<Rightarrow> ProcessInfo list \<Rightarrow> bool" where
  "places procs S v v' ps \<longleftrightarrow>
     length v' = length procs \<and> (\<forall>i<length procs. v ! i \<longrightarrow> v' ! i) \<and>
     (\<exists>is. distinct is \<and> set is = {i. i < length procs \<and> \<not> v ! i \<and> v' ! i} \<and>
           set is \<subseteq> S \<and> map ((!) procs) is = ps)"

lemma places_refl: "length v = length procs \<Longrightarrow> places procs S v v []"
  by (auto simp: places_def)

lemma places_step:
  assumes "length v = length procs" "i < length procs" "\<not> v ! i" "i \<in> S"
  shows "places procs S v (v[i := True]) [procs ! i]"
proof -
  have "{j. j < length procs \<and> \<not> v ! j \<and> v[i := True] ! j} = {i}"
    using assms by (auto simp: nth_list_update split: if_splits)
  then have "distinct [i] \<and> set [i] = {j. j < length procs \<and> \<not> v ! j \<and> v[i := True] ! j} \<and>
      set [i] \<subseteq> S \<and> map ((!) procs) [i] = [procs ! i]"
    using assms(4) by simp
  then have "\<exists>is. distinct is \<and> set is = {j. j < length procs \<and> \<not> v ! j \<and> v[i := True] ! j} \<and>
      set is \<subseteq> S \<and> map ((!) procs) is = [procs ! i]"
    by (rule exI)
  moreover have "\<forall>j<length procs. v ! j \<longrightarrow> v[i := True] ! j"
    using assms by (auto simp: nth_list_update)
  ultimately show ?thesis
    by (simp only: places_def length_list_update assms(1))
qed

lemma places_trans:
  assumes 1: "places procs S v v1 ps" and 2: "places procs S v1 v2 qs"
  shows "places procs S v v2 (ps @ qs)"
proof -
  from 1 obtain "is" where i: "distinct is" "set is = {i. i < length procs \<and> \<not> v ! i \<and> v1 ! i}"
    "set is \<subseteq> S" "map ((!) procs) is = ps" and m1: "\<forall>i<length procs. v ! i \<longrightarrow> v1 ! i"
    unfolding places_def by blast
  from 2 obtain js where j: "distinct js" "set js = {i. i < length procs \<and> \<not> v1 ! i \<and> v2 ! i}"
    "set js \<subseteq> S" "map ((!) procs) js = qs" and m2: "\<forall>i<length procs. v1 ! i \<longrightarrow> v2 ! i"
    and len: "length v2 = length procs"
    unfolding places_def by blast
  have "distinct (is @ js)" using i(1,2) j(1,2) by auto
  moreover have "set (is @ js) = {i. i < length procs \<and> \<not> v ! i \<and> v2 ! i}"
    using i(2) j(2) m1 m2 by auto
  moreover have "set (is @ js) \<subseteq> S" "map ((!) procs) (is @ js) = ps @ qs"
    using i(3,4) j(3,4) by auto
  ultimately show ?thesis
    unfolding places_def using len m1 m2 by blast
qed

lemma places_mono: "places procs S v v' ps \<Longrightarrow> S \<subseteq> T \<Longrightarrow> places procs T v v' ps"
  unfolding places_def by blast

lemma places_keeps: "places procs S v v' ps \<Longrightarrow> i < length procs \<Longrightarrow> v ! i \<Longrightarrow> v' ! i"
  unfolding places_def by blast

lemma places_outside:
  "places procs S v v' ps \<Longrightarrow> i < length procs \<Longrightarrow> i \<notin> S \<Longrightarrow> v' ! i \<longleftrightarrow> v ! i"
  unfolding places_def by blast

lemma places_length: "places procs S v v' ps \<Longrightarrow> length v' = length procs"
  unfolding places_def by blast

definition child_range :: "children_map \<Rightarrow> nat set" where
  "child_range cmap = (\<Union>x. set (cmap x))"

lemma build_places:
  fixes procs :: "ProcessInfo list" and cmap :: children_map
  shows "child_range cmap \<subseteq> {..<length procs} \<Longrightarrow> length visited = length procs \<Longrightarrow>
    idx < length procs \<Longrightarrow> \<not> visited ! idx \<Longrightarrow>
    build_subtree procs cmap idx depth visited = (t, v') \<Longrightarrow>
    places procs (insert idx (child_range cmap)) visited v' (map fst (walk t)) \<and> v' ! idx"
  and "child_range cmap \<subseteq> {..<length procs} \<Longrightarrow> length visited = length procs \<Longrightarrow>
    set rest \<subseteq> {..<length procs} \<Longrightarrow>
    build_children procs cmap rest depth visited = (ts, v') \<Longrightarrow>
    places procs (set rest \<union> child_range cmap) visited v' (map fst (flatten_tree ts)) \<and>
    (\<forall>i\<in>set rest. v' ! i)"
proof (induction procs cmap idx depth visited and procs cmap rest depth visited
    arbitrary: t v' and ts v' rule: build_subtree_build_children.induct)
  case (1 procs cmap idx depth visited)
  let ?v = "visited[idx := True]"
  have step: "places procs (insert idx (child_range cmap)) visited ?v [procs ! idx]"
    using "1.prems" by (intro places_step) auto
  show ?case
  proof (cases "depth < MAX_DEPTH")
    case False
    with "1.prems" step show ?thesis by (auto simp: build_subtree.simps Let_def)
  next
    case True
    obtain cs v2 where b: "build_children procs cmap (cmap (pr_pid (procs ! idx))) (depth + 1) ?v = (cs, v2)"
      by fastforce
    have sub: "set (cmap (pr_pid (procs ! idx))) \<subseteq> child_range cmap" by (auto simp: child_range_def)
    with "1.IH" [OF refl refl True _ _ _ b] "1.prems"
    have pl: "places procs (set (cmap (pr_pid (procs ! idx))) \<union> child_range cmap) ?v v2 (map fst (flatten_tree cs))"
      by auto
    from True b "1.prems"(5) have t: "t = TreeNode (procs ! idx) cs depth" "v' = v2"
      by (auto simp: build_subtree.simps Let_def)
    have "places procs (insert idx (child_range cmap)) ?v v2 (map fst (flatten_tree cs))"
      by (rule places_mono [OF pl]) (use sub in auto)
    from places_trans [OF step this]
    have pl2: "places procs (insert idx (child_range cmap)) visited v' (map fst (walk t))"
      by (simp add: t flatten_tree_def)
    moreover have "v' ! idx"
      using places_keeps [OF pl "1.prems"(3)] "1.prems"(2,3) by (simp add: t)
    ultimately show ?thesis by blast
  qed
next
  case (2 procs cmap depth visited)
  then show ?case by (simp add: places_refl flatten_tree_def)
next
  case (3 procs cmap ci rest depth visited)
  show ?case
  proof (cases "visited ! ci")
    case True
    with "3.IH"(1) [OF True "3.prems"(1,2)] "3.prems"
    have *: "places procs (set rest \<union> child_range cmap) visited v' (map fst (flatten_tree ts))"
      "\<forall>i\<in>set rest. v' ! i" by auto
    have "places procs (set (ci # rest) \<union> child_range cmap) visited v' (map fst (flatten_tree ts))"
      by (rule places_mono [OF *(1)]) auto
    moreover have "v' ! ci" using places_keeps [OF *(1) _ True] "3.prems"(3) by simp
    ultimately show ?thesis using *(2) by simp
  next
    case False
    obtain t v1 where a: "build_subtree procs cmap ci depth visited = (t, v1)" by fastforce
    obtain ts' v2 where b: "build_children procs cmap rest depth v1 = (ts', v2)" by fastforce
    from False a b "3.prems"(4) have ts: "ts = t # ts'" "v' = v2" by auto
    from "3.IH"(2) [OF False "3.prems"(1,2) _ False a] "3.prems"(3)
    have 1: "places procs (insert ci (child_range cmap)) visited v1 (map fst (walk t))" "v1 ! ci" by auto
    from "3.IH"(3) [OF False a [symmetric] "3.prems"(1) places_length [OF 1(1)] _ b] "3.prems"(3)
    have 2: "places procs (set rest \<union> child_range cmap) v1 v2 (map fst (flatten_tree ts'))"
      "\<forall>i\<in>set rest. v2 ! i" by auto
    have "places procs (set (ci # rest) \<union> child_range cmap) visited v2
        (map fst (walk t) @ map fst (flatten_tree ts'))"
      by (rule places_trans [OF places_mono [OF 1(1)] places_mono [OF 2(1)]]) auto
    moreover have "v2 ! ci" using places_keeps [OF 2(1) _ 1(2)] "3.prems"(3) by simp
    ultimately show ?thesis using 2(2) by (simp add: ts flatten_tree_def)
  qed
qed

text \<open>Roots are never children, and the children index holds valid indices.\<close>

lemma index_children_mem:
  "c \<in> set (index_children pids i ps m x) \<longleftrightarrow>
     c \<in> set (m x) \<or>
     (\<exists>k<length ps. c = i + k \<and> pr_parent_pid (ps ! k) = Some x \<and> 0 < x \<and> x \<in> set pids)"
proof (induction ps arbitrary: i m)
  case (Cons p ps)
  have "(\<exists>k<length (p # ps). c = i + k \<and> pr_parent_pid ((p # ps) ! k) = Some x \<and> 0 < x \<and> x \<in> set pids)
    \<longleftrightarrow> (c = i \<and> pr_parent_pid p = Some x \<and> 0 < x \<and> x \<in> set pids) \<or>
        (\<exists>k<length ps. c = Suc i + k \<and> pr_parent_pid (ps ! k) = Some x \<and> 0 < x \<and> x \<in> set pids)"
    by (auto simp: less_Suc_eq_0_disj)
  then show ?case
    unfolding index_children.simps Cons.IH by (auto split: option.splits)
qed simp

definition children_of :: "ProcessInfo list \<Rightarrow> children_map" where
  "children_of procs = index_children (map pr_pid procs) 0 procs (\<lambda>_. [])"

lemma children_of_mem:
  "c \<in> set (children_of procs x) \<longleftrightarrow>
     c < length procs \<and> pr_parent_pid (procs ! c) = Some x \<and> 0 < x \<and> x \<in> pr_pid ` set procs"
  by (auto simp: children_of_def index_children_mem)

lemma child_range_children_of: "child_range (children_of procs) \<subseteq> {..<length procs}"
  by (auto simp: child_range_def children_of_mem)

lemma root_not_child: "i \<in> set (root_indices procs) \<Longrightarrow> i \<notin> child_range (children_of procs)"
  by (auto simp: root_indices_def is_root_def child_range_def children_of_mem split: option.splits)

lemma build_roots_places:
  assumes "build_roots procs cmap is v = (ts, v')" "length v = length procs"
    "child_range cmap \<subseteq> {..<length procs}" "distinct is"
    "\<forall>i\<in>set is. i < length procs \<and> \<not> v ! i \<and> i \<notin> child_range cmap"
  shows "places procs (set is \<union> child_range cmap) v v' (map fst (flatten_tree ts))"
  using assms
proof (induction "is" arbitrary: v ts v')
  case Nil
  then show ?case by (simp add: places_refl flatten_tree_def)
next
  case (Cons i "is")
  obtain t v1 where a: "build_subtree procs cmap i 0 v = (t, v1)" by fastforce
  obtain ts' v2 where b: "build_roots procs cmap is v1 = (ts', v2)" by fastforce
  from a b Cons.prems(1) have ts: "ts = t # ts'" "v' = v2" by auto
  have 1: "places procs (insert i (child_range cmap)) v v1 (map fst (walk t))"
    using build_places(1) [OF Cons.prems(3,2) _ _ a] Cons.prems(5) by simp
  have "\<not> v1 ! j" if "j \<in> set is" for j
    using places_outside [OF 1, of j] that Cons.prems(4,5) by auto
  then have 2: "places procs (set is \<union> child_range cmap) v1 v2 (map fst (flatten_tree ts'))"
    using Cons.IH [OF b places_length [OF 1] Cons.prems(3)] Cons.prems(4,5) by auto
  have "places procs (set (i # is) \<union> child_range cmap) v v2
      (map fst (walk t) @ map fst (flatten_tree ts'))"
    by (rule places_trans [OF places_mono [OF 1] places_mono [OF 2]]) auto
  then show ?case by (simp add: ts flatten_tree_def)
qed

lemma places_everything:
  assumes pl: "places procs S (replicate (length procs) False) v' ps"
    and all: "\<forall>i<length procs. v' ! i"
  shows "mset ps = mset procs"
proof -
  from pl obtain "is" where d: "distinct is" and m: "map ((!) procs) is = ps"
    and s: "set is = {i. i < length procs \<and> \<not> replicate (length procs) False ! i \<and> v' ! i}"
    unfolding places_def by blast
  from s all have "set is = set [0..<length procs]" by auto
  with d have "mset is = mset [0..<length procs]"
    by (metis distinct_upt set_eq_iff_mset_eq_distinct)
  then have "mset (map ((!) procs) is) = mset (map ((!) procs) [0..<length procs])"
    by (simp only: mset_map)
  then show ?thesis by (simp add: m map_nth)
qed

lemma flatten_tree_append: "flatten_tree (xs @ ys) = flatten_tree xs @ flatten_tree ys"
  by (simp add: flatten_tree_def)

lemma build_process_tree_parts:
  assumes "procs \<noteq> []"
  obtains forest v1 rerooted v2 where
    "build_roots procs (children_of procs) (root_indices procs) (replicate (length procs) False) = (forest, v1)"
    "build_children procs (children_of procs) [0..<length procs] 0 v1 = (rerooted, v2)"
    "build_process_tree procs = forest @ rerooted"
proof -
  obtain forest v1 where a:
    "build_roots procs (children_of procs) (root_indices procs) (replicate (length procs) False) = (forest, v1)"
    by fastforce
  obtain rerooted v2 where b: "build_children procs (children_of procs) [0..<length procs] 0 v1 = (rerooted, v2)"
    by fastforce
  from a b assms have "build_process_tree procs = forest @ rerooted"
    by (simp add: build_process_tree_def children_of_def)
  with a b show thesis by (rule that)
qed

lemma root_indices_facts:
  "distinct (root_indices procs)" "i \<in> set (root_indices procs) \<Longrightarrow> i < length procs"
  by (auto simp: root_indices_def)

lemma tree_perm: "mset (map fst (flatten_tree (build_process_tree procs))) = mset procs"
proof (cases "procs = []")
  case True
  then show ?thesis by (simp add: build_process_tree_def flatten_tree_def)
next
  case False
  then obtain forest v1 rerooted v2 where
    a: "build_roots procs (children_of procs) (root_indices procs) (replicate (length procs) False) = (forest, v1)"
    and b: "build_children procs (children_of procs) [0..<length procs] 0 v1 = (rerooted, v2)"
    and t: "build_process_tree procs = forest @ rerooted"
    by (rule build_process_tree_parts)
  let ?v0 = "replicate (length procs) False"
  have 1: "places procs (set (root_indices procs) \<union> child_range (children_of procs)) ?v0 v1
      (map fst (flatten_tree forest))"
    using a child_range_children_of root_indices_facts root_not_child
    by (intro build_roots_places) auto
  have sub: "set [0..<length procs] \<subseteq> {..<length procs}" by auto
  have 2: "places procs (set [0..<length procs] \<union> child_range (children_of procs)) v1 v2
      (map fst (flatten_tree rerooted))" and all: "\<forall>i<length procs. v2 ! i"
    using build_places(2) [OF child_range_children_of places_length [OF 1] sub b] by auto
  have "places procs UNIV ?v0 v2 (map fst (flatten_tree forest) @ map fst (flatten_tree rerooted))"
    by (rule places_trans [OF places_mono [OF 1] places_mono [OF 2]]) auto
  from places_everything [OF this all] show ?thesis
    by (simp add: t flatten_tree_append)
qed

section \<open>The shape of the tree\<close>

text \<open>
  Depths start at the given level, grow by one from a node to its children and stay within the
  limit, and the children of a node are processes that name it as their parent.
\<close>

fun tree_ok :: "nat \<Rightarrow> TreeNode \<Rightarrow> bool" where
  "tree_ok d (TreeNode p cs d') \<longleftrightarrow>
     d' = d \<and> d \<le> MAX_DEPTH \<and>
     (\<forall>c\<in>set cs. pr_parent_pid (tn_process c) = Some (pr_pid p) \<and> tree_ok (Suc d) c)"

lemma build_tree_ok:
  fixes procs :: "ProcessInfo list" and cmap :: children_map
  shows "cmap = children_of procs \<Longrightarrow> depth \<le> MAX_DEPTH \<Longrightarrow>
    build_subtree procs cmap idx depth visited = (t, v') \<Longrightarrow>
    tree_ok depth t \<and> tn_process t = procs ! idx"
  and "cmap = children_of procs \<Longrightarrow> depth \<le> MAX_DEPTH \<Longrightarrow>
    build_children procs cmap rest depth visited = (ts, v') \<Longrightarrow>
    \<forall>t\<in>set ts. tree_ok depth t \<and> (\<exists>ci\<in>set rest. tn_process t = procs ! ci)"
proof (induction procs cmap idx depth visited and procs cmap rest depth visited
    arbitrary: t v' and ts v' rule: build_subtree_build_children.induct)
  case (1 procs cmap idx depth visited)
  show ?case
  proof (cases "depth < MAX_DEPTH")
    case False
    with "1.prems" show ?thesis by (auto simp: build_subtree.simps Let_def)
  next
    case True
    obtain cs v2 where b: "build_children procs cmap (cmap (pr_pid (procs ! idx))) (depth + 1)
        (visited[idx := True]) = (cs, v2)" by fastforce
    from True b "1.prems" have t: "t = TreeNode (procs ! idx) cs depth"
      by (auto simp: build_subtree.simps Let_def)
    have "\<forall>c\<in>set cs. tree_ok (depth + 1) c \<and>
        (\<exists>ci\<in>set (cmap (pr_pid (procs ! idx))). tn_process c = procs ! ci)"
      using "1.IH" [OF refl refl True "1.prems"(1) _ b] True by simp
    with "1.prems"(1,2) show ?thesis by (auto simp: t children_of_mem)
  qed
next
  case (2 procs cmap depth visited)
  then show ?case by simp
next
  case (3 procs cmap ci rest depth visited)
  show ?case
  proof (cases "visited ! ci")
    case True
    with "3.IH"(1) [OF True "3.prems"(1,2)] "3.prems"(3) show ?thesis by auto
  next
    case False
    obtain t v1 where a: "build_subtree procs cmap ci depth visited = (t, v1)" by fastforce
    obtain ts' v2 where b: "build_children procs cmap rest depth v1 = (ts', v2)" by fastforce
    from False a b "3.prems"(3) have ts: "ts = t # ts'" by auto
    from "3.IH"(2) [OF False "3.prems"(1,2) a] "3.IH"(3) [OF False a [symmetric] "3.prems"(1,2) b]
    show ?thesis by (auto simp: ts)
  qed
qed

lemma build_roots_ok:
  "build_roots procs (children_of procs) is v = (ts, v') \<Longrightarrow>
   list_all2 (\<lambda>t i. tree_ok 0 t \<and> tn_process t = procs ! i) ts is"
proof (induction "is" arbitrary: v ts v')
  case (Cons i "is")
  obtain t v1 where a: "build_subtree procs (children_of procs) i 0 v = (t, v1)" by fastforce
  obtain ts' v2 where b: "build_roots procs (children_of procs) is v1 = (ts', v2)" by fastforce
  from a b Cons.prems have "ts = t # ts'" by auto
  with build_tree_ok(1) [OF refl _ a] Cons.IH [OF b] show ?case by simp
qed simp

lemma build_process_tree_ok: "\<forall>t\<in>set (build_process_tree procs). tree_ok 0 t"
proof (cases "procs = []")
  case True
  then show ?thesis by (simp add: build_process_tree_def)
next
  case False
  then obtain forest v1 rerooted v2 where
    a: "build_roots procs (children_of procs) (root_indices procs) (replicate (length procs) False) = (forest, v1)"
    and b: "build_children procs (children_of procs) [0..<length procs] 0 v1 = (rerooted, v2)"
    and t: "build_process_tree procs = forest @ rerooted"
    by (rule build_process_tree_parts)
  have "\<forall>t\<in>set forest. tree_ok 0 t"
    using build_roots_ok [OF a] by (auto simp: list_all2_conv_all_nth in_set_conv_nth)
  moreover have "\<forall>t\<in>set rerooted. tree_ok 0 t"
    using build_tree_ok(2) [OF refl _ b] by simp
  ultimately show ?thesis by (auto simp: t)
qed

text \<open>
  A row of the flattened tree hangs below an earlier row: its parent stands one level higher,
  and no row in between is at the parent's level or above.
\<close>

definition row_ok :: "(ProcessInfo \<times> nat) list \<Rightarrow> nat \<Rightarrow> bool" where
  "row_ok rows i \<longleftrightarrow>
     (\<exists>j<i. snd (rows ! i) = Suc (snd (rows ! j)) \<and>
            pr_parent_pid (fst (rows ! i)) = Some (pr_pid (fst (rows ! j))) \<and>
            (\<forall>k. j < k \<and> k < i \<longrightarrow> snd (rows ! i) \<le> snd (rows ! k)))"

lemma row_ok_append1: "i < length xs \<Longrightarrow> row_ok (xs @ ys) i \<longleftrightarrow> row_ok xs i"
  by (auto simp: row_ok_def nth_append)

lemma row_ok_append2: "row_ok ys i \<Longrightarrow> row_ok (xs @ ys) (length xs + i)"
proof -
  assume "row_ok ys i"
  then obtain j where j: "j < i" "snd (ys ! i) = Suc (snd (ys ! j))"
    "pr_parent_pid (fst (ys ! i)) = Some (pr_pid (fst (ys ! j)))"
    "\<forall>k. j < k \<and> k < i \<longrightarrow> snd (ys ! i) \<le> snd (ys ! k)"
    unfolding row_ok_def by blast
  have "snd (ys ! i) \<le> snd ((xs @ ys) ! k)" if "length xs + j < k" "k < length xs + i" for k
  proof -
    from that have "j < k - length xs \<and> k - length xs < i" by linarith
    with j(4) have "snd (ys ! i) \<le> snd (ys ! (k - length xs))" by blast
    with that show ?thesis by (simp add: nth_append)
  qed
  then show ?thesis
    unfolding row_ok_def using j(1-3) by (intro exI [of _ "length xs + j"]) auto
qed

definition rows_ok :: "nat \<Rightarrow> (ProcessInfo \<Rightarrow> bool) \<Rightarrow> (ProcessInfo \<times> nat) list \<Rightarrow> bool" where
  "rows_ok d P rows \<longleftrightarrow>
     (\<forall>i<length rows. d \<le> snd (rows ! i) \<and> snd (rows ! i) \<le> MAX_DEPTH \<and>
        ((snd (rows ! i) = d \<and> P (fst (rows ! i))) \<or> row_ok rows i))"

lemma rows_ok_append:
  assumes "rows_ok d P xs" "rows_ok d P ys"
  shows "rows_ok d P (xs @ ys)"
  unfolding rows_ok_def
proof (intro allI impI)
  fix i assume i: "i < length (xs @ ys)"
  show "d \<le> snd ((xs @ ys) ! i) \<and> snd ((xs @ ys) ! i) \<le> MAX_DEPTH \<and>
      ((snd ((xs @ ys) ! i) = d \<and> P (fst ((xs @ ys) ! i))) \<or> row_ok (xs @ ys) i)"
  proof (cases "i < length xs")
    case True
    with assms(1) show ?thesis by (simp add: rows_ok_def row_ok_append1 nth_append)
  next
    case False
    then obtain j where j: "i = length xs + j" by (metis le_Suc_ex not_less)
    with i assms(2) show ?thesis
      using row_ok_append2 [of ys j xs] by (auto simp: rows_ok_def nth_append)
  qed
qed

lemma rows_ok_cons:
  assumes "rows_ok (Suc d) (\<lambda>q. pr_parent_pid q = Some (pr_pid p)) rows" "P p" "d \<le> MAX_DEPTH"
  shows "rows_ok d P ((p, d) # rows)"
  unfolding rows_ok_def
proof (intro allI impI)
  fix i assume i: "i < length ((p, d) # rows)"
  show "d \<le> snd (((p, d) # rows) ! i) \<and> snd (((p, d) # rows) ! i) \<le> MAX_DEPTH \<and>
      ((snd (((p, d) # rows) ! i) = d \<and> P (fst (((p, d) # rows) ! i))) \<or> row_ok ((p, d) # rows) i)"
  proof (cases i)
    case 0
    with assms(2,3) show ?thesis by simp
  next
    case (Suc n)
    with i assms(1) have n: "n < length rows" "Suc d \<le> snd (rows ! n)" "snd (rows ! n) \<le> MAX_DEPTH"
      and alt: "snd (rows ! n) = Suc d \<and> pr_parent_pid (fst (rows ! n)) = Some (pr_pid p) \<or> row_ok rows n"
      by (auto simp: rows_ok_def)
    have "row_ok ((p, d) # rows) (Suc n)"
      using alt
    proof
      assume top: "snd (rows ! n) = Suc d \<and> pr_parent_pid (fst (rows ! n)) = Some (pr_pid p)"
      have "Suc d \<le> snd (((p, d) # rows) ! k)" if "0 < k" "k < Suc n" for k
        using that n(1) assms(1) by (cases k) (auto simp: rows_ok_def)
      with top show ?thesis unfolding row_ok_def by (intro exI [of _ 0]) auto
    next
      assume "row_ok rows n"
      then show ?thesis using row_ok_append2 [of rows n "[(p, d)]"] by simp
    qed
    with n Suc show ?thesis by simp
  qed
qed

lemma walk_rows_ok:
  "tree_ok d t \<Longrightarrow> P (tn_process t) \<Longrightarrow> rows_ok d P (walk t)"
proof (induction t arbitrary: d P)
  case (TreeNode p cs d')
  have "rows_ok (Suc d) (\<lambda>q. pr_parent_pid q = Some (pr_pid p)) (concat (map walk cs'))"
    if "set cs' \<subseteq> set cs" for cs'
    using that
  proof (induction cs')
    case Nil
    then show ?case by (simp add: rows_ok_def)
  next
    case (Cons c cs')
    then have "rows_ok (Suc d) (\<lambda>q. pr_parent_pid q = Some (pr_pid p)) (walk c)"
      using TreeNode.IH TreeNode.prems(1) by simp
    with Cons show ?case by (simp add: rows_ok_append)
  qed
  with TreeNode.prems show ?case by (simp add: rows_ok_cons)
qed

lemma flatten_rows_ok:
  "\<forall>t\<in>set ts. tree_ok 0 t \<Longrightarrow> rows_ok 0 (\<lambda>_. True) (flatten_tree ts)"
proof (induction ts)
  case Nil
  then show ?case by (simp add: flatten_tree_def rows_ok_def)
next
  case (Cons t ts)
  have "rows_ok 0 (\<lambda>_. True) (walk t @ flatten_tree ts)"
    using Cons by (intro rows_ok_append walk_rows_ok) auto
  then show ?case by (simp add: flatten_tree_def)
qed

section \<open>Properties\<close>

lemma display_from_str: "sort_field_from_str ulc (display_sort_field f) = Inr f"
  by (cases f) (simp_all add: sort_field_from_str_def to_lowercase_def is_ascii_def
      to_ascii_lowercase_def ascii_lower_def Let_def)

text \<open>
  C1. The tree view neither loses nor duplicates a process, whatever parent ids the system
  reports (cycles, recycled ids, duplicates, chains deeper than the limit): the flattened tree is
  a permutation of the input.
\<close>

theorem process_tree_permutation:
  "mset (map fst (flatten_tree (build_process_tree procs))) = mset procs"
  by (rule tree_perm)

text \<open>
  C2. Every row of the flattened tree is at depth at most 256, and a row below depth 0 is shown
  under its parent: an earlier row one level up whose id it names, with only deeper rows (or rows
  of its own level) in between.
\<close>

theorem process_tree_rows:
  "list_all (\<lambda>i. snd (flatten_tree (build_process_tree procs) ! i) \<le> MAX_DEPTH \<and>
                 (snd (flatten_tree (build_process_tree procs) ! i) = 0 \<or>
                  row_ok (flatten_tree (build_process_tree procs)) i))
     [0..<length procs]"
proof -
  have "length (flatten_tree (build_process_tree procs)) = length procs"
    using tree_perm [of procs] by (metis length_map size_mset)
  then show ?thesis
    using flatten_rows_ok [OF build_process_tree_ok [of procs]]
    by (simp add: rows_ok_def list_all_iff)
qed

text \<open>
  C29. Sorting keeps every process and orders the list by the chosen field, ascending or
  descending, for every unstable sort with the contract of the standard library. Sorting by CPU
  needs CPU values that compare (no NaN).
\<close>

theorem sort_processes_correct:
  assumes "unstable_sort usort"
    and "field = SF_Cpu \<Longrightarrow> \<forall>p\<in>set procs. pr_cpu_percent p \<noteq> NaN"
  shows "mset (sort_processes ulc usort field order procs) = mset procs \<and>
    sorted_wrt (case order of Asc \<Rightarrow> proc_le ulc field | Desc \<Rightarrow> (\<lambda>a b. proc_le ulc field b a))
      (sort_processes ulc usort field order procs)"
proof -
  have tot: "total_preorder_on (set procs) (proc_le ulc field)"
    using assms(2) by (rule proc_le_total)
  note sorts = unstable_sort.usort_sorted [OF assms(1) tot] stable.usort_sorted [OF tot]
  have "sorted_wrt (case order of Asc \<Rightarrow> proc_le ulc field | Desc \<Rightarrow> (\<lambda>a b. proc_le ulc field b a))
      (sort_processes ulc usort field order procs)"
    using sorts by (cases order; cases field) (simp_all add: sort_processes_def sorted_wrt_rev)
  with sort_processes_mset [OF assms(1)] show ?thesis by blast
qed

definition example_proc :: "u32 \<Rightarrow> string \<Rightarrow> fl \<Rightarrow> ProcessInfo" where
  "example_proc p n c =
     \<lparr>pr_pid = p, pr_parent_pid = None, pr_name = n, pr_command = n, pr_user = ''root'',
      pr_cpu_percent = c, pr_memory_bytes = 0, pr_memory_percent = Fin 0, pr_status = ''Running''\<rparr>"

theorem sort_processes_correct_witness:
  "unstable_sort (sort_by :: proc_usort) \<and>
   mset (sort_processes id sort_by SF_Cpu Desc [example_proc 1 ''init'' (Fin 2), example_proc 7 ''sh'' (Fin 5)]) =
     mset [example_proc 1 ''init'' (Fin 2), example_proc 7 ''sh'' (Fin 5)] \<and>
   sorted_wrt (\<lambda>a b. proc_le id SF_Cpu b a)
     (sort_processes id sort_by SF_Cpu Desc [example_proc 1 ''init'' (Fin 2), example_proc 7 ''sh'' (Fin 5)])"
proof -
  have u: "unstable_sort (sort_by :: proc_usort)" by (rule stable.unstable_sort_axioms)
  with sort_processes_correct [OF u, where field = SF_Cpu and order = Desc and ulc = id and
      procs = "[example_proc 1 ''init'' (Fin 2), example_proc 7 ''sh'' (Fin 5)]"]
  show ?thesis by (simp add: example_proc_def)
qed

text \<open>
  C30. The filter keeps exactly the processes whose lower-cased name or command contains the
  lower-cased pattern, in order: the allocation-free ASCII path decides the same as the Unicode
  path. The lower-casing of non-ASCII strings is a parameter; it is only assumed to leave no ASCII
  capital behind.
\<close>

theorem filter_processes_correct:
  assumes "\<And>s. to_ascii_lowercase (ulc s) = ulc s"
  shows "filter_processes ulc procs pattern =
    filter (\<lambda>p. str_contains (to_lowercase ulc (pr_name p)) (to_lowercase ulc pattern) \<or>
                str_contains (to_lowercase ulc (pr_command p)) (to_lowercase ulc pattern)) procs"
proof -
  have "to_ascii_lowercase (to_lowercase ulc pattern) = to_lowercase ulc pattern"
    using assms by (simp add: to_lowercase_def)
  moreover have "str_contains h []" for h by (simp add: str_contains_iff)
  ultimately show ?thesis
    by (simp add: filter_processes_def Let_def contains_ignore_case_spec)
qed

theorem filter_processes_correct_witness:
  "filter_processes to_ascii_lowercase [example_proc 1 ''Init'' (Fin 2), example_proc 7 ''sh'' (Fin 5)] ''NI'' =
     [example_proc 1 ''Init'' (Fin 2)]"
proof -
  have "\<And>s. to_ascii_lowercase (to_ascii_lowercase s) = to_ascii_lowercase s" by simp
  note * = filter_processes_correct [OF this]
  show ?thesis
    unfolding * by (simp add: example_proc_def to_lowercase_def is_ascii_def to_ascii_lowercase_def
        ascii_lower_def starts_with_def char_of_def bit_0)
qed

end
