(* ===== verification/Frame_Codec.thy ===== *)
theory Frame_Codec
  imports Muxtop_Prelude
begin

unbundle bit_operations_syntax

text \<open>
  The frame layer of the wire protocol (\<open>muxtop-proto/src/frame.rs\<close>, \<open>error.rs\<close>): the
  length-prefixed encoding, its decoder on a buffer, and the frame reader and writer on a
  stream. A byte stream is the list of the bytes still to come together with what the
  transport reports once they are used up; the reader also records the size of every payload
  buffer it allocates, since the point of the per-call payload cap is to bound that allocation.
\<close>

section \<open>Data\<close>

datatype io_error_kind = UnexpectedEof | ConnectionReset | TimedOut | OtherIo

text \<open>The errors of \<open>bincode\<close> are opaque to the sources but for their message.\<close>

datatype bincode_error = BincodeError string

datatype ProtoError =
    Io io_error_kind
  | Encode bincode_error
  | Decode bincode_error
  | UnknownMessageType u8
  | FrameTooLarge u32 u32
  | IncompleteFrame nat nat

record Frame =
  msg_type :: u8
  payload :: "u8 list"

definition MSG_SNAPSHOT :: u8 where "MSG_SNAPSHOT = 1"
definition MSG_HEARTBEAT :: u8 where "MSG_HEARTBEAT = 2"
definition MSG_ERROR :: u8 where "MSG_ERROR = 3"
definition MSG_HELLO :: u8 where "MSG_HELLO = 4"
definition MSG_WELCOME :: u8 where "MSG_WELCOME = 5"

lemmas msg_consts = MSG_SNAPSHOT_def MSG_HEARTBEAT_def MSG_ERROR_def MSG_HELLO_def MSG_WELCOME_def

definition MAX_FRAME_SIZE :: u32 where
  "MAX_FRAME_SIZE = 4 * 1024 * 1024"

definition HEADER_SIZE :: nat where
  "HEADER_SIZE = 4"

section \<open>Big-endian words\<close>

definition to_be_bytes :: "u32 \<Rightarrow> u8 list" where
  "to_be_bytes w =
     [ucast (drop_bit 24 w), ucast (drop_bit 16 w), ucast (drop_bit 8 w), ucast w]"

definition from_be_bytes :: "u8 \<Rightarrow> u8 \<Rightarrow> u8 \<Rightarrow> u8 \<Rightarrow> u32" where
  "from_be_bytes a b c d =
     push_bit 24 (ucast a) OR push_bit 16 (ucast b) OR push_bit 8 (ucast c) OR ucast d"

lemma length_to_be_bytes [simp]: "length (to_be_bytes w) = 4"
  by (simp add: to_be_bytes_def)

lemma from_to_be_bytes:
  "from_be_bytes (ucast (drop_bit 24 w)) (ucast (drop_bit 16 w)) (ucast (drop_bit 8 w)) (ucast w) = w"
  for w :: u32
proof (rule bit_word_eqI)
  fix n assume n: "n < LENGTH(32)"
  consider "n < 8" | "8 \<le> n" "n < 16" | "16 \<le> n" "n < 24" | "24 \<le> n" by linarith
  then show "bit (from_be_bytes (ucast (drop_bit 24 w)) (ucast (drop_bit 16 w))
      (ucast (drop_bit 8 w)) (ucast w)) n = bit w n"
    using n by cases (simp_all add: from_be_bytes_def bit_simps, auto)
qed

lemma bit_u8_high: "8 \<le> n \<Longrightarrow> \<not> bit a n"
  for a :: u8
  by (auto dest: bit_imp_le_length)

lemma to_from_be_bytes: "to_be_bytes (from_be_bytes a b c d) = [a, b, c, d]"
  by (auto simp: to_be_bytes_def from_be_bytes_def bit_simps bit_u8_high
      intro!: bit_word_eqI)

section \<open>Encoding and decoding\<close>

definition encode_frame :: "Frame \<Rightarrow> ProtoError + u8 list" where
  "encode_frame frame =
     (let content_len = 1 + length (payload frame) in
      if unat MAX_FRAME_SIZE < content_len
      then Inl (FrameTooLarge (of_nat content_len) MAX_FRAME_SIZE)
      else Inr (to_be_bytes (of_nat content_len) @ [msg_type frame] @ payload frame))"

definition decode_frame :: "u8 list \<Rightarrow> ProtoError + Frame \<times> nat" where
  "decode_frame buf =
     (if length buf < HEADER_SIZE then Inl (IncompleteFrame HEADER_SIZE (length buf))
      else
        let content_len = from_be_bytes (buf ! 0) (buf ! 1) (buf ! 2) (buf ! 3) in
        if MAX_FRAME_SIZE < content_len then Inl (FrameTooLarge content_len MAX_FRAME_SIZE)
        else
          let total = HEADER_SIZE + unat content_len in
          if length buf < total then Inl (IncompleteFrame total (length buf))
          else if content_len = 0 then Inl (IncompleteFrame (HEADER_SIZE + 1) HEADER_SIZE)
          else Inr (\<lparr>msg_type = buf ! HEADER_SIZE,
                     payload = take (total - (HEADER_SIZE + 1)) (drop (HEADER_SIZE + 1) buf)\<rparr>,
                    total))"

section \<open>Reading from and writing to a stream\<close>

text \<open>
  A reader owns the stream: \<open>input\<close> are the bytes the peer has sent and will send,
  \<open>at_end\<close> is what a read past them reports (\<open>UnexpectedEof\<close> for a closed connection),
  \<open>allocs\<close> the payload buffers allocated so far, most recent first.
\<close>

record FrameReader =
  input :: "u8 list"
  at_end :: io_error_kind
  allocs :: "nat list"

definition reader_new :: "u8 list \<Rightarrow> io_error_kind \<Rightarrow> FrameReader" where
  "reader_new bs e = \<lparr>input = bs, at_end = e, allocs = []\<rparr>"

text \<open>\<open>AsyncReadExt::read_exact\<close>: all of the bytes, or the error of the transport.\<close>

definition read_exact :: "nat \<Rightarrow> FrameReader \<Rightarrow> (io_error_kind + u8 list) \<times> FrameReader" where
  "read_exact n r =
     (if n \<le> length (input r) then (Inr (take n (input r)), r\<lparr>input := drop n (input r)\<rparr>)
      else (Inl (at_end r), r\<lparr>input := []\<rparr>))"

definition read_frame_with_max_payload ::
    "nat \<Rightarrow> FrameReader \<Rightarrow> (ProtoError + Frame option) \<times> FrameReader" where
  "read_frame_with_max_payload max_payload r =
     (case read_exact HEADER_SIZE r of
        (Inl UnexpectedEof, r) \<Rightarrow> (Inr None, r)
      | (Inl e, r) \<Rightarrow> (Inl (Io e), r)
      | (Inr header, r) \<Rightarrow>
          let content_len = from_be_bytes (header ! 0) (header ! 1) (header ! 2) (header ! 3) in
          if MAX_FRAME_SIZE < content_len
          then (Inl (FrameTooLarge content_len MAX_FRAME_SIZE), r)
          else if content_len = 0 then (Inl (IncompleteFrame 1 0), r)
          else
            let payload_len = unat content_len - 1 in
            if max_payload < payload_len
            then (Inl (FrameTooLarge content_len (of_nat (min (max_payload + 1) (2 ^ 32 - 1)))), r)
            else
              (case read_exact 1 r of
                 (Inl e, r) \<Rightarrow> (Inl (Io e), r)
               | (Inr type_buf, r) \<Rightarrow>
                   let r = r\<lparr>allocs := payload_len # allocs r\<rparr> in
                   if 0 < payload_len then
                     (case read_exact payload_len r of
                        (Inl e, r) \<Rightarrow> (Inl (Io e), r)
                      | (Inr body, r) \<Rightarrow>
                          (Inr (Some \<lparr>msg_type = type_buf ! 0, payload = body\<rparr>), r))
                   else (Inr (Some \<lparr>msg_type = type_buf ! 0, payload = []\<rparr>), r)))"

definition read_frame :: "FrameReader \<Rightarrow> (ProtoError + Frame option) \<times> FrameReader" where
  "read_frame = read_frame_with_max_payload (unat MAX_FRAME_SIZE - 1)"

text \<open>
  A writer appends to what has gone out, unless the transport fails; \<open>wfail\<close> is the error the
  next \<open>write_all\<close> or \<open>flush\<close> reports, if any.
\<close>

record FrameWriter =
  sent :: "u8 list"
  wfail :: "io_error_kind option"

definition writer_new :: FrameWriter where
  "writer_new = \<lparr>sent = [], wfail = None\<rparr>"

definition write_frame :: "Frame \<Rightarrow> FrameWriter \<Rightarrow> (ProtoError + unit) \<times> FrameWriter" where
  "write_frame frame w =
     (case encode_frame frame of
        Inl e \<Rightarrow> (Inl e, w)
      | Inr bytes \<Rightarrow>
          (case wfail w of
             Some e \<Rightarrow> (Inl (Io e), w)
           | None \<Rightarrow> (Inr (), w\<lparr>sent := sent w @ bytes\<rparr>)))"

section \<open>Facts about the encoding\<close>

lemma unat_MAX_FRAME_SIZE: "unat MAX_FRAME_SIZE = 4194304"
  by (simp add: MAX_FRAME_SIZE_def)

lemma content_len_word:
  assumes "n \<le> unat MAX_FRAME_SIZE"
  shows "unat (of_nat n :: u32) = n" "\<not> MAX_FRAME_SIZE < (of_nat n :: u32)"
proof -
  have "n < 2 ^ LENGTH(32)" using assms by (simp add: unat_MAX_FRAME_SIZE)
  then show eq: "unat (of_nat n :: u32) = n" by (simp add: unat_of_nat take_bit_nat_eq_self)
  then show "\<not> MAX_FRAME_SIZE < (of_nat n :: u32)" using assms by (simp add: word_less_nat_alt)
qed

lemma encode_frame_Inr:
  "encode_frame f = Inr bs \<longleftrightarrow>
     length (payload f) < unat MAX_FRAME_SIZE \<and>
     bs = to_be_bytes (of_nat (1 + length (payload f))) @ msg_type f # payload f"
  by (auto simp: encode_frame_def Let_def)

lemma header_of_encoding:
  assumes "encode_frame f = Inr bs"
  obtains a b c d where "bs = [a, b, c, d] @ msg_type f # payload f"
    "from_be_bytes a b c d = of_nat (1 + length (payload f))"
proof -
  let ?w = "of_nat (1 + length (payload f)) :: u32"
  from assms have "bs = to_be_bytes ?w @ msg_type f # payload f" by (simp add: encode_frame_Inr)
  then show thesis
    using from_to_be_bytes [of ?w] by (intro that) (simp_all add: to_be_bytes_def)
qed

lemma encode_frame_length:
  "encode_frame f = Inr bs \<Longrightarrow> length bs = HEADER_SIZE + 1 + length (payload f)"
  by (auto simp: encode_frame_Inr HEADER_SIZE_def)

lemma decode_encode_append:
  assumes enc: "encode_frame f = Inr bs"
  shows "decode_frame (bs @ rest) = Inr (f, length bs)"
proof -
  from enc have small: "1 + length (payload f) \<le> unat MAX_FRAME_SIZE"
    by (auto simp: encode_frame_Inr)
  obtain a b c d where bs: "bs = [a, b, c, d] @ msg_type f # payload f"
    and w: "from_be_bytes a b c d = of_nat (1 + length (payload f))"
    using enc by (rule header_of_encoding)
  have nz: "(of_nat (1 + length (payload f)) :: u32) \<noteq> 0"
    using content_len_word(1) [OF small] by (metis Suc_eq_plus1_left nat.distinct(1) unat_0)
  show ?thesis
    using content_len_word [OF small] nz
    by (simp add: decode_frame_def Let_def bs w HEADER_SIZE_def)
qed

text \<open>What the decoder accepts is an encoding: the consumed prefix is the encoding of the frame.\<close>

lemma decode_frame_Inr:
  assumes dec: "decode_frame buf = Inr (f, n)"
  shows "n \<le> length buf" "encode_frame f = Inr (take n buf)"
proof -
  let ?w = "from_be_bytes (buf ! 0) (buf ! 1) (buf ! 2) (buf ! 3)"
  from dec have len: "\<not> length buf < 4" and max: "\<not> MAX_FRAME_SIZE < ?w"
    and total: "n = 4 + unat ?w" "n \<le> length buf" and nz: "?w \<noteq> 0"
    and f: "f = \<lparr>msg_type = buf ! 4, payload = take (unat ?w - 1) (drop 5 buf)\<rparr>"
    by (auto simp: decode_frame_def Let_def HEADER_SIZE_def split: if_splits)
  then show "n \<le> length buf" by simp
  from nz have pos: "0 < unat ?w" by (simp add: unat_gt_0)
  with total have plen: "length (payload f) = unat ?w - 1" by (simp add: f)
  from max have "unat ?w \<le> unat MAX_FRAME_SIZE" by (simp add: word_less_nat_alt)
  with plen pos have "length (payload f) < unat MAX_FRAME_SIZE" by simp
  moreover have "of_nat (1 + length (payload f)) = ?w"
    using pos by (simp add: plen)
  moreover have "take n buf = [buf ! 0, buf ! 1, buf ! 2, buf ! 3] @ msg_type f # payload f"
  proof -
    from len total pos have 5: "5 \<le> length buf" by simp
    then obtain x0 x1 x2 x3 x4 xs where "buf = x0 # x1 # x2 # x3 # x4 # xs"
      by (metis (no_types) Suc_le_length_iff numeral_nat(3) eval_nat_numeral(2,3) numeral_One One_nat_def BitM.simps)
    with pos total show ?thesis by (cases "unat ?w") (simp_all add: f eval_nat_numeral)
  qed
  ultimately show "encode_frame f = Inr (take n buf)"
    unfolding encode_frame_Inr by (simp add: to_from_be_bytes)
qed

text \<open>The error of a short buffer names the number of bytes that would be enough to go on.\<close>

lemma decode_frame_prefix:
  assumes enc: "encode_frame f = Inr bs" and n: "n < length bs"
  shows "decode_frame (take n bs) = Inl (IncompleteFrame (if n < HEADER_SIZE then HEADER_SIZE else length bs) n)"
proof -
  from enc have small: "1 + length (payload f) \<le> unat MAX_FRAME_SIZE"
    by (auto simp: encode_frame_Inr)
  obtain a b c d where bs: "bs = [a, b, c, d] @ msg_type f # payload f"
    and w: "from_be_bytes a b c d = of_nat (1 + length (payload f))"
    using enc by (rule header_of_encoding)
  show ?thesis
  proof (cases "n < 4")
    case True
    with n show ?thesis by (simp add: decode_frame_def HEADER_SIZE_def)
  next
    case False
    then obtain k where k: "n = 4 + k" by (metis le_Suc_ex not_less)
    with n bs have "k < 1 + length (payload f)" by simp
    with content_len_word [OF small] k show ?thesis
      by (simp add: decode_frame_def Let_def HEADER_SIZE_def bs w eval_nat_numeral)
  qed
qed

section \<open>Prefix codes\<close>

text \<open>
  The contract a message layer needs from a framing: a decoder that recovers an encoded item
  from the front of a buffer and says how much it used. A sequence of encodings then decodes to
  the sequence of items.
\<close>

locale prefix_codec =
  fixes enc :: "'a \<Rightarrow> 'e + 'b list"
    and dec :: "'b list \<Rightarrow> 'e + 'a \<times> nat"
  assumes dec_enc: "enc x = Inr bs \<Longrightarrow> dec (bs @ rest) = Inr (x, length bs)"
begin

lemma enc_inj: "enc x = Inr bs \<Longrightarrow> enc y = Inr bs \<Longrightarrow> x = y"
  by (metis Pair_inject dec_enc sum.inject(2))

lemma enc_prefix_free: "enc x = Inr bs \<Longrightarrow> enc y = Inr (bs @ cs) \<Longrightarrow> cs = []"
  using dec_enc [of x bs cs] dec_enc [of y "bs @ cs" "[]"] by simp

fun dec_many :: "nat \<Rightarrow> 'b list \<Rightarrow> ('e + 'a list \<times> 'b list)" where
  "dec_many 0 buf = Inr ([], buf)"
| "dec_many (Suc n) buf =
     (case dec buf of
        Inl e \<Rightarrow> Inl e
      | Inr (x, k) \<Rightarrow> map_sum id (apfst ((#) x)) (dec_many n (drop k buf)))"

lemma dec_many_enc:
  "list_all2 (\<lambda>x bs. enc x = Inr bs) xs bss \<Longrightarrow>
   dec_many (length xs) (concat bss @ rest) = Inr (xs, rest)"
proof (induction xs bss rule: list_all2_induct)
  case (Cons x xs bs bss)
  then show ?case using dec_enc [of x bs "concat bss @ rest"] by simp
qed simp

end

interpretation fc: prefix_codec encode_frame decode_frame
  by unfold_locales (rule decode_encode_append)

section \<open>Facts about the stream reader\<close>

lemma read_exact_append:
  "length bs = n \<Longrightarrow> read_exact n (r\<lparr>input := bs @ rest\<rparr>) = (Inr bs, r\<lparr>input := rest\<rparr>)"
  by (simp add: read_exact_def)

lemma read_exact_Inr:
  assumes "read_exact n r = (Inr bs, r')"
  shows "length bs = n" "input r = bs @ input r'" "allocs r' = allocs r" "at_end r' = at_end r"
  using assms by (auto simp: read_exact_def split: if_splits)

lemma read_exact_Inl:
  assumes "read_exact n r = (Inl e, r')"
  shows "e = at_end r" "input r' = []" "allocs r' = allocs r" "at_end r' = at_end r"
    "length (input r) < n"
  using assms by (auto simp: read_exact_def split: if_splits)

text \<open>
  The reader gives the next frame when its encoding is next on the stream and its payload is
  within the cap, leaving exactly the bytes after it.
\<close>

lemma read_encoded_frame:
  assumes enc: "encode_frame f = Inr bs" and cap: "length (payload f) \<le> max_payload"
  shows "read_frame_with_max_payload max_payload (r\<lparr>input := bs @ rest\<rparr>) =
    (Inr (Some f), r\<lparr>input := rest, allocs := length (payload f) # allocs r\<rparr>)"
proof -
  from enc have small: "1 + length (payload f) \<le> unat MAX_FRAME_SIZE"
    by (auto simp: encode_frame_Inr)
  obtain a b c d where bs: "bs = [a, b, c, d] @ [msg_type f] @ payload f"
    and w: "from_be_bytes a b c d = of_nat (1 + length (payload f))"
    using enc by (rule header_of_encoding) simp
  have nz: "(of_nat (1 + length (payload f)) :: u32) \<noteq> 0"
    using content_len_word(1) [OF small] by (metis Suc_eq_plus1_left nat.distinct(1) unat_0)
  show ?thesis
    using content_len_word [OF small] nz cap
    by (simp add: read_frame_with_max_payload_def bs w HEADER_SIZE_def read_exact_def Let_def)
qed

text \<open>
  Every outcome of the reader: end of stream inside the header, a transport error, a length
  above the global cap, an empty frame, a payload above the cap of the call, or a frame that was
  on the stream.
\<close>

lemma read_frame_allocs:
  assumes "read_frame_with_max_payload m r = (res, r')"
  shows "allocs r' = allocs r \<or> (\<exists>n\<le>m. allocs r' = n # allocs r \<and> n < unat MAX_FRAME_SIZE)"
proof -
  obtain h r1 where h: "read_exact HEADER_SIZE r = (h, r1)" by fastforce
  show ?thesis
  proof (cases h)
    case (Inl e)
    with h assms show ?thesis
      by (cases e) (auto simp: read_frame_with_max_payload_def dest: read_exact_Inl(3))
  next
    case (Inr hd)
    define w where "w = from_be_bytes (hd ! 0) (hd ! Suc 0) (hd ! 2) (hd ! 3)"
    have r1: "allocs r1 = allocs r" using h Inr read_exact_Inr(3) by fast
    obtain ty r2 where ty: "read_exact 1 r1 = (ty, r2)" by fastforce
    have r2: "allocs r2 = allocs r1"
      using ty by (cases ty) (auto dest: read_exact_Inl(3) read_exact_Inr(3))
    obtain bd r3 where bd: "read_exact (unat w - 1) (r2\<lparr>allocs := (unat w - 1) # allocs r2\<rparr>) = (bd, r3)"
      by fastforce
    have r3: "allocs r3 = (unat w - 1) # allocs r2"
      using bd by (cases bd) (auto dest: read_exact_Inl(3) read_exact_Inr(3))
    have "unat w - 1 < unat MAX_FRAME_SIZE" if "\<not> MAX_FRAME_SIZE < w"
      using that by (simp add: word_less_nat_alt unat_MAX_FRAME_SIZE)
    with assms h Inr ty bd r1 r2 r3 show ?thesis
      by (auto simp: read_frame_with_max_payload_def Let_def simp flip: w_def
          split: sum.splits if_splits)
  qed
qed

lemma read_frame_sound:
  assumes "read_frame_with_max_payload m r = (Inr (Some f), r')"
  shows "length (payload f) \<le> m \<and> (\<exists>bs. encode_frame f = Inr bs \<and> input r = bs @ input r')"
proof -
  from assms obtain hd r1 ty r2 where h: "read_exact HEADER_SIZE r = (Inr hd, r1)"
    and ty: "read_exact 1 r1 = (Inr ty, r2)"
    by (auto simp: read_frame_with_max_payload_def Let_def
        split: prod.splits sum.splits if_splits io_error_kind.splits)
  define w where "w = from_be_bytes (hd ! 0) (hd ! Suc 0) (hd ! 2) (hd ! 3)"
  from assms h ty have max: "\<not> MAX_FRAME_SIZE < w" and nz: "w \<noteq> 0" and cap: "unat w - 1 \<le> m"
    and body: "length (payload f) = unat w - 1 \<and> input r2 = payload f @ input r'"
      "msg_type f = ty ! 0"
    by (auto simp: read_frame_with_max_payload_def Let_def dest: read_exact_Inr(1,2)
        simp flip: w_def split: prod.splits sum.splits if_splits)
  from nz max have pos: "0 < unat w" and le: "unat w \<le> unat MAX_FRAME_SIZE"
    by (auto simp: word_less_nat_alt unat_gt_0)
  have "length hd = 4" "length ty = 1"
    using read_exact_Inr(1) [OF h] read_exact_Inr(1) [OF ty] by (simp_all add: HEADER_SIZE_def)
  then have hd: "hd = to_be_bytes w" and tyl: "ty = [msg_type f]"
    by (auto simp: w_def to_from_be_bytes body(2) eval_nat_numeral length_Suc_conv)
  have "input r = (to_be_bytes w @ [msg_type f] @ payload f) @ input r'"
    using read_exact_Inr(2) [OF h] read_exact_Inr(2) [OF ty] body(1) hd tyl by simp
  moreover have "encode_frame f = Inr (to_be_bytes w @ [msg_type f] @ payload f)"
    using body(1) pos le by (simp add: encode_frame_Inr)
  ultimately show ?thesis using cap body(1) by auto
qed

section \<open>Sequences of frames\<close>

text \<open>A connection: frames written one after the other, and read back in a loop.\<close>

fun write_frames :: "Frame list \<Rightarrow> FrameWriter \<Rightarrow> (ProtoError + unit) \<times> FrameWriter" where
  "write_frames [] w = (Inr (), w)"
| "write_frames (f # fs) w =
     (case write_frame f w of (Inl e, w) \<Rightarrow> (Inl e, w) | (Inr _, w) \<Rightarrow> write_frames fs w)"

fun read_frames :: "nat \<Rightarrow> nat \<Rightarrow> FrameReader \<Rightarrow> (ProtoError + Frame list) \<times> FrameReader" where
  "read_frames max_payload 0 r = (Inr [], r)"
| "read_frames max_payload (Suc n) r =
     (case read_frame_with_max_payload max_payload r of
        (Inl e, r) \<Rightarrow> (Inl e, r)
      | (Inr None, r) \<Rightarrow> (Inr [], r)
      | (Inr (Some f), r) \<Rightarrow> map_prod (map_sum id ((#) f)) id (read_frames max_payload n r))"

definition frame_bytes :: "Frame \<Rightarrow> u8 list" where
  "frame_bytes f = to_be_bytes (of_nat (1 + length (payload f))) @ [msg_type f] @ payload f"

lemma encode_frame_fits:
  "length (payload f) < unat MAX_FRAME_SIZE \<Longrightarrow> encode_frame f = Inr (frame_bytes f)"
  by (simp add: encode_frame_Inr frame_bytes_def)

lemma write_frames_sent:
  assumes "\<forall>f\<in>set fs. length (payload f) < unat MAX_FRAME_SIZE" "wfail w = None"
  shows "write_frames fs w = (Inr (), w\<lparr>sent := sent w @ concat (map frame_bytes fs)\<rparr>)"
  using assms
  by (induction fs arbitrary: w) (simp_all add: write_frame_def encode_frame_fits)

lemma read_frames_sent:
  assumes "\<forall>f\<in>set fs. length (payload f) < unat MAX_FRAME_SIZE \<and> length (payload f) \<le> m"
  shows "read_frames m (length fs) (r\<lparr>input := concat (map frame_bytes fs) @ rest\<rparr>) =
    (Inr fs, r\<lparr>input := rest, allocs := rev (map (\<lambda>f. length (payload f)) fs) @ allocs r\<rparr>)"
  using assms
proof (induction fs arbitrary: r)
  case (Cons f fs)
  from Cons.prems have enc: "encode_frame f = Inr (frame_bytes f)" and cap: "length (payload f) \<le> m"
    by (simp_all add: encode_frame_fits)
  have step: "read_frame_with_max_payload m
      (r\<lparr>input := frame_bytes f @ concat (map frame_bytes fs) @ rest\<rparr>) =
    (Inr (Some f), r\<lparr>input := concat (map frame_bytes fs) @ rest,
                     allocs := length (payload f) # allocs r\<rparr>)"
    by (rule read_encoded_frame [OF enc cap])
  have tail: "read_frames m (length fs)
      (r\<lparr>input := concat (map frame_bytes fs) @ rest, allocs := length (payload f) # allocs r\<rparr>) =
    (Inr fs, r\<lparr>input := rest,
       allocs := rev (map (\<lambda>f. length (payload f)) fs) @ length (payload f) # allocs r\<rparr>)"
    using Cons.IH [of "r\<lparr>allocs := length (payload f) # allocs r\<rparr>"] Cons.prems
    by (cases r) simp
  from step tail show ?case by simp
qed (cases r; simp)

section \<open>Properties\<close>

text \<open>
  C13. A sequence of frames that the writer accepts, written on one connection, is read back as
  the same sequence by a reader whose cap admits every payload; after them the closed connection
  gives end of stream, not an error.
\<close>

theorem frame_stream_roundtrip:
  assumes "\<forall>f\<in>set fs. length (payload f) < unat MAX_FRAME_SIZE \<and> length (payload f) \<le> m"
  shows "(case write_frames fs writer_new of
      (res, w) \<Rightarrow> res = Inr () \<and>
        (case read_frames m (length fs) (reader_new (sent w) UnexpectedEof) of
           (got, r) \<Rightarrow> got = Inr fs \<and>
             fst (read_frame_with_max_payload m r) = Inr None))"
proof -
  from assms have w: "write_frames fs writer_new =
      (Inr (), writer_new\<lparr>sent := concat (map frame_bytes fs)\<rparr>)"
    by (simp add: write_frames_sent writer_new_def)
  have "read_frames m (length fs)
      ((reader_new [] UnexpectedEof)\<lparr>input := concat (map frame_bytes fs) @ []\<rparr>) =
    (Inr fs, (reader_new [] UnexpectedEof)\<lparr>input := [],
       allocs := rev (map (\<lambda>f. length (payload f)) fs) @ allocs (reader_new [] UnexpectedEof)\<rparr>)"
    by (rule read_frames_sent [OF assms])
  then show ?thesis
    by (simp add: w reader_new_def read_frame_with_max_payload_def read_exact_def HEADER_SIZE_def)
qed

theorem frame_stream_roundtrip_witness:
  "case write_frames [\<lparr>msg_type = MSG_HELLO, payload = [7, 8]\<rparr>, \<lparr>msg_type = MSG_HEARTBEAT, payload = []\<rparr>]
       writer_new of
     (res, w) \<Rightarrow> res = Inr () \<and>
       (case read_frames 4096 (length [\<lparr>msg_type = MSG_HELLO, payload = [7, 8]\<rparr>,
              \<lparr>msg_type = MSG_HEARTBEAT, payload = []\<rparr>]) (reader_new (sent w) UnexpectedEof) of
          (got, r) \<Rightarrow> got = Inr [\<lparr>msg_type = MSG_HELLO, payload = [7, 8]\<rparr>,
              \<lparr>msg_type = MSG_HEARTBEAT, payload = []\<rparr>] \<and>
            fst (read_frame_with_max_payload 4096 r) = Inr None)"
  by (rule frame_stream_roundtrip) (simp add: unat_MAX_FRAME_SIZE)

text \<open>
  The decoder is exactly the inverse of the encoder: it accepts a buffer with frame \<open>f\<close> and
  length \<open>n\<close> if and only if the first \<open>n\<close> bytes are the encoding of \<open>f\<close>. So there is one
  encoding per frame, trailing bytes never change what is decoded, and no other input is accepted.
\<close>

theorem decode_frame_exact:
  "decode_frame buf = Inr (f, n) \<longleftrightarrow>
     n \<le> length buf \<and> encode_frame f = Inr (take n buf)"
proof
  assume "decode_frame buf = Inr (f, n)"
  then show "n \<le> length buf \<and> encode_frame f = Inr (take n buf)"
    by (blast intro: decode_frame_Inr)
next
  assume "n \<le> length buf \<and> encode_frame f = Inr (take n buf)"
  then show "decode_frame buf = Inr (f, n)"
    using fc.dec_enc [of f "take n buf" "drop n buf"] by simp
qed

text \<open>
  C24. The streaming reader and the buffer decoder accept the same frames: with the global
  cap, the reader returns frame \<open>f\<close> from a stream exactly when the decoder
  finds \<open>f\<close> at the front of the bytes of the stream; and the reader leaves the bytes after it.
\<close>

theorem read_frame_refines_decode:
  "(\<exists>r'. read_frame (reader_new bs e) = (Inr (Some f), r')
        \<and> input r' = drop n bs \<and> n \<le> length bs)
   \<longleftrightarrow> decode_frame bs = Inr (f, n)"
proof
  assume "\<exists>r'. read_frame (reader_new bs e) = (Inr (Some f), r')
    \<and> input r' = drop n bs \<and> n \<le> length bs"
  then obtain r' where rd: "read_frame (reader_new bs e) = (Inr (Some f), r')"
    and rest: "input r' = drop n bs" "n \<le> length bs" by blast
  obtain cs where cs: "encode_frame f = Inr cs" "bs = cs @ input r'"
    using read_frame_sound [OF rd [unfolded read_frame_def]]
    by (auto simp: reader_new_def encode_frame_Inr)
  from cs(2) rest have "length cs = n"
    by (metis add_diff_cancel_right' diff_diff_cancel length_append length_drop)
  with cs show "decode_frame bs = Inr (f, n)"
    using fc.dec_enc [of f cs "input r'"] by simp
next
  assume dec: "decode_frame bs = Inr (f, n)"
  then have n: "n \<le> length bs" and enc: "encode_frame f = Inr (take n bs)"
    by (blast intro: decode_frame_Inr)+
  from enc have "length (payload f) \<le> unat MAX_FRAME_SIZE - 1"
    by (simp add: encode_frame_Inr unat_MAX_FRAME_SIZE)
  from read_encoded_frame [OF enc this, where r = "reader_new bs e" and rest = "drop n bs"] n
  show "\<exists>r'. read_frame (reader_new bs e) = (Inr (Some f), r')
    \<and> input r' = drop n bs \<and> n \<le> length bs"
    by (auto simp: read_frame_def reader_new_def)
qed

text \<open>
  C25. Whatever a peer sends, a read with payload cap \<open>m\<close> allocates at most one payload buffer,
  of at most \<open>m\<close> bytes and always below the global cap of 4 MiB; and a frame it returns has at
  most \<open>m\<close> bytes of payload.
\<close>

theorem read_frame_bounded_allocation:
  "case read_frame_with_max_payload m (reader_new bs e) of
     (res :: ProtoError + Frame option, r) \<Rightarrow>
       length (allocs r) \<le> 1 \<and> (\<forall>n. n \<in> set (allocs r) \<longleftrightarrow> allocs r = [n]) \<and>
       sum_list (allocs r) \<le> min m (unat MAX_FRAME_SIZE - 1) \<and>
       sum_list (map length (case res of Inr (Some f) \<Rightarrow> [payload f] | _ \<Rightarrow> [])) \<le> m"
proof (cases "read_frame_with_max_payload m (reader_new bs e) :: (ProtoError + Frame option) \<times> FrameReader")
  case (Pair res r)
  then show ?thesis
    using read_frame_allocs [OF Pair]
    by (auto simp: reader_new_def split: sum.splits option.splits dest: read_frame_sound)
qed

end
