(* ===== verification/Wire.thy ===== *)
theory Wire
  imports Snapshots Frame_Codec
begin

text \<open>
  The messages of the wire protocol (\<open>muxtop-proto/src/wire.rs\<close>). The payload serialisation is
  the \<open>bincode\<close> crate, which is a parameter: one encoder and one decoder per payload type. Its
  documented law, that decoding an encoding gives the value back, is the locale
  \<open>bincode_law\<close>; it carries the size limit the sources configure, because a decoder with a limit
  refuses values whose memory footprint is above it.
\<close>

datatype WireMessage =
    Snapshot SystemSnapshot
  | Heartbeat string u64
  | ErrorMsg u16 string
  | Hello string "string option"
  | Welcome string string u32

section \<open>Debug output\<close>

text \<open>The calls on the formatter: a name and the fields handed to it.\<close>

datatype debug_value =
  DSnapshot SystemSnapshot | DString string | DU64 u64 | DU32 u32 | DU16 u16 | DOptStr "string option"

datatype debug_out = DebugTuple string "debug_value list" | DebugStruct string "(string \<times> debug_value) list"

fun wire_fmt :: "WireMessage \<Rightarrow> debug_out" where
  "wire_fmt (Snapshot s) = DebugTuple ''Snapshot'' [DSnapshot s]"
| "wire_fmt (Heartbeat v u) =
     DebugStruct ''Heartbeat'' [(''server_version'', DString v), (''uptime_secs'', DU64 u)]"
| "wire_fmt (ErrorMsg c m) = DebugStruct ''Error'' [(''code'', DU16 c), (''message'', DString m)]"
| "wire_fmt (Hello v t) =
     DebugStruct ''Hello'' [(''client_version'', DString v),
       (''auth_token'', DOptStr (map_option (\<lambda>_. ''[REDACTED]'') t))]"
| "wire_fmt (Welcome v h r) =
     DebugStruct ''Welcome'' [(''server_version'', DString v), (''hostname'', DString h), (''refresh_hz'', DU32 r)]"

section \<open>Frames\<close>

record bincode =
  enc_snapshot :: "SystemSnapshot \<Rightarrow> bincode_error + u8 list"
  dec_snapshot :: "u8 list \<Rightarrow> bincode_error + SystemSnapshot \<times> nat"
  enc_heartbeat :: "string \<times> u64 \<Rightarrow> bincode_error + u8 list"
  dec_heartbeat :: "u8 list \<Rightarrow> bincode_error + (string \<times> u64) \<times> nat"
  enc_error :: "u16 \<times> string \<Rightarrow> bincode_error + u8 list"
  dec_error :: "u8 list \<Rightarrow> bincode_error + (u16 \<times> string) \<times> nat"
  enc_hello :: "string \<times> string option \<Rightarrow> bincode_error + u8 list"
  dec_hello :: "u8 list \<Rightarrow> bincode_error + (string \<times> string option) \<times> nat"
  enc_welcome :: "string \<times> string \<times> u32 \<Rightarrow> bincode_error + u8 list"
  dec_welcome :: "u8 list \<Rightarrow> bincode_error + (string \<times> string \<times> u32) \<times> nat"

definition frame_of :: "u8 \<Rightarrow> bincode_error + u8 list \<Rightarrow> ProtoError + Frame" where
  "frame_of ty enc = (case enc of Inl e \<Rightarrow> Inl (Encode e) | Inr bs \<Rightarrow> Inr \<lparr>msg_type = ty, payload = bs\<rparr>)"

definition encode_snapshot_ref :: "bincode \<Rightarrow> SystemSnapshot \<Rightarrow> ProtoError + Frame" where
  "encode_snapshot_ref bc snap = frame_of MSG_SNAPSHOT (enc_snapshot bc snap)"

fun to_frame :: "bincode \<Rightarrow> WireMessage \<Rightarrow> ProtoError + Frame" where
  "to_frame bc (Snapshot snap) = frame_of MSG_SNAPSHOT (enc_snapshot bc snap)"
| "to_frame bc (Heartbeat server_version uptime) =
     frame_of MSG_HEARTBEAT (enc_heartbeat bc (server_version, uptime))"
| "to_frame bc (ErrorMsg code message) = frame_of MSG_ERROR (enc_error bc (code, message))"
| "to_frame bc (Hello client_version auth_token) =
     frame_of MSG_HELLO (enc_hello bc (client_version, auth_token))"
| "to_frame bc (Welcome server_version hostname refresh_hz) =
     frame_of MSG_WELCOME (enc_welcome bc (server_version, hostname, refresh_hz))"

definition decoded :: "bincode_error + 'a \<times> nat \<Rightarrow> ('a \<Rightarrow> WireMessage) \<Rightarrow> ProtoError + WireMessage" where
  "decoded r mk = (case r of Inl e \<Rightarrow> Inl (Decode e) | Inr (v, _) \<Rightarrow> Inr (mk v))"

definition from_frame :: "bincode \<Rightarrow> Frame \<Rightarrow> ProtoError + WireMessage" where
  "from_frame bc frame =
     (let ty = msg_type frame; p = payload frame in
      if ty = MSG_SNAPSHOT then decoded (dec_snapshot bc p) Snapshot
      else if ty = MSG_HEARTBEAT then decoded (dec_heartbeat bc p) (\<lambda>(v, u). Heartbeat v u)
      else if ty = MSG_ERROR then decoded (dec_error bc p) (\<lambda>(c, m). ErrorMsg c m)
      else if ty = MSG_HELLO then decoded (dec_hello bc p) (\<lambda>(v, t). Hello v t)
      else if ty = MSG_WELCOME then decoded (dec_welcome bc p) (\<lambda>(v, h, r). Welcome v h r)
      else Inl (UnknownMessageType ty))"

section \<open>The law of the serialiser\<close>

text \<open>\<open>fits\<close> says which messages the decoder's size limit admits.\<close>

locale bincode_law =
  fixes bc :: bincode and fits :: "WireMessage \<Rightarrow> bool"
  assumes snapshot_law: "enc_snapshot bc s = Inr bs \<Longrightarrow> fits (Snapshot s) \<Longrightarrow> dec_snapshot bc bs = Inr (s, length bs)"
    and heartbeat_law: "enc_heartbeat bc (v, u) = Inr bs \<Longrightarrow> fits (Heartbeat v u) \<Longrightarrow>
      dec_heartbeat bc bs = Inr ((v, u), length bs)"
    and error_law: "enc_error bc (c, m) = Inr bs \<Longrightarrow> fits (ErrorMsg c m) \<Longrightarrow>
      dec_error bc bs = Inr ((c, m), length bs)"
    and hello_law: "enc_hello bc (v, t) = Inr bs \<Longrightarrow> fits (Hello v t) \<Longrightarrow>
      dec_hello bc bs = Inr ((v, t), length bs)"
    and welcome_law: "enc_welcome bc (v, h, r) = Inr bs \<Longrightarrow> fits (Welcome v h r) \<Longrightarrow>
      dec_welcome bc bs = Inr ((v, h, r), length bs)"
begin

lemma from_to_frame: "to_frame bc m = Inr f \<Longrightarrow> fits m \<Longrightarrow> from_frame bc f = Inr m"
  by (cases m)
    (auto simp: frame_of_def from_frame_def decoded_def msg_consts
      snapshot_law heartbeat_law error_law hello_law welcome_law split: sum.splits)

lemma to_frame_inj: "to_frame bc m = Inr f \<Longrightarrow> to_frame bc n = Inr f \<Longrightarrow> fits m \<Longrightarrow> fits n \<Longrightarrow> m = n"
  by (metis from_to_frame sum.inject(2))

end

lemma encode_snapshot_ref_to_frame: "encode_snapshot_ref bc s = to_frame bc (Snapshot s)"
  by (simp add: encode_snapshot_ref_def)

lemma from_frame_unknown:
  "from_frame bc f = Inl (UnknownMessageType t) \<longleftrightarrow> t = msg_type f \<and> (t = 0 \<or> 5 < t)"
proof -
  have "t = 0 \<or> 5 < t \<longleftrightarrow> t \<noteq> 1 \<and> t \<noteq> 2 \<and> t \<noteq> 3 \<and> t \<noteq> 4 \<and> t \<noteq> 5" for t :: u8
  proof -
    have "unat t \<le> 5 \<Longrightarrow> unat t \<in> {0, 1, 2, 3, 4, 5}" by auto
    then have "t \<le> 5 \<Longrightarrow> t \<in> {0, 1, 2, 3, 4, 5}"
      by (auto simp: word_le_nat_alt word_unat_eq_iff)
    then show ?thesis by auto
  qed
  then show ?thesis
    by (auto simp: from_frame_def Let_def decoded_def msg_consts split: sum.splits if_splits)
qed

section \<open>A concrete serialiser\<close>

text \<open>
  A serialiser that keeps the law on messages with short strings and small numbers: a string is
  its length and its bytes, a number one byte, an option a tag; of the snapshots only the empty
  one is encoded. It shows that the law can hold together with everything built on it.
\<close>

definition put_str :: "string \<Rightarrow> u8 list" where
  "put_str s = of_nat (length s) # map of_char s"

fun get_str :: "u8 list \<Rightarrow> (string \<times> u8 list) option" where
  "get_str [] = None"
| "get_str (n # bs) =
     (if length bs < unat n then None
      else Some (map (\<lambda>b. char_of (unat b)) (take (unat n) bs), drop (unat n) bs))"

fun put_opt :: "string option \<Rightarrow> u8 list" where
  "put_opt None = [0]"
| "put_opt (Some s) = 1 # put_str s"

fun get_opt_str :: "u8 list \<Rightarrow> (string option \<times> u8 list) option" where
  "get_opt_str [] = None"
| "get_opt_str (b # bs) =
     (if b = 0 then Some (None, bs)
      else case get_str bs of None \<Rightarrow> None | Some (s, r) \<Rightarrow> Some (Some s, r))"

definition bc_err :: bincode_error where
  "bc_err = BincodeError ''unexpected end''"

definition finish :: "u8 list \<Rightarrow> ('a \<times> u8 list) option \<Rightarrow> bincode_error + 'a \<times> nat" where
  "finish bs r = (case r of None \<Rightarrow> Inl bc_err | Some (v, rest) \<Rightarrow> Inr (v, length bs - length rest))"

definition empty_snapshot :: SystemSnapshot where
  "empty_snapshot =
     \<lparr>ss_cpu = \<lparr>global_usage = Fin 0, cores = []\<rparr>,
      ss_memory = \<lparr>mem_total = 0, mem_used = 0, mem_available = 0, swap_total = 0, swap_used = 0\<rparr>,
      ss_load = \<lparr>load_one = Fin 0, load_five = Fin 0, load_fifteen = Fin 0, load_uptime_secs = 0\<rparr>,
      ss_processes = [], ss_networks = \<lparr>interfaces = [], total_rx = 0, total_tx = 0\<rparr>,
      ss_containers = None, ss_kube = None, ss_gpu = None, ss_timestamp_ms = 0\<rparr>"

definition sample_bincode :: bincode where
  "sample_bincode =
     \<lparr>enc_snapshot = (\<lambda>s. if s = empty_snapshot then Inr [] else Inl bc_err),
      dec_snapshot = (\<lambda>bs. Inr (empty_snapshot, length bs)),
      enc_heartbeat = (\<lambda>(v, u). Inr (put_str v @ [ucast u])),
      dec_heartbeat = (\<lambda>bs. finish bs (case get_str bs of Some (v, u # r) \<Rightarrow> Some ((v, ucast u), r) | _ \<Rightarrow> None)),
      enc_error = (\<lambda>(c, m). Inr (put_str m @ [ucast (drop_bit 8 c), ucast c])),
      dec_error = (\<lambda>bs. finish bs (case get_str bs of
          Some (m, a # b # r) \<Rightarrow> Some ((push_bit 8 (ucast a) OR ucast b, m), r) | _ \<Rightarrow> None)),
      enc_hello = (\<lambda>(v, t). Inr (put_str v @ put_opt t)),
      dec_hello = (\<lambda>bs. finish bs (case get_str bs of
          Some (v, r) \<Rightarrow> (case get_opt_str r of Some (t, r) \<Rightarrow> Some ((v, t), r) | None \<Rightarrow> None) | None \<Rightarrow> None)),
      enc_welcome = (\<lambda>(v, h, r). Inr (put_str v @ put_str h @ [ucast r])),
      dec_welcome = (\<lambda>bs. finish bs (case get_str bs of
          Some (v, r) \<Rightarrow> (case get_str r of Some (h, z # r) \<Rightarrow> Some ((v, h, ucast z), r) | _ \<Rightarrow> None) | None \<Rightarrow> None))\<rparr>"

fun small_msg :: "WireMessage \<Rightarrow> bool" where
  "small_msg (Snapshot s) \<longleftrightarrow> s = empty_snapshot"
| "small_msg (Heartbeat v u) \<longleftrightarrow> length v < 256 \<and> ucast (ucast u :: u8) = u"
| "small_msg (ErrorMsg c m) \<longleftrightarrow> length m < 256"
| "small_msg (Hello v t) \<longleftrightarrow> length v < 256 \<and> (case t of None \<Rightarrow> True | Some s \<Rightarrow> length s < 256)"
| "small_msg (Welcome v h r) \<longleftrightarrow> length v < 256 \<and> length h < 256 \<and> ucast (ucast r :: u8) = r"

lemma char_of_byte: "char_of (unat (of_char c :: u8)) = c"
proof -
  have "(of_char c :: u8) = of_nat (of_char c)" by (simp add: of_nat_of_char)
  moreover have "(of_char c :: nat) < 256" using nat_of_char_less_256 [of c] by simp
  ultimately have "unat (of_char c :: u8) = of_char c"
    by (simp add: unat_of_nat take_bit_nat_eq_self)
  then show ?thesis by simp
qed

lemma get_put_str: "length s < 256 \<Longrightarrow> get_str (put_str s @ rest) = Some (s, rest)"
proof -
  assume "length s < 256"
  then have "unat (of_nat (length s) :: u8) = length s"
    by (simp add: unat_of_nat take_bit_nat_eq_self)
  then show ?thesis by (simp add: put_str_def char_of_byte o_def)
qed

lemma get_put_opt:
  "(case t of None \<Rightarrow> True | Some s \<Rightarrow> length s < 256) \<Longrightarrow> get_opt_str (put_opt t) = Some (t, [])"
  using get_put_str [of _ "[]"] by (cases t) simp_all

lemma u16_bytes: "push_bit 8 (ucast (ucast (drop_bit 8 c) :: u8)) OR ucast (ucast c :: u8) = c"
  for c :: u16
proof (rule bit_word_eqI)
  fix n assume "n < LENGTH(16)"
  then show "bit (push_bit 8 (ucast (ucast (drop_bit 8 c) :: u8)) OR ucast (ucast c :: u8) :: u16) n = bit c n"
    by (cases "n < 8") (simp_all add: bit_simps, auto)
qed

interpretation sample: bincode_law sample_bincode small_msg
proof unfold_locales
  fix s bs assume "enc_snapshot sample_bincode s = Inr bs" "small_msg (Snapshot s)"
  then show "dec_snapshot sample_bincode bs = Inr (s, length bs)"
    by (simp add: sample_bincode_def)
next
  fix v u bs assume "enc_heartbeat sample_bincode (v, u) = Inr bs" "small_msg (Heartbeat v u)"
  then show "dec_heartbeat sample_bincode bs = Inr ((v, u), length bs)"
    by (auto simp: sample_bincode_def finish_def get_put_str)
next
  fix c m bs assume "enc_error sample_bincode (c, m) = Inr bs" "small_msg (ErrorMsg c m)"
  then show "dec_error sample_bincode bs = Inr ((c, m), length bs)"
    by (auto simp: sample_bincode_def finish_def get_put_str u16_bytes)
next
  fix v t bs assume "enc_hello sample_bincode (v, t) = Inr bs" "small_msg (Hello v t)"
  then show "dec_hello sample_bincode bs = Inr ((v, t), length bs)"
    by (auto simp: sample_bincode_def finish_def get_put_str get_put_opt)
next
  fix v h r bs assume "enc_welcome sample_bincode (v, h, r) = Inr bs" "small_msg (Welcome v h r)"
  then show "dec_welcome sample_bincode bs = Inr ((v, h, r), length bs)"
    by (auto simp: sample_bincode_def finish_def get_put_str)
qed

section \<open>Properties\<close>

text \<open>
  A message that was turned into a frame and put on the wire arrives as the same message:
  encoding to a frame, framing, decoding the frame from the bytes (whatever follows them) and
  decoding the message compose to the identity. This rests on the documented law of the payload
  serialiser, within its size limit.
\<close>

theorem wire_roundtrip:
  assumes "bincode_law bc fits" "fits m" "to_frame bc m = Inr f" "encode_frame f = Inr bs"
  shows "decode_frame (bs @ rest) = Inr (f, length bs) \<and> from_frame bc f = Inr m"
  using bincode_law.from_to_frame [OF assms(1,3,2)] fc.dec_enc [OF assms(4)] by blast

theorem wire_roundtrip_witness:
  "\<exists>f bs. to_frame sample_bincode (Hello ''0.5'' (Some ''tok'')) = Inr f \<and> encode_frame f = Inr bs \<and>
     decode_frame (bs @ [1, 2]) = Inr (f, length bs) \<and>
     from_frame sample_bincode f = Inr (Hello ''0.5'' (Some ''tok''))"
proof -
  obtain f where f: "to_frame sample_bincode (Hello ''0.5'' (Some ''tok'')) = Inr f"
    and l: "length (payload f) = 9"
    by (simp add: sample_bincode_def frame_of_def put_str_def)
  from l have e: "encode_frame f = Inr (frame_bytes f)"
    by (simp add: encode_frame_fits unat_MAX_FRAME_SIZE)
  have "small_msg (Hello ''0.5'' (Some ''tok''))" by simp
  from wire_roundtrip [OF sample.bincode_law_axioms this f e] f e show ?thesis by blast
qed

text \<open>
  The debug output of a message never depends on the authentication token: two messages that
  differ in the token only print the same.
\<close>

theorem debug_redacts_token:
  "wire_fmt (Hello v (Some t)) = wire_fmt (Hello v (Some t')) \<and>
   wire_fmt (Hello v (Some t)) =
     DebugStruct ''Hello'' [(''client_version'', DString v), (''auth_token'', DOptStr (Some ''[REDACTED]''))]"
  by simp

text \<open>
  A frame is refused as an unknown message type exactly when its type byte is none of the five
  the protocol has; every other frame is decoded or fails in the payload decoder.
\<close>

theorem unknown_type_iff:
  "from_frame bc f = Inl (UnknownMessageType t) \<longleftrightarrow> t = msg_type f \<and> (t = 0 \<or> 5 < t)"
  by (rule from_frame_unknown)

end
