(* ===== verification/Rate_Limiter.thy ===== *)
theory Rate_Limiter
  imports Rust_Float "HOL-Library.AList"
begin

text \<open>
  The per-address token bucket of the accept loop (\<open>muxtop-server/src/rate_limit.rs\<close>). The bucket
  map is an association list with distinct keys; the clock reading is an argument. The module
  claims that evicting refilled buckets does not change which connections are admitted: that is a
  refinement to a limiter that never evicts, proved at the end for the \<open>f32\<close> arithmetic of the
  code.
\<close>

definition SWEEP_SIZE_TRIGGER :: nat where "SWEEP_SIZE_TRIGGER = 1024"
definition SWEEP_INTERVAL :: duration where "SWEEP_INTERVAL = from_secs 30"
definition MIN_SWEEP_GAP :: duration where "MIN_SWEEP_GAP = from_secs 1"
definition MAX_TRACKED_IPS :: nat where "MAX_TRACKED_IPS = 65536"

record Bucket =
  last_refill :: instant
  tokens :: fl

definition refilled_at :: "Bucket \<Rightarrow> instant \<Rightarrow> fl \<Rightarrow> fl \<Rightarrow> fl" where
  "refilled_at b now refill burst =
     (let elapsed = as_secs F32 (duration_since now (last_refill b))
      in fmin (fadd F32 (tokens b) (fmul F32 elapsed refill)) burst)"

record 'ip LimiterState =
  buckets :: "('ip \<times> Bucket) list"
  last_sweep :: instant
  ceiling_logged :: bool

definition sweep :: "instant \<Rightarrow> fl \<Rightarrow> fl \<Rightarrow> 'ip LimiterState \<Rightarrow> 'ip LimiterState" where
  "sweep now refill burst s =
     s\<lparr>buckets := filter (\<lambda>(_, b). flt (refilled_at b now refill burst) burst) (buckets s),
       last_sweep := now\<rparr>"

record 'ip RateLimiter =
  refill_per_sec :: fl
  burst :: fl
  max_tracked :: nat
  lstate :: "'ip LimiterState"

definition with_max_tracked :: "instant \<Rightarrow> fl \<Rightarrow> fl \<Rightarrow> nat \<Rightarrow> 'ip RateLimiter" where
  "with_max_tracked now r b m =
     \<lparr>refill_per_sec = r, burst = b, max_tracked = m,
      lstate = \<lparr>buckets = [], last_sweep = now, ceiling_logged = False\<rparr>\<rparr>"

definition limiter_new :: "instant \<Rightarrow> fl \<Rightarrow> fl \<Rightarrow> 'ip RateLimiter" where
  "limiter_new now r b = with_max_tracked now r b MAX_TRACKED_IPS"

text \<open>The part of \<open>try_admit\<close> after the map has been bounded: refill, then take a token.\<close>

definition take_token :: "instant \<Rightarrow> fl \<Rightarrow> fl \<Rightarrow> Bucket option \<Rightarrow> bool \<times> Bucket" where
  "take_token now refill bst ob =
     (let b = (case ob of Some b \<Rightarrow> b | None \<Rightarrow> \<lparr>last_refill = now, tokens = bst\<rparr>);
          t = refilled_at b now refill bst
      in if fle (Fin 1) t then (True, \<lparr>last_refill = now, tokens = fsub F32 t (Fin 1)\<rparr>)
         else (False, \<lparr>last_refill = now, tokens = t\<rparr>))"

definition try_admit :: "instant \<Rightarrow> 'ip \<Rightarrow> 'ip RateLimiter \<Rightarrow> bool \<times> 'ip RateLimiter" where
  "try_admit now ip rl =
     (if feq (refill_per_sec rl) (Fin 0) then (True, rl)
      else
        let s = lstate rl;
            unknown = (map_of (buckets s) ip = None);
            since_sweep = duration_since now (last_sweep s);
            s = (if unknown \<and> MIN_SWEEP_GAP \<le> since_sweep \<and>
                    (SWEEP_SIZE_TRIGGER \<le> length (buckets s) \<or> SWEEP_INTERVAL \<le> since_sweep)
                 then sweep now (refill_per_sec rl) (burst rl) s else s)
        in if unknown \<and> max_tracked rl \<le> length (buckets s)
           then (False, rl\<lparr>lstate := s\<lparr>ceiling_logged := True\<rparr>\<rparr>)
           else
             let s = (if unknown then s\<lparr>ceiling_logged := False\<rparr> else s);
                 (ok, b) = take_token now (refill_per_sec rl) (burst rl) (map_of (buckets s) ip)
             in (ok, rl\<lparr>lstate := s\<lparr>buckets := AList.update ip b (buckets s)\<rparr>\<rparr>))"

text \<open>A run of the accept loop: the decisions for a sequence of connection attempts.\<close>

fun admits :: "(instant \<times> 'ip) list \<Rightarrow> 'ip RateLimiter \<Rightarrow> bool list \<times> 'ip RateLimiter" where
  "admits [] rl = ([], rl)"
| "admits ((now, ip) # rest) rl =
     (case try_admit now ip rl of
        (ok, rl) \<Rightarrow> (case admits rest rl of (oks, rl) \<Rightarrow> (ok # oks, rl)))"

section \<open>The memory bound\<close>

lemma length_update:
  "length (AList.update k v xs) = (if map_of xs k = None then Suc (length xs) else length xs)"
  by (induction xs) auto

lemma try_admit_config [simp]:
  "max_tracked (snd (try_admit now ip rl)) = max_tracked rl"
  "burst (snd (try_admit now ip rl)) = burst rl"
  "refill_per_sec (snd (try_admit now ip rl)) = refill_per_sec rl"
  by (simp_all add: try_admit_def Let_def split: prod.splits)

lemma map_of_filter_None: "map_of xs k = None \<Longrightarrow> map_of (filter P xs) k = None"
  by (induction xs) (auto split: if_splits)

lemma try_admit_bound:
  assumes "length (buckets (lstate rl)) \<le> max_tracked rl"
  shows "length (buckets (lstate (snd (try_admit now ip rl)))) \<le> max_tracked rl"
proof -
  have "length (buckets (sweep now r b s)) \<le> length (buckets s)" for r b and s :: "'a LimiterState"
    by (simp add: sweep_def)
  then have "length (buckets (sweep now r b (lstate rl))) \<le> max_tracked rl" for r b
    using assms le_trans by blast
  then show ?thesis
    using assms
    by (auto simp: try_admit_def Let_def length_update sweep_def not_le Suc_le_eq map_of_filter_None
        split: prod.splits)
qed

lemma admits_bound:
  "length (buckets (lstate rl)) \<le> max_tracked rl \<Longrightarrow>
   length (buckets (lstate (snd (admits calls rl)))) \<le> max_tracked rl"
proof (induction calls arbitrary: rl)
  case (Cons c calls)
  obtain now ip where c: "c = (now, ip)" by fastforce
  obtain ok rl1 where t: "try_admit now ip rl = (ok, rl1)" by fastforce
  have "length (buckets (lstate rl1)) \<le> max_tracked rl1" "max_tracked rl1 = max_tracked rl"
    using try_admit_bound [OF Cons.prems, of now ip] try_admit_config(1) [of now ip rl] by (simp_all add: t)
  with Cons.IH [of rl1] show ?case by (simp add: c t case_prod_unfold)
qed simp

section \<open>The limiter that never evicts\<close>

text \<open>
  The specification: a bucket per address, kept forever, no ceiling. Its state is a map, its step
  takes a token from the bucket of the address.
\<close>

definition spec_admit :: "fl \<Rightarrow> fl \<Rightarrow> instant \<Rightarrow> 'ip \<Rightarrow> ('ip \<Rightarrow> Bucket option) \<Rightarrow> bool \<times> ('ip \<Rightarrow> Bucket option)" where
  "spec_admit refill bst now ip m =
     (if feq refill (Fin 0) then (True, m)
      else let (ok, b) = take_token now refill bst (m ip) in (ok, m(ip \<mapsto> b)))"

fun spec_admits :: "fl \<Rightarrow> fl \<Rightarrow> (instant \<times> 'ip) list \<Rightarrow> ('ip \<Rightarrow> Bucket option) \<Rightarrow> bool list" where
  "spec_admits refill bst [] m = []"
| "spec_admits refill bst ((now, ip) # rest) m =
     (case spec_admit refill bst now ip m of (ok, m) \<Rightarrow> ok # spec_admits refill bst rest m)"

text \<open>
  The configurations the argument is about: a finite non-negative rate, and a burst that is an
  \<open>f32\<close> of at least one (the server passes the rate, raised to one).
\<close>

definition config_ok :: "fl \<Rightarrow> fl \<Rightarrow> bool" where
  "config_ok refill bst \<longleftrightarrow>
     (\<exists>r b. refill = Fin r \<and> bst = Fin b \<and> 0 \<le> r \<and> 1 \<le> b \<and> fl_round F32 b = Fin b)"

text \<open>Elapsed times stay below 2 to the 24 seconds (194 days) in the runs considered.\<close>

definition horizon :: duration where
  "horizon = (2 ^ 24 - 1) * nanos_per_sec"

definition bucket_ok :: "fl \<Rightarrow> Bucket \<Rightarrow> bool" where
  "bucket_ok bst b \<longleftrightarrow> (\<exists>x y. tokens b = Fin x \<and> bst = Fin y \<and> 0 \<le> x \<and> x \<le> y)"

lemma as_secs_fin:
  assumes "d < horizon"
  shows "\<exists>x\<ge>0. as_secs F32 d = Fin x"
proof -
  have "d div nanos_per_sec < 2 ^ 24 - 1"
    using assms by (simp add: horizon_def div_less_iff_less_mult)
  then have s: "Suc (d div nanos_per_sec) < 2 ^ 24" by simp
  have "fle (as_secs F32 d) (fadd F32 (of_nat_fl F32 (d div nanos_per_sec)) (Fin 1))"
    unfolding as_secs_F32 subsec_one [symmetric]
    by (intro fadd_mono of_nat_fl_nonneg subsec_nonneg fle_refl subsec_mono)
      (auto simp: less_imp_le nonneg_not_NaN of_nat_fl_nonneg)
  also have "fadd F32 (of_nat_fl F32 (d div nanos_per_sec)) (Fin 1) = Fin (of_nat (Suc (d div nanos_per_sec)))"
    using s of_nat_fl_F32_exact [of "Suc (d div nanos_per_sec)"]
    by (subst of_nat_fl_F32_exact) (auto simp: of_nat_fl_def add.commute)
  finally show ?thesis using as_secs_nonneg [of d] by (auto simp: nonneg_cases fle_def)
qed

lemma refill_amount:
  assumes "config_ok refill bst" "bucket_ok bst b" "last_refill b \<le> now" "now < horizon"
  shows "nonneg (fadd F32 (tokens b) (fmul F32 (as_secs F32 (duration_since now (last_refill b))) refill))"
proof -
  from assms obtain r x where r: "refill = Fin r" "0 \<le> r" and x: "tokens b = Fin x" "0 \<le> x"
    by (auto simp: config_ok_def bucket_ok_def)
  have "duration_since now (last_refill b) < horizon" using assms(4) by (simp add: duration_since_def)
  then obtain e where e: "as_secs F32 (duration_since now (last_refill b)) = Fin e" "0 \<le> e"
    using as_secs_fin by blast
  show ?thesis
    unfolding e r x using e(2) r(2) x(2)
    by (intro fadd_nonneg fmul_nonneg) (auto simp: nonneg_cases)
qed

lemma refilled_mono:
  assumes "config_ok refill bst" "bucket_ok bst b" "last_refill b \<le> now" "now \<le> now'" "now' < horizon"
  shows "fle (fadd F32 (tokens b) (fmul F32 (as_secs F32 (duration_since now (last_refill b))) refill))
             (fadd F32 (tokens b) (fmul F32 (as_secs F32 (duration_since now' (last_refill b))) refill))"
proof -
  from assms obtain r x where r: "refill = Fin r" "0 \<le> r" and x: "tokens b = Fin x" "0 \<le> x"
    by (auto simp: config_ok_def bucket_ok_def)
  let ?d = "duration_since now (last_refill b)" and ?d' = "duration_since now' (last_refill b)"
  have d: "?d \<le> ?d'" "?d < horizon" "?d' < horizon" using assms(4,5) by (auto simp: duration_since_def)
  then obtain e e' where e: "as_secs F32 ?d = Fin e" "0 \<le> e" and e': "as_secs F32 ?d' = Fin e'"
    using as_secs_fin by blast
  have "?d' div nanos_per_sec < 2 ^ 24"
    using d(3) by (simp add: horizon_def div_less_iff_less_mult)
  with d(1) have "fle (as_secs F32 ?d) (as_secs F32 ?d')" by (rule as_secs_mono)
  then have "e \<le> e'" by (simp add: e e')
  then show ?thesis
    unfolding e e' r x using e(2) r(2) x(2)
    by (intro fadd_mono fmul_mono fmul_nonneg fle_refl) (auto simp: nonneg_cases)
qed

text \<open>A bucket that has refilled to the burst stays so, and then acts like a fresh bucket.\<close>

definition full_at :: "fl \<Rightarrow> fl \<Rightarrow> Bucket \<Rightarrow> instant \<Rightarrow> bool" where
  "full_at refill bst b now \<longleftrightarrow> refilled_at b now refill bst = bst"

lemma config_burst: "config_ok refill bst \<Longrightarrow> bst \<noteq> NaN"
  by (auto simp: config_ok_def)

lemma fmin_eq_right: "a \<noteq> NaN \<Longrightarrow> b \<noteq> NaN \<Longrightarrow> fmin a b = b \<longleftrightarrow> fle b a"
  by (cases a; cases b) (auto simp: fmin_def fle_def)

lemma full_at_iff:
  assumes "config_ok refill bst" "bucket_ok bst b" "last_refill b \<le> now" "now < horizon"
  shows "full_at refill bst b now \<longleftrightarrow> \<not> flt (refilled_at b now refill bst) bst"
proof -
  let ?a = "fadd F32 (tokens b) (fmul F32 (as_secs F32 (duration_since now (last_refill b))) refill)"
  have a: "?a \<noteq> NaN" using refill_amount [OF assms] by (rule nonneg_not_NaN)
  have "\<not> flt (fmin ?a bst) bst \<longleftrightarrow> fle bst ?a" using a config_burst [OF assms(1)] by (rule fmin_ge_right)
  moreover have "fmin ?a bst = bst \<longleftrightarrow> fle bst ?a"
    using a config_burst [OF assms(1)] by (rule fmin_eq_right)
  ultimately show ?thesis by (simp add: full_at_def refilled_at_def Let_def)
qed

lemma full_at_later:
  assumes "config_ok refill bst" "bucket_ok bst b" "last_refill b \<le> now" "now \<le> now'" "now' < horizon"
    and "full_at refill bst b now"
  shows "full_at refill bst b now'"
proof -
  let ?a = "\<lambda>t. fadd F32 (tokens b) (fmul F32 (as_secs F32 (duration_since t (last_refill b))) refill)"
  have "?a now \<noteq> NaN"
    using refill_amount [OF assms(1-3)] assms(4,5) by (intro nonneg_not_NaN) simp
  then have "fle bst (?a now)"
    using assms(6) config_burst [OF assms(1)]
    by (simp add: full_at_def refilled_at_def Let_def fmin_eq_right)
  then have "fle bst (?a now')" using refilled_mono [OF assms(1-5)] by (rule fle_trans)
  then show ?thesis by (simp add: full_at_def refilled_at_def Let_def fmin_right)
qed

lemma fresh_bucket_full:
  assumes "config_ok refill bst"
  shows "refilled_at \<lparr>last_refill = now, tokens = bst\<rparr> now refill bst = bst"
proof -
  from assms obtain r b where c: "refill = Fin r" "bst = Fin b" "1 \<le> b" "fl_round F32 b = Fin b"
    by (auto simp: config_ok_def)
  have z: "fl_round F32 0 = Fin 0" by (simp add: fl_round_cases)
  have zero: "as_secs F32 0 = Fin 0"
    by (simp add: as_secs_def of_nat_fl_def nanos_exact [unfolded of_nat_fl_def] z)
  show ?thesis using c by (simp add: refilled_at_def duration_since_def zero z fmin_def)
qed

lemma take_token_fresh:
  assumes "config_ok refill bst" "full_at refill bst b now"
  shows "take_token now refill bst (Some b) = take_token now refill bst None"
  using assms fresh_bucket_full [OF assms(1), of now]
  by (simp add: take_token_def full_at_def)

section \<open>The simulation\<close>

definition sim :: "fl \<Rightarrow> fl \<Rightarrow> instant \<Rightarrow> ('ip \<times> Bucket) list \<Rightarrow> ('ip \<Rightarrow> Bucket option) \<Rightarrow> bool" where
  "sim refill bst now bs m \<longleftrightarrow>
     distinct (map fst bs) \<and>
     (\<forall>ip b. m ip = Some b \<longrightarrow> bucket_ok bst b \<and> last_refill b \<le> now) \<and>
     (\<forall>ip b. map_of bs ip = Some b \<longrightarrow> m ip = Some b) \<and>
     (\<forall>ip b. map_of bs ip = None \<longrightarrow> m ip = Some b \<longrightarrow> full_at refill bst b now)"

lemma sim_later:
  assumes "config_ok refill bst" "sim refill bst now bs m" "now \<le> now'" "now' < horizon"
  shows "sim refill bst now' bs m"
proof -
  have "full_at refill bst b now'" if "map_of bs ip = None" "m ip = Some b" for ip b
    using that assms full_at_later [OF assms(1) _ _ assms(3,4)] by (auto simp: sim_def)
  moreover have "last_refill b \<le> now'" if "m ip = Some b" for ip b
    using that assms(2,3) by (fastforce simp: sim_def)
  ultimately show ?thesis using assms(2) unfolding sim_def by blast
qed

lemma map_of_filter_distinct:
  "distinct (map fst bs) \<Longrightarrow> map_of (filter (\<lambda>(_, b). P b) bs) ip =
     (case map_of bs ip of Some b \<Rightarrow> if P b then Some b else None | None \<Rightarrow> None)"
proof (induction bs)
  case (Cons x bs)
  then show ?case
    by (cases x) (auto simp: image_iff map_of_eq_None_iff split: option.splits dest: map_of_SomeD)
qed simp

lemma sim_sweep:
  assumes "config_ok refill bst" "sim refill bst now bs m" "now < horizon"
  shows "sim refill bst now (filter (\<lambda>(_, b). flt (refilled_at b now refill bst) bst) bs) m"
    (is "sim _ _ _ ?bs' _")
proof -
  from assms(2) have d: "distinct (map fst bs)" by (simp add: sim_def)
  have full: "full_at refill bst b now"
    if "m ip = Some b" "\<not> flt (refilled_at b now refill bst) bst" for ip b
    using that assms full_at_iff [OF assms(1) _ _ assms(3)] by (auto simp: sim_def)
  have full_in: "full_at refill bst b now"
    if "(ip, b) \<in> set bs" "\<not> flt (refilled_at b now refill bst) bst" for ip b
    using that assms(2) d by (intro full [of ip]) (auto simp: sim_def)
  have "distinct (map fst ?bs')" using d by (rule distinct_map_filter)
  then show ?thesis
    using assms(2) d unfolding sim_def map_of_filter_distinct [OF d]
    by (auto split: option.splits if_splits intro: full_in)
qed

lemma refilled_range:
  assumes "config_ok refill bst" "bucket_ok bst b" "last_refill b \<le> now" "now < horizon"
  shows "\<exists>x y. refilled_at b now refill bst = Fin x \<and> bst = Fin y \<and> 0 \<le> x \<and> x \<le> y"
proof -
  let ?a = "fadd F32 (tokens b) (fmul F32 (as_secs F32 (duration_since now (last_refill b))) refill)"
  from assms(1) obtain y where y: "bst = Fin y" "1 \<le> y" by (auto simp: config_ok_def)
  have "nonneg bst" using y by (simp add: nonneg_cases)
  with refill_amount [OF assms] have "nonneg (fmin ?a bst)" by (rule fmin_nonneg)
  moreover have "fle (fmin ?a bst) bst" using y by (intro fmin_le) simp
  ultimately obtain x where "fmin ?a bst = Fin x" "0 \<le> x" "x \<le> y"
    using y by (cases "fmin ?a bst") (auto simp: nonneg_def fle_def)
  with y show ?thesis by (auto simp: refilled_at_def Let_def)
qed

lemma take_token_ok:
  assumes "config_ok refill bst" "now < horizon"
    and "\<And>b. ob = Some b \<Longrightarrow> bucket_ok bst b \<and> last_refill b \<le> now"
  shows "bucket_ok bst (snd (take_token now refill bst ob)) \<and>
    last_refill (snd (take_token now refill bst ob)) = now"
proof -
  let ?b = "case ob of Some b \<Rightarrow> b | None \<Rightarrow> \<lparr>last_refill = now, tokens = bst\<rparr>"
  from assms(1) obtain y where y: "bst = Fin y" "1 \<le> y" "fl_round F32 y = Fin y" by (auto simp: config_ok_def)
  have "bucket_ok bst ?b \<and> last_refill ?b \<le> now"
    using assms(3) y by (cases ob) (auto simp: bucket_ok_def)
  then obtain x where x: "refilled_at ?b now refill bst = Fin x" "0 \<le> x" "x \<le> y"
    using refilled_range [OF assms(1) _ _ assms(2)] y(1) by blast
  have "\<exists>z. fsub F32 (Fin x) (Fin 1) = Fin z \<and> 0 \<le> z \<and> z \<le> y" if "1 \<le> x"
  proof -
    have "nonneg (fl_round F32 (x - 1))" "fle (fl_round F32 (x - 1)) (fl_round F32 y)"
      using that x(3) by (auto intro!: fl_round_nonneg fl_round_mono)
    then show ?thesis using y(3) by (auto simp: fsub_def nonneg_cases fle_def)
  qed
  with x y show ?thesis by (auto simp: take_token_def Let_def bucket_ok_def)
qed

lemma sim_step:
  assumes cfg: "config_ok refill bst" and s: "sim refill bst now bs m" and h: "now < horizon"
  shows "take_token now refill bst (map_of bs ip) = take_token now refill bst (m ip)"
    and "sim refill bst now (AList.update ip (snd (take_token now refill bst (m ip))) bs)
           (m(ip \<mapsto> snd (take_token now refill bst (m ip))))"
proof -
  show eq: "take_token now refill bst (map_of bs ip) = take_token now refill bst (m ip)"
  proof (cases "map_of bs ip")
    case None
    then show ?thesis
      using s take_token_fresh [OF cfg] by (cases "m ip") (auto simp: sim_def)
  qed (use s in \<open>auto simp: sim_def\<close>)
  have ok: "bucket_ok bst (snd (take_token now refill bst (m ip))) \<and>
      last_refill (snd (take_token now refill bst (m ip))) = now"
    by (rule take_token_ok [OF cfg h]) (use s in \<open>auto simp: sim_def\<close>)
  show "sim refill bst now (AList.update ip (snd (take_token now refill bst (m ip))) bs)
      (m(ip \<mapsto> snd (take_token now refill bst (m ip))))"
    using s ok by (auto simp: sim_def distinct_update update_conv')
qed

text \<open>
  While the addresses fit below the ceiling, one call decides like the specification and keeps
  the simulation.
\<close>

lemma try_admit_simulates:
  assumes cfg: "config_ok (refill_per_sec rl) (burst rl)"
    and s: "sim (refill_per_sec rl) (burst rl) now0 (buckets (lstate rl)) m"
    and t: "now0 \<le> now" "now < horizon"
    and I: "finite I" "fst ` set (buckets (lstate rl)) \<subseteq> I" "ip \<in> I" "card I \<le> max_tracked rl"
    and r: "try_admit now ip rl = (ok, rl')"
  shows "\<exists>m'. spec_admit (refill_per_sec rl) (burst rl) now ip m = (ok, m') \<and>
    sim (refill_per_sec rl) (burst rl) now (buckets (lstate rl')) m' \<and>
    fst ` set (buckets (lstate rl')) \<subseteq> I"
proof (cases "feq (refill_per_sec rl) (Fin 0)")
  case True
  with r have "rl' = rl" "ok" by (auto simp: try_admit_def)
  with True I sim_later [OF cfg s t] show ?thesis by (simp add: spec_admit_def)
next
  case False
  define bs where "bs = (if map_of (buckets (lstate rl)) ip = None \<and>
      MIN_SWEEP_GAP \<le> duration_since now (last_sweep (lstate rl)) \<and>
      (SWEEP_SIZE_TRIGGER \<le> length (buckets (lstate rl)) \<or>
       SWEEP_INTERVAL \<le> duration_since now (last_sweep (lstate rl)))
    then filter (\<lambda>(_, b). flt (refilled_at b now (refill_per_sec rl) (burst rl)) (burst rl)) (buckets (lstate rl))
    else buckets (lstate rl))"
  have sim: "sim (refill_per_sec rl) (burst rl) now bs m"
    using sim_later [OF cfg s t] sim_sweep [OF cfg sim_later [OF cfg s t] t(2)]
    by (simp add: bs_def)
  have sub: "fst ` set bs \<subseteq> I" using I(2) by (auto simp: bs_def)
  have unk: "map_of bs ip = None" if "map_of (buckets (lstate rl)) ip = None"
    using that by (simp add: bs_def map_of_filter_None)
  have room: "length bs < max_tracked rl" if "map_of (buckets (lstate rl)) ip = None"
  proof -
    have "ip \<notin> fst ` set bs" using unk [OF that] by (simp add: map_of_eq_None_iff)
    with sub I(1,3) have "card (fst ` set bs) < card I" by (intro psubset_card_mono) auto
    moreover have "card (fst ` set bs) = length bs"
      using sim distinct_card [of "map fst bs"] by (simp add: sim_def)
    ultimately show ?thesis using I(4) by simp
  qed
  let ?t = "take_token now (refill_per_sec rl) (burst rl) (m ip)"
  have "fst ?t = ok \<and> buckets (lstate rl') = AList.update ip (snd ?t) bs"
    using r False room sim_step(1) [OF cfg sim t(2), of ip]
    by (auto simp: try_admit_def Let_def bs_def sweep_def split: prod.splits if_splits)
  then show ?thesis
    using sim_step(2) [OF cfg sim t(2), of ip] False sub I(3)
    by (auto simp: spec_admit_def dom_update [unfolded dom_map_of_conv_image_fst] split: prod.splits)
qed

lemma admits_simulate:
  assumes "config_ok (refill_per_sec rl) (burst rl)"
    and "sim (refill_per_sec rl) (burst rl) now0 (buckets (lstate rl)) m"
    and "sorted_wrt (\<le>) (now0 # map fst calls)" "\<forall>(t, ip)\<in>set calls. t < horizon"
    and "finite I" "fst ` set (buckets (lstate rl)) \<union> snd ` set calls \<subseteq> I" "card I \<le> max_tracked rl"
  shows "fst (admits calls rl) = spec_admits (refill_per_sec rl) (burst rl) calls m"
  using assms
proof (induction calls arbitrary: rl m now0)
  case (Cons c calls)
  obtain now ip where c: "c = (now, ip)" by fastforce
  obtain ok rl' where t: "try_admit now ip rl = (ok, rl')" by fastforce
  have cfg': "max_tracked rl' = max_tracked rl" "burst rl' = burst rl" "refill_per_sec rl' = refill_per_sec rl"
    using try_admit_config [of now ip rl] by (simp_all add: t)
  have "now0 \<le> now" "now < horizon" "ip \<in> I" "fst ` set (buckets (lstate rl)) \<subseteq> I"
    using Cons.prems(3,4,6) by (auto simp: c)
  then obtain m' where m': "spec_admit (refill_per_sec rl) (burst rl) now ip m = (ok, m')"
    "sim (refill_per_sec rl) (burst rl) now (buckets (lstate rl')) m'"
    "fst ` set (buckets (lstate rl')) \<subseteq> I"
    using try_admit_simulates [OF Cons.prems(1,2) _ _ Cons.prems(5) _ _ Cons.prems(7) t] by blast
  have "fst (admits calls rl') = spec_admits (refill_per_sec rl) (burst rl) calls m'"
    using Cons.IH [of rl' now m'] Cons.prems m'(2,3) cfg' by (auto simp: c)
  then show ?case by (simp add: c t m'(1) case_prod_unfold)
qed simp

section \<open>Properties\<close>

text \<open>
  The limiter's memory is bounded: however many addresses connect and whenever they do, it
  never tracks more than 65536 of them.
\<close>

theorem rate_limiter_bounded:
  "length (buckets (lstate (snd (admits calls (limiter_new t0 r b))))) \<le> 65536"
  using admits_bound [of "limiter_new t0 r b" calls]
  by (simp add: limiter_new_def with_max_tracked_def MAX_TRACKED_IPS_def)

text \<open>
  C9. Evicting refilled buckets is invisible: for every sequence of attempts in time order over
  194 days, from at most as many addresses as the limiter tracks, its decisions are those of the
  token bucket that keeps every address forever. The rate is finite and non-negative and the burst
  an \<open>f32\<close> of at least one, as the server configures it.
\<close>

theorem eviction_preserves_decisions:
  assumes "config_ok r b"
    and "sorted_wrt (\<le>) (t0 # map fst calls)" "list_all (\<lambda>(t, ip). t < horizon) calls"
    and "card (snd ` set calls) \<le> MAX_TRACKED_IPS"
  shows "fst (admits calls (limiter_new t0 r b)) = spec_admits r b calls (\<lambda>_. None)"
  using admits_simulate [of "limiter_new t0 r b" t0 "\<lambda>_. None" calls "snd ` set calls"] assms
  by (simp add: limiter_new_def with_max_tracked_def sim_def list_all_iff)

lemma config_ten: "config_ok (Fin 10) (Fin 10)"
  using of_nat_fl_F32_exact [of 10] by (simp add: config_ok_def of_nat_fl_def)

theorem eviction_preserves_decisions_witness:
  "fst (admits [(5, 1), (5, 2), (9, 1)] (limiter_new 0 (Fin 10) (Fin 10) :: nat RateLimiter)) =
     spec_admits (Fin 10) (Fin 10) [(5, 1 :: nat), (5, 2), (9, 1)] (\<lambda>_. None)"
  by (rule eviction_preserves_decisions)
    (simp_all add: config_ten horizon_def nanos_per_sec_def MAX_TRACKED_IPS_def card_insert_if)

end
