(* ===== verification/Remote_Client.thy ===== *)
theory Remote_Client
  imports Wire "HOL-Library.Sublist"
begin

text \<open>
  The client side of remote mode: the \<open>--remote\<close> target (\<open>muxtop-proto/src/tls.rs\<close>) and the
  collector that connects, shakes hands and streams snapshots, reconnecting with backoff
  (\<open>muxtop-proto/src/remote.rs\<close>). Address parsing, name resolution and server-name validation
  belong to the standard library and to \<open>rustls\<close>: they are arguments. What the network and the
  scheduler do during one connection is a record of outcomes.
\<close>

section \<open>The remote target\<close>

datatype RemoteTargetError =
    MissingPort string
  | InvalidPort string parse_int_error
  | DnsLookupFailed string io_error_kind
  | DnsNoAddresses string
  | InvalidSni string string

datatype 'ip ServerName = IpAddress 'ip | DnsName string

definition parse_u16 :: "string \<Rightarrow> parse_int_error + u16" where
  "parse_u16 s = map_sum id of_nat (parse_uint (2 ^ 16) s)"

definition port_of :: "string \<Rightarrow> string \<Rightarrow> string \<Rightarrow> RemoteTargetError + string \<times> u16" where
  "port_of inp host port_str =
     (case parse_u16 port_str of Inl e \<Rightarrow> Inl (InvalidPort inp e) | Inr port \<Rightarrow> Inr (host, port))"

definition split_host_port :: "string \<Rightarrow> RemoteTargetError + string \<times> u16" where
  "split_host_port inp =
     (case strip_prefix ''['' inp of
        Some rest \<Rightarrow>
          (case find_char (CHR '']'') rest of
             None \<Rightarrow> Inl (MissingPort inp)
           | Some close \<Rightarrow>
               (case strip_prefix '':'' (drop (close + 1) rest) of
                  None \<Rightarrow> Inl (MissingPort inp)
                | Some port_str \<Rightarrow> port_of inp (take close rest) port_str))
      | None \<Rightarrow>
          (case rfind_char (CHR '':'') inp of
             None \<Rightarrow> Inl (MissingPort inp)
           | Some idx \<Rightarrow> port_of inp (take idx inp) (drop (idx + 1) inp)))"

definition parse_remote_target ::
    "(string \<Rightarrow> 'ip option) \<Rightarrow> (string \<Rightarrow> u16 \<Rightarrow> io_error_kind + ('ip \<times> u16) list) \<Rightarrow>
     (string \<Rightarrow> string + 'ip ServerName) \<Rightarrow> string \<Rightarrow>
     RemoteTargetError + ('ip \<times> u16) \<times> 'ip ServerName" where
  "parse_remote_target ip_from_str to_socket_addrs sni inp =
     (case split_host_port inp of
        Inl e \<Rightarrow> Inl e
      | Inr (host, port) \<Rightarrow>
          (case (case ip_from_str host of
                   Some ip \<Rightarrow> Inr (ip, port)
                 | None \<Rightarrow>
                     (case to_socket_addrs host port of
                        Inl e \<Rightarrow> Inl (DnsLookupFailed host e)
                      | Inr [] \<Rightarrow> Inl (DnsNoAddresses host)
                      | Inr (a # _) \<Rightarrow> Inr a)) of
             Inl e \<Rightarrow> Inl e
           | Inr socket_addr \<Rightarrow>
               (case (case ip_from_str host of
                        Some ip \<Rightarrow> Inr (IpAddress ip)
                      | None \<Rightarrow> map_sum (InvalidSni host) id (sni host)) of
                  Inl e \<Rightarrow> Inl e
                | Inr server_name \<Rightarrow> Inr (socket_addr, server_name))))"

section \<open>One connection\<close>

definition MAX_BACKOFF :: duration where "MAX_BACKOFF = from_secs 30"
definition INITIAL_BACKOFF :: duration where "INITIAL_BACKOFF = from_secs 1"

datatype ConnectionEvent = Connected string | Disconnected | ServerErrorEvent u16 string

text \<open>The text of a protocol error: a wire error, a fixed message, or an unexpected message.\<close>

datatype protocol_text = ProtoText ProtoError | Text string | UnexpectedMessage debug_out

datatype RemoteError =
    RemoteIo io_error_kind
  | Protocol protocol_text
  | HandshakeTimeout
  | ConnectionClosed
  | ServerError u16 string

text \<open>A branch of \<open>select!\<close>: the operation finished, or the cancellation won.\<close>

datatype 'a select = Done 'a | Cancelled

datatype try_send = SendOk | SendFull | SendClosed

datatype tls_outcome = TlsTimedOut | TlsFailed string | TlsOk

record connection =
  cn_tcp :: "(io_error_kind + unit) select"
  cn_tls :: "tls_outcome select"
  cn_wfail :: "io_error_kind option"
  cn_input :: "u8 list"
  cn_at_end :: io_error_kind
  cn_welcome_timeout :: bool
  cn_cancel_at :: "nat option"
  cn_tx :: "nat \<Rightarrow> try_send"
  cn_conn_tx :: "nat \<Rightarrow> bool"

record RemoteCollector =
  rc_token :: "string option"
  rc_version :: string

record client_out =
  co_delivered :: "SystemSnapshot list"
  co_events :: "ConnectionEvent list"
  co_offered :: nat
  co_attempts :: nat
  co_written :: "u8 list"

text \<open>A full or absent event channel drops the event.\<close>

definition send_conn_event :: "connection \<Rightarrow> ConnectionEvent \<Rightarrow> client_out \<Rightarrow> client_out" where
  "send_conn_event cn ev out =
     (let out' = out\<lparr>co_attempts := Suc (co_attempts out)\<rparr> in
      if cn_conn_tx cn (co_attempts out) then out'\<lparr>co_events := co_events out @ [ev]\<rparr> else out')"

lemma read_frame_shorter:
  assumes "read_frame r = (Inr (Some f), r')"
  shows "length (input r') < length (input r)"
proof -
  obtain bs where "encode_frame f = Inr bs" "input r = bs @ input r'"
    using read_frame_sound [OF assms [unfolded read_frame_def]] by blast
  then show ?thesis using encode_frame_length [of f bs] by simp
qed

text \<open>The streaming loop; \<open>n\<close> counts its iterations.\<close>

function stream_loop ::
    "bincode \<Rightarrow> connection \<Rightarrow> nat \<Rightarrow> FrameReader \<Rightarrow> client_out \<Rightarrow> (RemoteError + unit) \<times> client_out" where
  "stream_loop bc cn n r out =
     (if cn_cancel_at cn = Some n then (Inr (), out)
      else
        (case read_frame r of
           (Inr None, r) \<Rightarrow> (Inl ConnectionClosed, out)
         | (Inl e, r) \<Rightarrow> (Inl (Protocol (ProtoText e)), out)
         | (Inr (Some frame), r) \<Rightarrow>
             (case from_frame bc frame of
                Inl e \<Rightarrow> (Inl (Protocol (ProtoText e)), out)
              | Inr (Snapshot snapshot) \<Rightarrow>
                  let out' = out\<lparr>co_offered := Suc (co_offered out)\<rparr> in
                  (case cn_tx cn (co_offered out) of
                     SendOk \<Rightarrow> stream_loop bc cn (Suc n) r
                                 (out'\<lparr>co_delivered := co_delivered out @ [snapshot]\<rparr>)
                   | SendFull \<Rightarrow> stream_loop bc cn (Suc n) r out'
                   | SendClosed \<Rightarrow> (Inr (), out'))
              | Inr (ErrorMsg code message) \<Rightarrow>
                  (Inl (ServerError code message),
                   send_conn_event cn (ServerErrorEvent code message) out)
              | Inr _ \<Rightarrow> stream_loop bc cn (Suc n) r out)))"
  by pat_completeness auto
termination
  by (relation "measure (\<lambda>(bc, cn, n, r, out). length (input r))")
    (auto dest: read_frame_shorter [OF sym])

declare stream_loop.simps [simp del]

definition connect_and_stream ::
    "bincode \<Rightarrow> RemoteCollector \<Rightarrow> connection \<Rightarrow> client_out \<Rightarrow> (RemoteError + unit) \<times> client_out" where
  "connect_and_stream bc rc cn out =
     (case cn_tcp cn of
        Cancelled \<Rightarrow> (Inr (), out)
      | Done (Inl e) \<Rightarrow> (Inl (RemoteIo e), out)
      | Done (Inr _) \<Rightarrow>
        (case cn_tls cn of
           Cancelled \<Rightarrow> (Inr (), out)
         | Done TlsTimedOut \<Rightarrow> (Inl (Protocol (Text ''TLS handshake timed out'')), out)
         | Done (TlsFailed e) \<Rightarrow> (Inl (Protocol (Text (''TLS handshake failed: '' @ e))), out)
         | Done TlsOk \<Rightarrow>
           (case to_frame bc (Hello (rc_version rc) (rc_token rc)) of
              Inl e \<Rightarrow> (Inl (Protocol (ProtoText e)), out)
            | Inr hello_frame \<Rightarrow>
              (case write_frame hello_frame \<lparr>sent = [], wfail = cn_wfail cn\<rparr> of
                 (Inl e, w) \<Rightarrow> (Inl (Protocol (ProtoText e)), out)
               | (Inr _, w) \<Rightarrow>
                 let out = out\<lparr>co_written := co_written out @ sent w\<rparr> in
                 if cn_welcome_timeout cn then (Inl HandshakeTimeout, out)
                 else
                   (case read_frame (reader_new (cn_input cn) (cn_at_end cn)) of
                      (Inl e, r) \<Rightarrow> (Inl (Protocol (ProtoText e)), out)
                    | (Inr None, r) \<Rightarrow> (Inl ConnectionClosed, out)
                    | (Inr (Some welcome_frame), r) \<Rightarrow>
                      (case from_frame bc welcome_frame of
                         Inl e \<Rightarrow> (Inl (Protocol (ProtoText e)), out)
                       | Inr (Welcome _ hostname _) \<Rightarrow>
                           stream_loop bc cn 0 r (send_conn_event cn (Connected hostname) out)
                       | Inr (ErrorMsg code message) \<Rightarrow>
                           (Inl (ServerError code message),
                            send_conn_event cn (ServerErrorEvent code message) out)
                       | Inr other \<Rightarrow>
                           (Inl (Protocol (UnexpectedMessage (wire_fmt other))), out)))))))"

section \<open>Reconnecting\<close>

definition next_backoff :: "RemoteError \<Rightarrow> duration \<Rightarrow> duration" where
  "next_backoff e backoff =
     (if e = ConnectionClosed then INITIAL_BACKOFF else min (backoff * 2) MAX_BACKOFF)"

text \<open>
  The reconnect loop over the connections it goes through: each comes with whether the token is
  already cancelled when the loop starts it and whether the cancellation wins the wait after a
  failure. It yields the waits, the final output and whether it has stopped.
\<close>

fun run_loop ::
    "bincode \<Rightarrow> RemoteCollector \<Rightarrow> (bool \<times> connection \<times> bool) list \<Rightarrow> duration \<Rightarrow> client_out \<Rightarrow>
     duration list \<times> client_out \<times> bool" where
  "run_loop bc rc [] backoff out = ([], out, False)"
| "run_loop bc rc ((is_cancelled, cn, cancel_wait) # rest) backoff out =
     (if is_cancelled then ([], out, True)
      else
        (case connect_and_stream bc rc cn out of
           (Inr _, out) \<Rightarrow> ([], out, True)
         | (Inl e, out) \<Rightarrow>
             let out = send_conn_event cn Disconnected out in
             if cancel_wait then ([backoff], out, True)
             else
               (case run_loop bc rc rest (next_backoff e backoff) out of
                  (waits, out, stopped) \<Rightarrow> (backoff # waits, out, stopped))))"

definition run :: "bincode \<Rightarrow> RemoteCollector \<Rightarrow> (bool \<times> connection \<times> bool) list \<Rightarrow>
    duration list \<times> client_out \<times> bool" where
  "run bc rc cns =
     run_loop bc rc cns INITIAL_BACKOFF
       \<lparr>co_delivered = [], co_events = [], co_offered = 0, co_attempts = 0, co_written = []\<rparr>"

section \<open>Facts about the target\<close>

lemma parse_u16_dec: "p < 65536 \<Longrightarrow> parse_u16 (dec p) = Inr (of_nat p)"
  by (simp add: parse_u16_def parse_uint_dec)

lemma strip_bracket: "strip_prefix ''['' s = (case s of c # cs \<Rightarrow> if c = CHR ''['' then Some cs else None | [] \<Rightarrow> None)"
  by (cases s) (auto simp: strip_prefix_def starts_with_def)

lemma strip_colon: "strip_prefix '':'' s = (case s of c # cs \<Rightarrow> if c = CHR '':'' then Some cs else None | [] \<Rightarrow> None)"
  by (cases s) (auto simp: strip_prefix_def starts_with_def)

lemma split_host_port_plain:
  assumes "h = [] \<or> hd h \<noteq> CHR ''[''" "CHR '':'' \<notin> set ps"
  shows "split_host_port (h @ CHR '':'' # ps) = port_of (h @ CHR '':'' # ps) h ps"
proof -
  have "strip_prefix ''['' (h @ CHR '':'' # ps) = None"
    using assms(1) by (cases h) (simp_all add: strip_bracket)
  then show ?thesis
    using rfind_char_append [OF assms(2), of h] by (simp add: split_host_port_def)
qed

lemma split_host_port_bracket:
  assumes "CHR '']'' \<notin> set h"
  shows "split_host_port (CHR ''['' # h @ CHR '']'' # CHR '':'' # ps) =
    port_of (CHR ''['' # h @ CHR '']'' # CHR '':'' # ps) h ps"
  using find_char_append [OF assms, of "CHR '':'' # ps"]
  by (simp add: split_host_port_def strip_bracket strip_colon)

lemma port_of_Inr: "port_of inp h ps = Inr (h', p) \<longleftrightarrow> h' = h \<and> parse_u16 ps = Inr p"
  by (auto simp: port_of_def split: sum.splits)

lemma rfind_char_split:
  assumes "rfind_char c s = Some i"
  shows "s = take i s @ c # drop (i + 1) s" "c \<notin> set (drop (i + 1) s)"
proof -
  from assms have "c \<in> set s" using rfind_char_None [of c s] by force
  then obtain a b where s: "s = a @ c # b" "c \<notin> set b" by (metis split_list_last)
  then have "i = length a" using rfind_char_append [of c b a] assms by simp
  with s show "s = take i s @ c # drop (i + 1) s" "c \<notin> set (drop (i + 1) s)" by auto
qed

lemma find_char_split:
  assumes "find_char c s = Some i"
  shows "s = take i s @ c # drop (i + 1) s" "c \<notin> set (take i s)"
proof -
  from assms have "c \<in> set s" using find_char_None [of c s] by force
  then obtain a b where s: "s = a @ c # b" "c \<notin> set a" by (metis split_list_first)
  then have "i = length a" using find_char_append [of c a b] assms by simp
  with s show "s = take i s @ c # drop (i + 1) s" "c \<notin> set (take i s)" by auto
qed

lemma split_host_port_Inr:
  assumes "split_host_port inp = Inr (h, p)"
  shows "\<exists>ps. parse_u16 ps = Inr p \<and>
    (inp = h @ CHR '':'' # ps \<and> CHR '':'' \<notin> set ps \<and> (h = [] \<or> hd h \<noteq> CHR ''['') \<or>
     inp = CHR ''['' # h @ CHR '']'' # CHR '':'' # ps \<and> CHR '']'' \<notin> set h)"
proof (cases "strip_prefix ''['' inp")
  case None
  with assms obtain i where i: "rfind_char (CHR '':'') inp = Some i"
    and po: "port_of inp (take i inp) (drop (i + 1) inp) = Inr (h, p)"
    by (auto simp: split_host_port_def split: option.splits)
  from None have "inp = [] \<or> hd inp \<noteq> CHR ''[''" by (auto simp: strip_bracket split: list.splits if_splits)
  then have "take i inp = [] \<or> hd (take i inp) \<noteq> CHR ''[''" by (cases i; cases inp) auto
  with rfind_char_split [OF i] po show ?thesis by (auto simp: port_of_Inr)
next
  case (Some rest)
  then have inp: "inp = CHR ''['' # rest" by (simp add: strip_prefix_Some)
  from assms Some obtain i ps where i: "find_char (CHR '']'') rest = Some i"
    and s: "strip_prefix '':'' (drop (i + 1) rest) = Some ps"
    and po: "port_of inp (take i rest) ps = Inr (h, p)"
    by (auto simp: split_host_port_def split: option.splits)
  from s have "drop (i + 1) rest = CHR '':'' # ps" by (simp add: strip_prefix_Some)
  with find_char_split [OF i] po inp show ?thesis by (auto simp: port_of_Inr)
qed

section \<open>Facts about the stream\<close>

text \<open>
  The loop separates into receiving (the messages the connection carries and how it ends) and
  consuming them; the latter is a recursion over a list.
\<close>

function received :: "bincode \<Rightarrow> FrameReader \<Rightarrow> WireMessage list \<times> RemoteError" where
  "received bc r =
     (case read_frame r of
        (Inr None, r) \<Rightarrow> ([], ConnectionClosed)
      | (Inl e, r) \<Rightarrow> ([], Protocol (ProtoText e))
      | (Inr (Some f), r) \<Rightarrow>
          (case from_frame bc f of
             Inl e \<Rightarrow> ([], Protocol (ProtoText e))
           | Inr m \<Rightarrow> apfst ((#) m) (received bc r)))"
  by pat_completeness auto
termination
  by (relation "measure (\<lambda>(bc, r). length (input r))") (auto dest: read_frame_shorter [OF sym])

declare received.simps [simp del]

fun consume :: "connection \<Rightarrow> nat \<Rightarrow> WireMessage list \<Rightarrow> RemoteError \<Rightarrow> client_out \<Rightarrow> (RemoteError + unit) \<times> client_out" where
  "consume cn n ms e out =
     (if cn_cancel_at cn = Some n then (Inr (), out)
      else
        (case ms of
           [] \<Rightarrow> (Inl e, out)
         | m # ms \<Rightarrow>
             (case m of
                Snapshot s \<Rightarrow>
                  let out' = out\<lparr>co_offered := Suc (co_offered out)\<rparr> in
                  (case cn_tx cn (co_offered out) of
                     SendOk \<Rightarrow> consume cn (Suc n) ms e (out'\<lparr>co_delivered := co_delivered out @ [s]\<rparr>)
                   | SendFull \<Rightarrow> consume cn (Suc n) ms e out'
                   | SendClosed \<Rightarrow> (Inr (), out'))
              | ErrorMsg c msg \<Rightarrow> (Inl (ServerError c msg), send_conn_event cn (ServerErrorEvent c msg) out)
              | _ \<Rightarrow> consume cn (Suc n) ms e out)))"

declare consume.simps [simp del]

lemma stream_loop_consume:
  "stream_loop bc cn n r out = consume cn n (fst (received bc r)) (snd (received bc r)) out"
proof (induction "length (input r)" arbitrary: n r out rule: less_induct)
  case less
  show ?case
  proof (cases "\<exists>f r' m. read_frame r = (Inr (Some f), r') \<and> from_frame bc f = Inr m")
    case False
    then show ?thesis
      by (subst stream_loop.simps, subst consume.simps, subst received.simps, subst received.simps)
        (auto split: prod.splits sum.splits option.splits)
  next
    case True
    then obtain f r' m where rd: "read_frame r = (Inr (Some f), r')" and m: "from_frame bc f = Inr m"
      by blast
    have IH: "stream_loop bc cn n' r' out' = consume cn n' (fst (received bc r')) (snd (received bc r')) out'"
      for n' out'
      using less.hyps [of r'] read_frame_shorter [OF rd] by simp
    have rec: "received bc r = apfst ((#) m) (received bc r')"
      by (subst received.simps) (simp add: rd m)
    show ?thesis
      unfolding stream_loop.simps [of bc cn n r out] consume.simps [of cn n "fst (received bc r)"]
      by (cases m) (simp_all add: rd m IH rec Let_def split: try_send.split)
  qed
qed

lemma send_conn_event_simps [simp]:
  "co_delivered (send_conn_event cn ev out) = co_delivered out"
  "co_offered (send_conn_event cn ev out) = co_offered out"
  "co_written (send_conn_event cn ev out) = co_written out"
  by (simp_all add: send_conn_event_def Let_def)

lemma send_conn_event_events:
  "co_events (send_conn_event cn ev out) = co_events out \<or>
   co_events (send_conn_event cn ev out) = co_events out @ [ev]"
  by (simp add: send_conn_event_def Let_def)

definition snapshots_of :: "WireMessage list \<Rightarrow> SystemSnapshot list" where
  "snapshots_of ms = concat (map (\<lambda>m. case m of Snapshot s \<Rightarrow> [s] | _ \<Rightarrow> []) ms)"

text \<open>
  Consuming never writes to the connection nor reports \<open>Connected\<close>, and delivers a subsequence
  of the snapshots received.
\<close>

lemma consume_sound:
  "consume cn n ms e out = (res, out') \<Longrightarrow>
   co_written out' = co_written out \<and>
   (\<exists>ds. co_delivered out' = co_delivered out @ ds \<and> subseq ds (snapshots_of ms)) \<and>
   (\<exists>evs. co_events out' = co_events out @ evs \<and> (\<forall>h. Connected h \<notin> set evs))"
proof (induction ms arbitrary: n out)
  case Nil
  then show ?case
    by (subst (asm) consume.simps) (auto simp: snapshots_of_def split: if_splits)
next
  case (Cons m ms)
  note step = Cons.prems [unfolded consume.simps [of cn n "m # ms" e out]]
  show ?case
  proof (cases m)
    case (Snapshot s)
    with step Cons.IH [of "Suc n" "out\<lparr>co_offered := Suc (co_offered out), co_delivered := co_delivered out @ [s]\<rparr>"]
      Cons.IH [of "Suc n" "out\<lparr>co_offered := Suc (co_offered out)\<rparr>"]
    show ?thesis
      by (auto simp: snapshots_of_def Let_def split: if_splits try_send.splits)
  next
    case (ErrorMsg c msg)
    with step send_conn_event_events [of cn "ServerErrorEvent c msg" out] show ?thesis
      by (auto simp: snapshots_of_def split: if_splits)
  qed (use step Cons.IH [of "Suc n" out] in \<open>auto simp: snapshots_of_def split: if_splits\<close>)
qed

text \<open>With a consumer that takes everything and no cancellation, every snapshot is delivered.\<close>

lemma consume_complete:
  assumes "cn_cancel_at cn = None" "\<And>k. cn_tx cn k = SendOk" "\<forall>m\<in>set ms. \<forall>c msg. m \<noteq> ErrorMsg c msg"
  shows "consume cn n ms e out =
    (Inl e, out\<lparr>co_delivered := co_delivered out @ snapshots_of ms,
                co_offered := co_offered out + length (snapshots_of ms)\<rparr>)"
  using assms(3)
proof (induction ms arbitrary: n out)
  case Nil
  then show ?case by (subst consume.simps) (simp add: assms(1) snapshots_of_def)
next
  case (Cons m ms)
  then show ?case
    by (subst consume.simps, cases m) (simp_all add: assms(1,2) snapshots_of_def Let_def)
qed

lemma received_length: "HEADER_SIZE * length (fst (received bc r)) \<le> length (input r)"
proof (induction "length (input r)" arbitrary: r rule: less_induct)
  case less
  show ?case
  proof (cases "\<exists>f r' m. read_frame r = (Inr (Some f), r') \<and> from_frame bc f = Inr m")
    case False
    then have "fst (received bc r) = []"
      by (subst received.simps) (auto split: prod.splits sum.splits option.splits)
    then show ?thesis by simp
  next
    case True
    then obtain f r' m where rd: "read_frame r = (Inr (Some f), r')" and m: "from_frame bc f = Inr m"
      by blast
    obtain bs where "encode_frame f = Inr bs" "input r = bs @ input r'"
      using read_frame_sound [OF rd [unfolded read_frame_def]] by blast
    then have "HEADER_SIZE + length (input r') \<le> length (input r)" using encode_frame_length [of f bs] by simp
    moreover have "received bc r = apfst ((#) m) (received bc r')"
      by (subst received.simps) (simp add: rd m)
    moreover have "HEADER_SIZE * length (fst (received bc r')) \<le> length (input r')"
      by (rule less) (use read_frame_shorter [OF rd] in simp)
    ultimately show ?thesis by simp
  qed
qed

lemma consume_offered:
  "co_offered (snd (consume cn n ms e out)) \<le> co_offered out + length ms"
proof (induction ms arbitrary: n out)
  case Nil
  then show ?case by (subst consume.simps) simp
next
  case (Cons m ms)
  have "co_offered (snd (consume cn (Suc n) ms e out)) \<le> Suc (co_offered out + length ms)"
    using Cons.IH [of "Suc n" out] by simp
  then show ?case
    using Cons.IH [of "Suc n" "out\<lparr>co_offered := Suc (co_offered out)\<rparr>"]
      Cons.IH [of "Suc n" "out\<lparr>co_offered := Suc (co_offered out), co_delivered := co_delivered out @ [s]\<rparr>" for s]
    by (subst consume.simps) (auto simp: Let_def split: WireMessage.split try_send.split)
qed

lemma consume_cancelled:
  "cn_cancel_at cn = Some k \<Longrightarrow> n \<le> k \<Longrightarrow>
   co_offered (snd (consume cn n ms e out)) \<le> co_offered out + (k - n)"
proof (induction ms arbitrary: n out)
  case Nil
  then show ?case by (subst consume.simps) auto
next
  case (Cons m ms)
  show ?case
  proof (cases "n = k")
    case True
    with Cons.prems show ?thesis by (subst consume.simps) simp
  next
    case False
    with Cons.prems have k: "Suc n \<le> k" "k - n = Suc (k - Suc n)" by auto
    have "co_offered (snd (consume cn (Suc n) ms e out)) \<le> Suc (co_offered out + (k - Suc n))"
      using Cons.IH [OF Cons.prems(1) k(1), of out] by simp
    then show ?thesis
      using Cons.IH [OF Cons.prems(1) k(1), of "out\<lparr>co_offered := Suc (co_offered out)\<rparr>"]
        Cons.IH [OF Cons.prems(1) k(1), of "out\<lparr>co_offered := Suc (co_offered out), co_delivered := co_delivered out @ [s]\<rparr>" for s]
        False Cons.prems(1)
      by (subst consume.simps) (auto simp: Let_def k(2) split: WireMessage.split try_send.split)
  qed
qed

lemma consume_uncancelled:
  "cn_cancel_at cn = None \<Longrightarrow>
   (\<exists>e'. fst (consume cn n ms e out) = Inl e') \<or> (\<exists>i. cn_tx cn i = SendClosed)"
proof (induction ms arbitrary: n out)
  case Nil
  then show ?case by (subst consume.simps) simp
next
  case (Cons m ms)
  then show ?case
    by (subst (1) consume.simps) (auto simp: Let_def split: WireMessage.split try_send.split)
qed

section \<open>Facts about the handshake\<close>

lemma received_encoded:
  assumes "bincode_law bc fits"
    and "list_all2 (\<lambda>m f. to_frame bc m = Inr f \<and> fits m \<and> length (payload f) < unat MAX_FRAME_SIZE) ms fs"
  shows "received bc (reader_new (concat (map frame_bytes fs)) UnexpectedEof) = (ms, ConnectionClosed)"
proof -
  have "received bc (r\<lparr>input := concat (map frame_bytes fs), at_end := UnexpectedEof\<rparr>) = (ms, ConnectionClosed)" for r
    using assms(2)
  proof (induction ms fs arbitrary: r rule: list_all2_induct)
    case Nil
    then show ?case
      by (subst received.simps)
        (simp add: read_frame_def read_frame_with_max_payload_def read_exact_def HEADER_SIZE_def)
  next
    case (Cons m ms f fs)
    then have enc: "encode_frame f = Inr (frame_bytes f)" and dec: "from_frame bc f = Inr m"
      and cap: "length (payload f) \<le> unat MAX_FRAME_SIZE - 1"
      using bincode_law.from_to_frame [OF assms(1)] by (auto simp: encode_frame_fits)
    have "read_frame (r\<lparr>input := frame_bytes f @ concat (map frame_bytes fs), at_end := UnexpectedEof\<rparr>) =
      (Inr (Some f), r\<lparr>input := concat (map frame_bytes fs), at_end := UnexpectedEof,
                       allocs := length (payload f) # allocs r\<rparr>)"
      using read_encoded_frame [OF enc cap, where r = "r\<lparr>at_end := UnexpectedEof\<rparr>" and
          rest = "concat (map frame_bytes fs)"]
      by (cases r) (simp add: read_frame_def)
    moreover have "received bc (r\<lparr>input := concat (map frame_bytes fs), at_end := UnexpectedEof,
        allocs := length (payload f) # allocs r\<rparr>) = (ms, ConnectionClosed)"
      using Cons.IH [of "r\<lparr>allocs := length (payload f) # allocs r\<rparr>"] by (cases r) simp
    ultimately show ?case by (subst received.simps) (simp add: dec)
  qed
  from this [of "reader_new [] UnexpectedEof"] show ?thesis by (simp add: reader_new_def)
qed

text \<open>
  A connection either stays quiet (no snapshot, no \<open>Connected\<close>), or the first message it received
  was a \<open>Welcome\<close> and the rest went through the consumer.
\<close>

definition quiet :: "client_out \<Rightarrow> client_out \<Rightarrow> bool" where
  "quiet out out' \<longleftrightarrow>
     co_delivered out' = co_delivered out \<and>
     (\<exists>evs. co_events out' = co_events out @ evs \<and> (\<forall>h. Connected h \<notin> set evs))"

definition hello_bytes :: "bincode \<Rightarrow> RemoteCollector \<Rightarrow> u8 list" where
  "hello_bytes bc rc =
     (case to_frame bc (Hello (rc_version rc) (rc_token rc)) of Inl _ \<Rightarrow> [] | Inr f \<Rightarrow> frame_bytes f)"

lemma quiet_refl [simp]: "quiet out out" "quiet out (out\<lparr>co_written := x\<rparr>)"
  by (simp_all add: quiet_def)

lemma quiet_server_error [simp]:
  "quiet out (send_conn_event cn (ServerErrorEvent c m) out)"
  "quiet out (send_conn_event cn (ServerErrorEvent c m) (out\<lparr>co_written := x\<rparr>))"
  by (simp_all add: quiet_def send_conn_event_def Let_def)

lemma write_frame_sent:
  "write_frame f \<lparr>sent = [], wfail = e\<rparr> = (Inr x, w) \<Longrightarrow> sent w = frame_bytes f"
  by (auto simp: write_frame_def encode_frame_Inr frame_bytes_def split: sum.splits option.splits)

lemma connect_and_stream_cases:
  assumes "connect_and_stream bc rc cn out = (res, out')"
  shows "quiet out out' \<and>
      (co_written out' = co_written out \<or>
       cn_tls cn = Done TlsOk \<and> co_written out' = co_written out @ hello_bytes bc rc)
    \<or> cn_tls cn = Done TlsOk \<and>
      (\<exists>v h hz ms e. received bc (reader_new (cn_input cn) (cn_at_end cn)) = (Welcome v h hz # ms, e) \<and>
         (res, out') = consume cn 0 ms e
           (send_conn_event cn (Connected h) (out\<lparr>co_written := co_written out @ hello_bytes bc rc\<rparr>)))"
    (is "_ \<or> ?streams")
proof (cases "cn_tcp cn = Done (Inr ()) \<and> cn_tls cn = Done TlsOk \<and> \<not> cn_welcome_timeout cn \<and>
    (\<exists>f r m. read_frame (reader_new (cn_input cn) (cn_at_end cn)) = (Inr (Some f), r) \<and>
       from_frame bc f = Inr m)")
  case False
  with assms show ?thesis
    by (auto simp: connect_and_stream_def Let_def hello_bytes_def dest!: write_frame_sent
        split: select.splits sum.splits tls_outcome.splits prod.splits option.splits if_splits)
next
  case True
  then obtain f r m where c: "cn_tcp cn = Done (Inr ())" "cn_tls cn = Done TlsOk" "\<not> cn_welcome_timeout cn"
    and rd: "read_frame (reader_new (cn_input cn) (cn_at_end cn)) = (Inr (Some f), r)"
    and m: "from_frame bc f = Inr m" by auto
  obtain ms e where r: "received bc r = (ms, e)" by fastforce
  then have rec: "received bc (reader_new (cn_input cn) (cn_at_end cn)) = (m # ms, e)"
    by (subst received.simps) (simp add: rd m)
  show ?thesis
  proof (cases m)
    case (Welcome v h hz)
    with assms c rd m show ?thesis
      by (auto simp: connect_and_stream_def hello_bytes_def Let_def rec r stream_loop_consume
          dest!: write_frame_sent split: sum.splits prod.splits)
  qed (use assms c rd m in \<open>auto simp: connect_and_stream_def hello_bytes_def Let_def
      dest!: write_frame_sent split: sum.splits prod.splits\<close>)
qed

lemma run_loop_waits:
  "run_loop bc rc cns b out = (waits, out', stopped) \<Longrightarrow> INITIAL_BACKOFF \<le> b \<Longrightarrow> b \<le> MAX_BACKOFF \<Longrightarrow>
   list_all (\<lambda>w. INITIAL_BACKOFF \<le> w \<and> w \<le> MAX_BACKOFF) waits"
proof (induction bc rc cns b out arbitrary: waits out' stopped rule: run_loop.induct)
  case (2 bc rc is_cancelled cn cancel_wait rest backoff out)
  have "INITIAL_BACKOFF \<le> next_backoff e backoff \<and> next_backoff e backoff \<le> MAX_BACKOFF" for e
    using "2.prems"(2,3) by (auto simp: next_backoff_def INITIAL_BACKOFF_def MAX_BACKOFF_def from_secs_def)
  with 2 show ?case
    by (fastforce simp: Let_def split: if_splits prod.splits sum.splits)
qed simp

section \<open>Properties\<close>

text \<open>
  Every \<open>host:port\<close> with a port in range is split into its parts, with brackets around a host
  that contains colons (an IPv6 literal); and whatever is accepted has that shape, so a target
  without a port or with a port that is not a 16-bit number is always refused.
\<close>

theorem split_host_port_correct:
  assumes "p < 65536"
  shows "((h = [] \<or> hd h \<noteq> CHR ''['') \<longrightarrow> split_host_port (h @ '':'' @ dec p) = Inr (h, of_nat p)) \<and>
    (CHR '']'' \<notin> set h \<longrightarrow> split_host_port (''['' @ h @ '']:'' @ dec p) = Inr (h, of_nat p)) \<and>
    (split_host_port inp = Inr (h, q) \<longrightarrow>
      (\<exists>ps. parse_u16 ps = Inr q \<and> (inp = h @ '':'' @ ps \<or> inp = ''['' @ h @ '']:'' @ ps)))"
proof (intro conjI impI)
  have "CHR '':'' \<notin> set (dec p)" by (rule dec_no_char) (simp add: is_ascii_digit_def)
  then show "h = [] \<or> hd h \<noteq> CHR ''['' \<Longrightarrow> split_host_port (h @ '':'' @ dec p) = Inr (h, of_nat p)"
    using assms by (auto simp: split_host_port_plain port_of_Inr parse_u16_dec)
  show "CHR '']'' \<notin> set h \<Longrightarrow> split_host_port (''['' @ h @ '']:'' @ dec p) = Inr (h, of_nat p)"
    using assms by (auto simp: split_host_port_bracket port_of_Inr parse_u16_dec)
  show "split_host_port inp = Inr (h, q) \<Longrightarrow>
      \<exists>ps. parse_u16 ps = Inr q \<and> (inp = h @ '':'' @ ps \<or> inp = ''['' @ h @ '']:'' @ ps)"
    using split_host_port_Inr by fastforce
qed

theorem split_host_port_correct_witness:
  "split_host_port (''db.local'' @ '':'' @ dec 4242) = Inr (''db.local'', of_nat 4242) \<and>
   split_host_port (''['' @ ''::1'' @ '']:'' @ dec 4242) = Inr (''::1'', of_nat 4242)"
  using split_host_port_correct [of 4242 "''db.local''"] split_host_port_correct [of 4242 "''::1''"]
  by simp

text \<open>
  C27. The server name the certificate is checked against comes from the host the user typed and
  never from name resolution: for a host name it is the validated name itself, for an address
  literal it is that address, and then the resolver has no influence on the result at all.
\<close>

theorem server_name_not_from_dns:
  assumes "parse_remote_target ip_from_str res sni inp = Inr (a, name)"
  shows "\<exists>host port. split_host_port inp = Inr (host, port) \<and>
    (case ip_from_str host of
       Some ip \<Rightarrow> a = (ip, port) \<and> name = IpAddress ip \<and>
         (\<forall>res'. parse_remote_target ip_from_str res' sni inp = Inr (a, name))
     | None \<Rightarrow> sni host = Inr name)"
proof -
  from assms obtain host port where s: "split_host_port inp = Inr (host, port)"
    by (auto simp: parse_remote_target_def split: sum.splits)
  show ?thesis
  proof (cases "ip_from_str host")
    case None
    with assms s have "map_sum (InvalidSni host) id (sni host) = Inr name"
      by (auto simp: parse_remote_target_def split: sum.splits list.splits)
    with s None show ?thesis by (cases "sni host") auto
  next
    case (Some ip)
    with assms s show ?thesis by (simp add: parse_remote_target_def)
  qed
qed

definition sample_ip :: "string \<Rightarrow> nat option" where
  "sample_ip s = (if s = ''127.0.0.1'' then Some 1 else None)"

theorem server_name_not_from_dns_witness:
  "parse_remote_target sample_ip (\<lambda>h p. Inr [(7, p)]) (\<lambda>h. Inr (DnsName h)) (''db'' @ '':'' @ dec 80) =
     Inr ((7, 80), DnsName ''db'') \<and>
   (\<exists>host port. split_host_port (''db'' @ '':'' @ dec 80) = Inr (host, port) \<and> host = ''db'')"
proof -
  have "CHR '':'' \<notin> set (dec 80)" by (rule dec_no_char) (simp add: is_ascii_digit_def)
  then have s: "split_host_port (''db'' @ '':'' @ dec 80) = Inr (''db'', 80)"
    using split_host_port_plain [of "''db''" "dec 80"] by (simp add: port_of_Inr parse_u16_dec)
  then have *: "parse_remote_target sample_ip (\<lambda>h p. Inr [(7, p)]) (\<lambda>h. Inr (DnsName h)) (''db'' @ '':'' @ dec 80) =
     Inr ((7, 80), DnsName ''db'')"
    by (simp add: parse_remote_target_def sample_ip_def)
  from server_name_not_from_dns [OF *] s * show ?thesis by simp
qed

text \<open>
  C26. The client trusts nothing before the handshake: a snapshot reaches the interface, or a
  \<open>Connected\<close> status is shown, only if the TLS handshake succeeded and the first message of the
  server was a \<open>Welcome\<close>; the snapshots delivered are then a subsequence, in order, of those the
  server sent after it. The token leaves the client only after the TLS handshake, once.
\<close>

theorem client_handshake_safe:
  assumes "connect_and_stream bc rc cn out = (res, out')"
  shows "(quiet out out' \<or>
      (\<exists>v h hz ms e ds. cn_tls cn = Done TlsOk \<and>
         received bc (reader_new (cn_input cn) (cn_at_end cn)) = (Welcome v h hz # ms, e) \<and>
         co_delivered out' = co_delivered out @ ds \<and> subseq ds (snapshots_of ms))) \<and>
    (co_written out' = co_written out \<or>
     cn_tls cn = Done TlsOk \<and> co_written out' = co_written out @ hello_bytes bc rc)"
  using connect_and_stream_cases [OF assms]
proof (elim disjE conjE exE)
  fix v h hz ms e
  assume tls: "cn_tls cn = Done TlsOk"
    and rec: "received bc (reader_new (cn_input cn) (cn_at_end cn)) = (Welcome v h hz # ms, e)"
    and con: "(res, out') = consume cn 0 ms e
      (send_conn_event cn (Connected h) (out\<lparr>co_written := co_written out @ hello_bytes bc rc\<rparr>))"
  from consume_sound [OF con [symmetric]] tls rec show ?thesis by auto
qed auto

definition sample_connection :: connection where
  "sample_connection =
     \<lparr>cn_tcp = Done (Inr ()), cn_tls = Done TlsOk, cn_wfail = None,
      cn_input = concat (map frame_bytes
        [\<lparr>msg_type = MSG_WELCOME, payload = put_str ''0.5'' @ put_str ''web'' @ [1]\<rparr>,
         \<lparr>msg_type = MSG_SNAPSHOT, payload = []\<rparr>]),
      cn_at_end = UnexpectedEof, cn_welcome_timeout = False, cn_cancel_at = None,
      cn_tx = (\<lambda>_. SendOk), cn_conn_tx = (\<lambda>_. True)\<rparr>"

definition no_output :: client_out where
  "no_output = \<lparr>co_delivered = [], co_events = [], co_offered = 0, co_attempts = 0, co_written = []\<rparr>"

theorem client_handshake_safe_witness:
  "\<exists>res out'. connect_and_stream sample_bincode \<lparr>rc_token = None, rc_version = ''0.5''\<rparr>
       (sample_connection\<lparr>cn_tls := Done TlsTimedOut\<rparr>) no_output = (res, out') \<and>
     quiet no_output out' \<and> co_written out' = []"
proof -
  obtain res out' where c: "connect_and_stream sample_bincode \<lparr>rc_token = None, rc_version = ''0.5''\<rparr>
       (sample_connection\<lparr>cn_tls := Done TlsTimedOut\<rparr>) no_output = (res, out')" by fastforce
  from client_handshake_safe [OF c] c show ?thesis
    by (auto simp: sample_connection_def no_output_def)
qed

text \<open>
  The reconnect loop waits between one and thirty seconds before every attempt, whatever the
  connections do.
\<close>

theorem backoff_within_bounds:
  "list_all (\<lambda>w. from_secs 1 \<le> w \<and> w \<le> from_secs 30) (fst (run bc rc cns))"
proof (cases "run bc rc cns")
  case (fields waits out stopped)
  then show ?thesis
    using run_loop_waits [of bc rc cns INITIAL_BACKOFF]
    by (fastforce simp: run_def INITIAL_BACKOFF_def MAX_BACKOFF_def from_secs_def)
qed


end
