(* ===== verification/Server.thy ===== *)
theory Server
  imports Wire Rate_Limiter Remote_Client
begin

unbundle bit_operations_syntax

text \<open>
  The server (\<open>muxtop-server\<close>): start-up checks of the token, the TLS material and the rate
  (\<open>main.rs\<close>, \<open>tls.rs\<close>), the session of one client from handshake to streaming (\<open>client.rs\<close>),
  the relay of collector snapshots and the accept loop with its permits (\<open>server.rs\<close>). A session
  is driven by the list of what \<open>select!\<close> picks; certificate handling is \<open>rustls\<close>, whose results
  are arguments.
\<close>

section \<open>Start-up checks\<close>

datatype startup_error =
    TokenFileUnreadable
  | TokenFileEmpty
  | TokenFileTooShort nat
  | TokenTooShort nat
  | TokenRequired
  | TlsRequired
  | TlsSetup string
  | NegativeRate

definition read_token_file :: "string option \<Rightarrow> startup_error + string" where
  "read_token_file contents =
     (case contents of
        None \<Rightarrow> Inl TokenFileUnreadable
      | Some raw \<Rightarrow>
          let trimmed = trim raw in
          if trimmed = [] then Inl TokenFileEmpty
          else if length trimmed < 16 then Inl (TokenFileTooShort (length trimmed))
          else Inr trimmed)"

text \<open>
  The token of the command line or environment, or the contents of \<open>--token-file\<close>: the outer
  option says whether the flag was given, the inner one whether the file could be read.
\<close>

definition auth_token_of :: "string option option \<Rightarrow> string option \<Rightarrow> startup_error + string" where
  "auth_token_of token_file token =
     (case token_file of
        Some contents \<Rightarrow> read_token_file contents
      | None \<Rightarrow>
          (case token of
             Some t \<Rightarrow> if 16 \<le> length t then Inr t
                        else if t \<noteq> [] then Inl (TokenTooShort (length t)) else Inl TokenRequired
           | None \<Rightarrow> Inl TokenRequired))"

definition token_debug :: "string \<Rightarrow> string" where
  "token_debug t = ''Token('' @ [CHR 0x22] @ ''[REDACTED]'' @ [CHR 0x22] @ '')''"

datatype TlsError = TlsIo | NoPrivateKey | NoCertificates | Rustls string | CertGen string

text \<open>The certificates and the key as the PEM reader gives them; \<open>build\<close> is the TLS configuration.\<close>

definition acceptor_from_pem ::
    "'c list option \<Rightarrow> 'k option \<Rightarrow> ('c list \<Rightarrow> 'k \<Rightarrow> string + 'acc) \<Rightarrow> TlsError + 'acc" where
  "acceptor_from_pem certs key build =
     (case certs of
        None \<Rightarrow> Inl NoCertificates
      | Some [] \<Rightarrow> Inl NoCertificates
      | Some cs \<Rightarrow>
          (case key of
             None \<Rightarrow> Inl NoPrivateKey
           | Some k \<Rightarrow> (case build cs k of Inl e \<Rightarrow> Inl (Rustls e) | Inr a \<Rightarrow> Inr a)))"

definition hex_digit :: "nat \<Rightarrow> char" where
  "hex_digit d = (if d < 10 then char_of (48 + d) else char_of (55 + d))"

definition hex_byte :: "u8 \<Rightarrow> string" where
  "hex_byte b = [hex_digit (unat b div 16), hex_digit (unat b mod 16)]"

fun fingerprint_loop :: "nat \<Rightarrow> u8 list \<Rightarrow> string \<Rightarrow> string" where
  "fingerprint_loop i [] out = out"
| "fingerprint_loop i (b # bs) out =
     fingerprint_loop (Suc i) bs ((if 0 < i then out @ '':'' else out) @ hex_byte b)"

definition cert_fingerprint :: "(u8 list \<Rightarrow> u8 list) \<Rightarrow> u8 list \<Rightarrow> string" where
  "cert_fingerprint sha256 cert_der = fingerprint_loop 0 (sha256 cert_der) []"

record cli =
  cli_token_file :: "string option option"
  cli_token :: "string option"
  cli_tls_files :: bool
  cli_tls_generate :: bool
  cli_rate_limit :: fl
  cli_max_clients :: nat
  cli_refresh :: u64

record ServerConfig =
  cfg_max_clients :: nat
  cfg_auth_token :: string
  cfg_refresh_hz :: u32
  cfg_rate_limit :: fl

text \<open>\<open>tls_files\<close> and \<open>tls_generated\<close> are the outcomes of loading and of generating the certificate.\<close>

definition startup :: "(TlsError + unit) \<Rightarrow> (TlsError + unit) \<Rightarrow> cli \<Rightarrow> startup_error + ServerConfig" where
  "startup tls_files tls_generated c =
     (case auth_token_of (cli_token_file c) (cli_token c) of
        Inl e \<Rightarrow> Inl e
      | Inr tok \<Rightarrow>
          (case (if cli_tls_files c then map_sum (\<lambda>_. TlsSetup ''failed to load TLS certificate/key'') id tls_files
                 else if cli_tls_generate c
                      then map_sum (\<lambda>_. TlsSetup ''failed to generate self-signed cert'') id tls_generated
                 else Inl TlsRequired) of
             Inl e \<Rightarrow> Inl e
           | Inr _ \<Rightarrow>
               if flt (cli_rate_limit c) (Fin 0) then Inl NegativeRate
               else Inr \<lparr>cfg_max_clients = cli_max_clients c, cfg_auth_token = tok,
                         cfg_refresh_hz = ucast (cli_refresh c), cfg_rate_limit = cli_rate_limit c\<rparr>))"

text \<open>\<open>hostname()\<close>: the variable, else the trimmed file, else a fixed text.\<close>

definition hostname_of :: "string option \<Rightarrow> string option \<Rightarrow> string" where
  "hostname_of env_var etc_hostname =
     (case env_var of
        Some h \<Rightarrow> h
      | None \<Rightarrow> (case etc_hostname of Some s \<Rightarrow> trim s | None \<Rightarrow> ''unknown''))"

section \<open>One client session\<close>

definition PRE_AUTH_HELLO_MAX_PAYLOAD :: nat where
  "PRE_AUTH_HELLO_MAX_PAYLOAD = 4 * 1024"

datatype ServerError =
    SrvIo io_error_kind
  | SrvProto ProtoError
  | Unauthorized
  | SrvHandshakeTimeout
  | SrvUnexpectedMessage string debug_out

record SharedState =
  st_auth_token :: string
  st_refresh_hz :: u32
  st_hostname :: string
  st_server_version :: string

text \<open>Both strings are walked to the longer length; missing bytes count as zero.\<close>

definition byte_at :: "u8 list \<Rightarrow> nat \<Rightarrow> u8" where
  "byte_at xs i = unwrap_or (get_opt xs i) 0"

definition constant_time_eq :: "u8 list \<Rightarrow> u8 list \<Rightarrow> bool" where
  "constant_time_eq a b \<longleftrightarrow>
     (let diff = foldl (\<lambda>diff i. diff OR (byte_at a i XOR byte_at b i)) 0
                   [0..<max (length a) (length b)]
      in diff = 0 \<and> length a = length b)"

definition as_bytes :: "string \<Rightarrow> u8 list" where
  "as_bytes s = map of_char s"

text \<open>What the streaming \<open>select!\<close> picks, with the state of the transport at that moment.\<close>

datatype session_event =
  RecvFrame Frame | RecvLagged nat | RecvClosed | HeartbeatTick u64 | ShutdownSignal

text \<open>The result of a session; \<open>None\<close> while the events given have not ended it.\<close>

fun streaming ::
    "bincode \<Rightarrow> SharedState \<Rightarrow> (io_error_kind option \<times> session_event) list \<Rightarrow> FrameWriter \<Rightarrow>
     (ServerError + unit) option \<times> FrameWriter" where
  "streaming bc st [] w = (None, w)"
| "streaming bc st ((tx_err, ev) # evs) w =
     (let w = w\<lparr>wfail := tx_err\<rparr> in
      case ev of
        RecvFrame frame \<Rightarrow>
          (case write_frame frame w of
             (Inl e, w) \<Rightarrow> (Some (Inl (SrvProto e)), w)
           | (Inr _, w) \<Rightarrow> streaming bc st evs w)
      | RecvLagged n \<Rightarrow> streaming bc st evs w
      | RecvClosed \<Rightarrow> (Some (Inr ()), w)
      | HeartbeatTick uptime \<Rightarrow>
          (case to_frame bc (Heartbeat (st_server_version st) uptime) of
             Inl e \<Rightarrow> (Some (Inl (SrvProto e)), w)
           | Inr f \<Rightarrow>
               (case write_frame f w of
                  (Inl e, w) \<Rightarrow> (Some (Inl (SrvProto e)), w)
                | (Inr _, w) \<Rightarrow> streaming bc st evs w))
      | ShutdownSignal \<Rightarrow> (Some (Inr ()), w))"

definition handle ::
    "bincode \<Rightarrow> SharedState \<Rightarrow> bool \<Rightarrow> FrameReader \<Rightarrow> FrameWriter \<Rightarrow>
     (io_error_kind option \<times> session_event) list \<Rightarrow> (ServerError + unit) option \<times> FrameWriter" where
  "handle bc st timed_out r w evs =
     (if timed_out then (Some (Inl SrvHandshakeTimeout), w)
      else
        (case fst (read_frame_with_max_payload PRE_AUTH_HELLO_MAX_PAYLOAD r) of
           Inl e \<Rightarrow> (Some (Inl (SrvProto e)), w)
         | Inr None \<Rightarrow> (Some (Inl SrvHandshakeTimeout), w)
         | Inr (Some hello_frame) \<Rightarrow>
             (case from_frame bc hello_frame of
                Inl e \<Rightarrow> (Some (Inl (SrvProto e)), w)
              | Inr (Hello client_version auth_token) \<Rightarrow>
                  let provided = unwrap_or auth_token [] in
                  if \<not> constant_time_eq (as_bytes (st_auth_token st)) (as_bytes provided) then
                    (case to_frame bc (ErrorMsg 401 ''unauthorized'') of
                       Inl e \<Rightarrow> (Some (Inl (SrvProto e)), w)
                     | Inr f \<Rightarrow> (Some (Inl Unauthorized),
                                 snd (write_frame f w :: (ProtoError + unit) \<times> FrameWriter)))
                  else
                    (case to_frame bc (Welcome (st_server_version st) (st_hostname st) (st_refresh_hz st)) of
                       Inl e \<Rightarrow> (Some (Inl (SrvProto e)), w)
                     | Inr f \<Rightarrow>
                         (case write_frame f w of
                            (Inl e, w) \<Rightarrow> (Some (Inl (SrvProto e)), w)
                          | (Inr _, w) \<Rightarrow> streaming bc st evs w))
              | Inr other \<Rightarrow>
                  (Some (Inl (SrvUnexpectedMessage ''Hello'' (wire_fmt other))), w))))"

section \<open>The relay\<close>

text \<open>
  One snapshot from the collector and the number of subscribers at that moment: the frame that is
  broadcast, if any.
\<close>

definition relay_step :: "bincode \<Rightarrow> nat \<Rightarrow> SystemSnapshot \<Rightarrow> Frame option" where
  "relay_step bc client_count snap =
     (if client_count = 0 then None
      else case encode_snapshot_ref bc snap of Inr frame \<Rightarrow> Some frame | Inl _ \<Rightarrow> None)"

section \<open>The accept loop\<close>

text \<open>
  The state of the accept loop: free permits, the tasks that hold one, the next task number, the
  rate limiter, and the number of connections dropped before any cryptography.
\<close>

record 'ip server =
  sv_permits :: nat
  sv_tasks :: "nat list"
  sv_next :: nat
  sv_limiter :: "'ip RateLimiter"
  sv_dropped :: nat

definition server_start :: "instant \<Rightarrow> ServerConfig \<Rightarrow> 'ip server" where
  "server_start now cfg =
     \<lparr>sv_permits = cfg_max_clients cfg, sv_tasks = [], sv_next = 0,
      sv_limiter = limiter_new now (cfg_rate_limit cfg) (fmax (cfg_rate_limit cfg) (Fin 1)),
      sv_dropped = 0\<rparr>"

text \<open>A connection arrives, or a task returns and its permit is dropped.\<close>

datatype 'ip server_event = Accept instant 'ip | TaskEnds nat

fun server_step :: "'ip server_event \<Rightarrow> 'ip server \<Rightarrow> 'ip server" where
  "server_step (Accept now ip) s =
     (case try_admit now ip (sv_limiter s) of
        (admitted, rl) \<Rightarrow>
          let s = s\<lparr>sv_limiter := rl\<rparr> in
          if \<not> admitted then s\<lparr>sv_dropped := Suc (sv_dropped s)\<rparr>
          else if sv_permits s = 0 then s\<lparr>sv_dropped := Suc (sv_dropped s)\<rparr>
          else s\<lparr>sv_permits := sv_permits s - 1, sv_tasks := sv_next s # sv_tasks s,
                 sv_next := Suc (sv_next s)\<rparr>)"
| "server_step (TaskEnds i) s =
     (if i \<in> set (sv_tasks s)
      then s\<lparr>sv_permits := Suc (sv_permits s), sv_tasks := remove1 i (sv_tasks s)\<rparr> else s)"

definition server_run :: "'ip server_event list \<Rightarrow> 'ip server \<Rightarrow> 'ip server" where
  "server_run evs s = fold server_step evs s"

text \<open>The task spawned for a connection: TLS first, then the session.\<close>

definition client_task ::
    "bincode \<Rightarrow> SharedState \<Rightarrow> tls_outcome \<Rightarrow> bool \<Rightarrow> FrameReader \<Rightarrow> FrameWriter \<Rightarrow>
     (io_error_kind option \<times> session_event) list \<Rightarrow> (ServerError + unit) option \<times> FrameWriter" where
  "client_task bc st tls timed_out r w evs =
     (case tls of
        TlsOk \<Rightarrow> handle bc st timed_out r w evs
      | _ \<Rightarrow> (Some (Inr ()), w))"

section \<open>Facts\<close>

lemma fold_or_zero:
  "foldl (\<lambda>d i. d OR f i) d xs = 0 \<longleftrightarrow> d = 0 \<and> (\<forall>i\<in>set xs. f i = 0)" for f :: "nat \<Rightarrow> u8"
proof (induction xs arbitrary: d)
  case (Cons x xs)
  have "d OR f x = 0 \<longleftrightarrow> d = 0 \<and> f x = 0" by (rule or_eq_0_iff)
  with Cons show ?case by auto
qed simp

lemma xor_zero_iff: "a XOR b = 0 \<longleftrightarrow> a = b" for a b :: "'a::len word"
  by (auto simp: bit_eq_iff bit_simps)

lemma constant_time_eq_iff: "constant_time_eq a b \<longleftrightarrow> a = b"
proof
  assume "constant_time_eq a b"
  then have l: "length a = length b" and d: "\<forall>i\<in>set [0..<max (length a) (length b)]. byte_at a i = byte_at b i"
    by (simp_all add: constant_time_eq_def Let_def fold_or_zero xor_zero_iff)
  show "a = b"
  proof (rule nth_equalityI [OF l])
    fix i assume "i < length a"
    with l d have "byte_at a i = byte_at b i" by simp
    with \<open>i < length a\<close> l show "a ! i = b ! i" by (simp add: byte_at_def get_opt_def)
  qed
next
  assume "a = b"
  then show "constant_time_eq a b"
    unfolding constant_time_eq_def Let_def fold_or_zero xor_zero_iff by simp
qed

lemma as_bytes_inject: "as_bytes a = as_bytes b \<longleftrightarrow> a = b"
proof
  assume "as_bytes a = as_bytes b"
  then have "map (\<lambda>b. char_of (unat b)) (as_bytes a) = map (\<lambda>b. char_of (unat b)) (as_bytes b)" by simp
  then show "a = b" by (simp add: as_bytes_def char_of_byte o_def)
qed simp

lemma write_frame_results:
  "write_frame f w = (Inl e, w') \<Longrightarrow> sent w' = sent w"
  "write_frame f w = (Inr u, w') \<Longrightarrow> sent w' = sent w @ frame_bytes f"
  by (auto simp: write_frame_def encode_frame_Inr frame_bytes_def split: sum.splits option.splits)

text \<open>The streaming phase only appends frames it received or heartbeats.\<close>

definition streamable :: "bincode \<Rightarrow> SharedState \<Rightarrow> (io_error_kind option \<times> session_event) list \<Rightarrow> Frame \<Rightarrow> bool" where
  "streamable bc st evs f \<longleftrightarrow>
     (\<exists>e. (e, RecvFrame f) \<in> set evs) \<or> (\<exists>u. to_frame bc (Heartbeat (st_server_version st) u) = Inr f)"

lemma streaming_appends:
  "\<exists>fs. sent (snd (streaming bc st evs w)) = sent w @ concat (map frame_bytes fs) \<and>
     (\<forall>f\<in>set fs. streamable bc st evs f)"
proof (induction evs arbitrary: w)
  case Nil
  then show ?case by (intro exI [of _ "[]"]) simp
next
  case (Cons x evs)
  obtain tx_err ev where x: "x = (tx_err, ev)" by fastforce
  let ?w = "w\<lparr>wfail := tx_err\<rparr>"
  have weaken: "streamable bc st evs f \<Longrightarrow> streamable bc st (x # evs) f" for f
    by (auto simp: streamable_def)
  have stop: "\<exists>fs. sent w = sent w @ concat (map frame_bytes fs) \<and> (\<forall>f\<in>set fs. streamable bc st (x # evs) f)"
    by (intro exI [of _ "[]"]) simp
  have go: "\<exists>fs. sent (snd (streaming bc st evs w')) = sent w @ concat (map frame_bytes fs) \<and>
      (\<forall>f\<in>set fs. streamable bc st (x # evs) f)"
    if "sent w' = sent w @ concat (map frame_bytes gs)" "\<forall>f\<in>set gs. streamable bc st (x # evs) f" for w' gs
  proof -
    obtain fs where "sent (snd (streaming bc st evs w')) = sent w' @ concat (map frame_bytes fs)"
      "\<forall>f\<in>set fs. streamable bc st evs f" using Cons.IH by blast
    with that weaken show ?thesis by (intro exI [of _ "gs @ fs"]) auto
  qed
  have wr: "\<exists>fs. sent (snd (case write_frame f ?w of (Inl e, w) \<Rightarrow> (Some (Inl (SrvProto e)), w)
        | (Inr _, w) \<Rightarrow> streaming bc st evs w)) = sent w @ concat (map frame_bytes fs) \<and>
      (\<forall>f\<in>set fs. streamable bc st (x # evs) f)" if "streamable bc st (x # evs) f" for f
  proof (cases "write_frame f ?w")
    case (Pair res w')
    show ?thesis
    proof (cases res)
      case (Inl e)
      with Pair have "sent w' = sent w" using write_frame_results(1) [of f ?w e w'] by simp
      with stop show ?thesis unfolding Pair Inl by simp
    next
      case (Inr u)
      with Pair have "sent w' = sent w @ frame_bytes f" using write_frame_results(2) [of f ?w u w'] by simp
      with go [of w' "[f]"] that show ?thesis unfolding Pair Inr by simp
    qed
  qed
  show ?case
  proof (cases ev)
    case (RecvFrame f)
    then have "streamable bc st (x # evs) f" by (auto simp: streamable_def x)
    from wr [OF this] show ?thesis by (simp add: x RecvFrame)
  next
    case (HeartbeatTick u)
    show ?thesis
    proof (cases "to_frame bc (Heartbeat (st_server_version st) u)")
      case (Inl e)
      with stop show ?thesis by (simp add: x HeartbeatTick)
    next
      case (Inr f)
      then have "streamable bc st (x # evs) f" by (auto simp: streamable_def)
      from wr [OF this] Inr show ?thesis by (simp add: x HeartbeatTick)
    qed
  qed (use stop go [of ?w "[]"] in \<open>auto simp: x\<close>)
qed

definition error_401 :: "bincode \<Rightarrow> u8 list" where
  "error_401 bc = (case to_frame bc (ErrorMsg 401 ''unauthorized'') of Inl _ \<Rightarrow> [] | Inr f \<Rightarrow> frame_bytes f)"

definition authenticated :: "bincode \<Rightarrow> SharedState \<Rightarrow> FrameReader \<Rightarrow> bool" where
  "authenticated bc st r \<longleftrightarrow>
     (\<exists>f v t. fst (read_frame_with_max_payload PRE_AUTH_HELLO_MAX_PAYLOAD r) = Inr (Some f) \<and>
        from_frame bc f = Inr (Hello v t) \<and> unwrap_or t [] = st_auth_token st)"

lemma handle_unauthenticated:
  assumes "\<not> authenticated bc st r"
  shows "(\<exists>e. fst (handle bc st timed_out r w evs) = Some (Inl e)) \<and>
    (sent (snd (handle bc st timed_out r w evs)) = sent w \<or>
     sent (snd (handle bc st timed_out r w evs)) = sent w @ error_401 bc)"
proof (cases "timed_out \<or> (\<forall>f v t. fst (read_frame_with_max_payload PRE_AUTH_HELLO_MAX_PAYLOAD r) = Inr (Some f) \<longrightarrow>
    from_frame bc f \<noteq> Inr (Hello v t))")
  case True
  then show ?thesis
    by (auto simp: handle_def split: sum.splits option.splits WireMessage.splits)
next
  case False
  then obtain f v t where rd: "fst (read_frame_with_max_payload PRE_AUTH_HELLO_MAX_PAYLOAD r) = Inr (Some f)"
    "from_frame bc f = Inr (Hello v t)" "\<not> timed_out" by blast
  with assms have "unwrap_or t [] \<noteq> st_auth_token st" by (auto simp: authenticated_def)
  then have bad: "\<not> constant_time_eq (as_bytes (st_auth_token st)) (as_bytes (unwrap_or t []))"
    by (auto simp: constant_time_eq_iff as_bytes_inject)
  show ?thesis
  proof (cases "to_frame bc (ErrorMsg 401 ''unauthorized'')")
    case (Inl e)
    with rd bad show ?thesis by (simp add: handle_def)
  next
    case (Inr g)
    obtain res w' where wr: "write_frame g w = (res, w')" by fastforce
    then have "sent w' = sent w \<or> sent w' = sent w @ frame_bytes g"
      using write_frame_results(1) [of g w _ w'] write_frame_results(2) [of g w _ w']
      by (cases res) simp_all
    with rd bad Inr wr show ?thesis by (simp add: handle_def error_401_def)
  qed
qed

lemma handle_authenticated:
  assumes "authenticated bc st r" "\<not> timed_out"
    and "to_frame bc (Welcome (st_server_version st) (st_hostname st) (st_refresh_hz st)) = Inr wframe"
    and "length (payload wframe) < unat MAX_FRAME_SIZE" "wfail w = None"
  shows "handle bc st timed_out r w evs = streaming bc st evs (w\<lparr>sent := sent w @ frame_bytes wframe\<rparr>)"
  using assms
  by (auto simp: authenticated_def handle_def constant_time_eq_iff write_frame_def encode_frame_fits)

lemma server_step_permits:
  "sv_permits (server_step ev s) + length (sv_tasks (server_step ev s)) = sv_permits s + length (sv_tasks s)"
proof (cases ev)
  case (Accept now ip)
  then show ?thesis by (auto simp: Let_def split: prod.splits)
next
  case (TaskEnds i)
  have "length (sv_tasks s) \<noteq> 0" if "i \<in> set (sv_tasks s)" using that by auto
  with TaskEnds show ?thesis by (auto simp: length_remove1)
qed

lemma server_run_permits:
  "sv_permits (server_run evs s) + length (sv_tasks (server_run evs s)) = sv_permits s + length (sv_tasks s)"
  by (induction evs arbitrary: s) (simp_all add: server_run_def server_step_permits)

section \<open>Properties\<close>

text \<open>
  C3. Without the token nothing is learned: if the first frame of a client is not a \<open>Hello\<close> with
  the server's token, the session ends in an error and the server writes nothing, or nothing but
  the 401 error frame, whatever the broadcast channel and the timers do.
\<close>

theorem unauthenticated_client_gets_nothing:
  assumes "\<not> authenticated bc st r"
  shows "(\<exists>e. fst (handle bc st timed_out r writer_new evs) = Some (Inl e)) \<and>
    sent (snd (handle bc st timed_out r writer_new evs)) \<in> {[], error_401 bc}"
  using handle_unauthenticated [OF assms, of timed_out writer_new evs] by (auto simp: writer_new_def)

definition sample_state :: SharedState where
  "sample_state = \<lparr>st_auth_token = ''correct-horse-16'', st_refresh_hz = 1, st_hostname = ''web'',
     st_server_version = ''0.5''\<rparr>"

theorem unauthenticated_client_gets_nothing_witness:
  "sent (snd (handle sample_bincode sample_state False (reader_new [] UnexpectedEof) writer_new
     [(None, HeartbeatTick 5)])) \<in> {[], error_401 sample_bincode}"
proof -
  have "\<not> authenticated sample_bincode sample_state (reader_new [] UnexpectedEof)"
    by (simp add: authenticated_def read_frame_with_max_payload_def read_exact_def reader_new_def HEADER_SIZE_def)
  from unauthenticated_client_gets_nothing [OF this] show ?thesis by blast
qed

text \<open>
  The token comparison that runs in time independent of where the strings differ is equality:
  it accepts exactly the server's own token.
\<close>

theorem constant_time_eq_correct:
  "constant_time_eq (as_bytes a) (as_bytes b) \<longleftrightarrow> a = b"
  by (simp add: constant_time_eq_iff as_bytes_inject)

text \<open>
  A client that presents the token is welcomed first, and after that every byte it gets is a
  whole frame that the relay broadcast or a heartbeat: the session never writes anything else.
\<close>

theorem authenticated_session_output:
  assumes "authenticated bc st r"
    and "to_frame bc (Welcome (st_server_version st) (st_hostname st) (st_refresh_hz st)) = Inr wframe"
    and "length (payload wframe) < unat MAX_FRAME_SIZE"
  shows "\<exists>fs. sent (snd (handle bc st False r writer_new evs)) = frame_bytes wframe @ concat (map frame_bytes fs) \<and>
    (\<forall>f\<in>set fs. streamable bc st evs f)"
  using handle_authenticated [OF assms(1) _ assms(2,3), of False writer_new evs]
    streaming_appends [of bc st evs "writer_new\<lparr>sent := sent writer_new @ frame_bytes wframe\<rparr>"]
  by (simp add: writer_new_def)

definition hello_frame :: Frame where
  "hello_frame = \<lparr>msg_type = MSG_HELLO, payload = put_str ''0.5'' @ put_opt (Some ''correct-horse-16'')\<rparr>"

definition welcome_frame :: Frame where
  "welcome_frame = \<lparr>msg_type = MSG_WELCOME, payload = put_str ''0.5'' @ put_str ''web'' @ [1]\<rparr>"

lemma sample_authenticated:
  "authenticated sample_bincode sample_state (reader_new (frame_bytes hello_frame) UnexpectedEof)"
proof -
  have h: "to_frame sample_bincode (Hello ''0.5'' (Some ''correct-horse-16'')) = Inr hello_frame"
    by (simp add: hello_frame_def sample_bincode_def frame_of_def)
  have len: "length (payload hello_frame) \<le> PRE_AUTH_HELLO_MAX_PAYLOAD"
    "length (payload hello_frame) < unat MAX_FRAME_SIZE"
    by (simp_all add: hello_frame_def put_str_def PRE_AUTH_HELLO_MAX_PAYLOAD_def unat_MAX_FRAME_SIZE)
  have "fst (read_frame_with_max_payload PRE_AUTH_HELLO_MAX_PAYLOAD (reader_new (frame_bytes hello_frame) UnexpectedEof)) =
      Inr (Some hello_frame)"
    using read_encoded_frame [OF encode_frame_fits [OF len(2)] len(1), where r = "reader_new [] UnexpectedEof" and rest = "[]"]
    by (simp add: reader_new_def)
  moreover have "from_frame sample_bincode hello_frame = Inr (Hello ''0.5'' (Some ''correct-horse-16''))"
    using sample.from_to_frame [OF h] by simp
  ultimately show ?thesis unfolding authenticated_def
    by (intro exI conjI) (assumption, assumption, simp add: sample_state_def)
qed

theorem authenticated_session_output_witness:
  "\<exists>fs. sent (snd (handle sample_bincode sample_state False
       (reader_new (frame_bytes hello_frame) UnexpectedEof) writer_new [(None, RecvLagged 3)])) =
     frame_bytes welcome_frame @ concat (map frame_bytes fs)"
proof -
  have w: "to_frame sample_bincode (Welcome (st_server_version sample_state) (st_hostname sample_state)
      (st_refresh_hz sample_state)) = Inr welcome_frame"
    by (simp add: welcome_frame_def sample_bincode_def frame_of_def sample_state_def)
  have len: "length (payload welcome_frame) < unat MAX_FRAME_SIZE"
    by (simp add: welcome_frame_def put_str_def unat_MAX_FRAME_SIZE)
  from authenticated_session_output [OF sample_authenticated w len] show ?thesis by blast
qed

text \<open>
  C28. The number of connections being served, TLS handshakes included, never exceeds
  \<open>--max-clients\<close>, in every interleaving of arrivals and endings; and every permit that is not
  free belongs to exactly one running task.
\<close>

theorem max_clients_respected:
  "length (sv_tasks (server_run evs (server_start now cfg))) \<le> cfg_max_clients cfg \<and>
   sv_permits (server_run evs (server_start now cfg)) =
     cfg_max_clients cfg - length (sv_tasks (server_run evs (server_start now cfg)))"
  using server_run_permits [of evs "server_start now cfg"] by (simp add: server_start_def)

text \<open>
  The server only starts with a token of at least 16 bytes, with TLS, and with a rate limit
  that is not negative; a token read from a file has no surrounding white space left.
\<close>

theorem startup_requires_secrets:
  assumes "startup tls_files tls_generated c = Inr cfg"
  shows "16 \<le> length (cfg_auth_token cfg) \<and> (cli_tls_files c \<or> cli_tls_generate c) \<and>
    \<not> flt (cfg_rate_limit cfg) (Fin 0) \<and>
    (\<forall>raw. cli_token_file c = Some (Some raw) \<longrightarrow> cfg_auth_token cfg = trim raw)"
  using assms
  by (auto simp: startup_def auth_token_of_def read_token_file_def Let_def
      split: sum.splits option.splits if_splits)

definition sample_cli :: cli where
  "sample_cli =
     \<lparr>cli_token_file = None, cli_token = Some ''correct-horse-16'', cli_tls_files = True,
      cli_tls_generate = False, cli_rate_limit = Fin 10, cli_max_clients = 8, cli_refresh = 1\<rparr>"

theorem startup_requires_secrets_witness:
  "\<exists>cfg. startup (Inr ()) (Inr ()) sample_cli = Inr cfg \<and> 16 \<le> length (cfg_auth_token cfg)"
proof -
  obtain cfg where c: "startup (Inr ()) (Inr ()) sample_cli = Inr cfg"
    by (simp add: startup_def sample_cli_def auth_token_of_def)
  with startup_requires_secrets [OF c] show ?thesis by blast
qed

text \<open>
  A rate of NaN passes the start-up check for negative rates and disables the limit: the
  bucket of every known address is full at every attempt, so each attempt is admitted.
\<close>

theorem nan_rate_disables_limit:
  "\<not> flt NaN (Fin 0) \<and>
   fst (take_token now NaN (fmax NaN (Fin 1)) (Some b)) \<and>
   fst (take_token now NaN (fmax NaN (Fin 1)) None)"
proof -
  have "fmul F32 a NaN = NaN" for a by (cases a) simp_all
  moreover have "fadd F32 a NaN = NaN" for a by (cases a) simp_all
  ultimately show ?thesis by (simp add: take_token_def refilled_at_def fmax_def fmin_def fle_def Let_def)
qed

end
