(* ===== verification/Session.thy ===== *)
theory Session
  imports Server
begin

text \<open>
  The server's session and the client's connection put together (\<open>muxtop-server/client.rs\<close>,
  \<open>server.rs\<close> and \<open>muxtop-proto/remote.rs\<close>): what the server collects, the events this causes in
  the session of a client, the bytes the session writes and what the client's loop makes of them.
\<close>

text \<open>
  What happens on the server while a client is connected: a snapshot of the collector reaches the
  relay and the client's receiver, the receiver has missed some and reports the lag, or the
  heartbeat timer fires.
\<close>

datatype feed = Collected SystemSnapshot | Lagged nat | Beat u64

text \<open>
  The relay turns a snapshot into the frame it broadcasts and drops one it cannot encode; the other
  two reach the session directly. The transport accepts every write.
\<close>

fun session_events :: "bincode \<Rightarrow> feed list \<Rightarrow> (io_error_kind option \<times> session_event) list" where
  "session_events bc [] = []"
| "session_events bc (Collected s # fs) =
     (case relay_step bc 1 s of
        Some frame \<Rightarrow> (None, RecvFrame frame) # session_events bc fs
      | None \<Rightarrow> session_events bc fs)"
| "session_events bc (Lagged n # fs) = (None, RecvLagged n) # session_events bc fs"
| "session_events bc (Beat u # fs) = (None, HeartbeatTick u) # session_events bc fs"

text \<open>A connection that is up, with a consumer that takes everything, over these bytes.\<close>

definition open_connection :: "u8 list \<Rightarrow> connection" where
  "open_connection bytes =
     \<lparr>cn_tcp = Done (Inr ()), cn_tls = Done TlsOk, cn_wfail = None, cn_input = bytes,
      cn_at_end = UnexpectedEof, cn_welcome_timeout = False, cn_cancel_at = None,
      cn_tx = (\<lambda>_. SendOk), cn_conn_tx = (\<lambda>_. True)\<rparr>"

text \<open>The bytes the server writes to a client that sent \<open>request\<close>.\<close>

definition served :: "bincode \<Rightarrow> SharedState \<Rightarrow> u8 list \<Rightarrow> feed list \<Rightarrow> u8 list" where
  "served bc st request fs =
     sent (snd (client_task bc st TlsOk False (reader_new request UnexpectedEof) writer_new
       (session_events bc fs)))"

text \<open>A message that can be framed and that the receiver's limit admits.\<close>

definition deliverable :: "bincode \<Rightarrow> (WireMessage \<Rightarrow> bool) \<Rightarrow> WireMessage \<Rightarrow> bool" where
  "deliverable bc fits m \<longleftrightarrow>
     fits m \<and> (\<exists>f. to_frame bc m = Inr f \<and> length (payload f) < unat MAX_FRAME_SIZE)"

definition the_frame :: "bincode \<Rightarrow> WireMessage \<Rightarrow> Frame" where
  "the_frame bc m = (case to_frame bc m of Inr f \<Rightarrow> f | Inl _ \<Rightarrow> \<lparr>msg_type = 0, payload = []\<rparr>)"

fun messages :: "SharedState \<Rightarrow> feed list \<Rightarrow> WireMessage list" where
  "messages st [] = []"
| "messages st (Collected s # fs) = Wire.Snapshot s # messages st fs"
| "messages st (Lagged n # fs) = messages st fs"
| "messages st (Beat u # fs) = Heartbeat (st_server_version st) u # messages st fs"

fun collected :: "feed list \<Rightarrow> SystemSnapshot list" where
  "collected [] = []"
| "collected (Collected s # fs) = s # collected fs"
| "collected (Lagged n # fs) = collected fs"
| "collected (Beat u # fs) = collected fs"

definition welcome_message :: "SharedState \<Rightarrow> WireMessage" where
  "welcome_message st = Welcome (st_server_version st) (st_hostname st) (st_refresh_hz st)"

lemma deliverable_frame:
  assumes "deliverable bc fits m"
  shows "to_frame bc m = Inr (the_frame bc m)" "fits m"
    "length (payload (the_frame bc m)) < unat MAX_FRAME_SIZE"
  using assms by (auto simp: deliverable_def the_frame_def)

lemma snapshots_of_messages: "snapshots_of (messages st fs) = collected fs"
  by (induction fs rule: collected.induct) (simp_all add: snapshots_of_def)

lemma messages_no_error: "\<forall>m\<in>set (messages st fs). \<forall>c msg. m \<noteq> ErrorMsg c msg"
  by (induction st fs rule: messages.induct) simp_all

lemma streaming_feed:
  assumes "\<forall>m\<in>set (messages st fs). deliverable bc fits m" "wfail w = None"
  shows "streaming bc st (session_events bc fs) w =
    (None, w\<lparr>sent := sent w @ concat (map (\<lambda>m. frame_bytes (the_frame bc m)) (messages st fs))\<rparr>)"
  using assms
proof (induction fs arbitrary: w rule: collected.induct)
  case (2 s fs)
  then have "deliverable bc fits (Wire.Snapshot s)" by simp
  note f = deliverable_frame [OF this]
  then have "relay_step bc 1 s = Some (the_frame bc (Wire.Snapshot s))"
    by (simp add: relay_step_def encode_snapshot_ref_to_frame del: to_frame.simps)
  with 2 f show ?case by (simp add: write_frame_def encode_frame_fits del: to_frame.simps)
next
  case (4 u fs)
  then have "deliverable bc fits (Heartbeat (st_server_version st) u)" by simp
  note f = deliverable_frame [OF this]
  with 4 show ?case by (simp add: write_frame_def encode_frame_fits del: to_frame.simps)
qed simp_all

lemma read_first_frame:
  assumes "length (payload f) \<le> PRE_AUTH_HELLO_MAX_PAYLOAD"
  shows "fst (read_frame_with_max_payload PRE_AUTH_HELLO_MAX_PAYLOAD (reader_new (frame_bytes f) UnexpectedEof)) =
    Inr (Some f)"
proof -
  have "length (payload f) < unat MAX_FRAME_SIZE"
    using assms by (simp add: PRE_AUTH_HELLO_MAX_PAYLOAD_def unat_MAX_FRAME_SIZE)
  from read_encoded_frame [OF encode_frame_fits [OF this] assms, where r = "reader_new [] UnexpectedEof" and rest = "[]"]
  show ?thesis by (simp add: reader_new_def)
qed

lemma hello_authenticates:
  assumes "bincode_law bc fits" "deliverable bc fits (Hello v (Some (st_auth_token st)))"
    and "length (payload (the_frame bc (Hello v (Some (st_auth_token st))))) \<le> PRE_AUTH_HELLO_MAX_PAYLOAD"
  shows "authenticated bc st
    (reader_new (frame_bytes (the_frame bc (Hello v (Some (st_auth_token st))))) UnexpectedEof)"
  unfolding authenticated_def
  using read_first_frame [OF assms(3)] deliverable_frame [OF assms(2)]
    bincode_law.from_to_frame [OF assms(1)] by (metis unwrap_or_simps(2))

lemma served_bytes:
  assumes "bincode_law bc fits" "deliverable bc fits (Hello v (Some (st_auth_token st)))"
    and "length (payload (the_frame bc (Hello v (Some (st_auth_token st))))) \<le> PRE_AUTH_HELLO_MAX_PAYLOAD"
    and "\<forall>m\<in>set (welcome_message st # messages st fs). deliverable bc fits m"
  shows "served bc st (frame_bytes (the_frame bc (Hello v (Some (st_auth_token st))))) fs =
    concat (map frame_bytes (map (the_frame bc) (welcome_message st # messages st fs)))"
proof -
  have w: "deliverable bc fits (welcome_message st)" using assms(4) by simp
  note f = deliverable_frame [OF w, unfolded welcome_message_def]
  show ?thesis
    unfolding served_def client_task_def
    using handle_authenticated [OF hello_authenticates [OF assms(1-3)] _ f(1,3), of False writer_new]
      streaming_feed [of st fs bc fits] assms(4)
    by (simp add: writer_new_def welcome_message_def o_def del: to_frame.simps)
qed


lemma hello_bytes_frame:
  assumes "deliverable bc fits (Hello (rc_version rc) (rc_token rc))"
  shows "hello_bytes bc rc = frame_bytes (the_frame bc (Hello (rc_version rc) (rc_token rc)))"
  using deliverable_frame(1) [OF assms] by (simp add: hello_bytes_def del: to_frame.simps)

lemma received_Cons:
  assumes "received bc r = (m # ms, e)"
  obtains f r' where "read_frame r = (Inr (Some f), r')" "from_frame bc f = Inr m" "received bc r' = (ms, e)"
  using assms unfolding received.simps [of bc r]
  by (cases "received bc (snd (read_frame r))")
    (auto simp: apfst_def split: prod.splits sum.splits option.splits)

lemma client_reads_session:
  assumes "bincode_law bc fits" "deliverable bc fits (Hello (rc_version rc) (rc_token rc))"
    and "\<forall>m\<in>set (Welcome v h hz # ms). deliverable bc fits m" "\<forall>m\<in>set ms. \<forall>c msg. m \<noteq> ErrorMsg c msg"
  shows "connect_and_stream bc rc (open_connection (concat (map frame_bytes (map (the_frame bc) (Welcome v h hz # ms))))) no_output =
    (Inl ConnectionClosed,
     \<lparr>co_delivered = snapshots_of ms, co_events = [Connected h], co_offered = length (snapshots_of ms),
      co_attempts = 1, co_written = hello_bytes bc rc\<rparr>)"
proof -
  let ?w = "Welcome v h hz"
  let ?bs = "concat (map frame_bytes (map (the_frame bc) (?w # ms)))"
  let ?cn = "open_connection ?bs"
  have "list_all2 (\<lambda>m f. to_frame bc m = Inr f \<and> fits m \<and> length (payload f) < unat MAX_FRAME_SIZE)
      (?w # ms) (map (the_frame bc) (?w # ms))"
    unfolding list_all2_map2 by (rule list.rel_refl_strong) (use assms(3) deliverable_frame in blast)
  note rec = received_encoded [OF assms(1) this]
  obtain f r where rd: "read_frame (reader_new ?bs UnexpectedEof) = (Inr (Some f), r)"
    and f: "from_frame bc f = Inr ?w" and r: "received bc r = (ms, ConnectionClosed)"
    by (rule received_Cons [OF rec])
  have "write_frame (the_frame bc (Hello (rc_version rc) (rc_token rc))) \<lparr>sent = [], wfail = None\<rparr> =
      (Inr (), \<lparr>sent = hello_bytes bc rc, wfail = None\<rparr>)"
    using deliverable_frame(3) [OF assms(2)]
    by (simp add: hello_bytes_frame [OF assms(2)] write_frame_def encode_frame_fits)
  with rd f deliverable_frame(1) [OF assms(2)]
  have "connect_and_stream bc rc ?cn no_output =
      stream_loop bc ?cn 0 r (send_conn_event ?cn (Connected h) (no_output\<lparr>co_written := hello_bytes bc rc\<rparr>))"
    by (simp add: connect_and_stream_def open_connection_def no_output_def del: to_frame.simps)
  also have "\<dots> = (Inl ConnectionClosed,
     \<lparr>co_delivered = snapshots_of ms, co_events = [Connected h], co_offered = length (snapshots_of ms),
      co_attempts = 1, co_written = hello_bytes bc rc\<rparr>)"
    unfolding stream_loop_consume r fst_conv snd_conv
    by (subst consume_complete) (use assms(4) in \<open>simp_all add: open_connection_def no_output_def send_conn_event_def\<close>)
  finally show ?thesis .
qed

end
