(* ===== verification/Engine_Targets.thy ===== *)
theory Engine_Targets
  imports Snapshots
begin

text \<open>
  The engine interfaces and their detection (\<open>muxtop-core/src/container_engine.rs\<close>,
  \<open>cluster_engine.rs\<close>): error types, the Docker endpoint from the environment or the known socket
  paths, the warning about remote endpoints, namespace validation and the kubeconfig source. The
  environment and the existence of paths are arguments.
\<close>

text \<open>The outcome of a call with a time limit.\<close>

datatype 'a timed = TimedOut | Finished 'a

section \<open>Container engine\<close>

datatype ConnectionTarget = Unix string | Http string

datatype EngineError =
    ConnectFailed string
  | ContainerNotFound string
  | PermissionDenied string
  | EngineTimeout duration
  | EngineOther string

definition parse_docker_host :: "string \<Rightarrow> ConnectionTarget option" where
  "parse_docker_host raw0 =
     (let raw = trim raw0 in
      case strip_prefix ''unix://'' raw of
        Some rest \<Rightarrow> if rest = [] then None else Some (Unix rest)
      | None \<Rightarrow>
          (case strip_prefix ''tcp://'' raw of
             Some rest \<Rightarrow> if rest = [] then None else Some (Http (''http://'' @ rest))
           | None \<Rightarrow>
               if starts_with raw ''http://'' \<or> starts_with raw ''https://'' then Some (Http raw)
               else None))"

text \<open>The IP parser of the standard library and its loopback test are one argument.\<close>

definition http_host_is_loopback :: "(string \<Rightarrow> bool option) \<Rightarrow> string \<Rightarrow> bool" where
  "http_host_is_loopback ip_loopback url =
     (let after_scheme =
            unwrap_or (or_else (strip_prefix ''http://'' url) (strip_prefix ''https://'' url)) url;
          after_userinfo =
            (case rfind_char (CHR ''@'') after_scheme of
               Some idx \<Rightarrow> drop (idx + 1) after_scheme | None \<Rightarrow> after_scheme);
          host_port = hd (split_at (\<lambda>c. c = CHR ''/'' \<or> c = CHR ''?'') after_userinfo);
          host =
            (case strip_prefix ''['' host_port of
               Some stripped \<Rightarrow>
                 (case find_char (CHR '']'') stripped of
                    Some e \<Rightarrow> take e stripped | None \<Rightarrow> stripped)
             | None \<Rightarrow> hd (split_at (\<lambda>c. c = CHR '':'') host_port))
      in if eq_ignore_ascii_case host ''localhost'' then True
         else (case ip_loopback host of Some b \<Rightarrow> b | None \<Rightarrow> False))"

text \<open>The result of detection and whether the warning about a remote endpoint is logged.\<close>

definition detect_with ::
    "(string \<Rightarrow> bool option) \<Rightarrow> (string \<Rightarrow> string option) \<Rightarrow> (string \<Rightarrow> bool) \<Rightarrow> string list \<Rightarrow>
     ConnectionTarget option \<times> bool" where
  "detect_with ip_loopback env exists candidates =
     (case Option.bind (env ''DOCKER_HOST'') parse_docker_host of
        Some target \<Rightarrow>
          (Some target, case target of Http url \<Rightarrow> \<not> http_host_is_loopback ip_loopback url | _ \<Rightarrow> False)
      | None \<Rightarrow> (map_option Unix (find exists candidates), False))"

definition path_join :: "string \<Rightarrow> string \<Rightarrow> string" where
  "path_join base rel = (if base \<noteq> [] \<and> last base = CHR ''/'' then base @ rel else base @ ''/'' @ rel)"

definition detect_socket ::
    "(string \<Rightarrow> bool option) \<Rightarrow> (string \<Rightarrow> string option) \<Rightarrow> (string \<Rightarrow> bool) \<Rightarrow> ConnectionTarget option \<times> bool" where
  "detect_socket ip_loopback env exists =
     detect_with ip_loopback env exists
       ([''/var/run/docker.sock''] @
        (case env ''XDG_RUNTIME_DIR'' of Some x \<Rightarrow> [path_join x ''podman/podman.sock''] | None \<Rightarrow> []) @
        [''/run/podman/podman.sock''])"

section \<open>Cluster engine\<close>

datatype ClusterError =
    KubeconfigNotFound
  | Unreachable string
  | Forbidden string "string option"
  | MetricsUnavailable
  | Stale u64
  | ClusterOther string

datatype KubeconfigSource = KC_Env string | KC_Home string | KC_InCluster | KC_None

datatype KubeScope = AllNamespaces | Namespace string

fun scope_namespace :: "KubeScope \<Rightarrow> string option" where
  "scope_namespace AllNamespaces = None"
| "scope_namespace (Namespace ns) = Some ns"

definition scope_label :: "KubeScope \<Rightarrow> string" where
  "scope_label s = unwrap_or (scope_namespace s) []"

definition is_all_namespaces :: "KubeScope \<Rightarrow> bool" where
  "is_all_namespaces s \<longleftrightarrow> (case s of AllNamespaces \<Rightarrow> True | _ \<Rightarrow> False)"

definition is_ns_alnum :: "char \<Rightarrow> bool" where
  "is_ns_alnum b \<longleftrightarrow> is_ascii_lowercase b \<or> is_ascii_digit b"

definition is_valid_namespace :: "string \<Rightarrow> bool" where
  "is_valid_namespace name \<longleftrightarrow>
     (if name = [] \<or> 63 < length name then False
      else if \<not> is_ns_alnum (name ! 0) \<or> \<not> is_ns_alnum (name ! (length name - 1)) then False
      else list_all (\<lambda>b. is_ns_alnum b \<or> b = CHR ''-'') name)"

text \<open>\<open>dbg\<close> is the debug rendering of a string.\<close>

definition namespace_error :: "(string \<Rightarrow> string) \<Rightarrow> string \<Rightarrow> string" where
  "namespace_error dbg raw =
     ''invalid namespace '' @ dbg raw @ '': expected a DNS-1123 label ''
     @ ''(1-63 chars, lowercase alphanumeric or '' @ [CHR 0x27] @ ''-'' @ [CHR 0x27]
     @ '', starting and ending alphanumeric)''"

definition parse_namespace :: "(string \<Rightarrow> string) \<Rightarrow> string \<Rightarrow> string + string" where
  "parse_namespace dbg raw = (if is_valid_namespace raw then Inr raw else Inl (namespace_error dbg raw))"

definition detect_kubeconfig_with ::
    "(string \<Rightarrow> string option) \<Rightarrow> (string \<Rightarrow> bool) \<Rightarrow> string option \<Rightarrow> string \<Rightarrow> KubeconfigSource" where
  "detect_kubeconfig_with env exists home_kubeconfig in_cluster_token =
     (case env ''KUBECONFIG'' of
        Some raw \<Rightarrow>
          if trim raw \<noteq> [] then KC_Env (trim raw)
          else (case home_kubeconfig of
                  Some home \<Rightarrow> if exists home then KC_Home home
                               else if exists in_cluster_token then KC_InCluster else KC_None
                | None \<Rightarrow> if exists in_cluster_token then KC_InCluster else KC_None)
      | None \<Rightarrow>
          (case home_kubeconfig of
             Some home \<Rightarrow> if exists home then KC_Home home
                          else if exists in_cluster_token then KC_InCluster else KC_None
           | None \<Rightarrow> if exists in_cluster_token then KC_InCluster else KC_None))"

definition detect_kubeconfig ::
    "(string \<Rightarrow> string option) \<Rightarrow> (string \<Rightarrow> bool) \<Rightarrow> string option \<Rightarrow> KubeconfigSource" where
  "detect_kubeconfig env exists home_dir =
     detect_kubeconfig_with env exists (map_option (\<lambda>h. path_join h ''.kube/config'') home_dir)
       ''/var/run/secrets/kubernetes.io/serviceaccount/token''"

section \<open>Properties\<close>

lemma ns_alnum_bytes: "is_ns_alnum c \<Longrightarrow> (48 \<le> byte_of c \<and> byte_of c \<le> 57) \<or> (97 \<le> byte_of c \<and> byte_of c \<le> 122)"
  by (auto simp: is_ns_alnum_def is_ascii_lowercase_def is_ascii_digit_def)

text \<open>
  A namespace that passes validation can be put into a request path: it is 1 to 63 bytes of
  lower-case letters, digits and dashes, so it contains no slash, dot, question mark, percent sign,
  white space or any byte outside ASCII; and it neither starts nor ends with a dash.
\<close>

theorem valid_namespace_is_path_safe:
  assumes "is_valid_namespace ns"
  shows "1 \<le> length ns \<and> length ns \<le> 63 \<and>
    set ns \<inter> {CHR ''/'', CHR ''.'', CHR ''?'', CHR ''%'', CHR '' '', CHR 0x5C} = {} \<and>
    is_ascii ns \<and> hd ns \<noteq> CHR ''-'' \<and> last ns \<noteq> CHR ''-''"
proof -
  from assms have ne: "ns \<noteq> []" and len: "length ns \<le> 63"
    and ends: "is_ns_alnum (hd ns)" "is_ns_alnum (last ns)"
    and all: "\<forall>c\<in>set ns. is_ns_alnum c \<or> c = CHR ''-''"
    by (auto simp: is_valid_namespace_def hd_conv_nth last_conv_nth list_all_iff split: if_splits)
  have bytes: "byte_of c = 45 \<or> (48 \<le> byte_of c \<and> byte_of c \<le> 57) \<or> (97 \<le> byte_of c \<and> byte_of c \<le> 122)"
    if "c \<in> set ns" for c
  proof -
    from that all have "is_ns_alnum c \<or> c = CHR ''-''" by blast
    then show ?thesis
    proof
      assume "c = CHR ''-''"
      then have "byte_of c = 45" by simp
      then show ?thesis by simp
    qed (blast dest: ns_alnum_bytes)
  qed
  have "c \<notin> {CHR ''/'', CHR ''.'', CHR ''?'', CHR ''%'', CHR '' '', CHR 0x5C}" if "c \<in> set ns" for c
    using bytes [OF that] by auto
  then have "set ns \<inter> {CHR ''/'', CHR ''.'', CHR ''?'', CHR ''%'', CHR '' '', CHR 0x5C} = {}"
    by blast
  moreover have "byte_of c < 128" if "c \<in> set ns" for c using bytes [OF that] by linarith
  then have "is_ascii ns" by (simp add: is_ascii_def list_all_iff)
  moreover have "hd ns \<noteq> CHR ''-''" "last ns \<noteq> CHR ''-''"
    using ends ns_alnum_bytes [of "CHR ''-''"] by auto
  ultimately show ?thesis using ne len by (cases ns) auto
qed

theorem valid_namespace_is_path_safe_witness:
  "is_valid_namespace ''kube-system'' \<and> set ''kube-system'' \<inter> {CHR ''/'', CHR ''.''} = {} \<and>
   hd ''kube-system'' \<noteq> CHR ''-''"
proof -
  have v: "is_valid_namespace ''kube-system''"
    by (simp add: is_valid_namespace_def is_ns_alnum_def is_ascii_lowercase_def is_ascii_digit_def)
  from valid_namespace_is_path_safe [OF v] v show ?thesis by auto
qed

text \<open>
  The loopback test looks for the last at-sign in the whole rest of the URL, path included, so
  a URL for another host with an at-sign in its path counts as loopback and the warning about
  sending container data away is not logged.
\<close>

theorem loopback_test_fooled_by_path:
  "http_host_is_loopback ip (''http://'' @ ''evil.example'' @ ''/@localhost'') \<and>
   detect_with ip (\<lambda>v. if v = ''DOCKER_HOST'' then Some ''http://evil.example/@localhost'' else None) ex [] =
     (Some (Http ''http://evil.example/@localhost''), False)"
proof -
  have l: "http_host_is_loopback ip ''http://evil.example/@localhost''"
    by (simp add: http_host_is_loopback_def strip_prefix_def starts_with_def rfind_char_def
        eq_ignore_ascii_case_def to_ascii_lowercase_def)
  have "trim ''http://evil.example/@localhost'' = ''http://evil.example/@localhost''"
    by (simp add: trim_def trim_start_def trim_end_def is_cont_def is_whitespace_def)
  with l show ?thesis
    by (simp add: detect_with_def parse_docker_host_def strip_prefix_def starts_with_def)
qed

end
