(* ===== verification/Docker_Engine.thy ===== *)
theory Docker_Engine
  imports Engine_Targets
begin

text \<open>
  The Docker/Podman engine (\<open>muxtop-core/src/docker_engine.rs\<close>). What the daemon answers through
  \<open>bollard\<close> is an argument: the container list, the statistics of each container, the order in
  which the parallel fetches complete, and the outcome of actions. The engine's own state is the
  cache of the last CPU readings.
\<close>

section \<open>Responses of the daemon\<close>

record cpu_stats =
  cs_cpu_usage :: "u64 option option"
  cs_system_cpu_usage :: "u64 option"
  cs_online_cpus :: "u32 option"

record blkio_entry =
  be_op :: "string option"
  be_value :: "u64 option"

record stats_response =
  sr_cpu_stats :: "cpu_stats option"
  sr_memory :: "(u64 option \<times> u64 option) option"
  sr_networks :: "(u64 option \<times> u64 option) list option"
  sr_blkio :: "blkio_entry list option option"

datatype summary_state =
  SS_EMPTY | SS_CREATED | SS_RUNNING | SS_PAUSED | SS_RESTARTING | SS_EXITED | SS_DEAD | SS_REMOVING

record container_summary =
  cm_id :: "string option"
  cm_names :: "string list option"
  cm_image :: "string option"
  cm_state :: "summary_state option"
  cm_status :: "string option"
  cm_created :: "int option"

datatype bollard_error =
    DockerResponseServerError nat string
  | RequestTimeoutError
  | TransportError string
  | OtherBollard string

section \<open>Errors, detection and connection\<close>

definition CONNECT_TIMEOUT :: duration where "CONNECT_TIMEOUT = from_secs 5"
definition STATS_TIMEOUT :: duration where "STATS_TIMEOUT = from_millis 1500"
definition ACTION_TIMEOUT :: duration where "ACTION_TIMEOUT = from_secs 10"

fun map_bollard_error :: "bollard_error \<Rightarrow> EngineError" where
  "map_bollard_error (DockerResponseServerError status_code message) =
     (if status_code = 404 then ContainerNotFound message
      else if status_code = 403 then PermissionDenied message
      else EngineOther (''HTTP '' @ dec status_code @ '': '' @ message))"
| "map_bollard_error RequestTimeoutError = EngineTimeout ACTION_TIMEOUT"
| "map_bollard_error (TransportError e) = ConnectFailed e"
| "map_bollard_error (OtherBollard e) = EngineOther e"

text \<open>\<open>symlink_metadata\<close>: no answer, or whether the path is a symbolic link.\<close>

definition check_socket_symlink :: "(string \<Rightarrow> bool option) \<Rightarrow> string \<Rightarrow> bool \<Rightarrow> EngineError + unit" where
  "check_socket_symlink symlink_metadata path allow_symlink =
     (case symlink_metadata path of
        None \<Rightarrow> Inr ()
      | Some is_symlink \<Rightarrow>
          if is_symlink then
            (if allow_symlink then Inr ()
             else Inl (ConnectFailed (''refusing to follow symlinked socket: '' @ path @
               '' (auto-detected; pass --docker-socket explicitly to override)'')))
          else Inr ())"

definition detect_engine_kind :: "string option \<Rightarrow> string option \<Rightarrow> EngineKind" where
  "detect_engine_kind server_version operating_system =
     (let sv = to_ascii_lowercase (unwrap_or server_version []);
          os = to_ascii_lowercase (unwrap_or operating_system [])
      in if str_contains sv ''podman'' \<or> str_contains os ''podman'' then EK_Podman
         else if sv \<noteq> [] then EK_Docker else EK_Unknown)"

record CachedCpu =
  cc_cpu_usage :: u64
  cc_system_usage :: u64

record DockerEngine =
  de_kind :: EngineKind
  de_last_cpu :: "string \<Rightarrow> CachedCpu option"

text \<open>\<open>open\<close> is the client constructor, \<open>info\<close> the answer of the daemon to the probe.\<close>

definition connect_with ::
    "(string \<Rightarrow> bool option) \<Rightarrow> (ConnectionTarget \<Rightarrow> string + unit) \<Rightarrow>
     (bollard_error + string option \<times> string option) timed \<Rightarrow> ConnectionTarget \<Rightarrow> bool \<Rightarrow>
     EngineError + DockerEngine" where
  "connect_with symlink_metadata open_client info target allow_symlink =
     (case (case target of Unix path \<Rightarrow> check_socket_symlink symlink_metadata path allow_symlink
                         | Http _ \<Rightarrow> Inr ()) of
        Inl e \<Rightarrow> Inl e
      | Inr _ \<Rightarrow>
          (case open_client target of
             Inl e \<Rightarrow> Inl (ConnectFailed e)
           | Inr _ \<Rightarrow>
               (case info of
                  TimedOut \<Rightarrow> Inl (EngineTimeout CONNECT_TIMEOUT)
                | Finished (Inl e) \<Rightarrow> Inl (map_bollard_error e)
                | Finished (Inr (sv, os)) \<Rightarrow>
                    Inr \<lparr>de_kind = detect_engine_kind sv os, de_last_cpu = (\<lambda>_. None)\<rparr>)))"

definition maybe_connect_default_engine ::
    "(string \<Rightarrow> bool option) \<Rightarrow> (ConnectionTarget \<Rightarrow> string + unit) \<Rightarrow>
     (bollard_error + string option \<times> string option) timed \<Rightarrow>
     ConnectionTarget option \<Rightarrow> string option \<Rightarrow> DockerEngine option" where
  "maybe_connect_default_engine symlink_metadata open_client info detected override_socket =
     (case (case override_socket of Some path \<Rightarrow> Some (Unix path) | None \<Rightarrow> detected) of
        None \<Rightarrow> None
      | Some target \<Rightarrow>
          (case connect_with symlink_metadata open_client info target (override_socket \<noteq> None) of
             Inr e \<Rightarrow> Some e | Inl _ \<Rightarrow> None))"

section \<open>Statistics\<close>

definition total_usage_of :: "stats_response \<Rightarrow> u64" where
  "total_usage_of stats =
     unwrap_or (Option.bind (sr_cpu_stats stats) (\<lambda>c. Option.bind (cs_cpu_usage c) id)) 0"

definition system_usage_of :: "stats_response \<Rightarrow> u64" where
  "system_usage_of stats = unwrap_or (Option.bind (sr_cpu_stats stats) cs_system_cpu_usage) 0"

definition compute_cpu_pct :: "stats_response \<Rightarrow> CachedCpu option \<Rightarrow> fl" where
  "compute_cpu_pct stats prev =
     (case sr_cpu_stats stats of
        None \<Rightarrow> Fin 0
      | Some cpu_stats \<Rightarrow>
          let total_usage = unwrap_or (Option.bind (cs_cpu_usage cpu_stats) id) 0;
              system_usage = unwrap_or (cs_system_cpu_usage cpu_stats) 0;
              online_cpus = of_nat_fl F64 (max 1 (unat (unwrap_or (cs_online_cpus cpu_stats) 1)))
          in (case prev of
                None \<Rightarrow> Fin 0
              | Some p \<Rightarrow>
                  let cpu_delta = of_nat_fl F64 (unat (sat_sub total_usage (cc_cpu_usage p)));
                      system_delta = of_nat_fl F64 (unat (sat_sub system_usage (cc_system_usage p)))
                  in if flt (Fin 0) system_delta
                     then to_f32 (fclamp
                            (fmul F64 (fmul F64 (fdiv F64 cpu_delta system_delta) online_cpus) (Fin 100))
                            (Fin 0) (fmul F64 online_cpus (Fin 100)))
                     else Fin 0))"

fun map_state :: "summary_state option \<Rightarrow> ContainerState" where
  "map_state (Some SS_CREATED) = CS_Created"
| "map_state (Some SS_RUNNING) = CS_Running"
| "map_state (Some SS_PAUSED) = CS_Paused"
| "map_state (Some SS_RESTARTING) = CS_Restarting"
| "map_state (Some SS_EXITED) = CS_Exited"
| "map_state (Some SS_DEAD) = CS_Dead"
| "map_state (Some SS_REMOVING) = CS_Removing"
| "map_state _ = CS_Exited"

definition canonical_name :: "string list option \<Rightarrow> string \<Rightarrow> string" where
  "canonical_name names i =
     (case names of
        Some (s # _) \<Rightarrow> dropWhile (\<lambda>c. c = CHR ''/'') s
      | _ \<Rightarrow> take_chars 12 i)"

definition sum_blkio :: "stats_response \<Rightarrow> string \<Rightarrow> u64" where
  "sum_blkio stats op_label =
     (case sr_blkio stats of
        Some (Some entries) \<Rightarrow>
          foldl sat_add 0 (List.map_filter be_value
            (filter (\<lambda>e. map_option to_ascii_lowercase (be_op e) = Some op_label) entries))
      | _ \<Rightarrow> 0)"

definition sum_networks :: "stats_response \<Rightarrow> u64 \<times> u64" where
  "sum_networks stats =
     (case sr_networks stats of
        Some nets \<Rightarrow>
          foldl (\<lambda>(rx, tx) (nrx, ntx). (sat_add rx (unwrap_or nrx 0), sat_add tx (unwrap_or ntx 0))) (0, 0) nets
      | None \<Rightarrow> (0, 0))"

definition build_snapshot ::
    "u64 \<Rightarrow> container_summary \<Rightarrow> stats_response \<Rightarrow> CachedCpu option \<Rightarrow> ContainerSnapshot \<times> CachedCpu" where
  "build_snapshot now_ms summary stats prev =
     (let i = unwrap_or (cm_id summary) [];
          short_id = take_chars 12 i;
          (net_rx, net_tx) = sum_networks stats
      in (\<lparr>ct_id = short_id, ct_id_full = i,
           ct_name = canonical_name (cm_names summary) short_id,
           ct_image = unwrap_or (cm_image summary) ''<unknown>'',
           ct_state = map_state (cm_state summary),
           ct_status_text = unwrap_or (cm_status summary) [],
           ct_cpu_pct = compute_cpu_pct stats prev,
           ct_mem_used_bytes = unwrap_or (Option.bind (sr_memory stats) fst) 0,
           ct_mem_limit_bytes = unwrap_or (Option.bind (sr_memory stats) snd) 0,
           ct_net_rx_bytes = net_rx, ct_net_tx_bytes = net_tx,
           ct_block_read_bytes = sum_blkio stats ''read'',
           ct_block_write_bytes = sum_blkio stats ''write'',
           ct_started_at_ms =
             (case cm_created summary of
                Some c \<Rightarrow> if 0 < c then sat_mul (of_int c) 1000 else now_ms
              | None \<Rightarrow> now_ms)\<rparr>,
          \<lparr>cc_cpu_usage = total_usage_of stats, cc_system_usage = system_usage_of stats\<rparr>))"

text \<open>The first item of the statistics stream, or none.\<close>

definition fetch_stats :: "(bollard_error + stats_response) option timed \<Rightarrow> EngineError + stats_response" where
  "fetch_stats first =
     (case first of
        TimedOut \<Rightarrow> Inl (EngineTimeout STATS_TIMEOUT)
      | Finished (Some (Inr stats)) \<Rightarrow> Inr stats
      | Finished (Some (Inl e)) \<Rightarrow> Inl (map_bollard_error e)
      | Finished None \<Rightarrow> Inl (EngineOther ''stats stream ended immediately''))"

section \<open>The engine interface\<close>

text \<open>
  The daemon during one refresh: the list answer (in the order in which the fetches complete), the
  statistics per id, and the clock.
\<close>

record daemon =
  dm_list :: "bollard_error + container_summary list"
  dm_stats :: "string \<Rightarrow> (bollard_error + stats_response) option timed"
  dm_now_ms :: u64

definition fetch_one ::
    "daemon \<Rightarrow> (string \<Rightarrow> CachedCpu option) \<Rightarrow> container_summary \<Rightarrow> EngineError + ContainerSnapshot \<times> CachedCpu" where
  "fetch_one d cache c =
     (case cm_id c of
        None \<Rightarrow> Inl (EngineOther ''container has no id'')
      | Some i \<Rightarrow>
          (case fetch_stats (dm_stats d i) of
             Inl e \<Rightarrow> Inl e
           | Inr stats \<Rightarrow> Inr (build_snapshot (dm_now_ms d) c stats (cache i))))"

fun gather ::
    "(EngineError + ContainerSnapshot \<times> CachedCpu) list \<Rightarrow> ContainerSnapshot list \<Rightarrow> (string \<Rightarrow> CachedCpu option) \<Rightarrow>
     ContainerSnapshot list \<times> (string \<Rightarrow> CachedCpu option)" where
  "gather [] snaps cache = (snaps, cache)"
| "gather (Inr (snap, cached) # rs) snaps cache = gather rs (snaps @ [snap]) (cache(ct_id snap \<mapsto> cached))"
| "gather (Inl (ContainerNotFound _) # rs) snaps cache = gather rs snaps cache"
| "gather (Inl e # rs) snaps cache = gather rs snaps cache"

definition list_and_stats :: "daemon \<Rightarrow> DockerEngine \<Rightarrow> (EngineError + ContainerSnapshot list) \<times> DockerEngine" where
  "list_and_stats d e =
     (case dm_list d of
        Inl err \<Rightarrow> (Inl (map_bollard_error err), e)
      | Inr containers \<Rightarrow>
          (case gather (map (fetch_one d (de_last_cpu e)) containers) [] (\<lambda>_. None) of
             (snaps, cache) \<Rightarrow> (Inr snaps, e\<lparr>de_last_cpu := cache\<rparr>)))"

definition action_result :: "(bollard_error + unit) timed \<Rightarrow> EngineError + unit" where
  "action_result r =
     (case r of
        TimedOut \<Rightarrow> Inl (EngineTimeout ACTION_TIMEOUT)
      | Finished (Inl e) \<Rightarrow> Inl (map_bollard_error e)
      | Finished (Inr u) \<Rightarrow> Inr u)"

text \<open>The request sent to the daemon; a stop timeout is capped at the largest \<open>i32\<close>.\<close>

datatype docker_request = StopContainer string "int option" | KillContainer string string | RestartContainer string

definition engine_stop :: "(docker_request \<Rightarrow> (bollard_error + unit) timed) \<Rightarrow> string \<Rightarrow> u64 option \<Rightarrow> EngineError + unit" where
  "engine_stop daemon i timeout_secs =
     action_result (daemon (StopContainer i (map_option (\<lambda>t. min (uint t) (2 ^ 31 - 1)) timeout_secs)))"

definition engine_kill :: "(docker_request \<Rightarrow> (bollard_error + unit) timed) \<Rightarrow> string \<Rightarrow> EngineError + unit" where
  "engine_kill daemon i = action_result (daemon (KillContainer i ''KILL''))"

definition engine_restart :: "(docker_request \<Rightarrow> (bollard_error + unit) timed) \<Rightarrow> string \<Rightarrow> EngineError + unit" where
  "engine_restart daemon i = action_result (daemon (RestartContainer i))"

section \<open>Facts\<close>

definition ok_snaps :: "(EngineError + ContainerSnapshot \<times> CachedCpu) list \<Rightarrow> ContainerSnapshot list" where
  "ok_snaps rs = concat (map (\<lambda>r. case r of Inr (s, c) \<Rightarrow> [s] | Inl _ \<Rightarrow> []) rs)"

lemma gather_Inl [simp]: "gather (Inl e # rs) snaps cache = gather rs snaps cache"
  by (cases e) simp_all

lemma gather_snaps: "fst (gather rs snaps cache) = snaps @ ok_snaps rs"
proof (induction rs arbitrary: snaps cache)
  case (Cons r rs)
  then show ?case by (cases r) (auto simp: ok_snaps_def)
qed (simp add: ok_snaps_def)

lemma gather_keys:
  "snd (gather rs snaps cache) k = Some v \<Longrightarrow> cache k = Some v \<or> (\<exists>s c. Inr (s, c) \<in> set rs \<and> ct_id s = k)"
proof (induction rs arbitrary: snaps cache)
  case (Cons r rs)
  show ?case
  proof (cases r)
    case (Inl e)
    with Cons show ?thesis by fastforce
  next
    case (Inr x)
    obtain s c where x: "x = (s, c)" by fastforce
    from Cons.prems Inr x have "snd (gather rs (snaps @ [s]) (cache(ct_id s \<mapsto> c))) k = Some v" by simp
    from Cons.IH [OF this] Inr x show ?thesis by (cases "ct_id s = k") auto
  qed
qed simp

lemma list_and_stats_snaps:
  "dm_list d = Inr cs \<Longrightarrow>
   fst (list_and_stats d e) = Inr (ok_snaps (map (fetch_one d (de_last_cpu e)) cs))"
  using gather_snaps [of "map (fetch_one d (de_last_cpu e)) cs" "[]" "\<lambda>_. None"]
  by (simp add: list_and_stats_def case_prod_unfold)

lemma str_chars_ascii: "is_ascii s \<Longrightarrow> str_chars s = map (\<lambda>c. [c]) s"
proof (induction s)
  case (Cons c s)
  then have "takeWhile is_cont s = [] \<and> dropWhile is_cont s = s"
    by (cases s) (auto simp: is_ascii_def is_cont_def)
  with Cons show ?case by (simp add: is_ascii_def)
qed simp

lemma take_chars_ascii: "is_ascii s \<Longrightarrow> take_chars n s = take n s"
  by (simp add: take_chars_def str_chars_ascii take_map concat_map_singleton)

lemma fetch_one_id:
  "fetch_one d cache c = Inr (s, x) \<Longrightarrow> \<exists>i. cm_id c = Some i \<and> ct_id s = take_chars 12 i \<and> ct_id_full s = i"
  by (auto simp: fetch_one_def build_snapshot_def Let_def split: option.splits sum.splits prod.splits)

lemma fetch_one_cpu:
  "fetch_one d cache c = Inr (s, x) \<Longrightarrow> cm_id c = Some i \<Longrightarrow> cache i = None \<Longrightarrow> ct_cpu_pct s = Fin 0"
  by (auto simp: fetch_one_def build_snapshot_def compute_cpu_pct_def Let_def
      split: option.splits sum.splits prod.splits)

text \<open>Every cached reading is stored under a short id.\<close>

definition short_keys :: "DockerEngine \<Rightarrow> bool" where
  "short_keys e \<longleftrightarrow> (\<forall>k v. de_last_cpu e k = Some v \<longrightarrow> length k \<le> 12)"

definition long_ids :: "daemon \<Rightarrow> bool" where
  "long_ids d \<longleftrightarrow>
     (case dm_list d of Inl _ \<Rightarrow> True
      | Inr cs \<Rightarrow> list_all (\<lambda>c. case cm_id c of None \<Rightarrow> True | Some i \<Rightarrow> is_ascii i \<and> 12 < length i) cs)"

lemma list_and_stats_short_keys:
  assumes "long_ids d" "short_keys e"
  shows "short_keys (snd (list_and_stats d e))"
proof (cases "dm_list d")
  case (Inl err)
  with assms(2) show ?thesis by (simp add: list_and_stats_def)
next
  case (Inr cs)
  have "length k \<le> 12" if k: "snd (gather (map (fetch_one d (de_last_cpu e)) cs) [] (\<lambda>_. None)) k = Some v" for k v
  proof -
    from gather_keys [OF k] obtain c s x where c: "c \<in> set cs" "fetch_one d (de_last_cpu e) c = Inr (s, x)" "ct_id s = k"
      by (auto dest!: sym [of "Inr _"])
    from fetch_one_id [OF c(2)] obtain i where i: "cm_id c = Some i" "ct_id s = take_chars 12 i" by blast
    with assms(1) c(1) Inr have "is_ascii i" by (auto simp: long_ids_def list_all_iff)
    with i c(3) show ?thesis by (auto simp: take_chars_ascii)
  qed
  with Inr show ?thesis by (simp add: list_and_stats_def short_keys_def case_prod_unfold)
qed

lemma list_and_stats_zero_cpu:
  assumes "long_ids d" "short_keys e" "fst (list_and_stats d e) = Inr snaps" "s \<in> set snaps"
  shows "ct_cpu_pct s = Fin 0"
proof -
  obtain cs where cs: "dm_list d = Inr cs" using assms(3) by (cases "dm_list d") (auto simp: list_and_stats_def)
  with assms(3,4) obtain c x where c: "c \<in> set cs" "fetch_one d (de_last_cpu e) c = Inr (s, x)"
    by (auto simp: list_and_stats_snaps ok_snaps_def split: sum.splits dest!: sym [of "Inr _"])
  obtain i where i: "cm_id c = Some i" using fetch_one_id [OF c(2)] by blast
  with assms(1) c(1) cs have "12 < length i" by (auto simp: long_ids_def list_all_iff)
  with assms(2) have "de_last_cpu e i = None" by (cases "de_last_cpu e i") (auto simp: short_keys_def)
  with fetch_one_cpu [OF c(2) i] show ?thesis by blast
qed

text \<open>Refreshing again and again, from the engine as it is after connecting.\<close>

fun refreshes :: "daemon list \<Rightarrow> DockerEngine \<Rightarrow> (EngineError + ContainerSnapshot list) list" where
  "refreshes [] e = []"
| "refreshes (d # ds) e = (case list_and_stats d e of (r, e) \<Rightarrow> r # refreshes ds e)"

lemma refreshes_zero_cpu:
  "list_all long_ids ds \<Longrightarrow> short_keys e \<Longrightarrow> Inr snaps \<in> set (refreshes ds e) \<Longrightarrow> s \<in> set snaps \<Longrightarrow> ct_cpu_pct s = Fin 0"
proof (induction ds arbitrary: e)
  case (Cons d ds)
  obtain r e' where r: "list_and_stats d e = (r, e')" by fastforce
  with Cons.prems(1,2) have "short_keys e'" using list_and_stats_short_keys [of d e] by simp
  moreover from Cons.prems(3) r have "r = Inr snaps \<or> Inr snaps \<in> set (refreshes ds e')" by auto
  ultimately show ?case
    using Cons list_and_stats_zero_cpu [of d e snaps s] r by auto
qed simp

section \<open>Properties\<close>

text \<open>
  One container whose statistics fail (removed meanwhile, forbidden, timed out) costs only its
  own row: the refresh succeeds and returns, in completion order, exactly the rows of the
  containers whose statistics arrived.
\<close>

theorem stats_failures_are_isolated:
  assumes "dm_list d = Inr cs"
  shows "fst (list_and_stats d e) =
    Inr (concat (map (\<lambda>c. case fetch_one d (de_last_cpu e) c of Inr (s, _) \<Rightarrow> [s] | Inl _ \<Rightarrow> []) cs))"
  using list_and_stats_snaps [OF assms, of e] by (simp add: ok_snaps_def o_def)

definition empty_stats :: stats_response where
  "empty_stats = \<lparr>sr_cpu_stats = None, sr_memory = None, sr_networks = None, sr_blkio = None\<rparr>"

definition sample_summary :: "string \<Rightarrow> container_summary" where
  "sample_summary i = \<lparr>cm_id = Some i, cm_names = Some [''/'' @ i], cm_image = None,
     cm_state = Some SS_RUNNING, cm_status = None, cm_created = None\<rparr>"

definition sample_daemon :: daemon where
  "sample_daemon = \<lparr>dm_list = Inr [sample_summary ''a'', sample_summary ''b''],
     dm_stats = (\<lambda>i. if i = ''a'' then TimedOut else Finished (Some (Inr empty_stats))), dm_now_ms = 7\<rparr>"

theorem stats_failures_are_isolated_witness:
  "map_sum id (map ct_name) (fst (list_and_stats sample_daemon \<lparr>de_kind = EK_Docker, de_last_cpu = (\<lambda>_. None)\<rparr>)) =
     Inr [''b'']"
proof -
  have l: "dm_list sample_daemon = Inr [sample_summary ''a'', sample_summary ''b'']"
    by (simp add: sample_daemon_def)
  show ?thesis
    by (subst stats_failures_are_isolated [OF l])
      (simp add: sample_daemon_def sample_summary_def fetch_one_def fetch_stats_def build_snapshot_def
        canonical_name_def sum_networks_def empty_stats_def Let_def)
qed


definition busy_stats :: "u64 \<Rightarrow> stats_response" where
  "busy_stats n = empty_stats\<lparr>sr_cpu_stats := Some \<lparr>cs_cpu_usage = Some (Some n), cs_system_cpu_usage = Some (2 * n),
     cs_online_cpus = Some 4\<rparr>\<rparr>"

definition busy_daemon :: "u64 \<Rightarrow> daemon" where
  "busy_daemon n = \<lparr>dm_list = Inr [sample_summary ''0123456789abcdef''],
     dm_stats = (\<lambda>_. Finished (Some (Inr (busy_stats n)))), dm_now_ms = 7\<rparr>"


text \<open>
  An auto-detected socket that is a symbolic link is never connected to; only a path the user
  gave is followed.
\<close>

theorem no_implicit_symlink:
  assumes "maybe_connect_default_engine meta op info detected override_socket = Some e"
  shows "override_socket \<noteq> None \<or> (\<exists>t. detected = Some t \<and> (\<forall>p. t = Unix p \<longrightarrow> meta p \<noteq> Some True))"
  using assms
  by (auto simp: maybe_connect_default_engine_def connect_with_def check_socket_symlink_def
      split: option.splits sum.splits ConnectionTarget.splits if_splits)

theorem no_implicit_symlink_witness:
  "\<exists>e. maybe_connect_default_engine (\<lambda>_. Some False) (\<lambda>_. Inr ()) (Finished (Inr (Some ''25.0'', None)))
     (Some (Unix ''/var/run/docker.sock'')) None = Some e"
proof -
  obtain e where e: "maybe_connect_default_engine (\<lambda>_. Some False) (\<lambda>_. Inr ()) (Finished (Inr (Some ''25.0'', None)))
     (Some (Unix ''/var/run/docker.sock'')) None = Some e"
    by (simp add: maybe_connect_default_engine_def connect_with_def check_socket_symlink_def)
  from no_implicit_symlink [OF e] e show ?thesis by blast
qed

end
