(* ===== verification/Kube_Engine.thy ===== *)
theory Kube_Engine
  imports Engine_Targets
begin

text \<open>
  The Kubernetes engine (\<open>muxtop-core/src/kube_engine.rs\<close>): conversion of API objects to
  snapshots, quantity parsing, the caches with their two poll loops, and the namespace scope. The
  API objects are records of the fields the sources read; list calls, response bodies and the JSON
  parser are arguments, as is the parser of decimal fractions. A tick of either loop is split in the
  two moments that matter for the scope: when it reads the scope and when it writes its cache.
\<close>

section \<open>API objects\<close>

record container_status =
  kc_ready :: bool
  kc_restart_count :: int
  kc_waiting_reason :: "string option"

record pod_status =
  ps_phase :: "string option"
  ps_container_statuses :: "container_status list option"
  ps_qos_class :: "string option"

record pod =
  po_namespace :: "string option"
  po_name :: "string option"
  po_deletion_timestamp :: bool
  po_creation_ms :: "int option"
  po_node_name :: "string option"
  po_status :: "pod_status option"

record node_status =
  ns_conditions :: "(string \<times> string) list option"
  ns_kubelet_version :: "string option"
  ns_capacity :: "(string \<Rightarrow> string option) option"
  ns_allocatable :: "(string \<Rightarrow> string option) option"

record node =
  no_name :: "string option"
  no_labels :: "string list option"
  no_creation_ms :: "int option"
  no_unschedulable :: "bool option"
  no_status :: "node_status option"

record deployment =
  de_namespace :: "string option"
  de_name :: "string option"
  de_creation_ms :: "int option"
  de_replicas :: "int option"
  de_strategy_type :: "string option"
  de_status :: "(int option \<times> int option \<times> int option) option"

section \<open>Caches and the engine\<close>

record ResourceCache =
  rc_pods :: "pod list"
  rc_nodes :: "node list"
  rc_deployments :: "deployment list"
  rc_last_update_ms :: u64

record MetricsCache =
  mc_available :: bool
  mc_pods :: "string \<times> string \<Rightarrow> (u32 \<times> u64) option"
  mc_nodes :: "string \<Rightarrow> (u32 \<times> u64) option"

record KubeEngine =
  ke_cluster_kind :: ClusterKind
  ke_server_version :: "string option"
  ke_scoped_namespace :: string
  ke_scope :: KubeScope
  ke_resources :: ResourceCache
  ke_metrics :: MetricsCache

section \<open>Quantities\<close>

definition i32_to_u32 :: "int \<Rightarrow> u32" where
  "i32_to_u32 i = of_int (max i 0)"

definition parse_quantity_to_millis :: "(string \<Rightarrow> fl option) \<Rightarrow> string \<Rightarrow> u32" where
  "parse_quantity_to_millis parse_f64 raw =
     (let s = trim raw in
      case strip_suffix ''m'' s of
        Some stripped \<Rightarrow> unwrap_or (parse_u32 stripped) 0
      | None \<Rightarrow>
          (case parse_u32 s of
             Some n \<Rightarrow> sat_mul n 1000
           | None \<Rightarrow>
               (case parse_f64 s of
                  Some x \<Rightarrow> of_int (sat_cast 0 (2 ^ 32 - 1) (fround (fmul F64 x (Fin 1000))))
                | None \<Rightarrow> 0)))"

definition byte_multipliers :: "(string \<times> u64) list" where
  "byte_multipliers =
     [(''Ti'', 2 ^ 40), (''Gi'', 2 ^ 30), (''Mi'', 2 ^ 20), (''Ki'', 2 ^ 10),
      (''T'', 1000000000000), (''G'', 1000000000), (''M'', 1000000), (''K'', 1000)]"

fun bytes_with :: "(string \<times> u64) list \<Rightarrow> string \<Rightarrow> u64" where
  "bytes_with [] s = unwrap_or (parse_u64 s) 0"
| "bytes_with ((sfx, k) # ms) s =
     (case strip_suffix sfx s of
        Some stripped \<Rightarrow> unwrap_or (map_option (\<lambda>n. sat_mul n k) (parse_u64 stripped)) 0
      | None \<Rightarrow> bytes_with ms s)"

definition parse_quantity_to_bytes :: "string \<Rightarrow> u64" where
  "parse_quantity_to_bytes raw = bytes_with byte_multipliers (trim raw)"

definition parse_metrics_cpu_to_millis :: "(string \<Rightarrow> fl option) \<Rightarrow> string \<Rightarrow> u32" where
  "parse_metrics_cpu_to_millis parse_f64 raw =
     (let s = trim raw in
      case strip_suffix ''n'' s of
        Some stripped \<Rightarrow> unwrap_or (map_option (\<lambda>n. ucast (n div 1000000)) (parse_u64 stripped)) 0
      | None \<Rightarrow>
          (case strip_suffix ''u'' s of
             Some stripped \<Rightarrow> unwrap_or (map_option (\<lambda>n. ucast (n div 1000)) (parse_u64 stripped)) 0
           | None \<Rightarrow> parse_quantity_to_millis parse_f64 s))"

section \<open>Conversions\<close>

definition creation_age_seconds :: "int option \<Rightarrow> u64 \<Rightarrow> u64" where
  "creation_age_seconds creation now_ms =
     (case creation of
        None \<Rightarrow> 0
      | Some created_ms \<Rightarrow>
          if created_ms \<le> 0 then 0 else sat_sub now_ms (of_int created_ms) div 1000)"

definition container_statuses :: "pod \<Rightarrow> container_status list option" where
  "container_statuses p = Option.bind (po_status p) ps_container_statuses"

definition pod_phase_synthetic :: "pod \<Rightarrow> PodPhase" where
  "pod_phase_synthetic p =
     (if po_deletion_timestamp p then PP_Terminating
      else if (case container_statuses p of
                 Some sts \<Rightarrow> list_ex (\<lambda>cs. kc_waiting_reason cs = Some ''CrashLoopBackOff'') sts
               | None \<Rightarrow> False) then PP_CrashLoop
      else
        let ph = unwrap_or (Option.bind (po_status p) ps_phase) [] in
        if ph = ''Pending'' then PP_Pending
        else if ph = ''Running'' then PP_Running
        else if ph = ''Succeeded'' then PP_Succeeded
        else if ph = ''Failed'' then PP_Failed
        else PP_Unknown)"

definition pod_ready_ratio :: "pod \<Rightarrow> u8 \<times> u8" where
  "pod_ready_ratio p =
     (case container_statuses p of
        Some l \<Rightarrow> (of_nat (min (length (filter kc_ready l)) 255), of_nat (min (length l) 255))
      | None \<Rightarrow> (0, 0))"

text \<open>The sum of \<open>u32\<close> values wraps in a release build.\<close>

definition pod_restart_count :: "pod \<Rightarrow> u32" where
  "pod_restart_count p =
     (case container_statuses p of
        Some l \<Rightarrow> sum_list (map (\<lambda>cs. i32_to_u32 (kc_restart_count cs)) l)
      | None \<Rightarrow> 0)"

definition pod_qos_of :: "pod \<Rightarrow> QosClass" where
  "pod_qos_of p =
     (let q = unwrap_or (Option.bind (po_status p) ps_qos_class) [] in
      if q = ''Guaranteed'' then Guaranteed
      else if q = ''Burstable'' then Burstable else BestEffort)"

definition pod_to_snapshot :: "pod \<Rightarrow> MetricsCache \<Rightarrow> u64 \<Rightarrow> PodSnapshot" where
  "pod_to_snapshot p metrics now_ms =
     (let namespace = unwrap_or (po_namespace p) []; nm = unwrap_or (po_name p) [];
          m = mc_pods metrics (namespace, nm)
      in \<lparr>pod_namespace = namespace, pod_name = nm, pod_phase = pod_phase_synthetic p,
          pod_ready = pod_ready_ratio p, pod_restarts = pod_restart_count p,
          pod_age_seconds = creation_age_seconds (po_creation_ms p) now_ms,
          pod_node = unwrap_or (po_node_name p) [],
          pod_cpu_millis = map_option fst m, pod_mem_bytes = map_option snd m,
          pod_qos = pod_qos_of p\<rparr>)"

fun ready_condition :: "(string \<times> string) list \<Rightarrow> NodeStatus" where
  "ready_condition [] = NS_Unknown"
| "ready_condition ((ty, st) # cs) =
     (if ty = ''Ready'' then
        (if st = ''True'' then NS_Ready else if st = ''False'' then NS_NotReady else NS_Unknown)
      else ready_condition cs)"

definition node_status_synthetic :: "node \<Rightarrow> NodeStatus" where
  "node_status_synthetic n =
     (if no_unschedulable n = Some True then NS_SchedulingDisabled
      else (case Option.bind (no_status n) ns_conditions of
              Some conds \<Rightarrow> ready_condition conds
            | None \<Rightarrow> NS_Unknown))"

definition node_roles :: "node \<Rightarrow> string list" where
  "node_roles n =
     sort (case no_labels n of
        Some keys \<Rightarrow> filter (\<lambda>r. r \<noteq> []) (List.map_filter (strip_prefix ''node-role.kubernetes.io/'') keys)
      | None \<Rightarrow> [])"

definition node_to_snapshot :: "(string \<Rightarrow> fl option) \<Rightarrow> node \<Rightarrow> MetricsCache \<Rightarrow> u64 \<Rightarrow> NodeSnapshot" where
  "node_to_snapshot parse_f64 n metrics now_ms =
     (let nm = unwrap_or (no_name n) [];
          (cpu_cap, mem_cap, pod_cap) =
            (case Option.bind (no_status n) ns_capacity of
               Some caps \<Rightarrow>
                 (unwrap_or (map_option (parse_quantity_to_millis parse_f64) (caps ''cpu'')) 0,
                  unwrap_or (map_option parse_quantity_to_bytes (caps ''memory'')) 0,
                  unwrap_or (Option.bind (caps ''pods'') parse_u32) 0)
             | None \<Rightarrow> (0, 0, 0));
          (cpu_alloc, mem_alloc) =
            (case Option.bind (no_status n) ns_allocatable of
               Some alloc \<Rightarrow>
                 (unwrap_or (map_option (parse_quantity_to_millis parse_f64) (alloc ''cpu'')) 0,
                  unwrap_or (map_option parse_quantity_to_bytes (alloc ''memory'')) 0)
             | None \<Rightarrow> (0, 0));
          m = mc_nodes metrics nm
      in \<lparr>nd_name = nm, nd_status = node_status_synthetic n, nd_roles = node_roles n,
          nd_age_seconds = creation_age_seconds (no_creation_ms n) now_ms,
          nd_kubelet_version = unwrap_or (Option.bind (no_status n) ns_kubelet_version) [],
          nd_cpu_capacity_millis = cpu_cap, nd_cpu_allocatable_millis = cpu_alloc,
          nd_cpu_used_millis = map_option fst m,
          nd_mem_capacity_bytes = mem_cap, nd_mem_allocatable_bytes = mem_alloc,
          nd_mem_used_bytes = map_option snd m, nd_pod_count = 0, nd_pod_capacity = pod_cap\<rparr>)"

fun pods_per_node :: "PodSnapshot list \<Rightarrow> (string \<Rightarrow> u32) \<Rightarrow> (string \<Rightarrow> u32)" where
  "pods_per_node [] counts = counts"
| "pods_per_node (p # ps) counts =
     (if pod_node p = [] \<or> pod_phase p = PP_Succeeded \<or> pod_phase p = PP_Failed
      then pods_per_node ps counts
      else pods_per_node ps (counts(pod_node p := counts (pod_node p) + 1)))"

definition deployment_to_snapshot :: "deployment \<Rightarrow> u64 \<Rightarrow> DeploymentSnapshot" where
  "deployment_to_snapshot d now_ms =
     (let (ready, uptodate, avail) =
        (case de_status d of
           Some (r, u, a) \<Rightarrow>
             (i32_to_u32 (unwrap_or r 0), i32_to_u32 (unwrap_or u 0), i32_to_u32 (unwrap_or a 0))
         | None \<Rightarrow> (0, 0, 0))
      in \<lparr>dp_namespace = unwrap_or (de_namespace d) [], dp_name = unwrap_or (de_name d) [],
          dp_replicas_desired = i32_to_u32 (unwrap_or (de_replicas d) 0),
          dp_replicas_ready = ready, dp_replicas_uptodate = uptodate, dp_replicas_available = avail,
          dp_age_seconds = creation_age_seconds (de_creation_ms d) now_ms,
          dp_strategy = (if de_strategy_type d = Some ''Recreate'' then Recreate else RollingUpdate)\<rparr>)"

section \<open>The snapshot\<close>

definition kube_snapshot :: "(string \<Rightarrow> fl option) \<Rightarrow> u64 \<Rightarrow> KubeEngine \<Rightarrow> KubeSnapshot" where
  "kube_snapshot parse_f64 now_ms e =
     (let pods = map (\<lambda>p. pod_to_snapshot p (ke_metrics e) now_ms) (rc_pods (ke_resources e));
          nodes = map (\<lambda>n. node_to_snapshot parse_f64 n (ke_metrics e) now_ms) (rc_nodes (ke_resources e));
          scheduled = pods_per_node pods (\<lambda>_. 0)
      in \<lparr>ks_cluster_kind = ke_cluster_kind e, ks_server_version = ke_server_version e,
          ks_current_namespace = scope_label (ke_scope e),
          ks_reachable = (0 < rc_last_update_ms (ke_resources e)),
          ks_metrics_available = mc_available (ke_metrics e),
          ks_pods = pods,
          ks_nodes = map (\<lambda>n. n\<lparr>nd_pod_count := scheduled (nd_name n)\<rparr>) nodes,
          ks_deployments = map (\<lambda>d. deployment_to_snapshot d now_ms) (rc_deployments (ke_resources e))\<rparr>)"

section \<open>Scope\<close>

definition set_scope :: "KubeScope \<Rightarrow> KubeEngine \<Rightarrow> KubeEngine" where
  "set_scope sc e =
     e\<lparr>ke_scope := sc, ke_resources := (ke_resources e)\<lparr>rc_pods := [], rc_deployments := []\<rparr>\<rparr>"

definition toggle_scope :: "KubeEngine \<Rightarrow> KubeEngine" where
  "toggle_scope e =
     (case ke_scope e of
        AllNamespaces \<Rightarrow> set_scope (Namespace (ke_scoped_namespace e)) e
      | Namespace _ \<Rightarrow> set_scope AllNamespaces e)"

section \<open>Polling\<close>

text \<open>The answers of one resource tick: a list, the error of the call, or no answer in time.\<close>

record tick_lists =
  tl_pods :: "(string + pod list) timed"
  tl_nodes :: "(string + node list) timed"
  tl_deployments :: "(string + deployment list) timed"

fun list_or_warn :: "(string + 'a list) timed \<Rightarrow> 'a list option" where
  "list_or_warn (Finished (Inr items)) = Some items"
| "list_or_warn (Finished (Inl e)) = None"
| "list_or_warn TimedOut = None"

definition tick_resources :: "u64 \<Rightarrow> tick_lists \<Rightarrow> ResourceCache \<Rightarrow> ResourceCache" where
  "tick_resources now_ms l c =
     c\<lparr>rc_pods := unwrap_or (list_or_warn (tl_pods l)) (rc_pods c),
       rc_nodes := unwrap_or (list_or_warn (tl_nodes l)) (rc_nodes c),
       rc_deployments := unwrap_or (list_or_warn (tl_deployments l)) (rc_deployments c),
       rc_last_update_ms := now_ms\<rparr>"

definition pod_metrics_path :: "KubeScope \<Rightarrow> string" where
  "pod_metrics_path sc =
     (case scope_namespace sc of
        Some ns \<Rightarrow> ''/apis/metrics.k8s.io/v1beta1/namespaces/'' @ ns @ ''/pods''
      | None \<Rightarrow> ''/apis/metrics.k8s.io/v1beta1/pods'')"

text \<open>
  A parsed JSON document, an object being its keys with their values. The pointers the sources follow
  have no numeric token, so they only descend through objects.
\<close>

datatype json =
    JNull | JBool bool | JNumber string | JString string | JArray "json list" | JObject "(string \<times> json) list"

fun json_get :: "string \<Rightarrow> json \<Rightarrow> json option" where
  "json_get key (JObject kvs) = map_of kvs key"
| "json_get key _ = None"

fun json_pointer :: "string list \<Rightarrow> json \<Rightarrow> json option" where
  "json_pointer [] v = Some v"
| "json_pointer (key # keys) v = Option.bind (json_get key v) (json_pointer keys)"

fun as_str :: "json \<Rightarrow> string option" where
  "as_str (JString s) = Some s"
| "as_str _ = None"

fun as_array :: "json \<Rightarrow> json list option" where
  "as_array (JArray vs) = Some vs"
| "as_array _ = None"

definition str_at :: "string list \<Rightarrow> json \<Rightarrow> string option" where
  "str_at keys v = Option.bind (json_pointer keys v) as_str"

text \<open>
  What the connected client answers: the error of building a request for a path, if any; a request
  read to the end, and one read as a stream (its bytes and the read error it ends with, if any), both
  within the time allowed; the UTF-8 error of a byte string, if any; the JSON parser; and the parser of
  decimal fractions.
\<close>

record api =
  as_build :: "string \<Rightarrow> string option"
  as_request_text :: "string \<Rightarrow> (string + string) timed"
  as_request_stream :: "string \<Rightarrow> (string + string \<times> string option) timed"
  as_utf8 :: "string \<Rightarrow> string option"
  as_from_json :: "string \<Rightarrow> string + json"
  as_parse_f64 :: "string \<Rightarrow> fl option"

definition MAX_METRICS_BODY :: nat where
  "MAX_METRICS_BODY = 16 * 1024 * 1024"

text \<open>\<open>read_capped\<close>: the result also says how many bytes were buffered.\<close>

definition read_capped ::
    "(string \<Rightarrow> string option) \<Rightarrow> string \<times> string option \<Rightarrow> nat \<Rightarrow> (ClusterError + string) \<times> nat" where
  "read_capped utf8 stream cap =
     (let buf = take (cap + 1) (fst stream) in
      (case (if length (fst stream) \<le> cap then snd stream else None) of
         Some e \<Rightarrow> Inl (ClusterOther (''metrics body read: '' @ e))
       | None \<Rightarrow>
           if cap < length buf
           then Inl (ClusterOther (''metrics body exceeded '' @ dec cap @ '' bytes; refusing to buffer it''))
           else (case utf8 buf of
                   None \<Rightarrow> Inr buf
                 | Some e \<Rightarrow> Inl (ClusterOther (''metrics body utf-8: '' @ e))),
       length buf))"

definition read_capped_body ::
    "(string \<Rightarrow> string option) \<Rightarrow> string + string \<times> string option \<Rightarrow> ClusterError + string" where
  "read_capped_body utf8 response =
     (case response of
        Inl e \<Rightarrow> Inl (Unreachable e)
      | Inr stream \<Rightarrow> fst (read_capped utf8 stream MAX_METRICS_BODY))"

definition fetch_metrics_text :: "api \<Rightarrow> string \<Rightarrow> string option" where
  "fetch_metrics_text a path =
     (case as_build a path of
        Some _ \<Rightarrow> None
      | None \<Rightarrow>
          (case as_request_stream a path of
             TimedOut \<Rightarrow> None
           | Finished response \<Rightarrow>
               (case read_capped_body (as_utf8 a) response of Inr body \<Rightarrow> Some body | Inl _ \<Rightarrow> None)))"

definition pod_usage :: "(string \<Rightarrow> fl option) \<Rightarrow> json list \<Rightarrow> u32 \<times> u64" where
  "pod_usage parse_f64 containers =
     foldl (\<lambda>(cpu_total, mem_total) c.
        (case str_at [''usage'', ''cpu''] c of
           Some cpu \<Rightarrow> sat_add cpu_total (parse_metrics_cpu_to_millis parse_f64 cpu) | None \<Rightarrow> cpu_total,
         case str_at [''usage'', ''memory''] c of
           Some mem \<Rightarrow> sat_add mem_total (parse_quantity_to_bytes mem) | None \<Rightarrow> mem_total)) (0, 0) containers"

definition insert_pod_item ::
    "(string \<Rightarrow> fl option) \<Rightarrow> (string \<times> string \<Rightarrow> (u32 \<times> u64) option) \<Rightarrow> json \<Rightarrow>
     (string \<times> string \<Rightarrow> (u32 \<times> u64) option)" where
  "insert_pod_item parse_f64 m item =
     (let ns = unwrap_or (str_at [''metadata'', ''namespace''] item) [];
          nm = unwrap_or (str_at [''metadata'', ''name''] item) [];
          usage = (case Option.bind (json_get ''containers'' item) as_array of
                     Some containers \<Rightarrow> pod_usage parse_f64 containers
                   | None \<Rightarrow> (0, 0))
      in if ns \<noteq> [] \<and> nm \<noteq> [] then m((ns, nm) \<mapsto> usage) else m)"

definition insert_node_item ::
    "(string \<Rightarrow> fl option) \<Rightarrow> (string \<Rightarrow> (u32 \<times> u64) option) \<Rightarrow> json \<Rightarrow> (string \<Rightarrow> (u32 \<times> u64) option)" where
  "insert_node_item parse_f64 m item =
     (let nm = unwrap_or (str_at [''metadata'', ''name''] item) [];
          cpu = unwrap_or (map_option (parse_metrics_cpu_to_millis parse_f64) (str_at [''usage'', ''cpu''] item)) 0;
          mem = unwrap_or (map_option parse_quantity_to_bytes (str_at [''usage'', ''memory''] item)) 0
      in if nm \<noteq> [] then m(nm \<mapsto> (cpu, mem)) else m)"

text \<open>The array of items of a metrics body: empty when the body is missing or has no such array.\<close>

definition metrics_items :: "api \<Rightarrow> string option \<Rightarrow> json list" where
  "metrics_items a body =
     (case body of
        None \<Rightarrow> []
      | Some txt \<Rightarrow>
          (case as_from_json a txt of
             Inl _ \<Rightarrow> []
           | Inr v \<Rightarrow> unwrap_or (Option.bind (json_get ''items'' v) as_array) []))"

definition tick_metrics :: "api \<Rightarrow> KubeScope \<Rightarrow> MetricsCache \<Rightarrow> MetricsCache" where
  "tick_metrics a sc c =
     (let pod_metrics = fetch_metrics_text a (pod_metrics_path sc);
          node_metrics = fetch_metrics_text a ''/apis/metrics.k8s.io/v1beta1/nodes''
      in if pod_metrics = None \<and> node_metrics = None
      then c\<lparr>mc_available := False, mc_pods := (\<lambda>_. None), mc_nodes := (\<lambda>_. None)\<rparr>
      else c\<lparr>mc_available := True,
             mc_pods := foldl (insert_pod_item (as_parse_f64 a)) (\<lambda>_. None) (metrics_items a pod_metrics),
             mc_nodes := foldl (insert_node_item (as_parse_f64 a)) (\<lambda>_. None) (metrics_items a node_metrics)\<rparr>)"

definition cluster_kind_from_git_version :: "string \<Rightarrow> ClusterKind" where
  "cluster_kind_from_git_version git_version =
     (let v = to_ascii_lowercase git_version in
      if str_contains v ''eks'' then CK_Eks
      else if str_contains v ''gke'' then CK_Gke
      else if str_contains v ''aks'' then CK_Aks
      else if str_contains v ''k3d'' then CK_K3d
      else if str_contains v ''k3s'' then CK_K3s
      else if str_contains v ''kind'' then CK_Kind
      else if str_contains v ''openshift'' then CK_Openshift
      else CK_Generic)"

section \<open>Connecting\<close>

definition probe_version :: "api \<Rightarrow> ClusterError + ClusterKind \<times> string" where
  "probe_version a =
     (case as_build a ''/version'' of
        Some e \<Rightarrow> Inl (ClusterOther (''/version build: '' @ e))
      | None \<Rightarrow>
          (case as_request_text a ''/version'' of
             TimedOut \<Rightarrow> Inl (Unreachable ''/version timed out after 3s'')
           | Finished (Inl e) \<Rightarrow> Inl (Unreachable (''/version: '' @ e))
           | Finished (Inr body) \<Rightarrow>
               (case as_from_json a body of
                  Inl e \<Rightarrow> Inl (ClusterOther (''/version parse: '' @ e))
                | Inr v \<Rightarrow>
                    let git_version = unwrap_or (Option.bind (json_get ''gitVersion'' v) as_str) []
                    in Inr (cluster_kind_from_git_version git_version, git_version))))"

text \<open>
  What \<open>kube-rs\<close> answers: reading a kubeconfig file, applying it with a context (the default
  namespace it resolves), the in-cluster configuration, the error of building the client, if any, and
  the connected client; and the debug rendering of a string.
\<close>

record 'kc kube_rs =
  kr_read_from :: "string \<Rightarrow> string + 'kc"
  kr_apply :: "'kc \<Rightarrow> string option \<Rightarrow> string + string"
  kr_incluster :: "string + string"
  kr_client_error :: "string option"
  kr_api :: api
  kr_debug :: "string \<Rightarrow> string"

definition build_config ::
    "'kc kube_rs \<Rightarrow> KubeconfigSource \<Rightarrow> string option \<Rightarrow> string option \<Rightarrow> ClusterError + string" where
  "build_config k source context namespace =
     (let custom = (\<lambda>path.
        case kr_read_from k path of
          Inl e \<Rightarrow> Inl (Unreachable (''read kubeconfig '' @ path @ '': '' @ e))
        | Inr kc \<Rightarrow>
            (case kr_apply k kc context of
               Inl e \<Rightarrow> Inl (Unreachable (''apply kubeconfig: '' @ e))
             | Inr d \<Rightarrow> Inr (unwrap_or namespace d)))
      in case source of
        KC_None \<Rightarrow> Inl KubeconfigNotFound
      | KC_InCluster \<Rightarrow>
          (case kr_incluster k of
             Inl e \<Rightarrow> Inl (Unreachable (''in-cluster config: '' @ e)) | Inr d \<Rightarrow> Inr (unwrap_or namespace d))
      | KC_Env path \<Rightarrow> custom path
      | KC_Home path \<Rightarrow> custom path)"

definition kube_connect ::
    "'kc kube_rs \<Rightarrow> KubeconfigSource \<Rightarrow> string option \<Rightarrow> string option \<Rightarrow> ClusterError + KubeEngine" where
  "kube_connect k source context namespace =
     (if (case namespace of Some ns \<Rightarrow> \<not> is_valid_namespace ns | None \<Rightarrow> False)
      then Inl (ClusterOther (namespace_error (kr_debug k) (the namespace)))
      else
        (case build_config k source context namespace of
           Inl e \<Rightarrow> Inl e
         | Inr resolved_namespace \<Rightarrow>
           (case kr_client_error k of
              Some e \<Rightarrow> Inl (Unreachable (''client init failed: '' @ e))
            | None \<Rightarrow>
             let (cluster_kind, server_version) =
                   (case probe_version (kr_api k) of
                      Inr (kind, version) \<Rightarrow> (kind, Some version)
                    | Inl _ \<Rightarrow> (CK_Generic, None))
             in
             Inr \<lparr>ke_cluster_kind = cluster_kind, ke_server_version = server_version,
                  ke_scoped_namespace = unwrap_or namespace resolved_namespace,
                  ke_scope = (case namespace of Some ns \<Rightarrow> Namespace ns | None \<Rightarrow> AllNamespaces),
                  ke_resources = \<lparr>rc_pods = [], rc_nodes = [], rc_deployments = [], rc_last_update_ms = 0\<rparr>,
                  ke_metrics = \<lparr>mc_available = False, mc_pods = (\<lambda>_. None), mc_nodes = (\<lambda>_. None)\<rparr>\<rparr>)))"

section \<open>The poll loop and the scope, interleaved\<close>

text \<open>
  A tick of the resource or of the metrics loop reads the scope, asks the API server for it, and writes
  its cache when the answers are in; the user can rescope in between. The state pairs the engine with
  the scopes of the ticks in flight. Once the token is cancelled both loops end, and a tick in flight
  is dropped with its answers.
\<close>

record kube_sys =
  kx_engine :: KubeEngine
  kx_inflight :: "KubeScope option"
  kx_metrics_inflight :: "KubeScope option"
  kx_cancelled :: bool

datatype kube_event =
    StartTick | FinishTick u64 "KubeScope \<Rightarrow> tick_lists"
  | StartMetrics | FinishMetrics api
  | Toggle | SetScope KubeScope | Shutdown

definition kube_start :: "KubeEngine \<Rightarrow> kube_sys" where
  "kube_start e = \<lparr>kx_engine = e, kx_inflight = None, kx_metrics_inflight = None, kx_cancelled = False\<rparr>"

fun kube_step :: "kube_event \<Rightarrow> kube_sys \<Rightarrow> kube_sys" where
  "kube_step StartTick s =
     (if kx_cancelled s \<or> kx_inflight s \<noteq> None then s
      else s\<lparr>kx_inflight := Some (ke_scope (kx_engine s))\<rparr>)"
| "kube_step (FinishTick now answers) s =
     (case kx_inflight s of
        None \<Rightarrow> s
      | Some sc \<Rightarrow>
          s\<lparr>kx_engine := (kx_engine s)\<lparr>ke_resources :=
               tick_resources now (answers sc) (ke_resources (kx_engine s))\<rparr>,
            kx_inflight := None\<rparr>)"
| "kube_step StartMetrics s =
     (if kx_cancelled s \<or> kx_metrics_inflight s \<noteq> None then s
      else s\<lparr>kx_metrics_inflight := Some (ke_scope (kx_engine s))\<rparr>)"
| "kube_step (FinishMetrics a) s =
     (case kx_metrics_inflight s of
        None \<Rightarrow> s
      | Some sc \<Rightarrow>
          s\<lparr>kx_engine := (kx_engine s)\<lparr>ke_metrics := tick_metrics a sc (ke_metrics (kx_engine s))\<rparr>,
            kx_metrics_inflight := None\<rparr>)"
| "kube_step Toggle s = s\<lparr>kx_engine := toggle_scope (kx_engine s)\<rparr>"
| "kube_step (SetScope sc) s = s\<lparr>kx_engine := set_scope sc (kx_engine s)\<rparr>"
| "kube_step Shutdown s = s\<lparr>kx_inflight := None, kx_metrics_inflight := None, kx_cancelled := True\<rparr>"

lemma kube_start_simps [simp]:
  "kx_engine (kube_start e) = e" "kx_inflight (kube_start e) = None"
  "kx_metrics_inflight (kube_start e) = None" "\<not> kx_cancelled (kube_start e)"
  by (simp_all add: kube_start_def)

lemma list_or_warn_Some [simp]: "list_or_warn r = Some xs \<longleftrightarrow> r = Finished (Inr xs)"
  by (cases r rule: list_or_warn.cases) auto

definition kube_run :: "kube_event list \<Rightarrow> kube_sys \<Rightarrow> kube_sys" where
  "kube_run evs s = fold kube_step evs s"

definition pod_in :: "KubeScope \<Rightarrow> pod \<Rightarrow> bool" where
  "pod_in sc p \<longleftrightarrow> (case sc of AllNamespaces \<Rightarrow> True | Namespace ns \<Rightarrow> po_namespace p = Some ns)"

definition deployment_in :: "KubeScope \<Rightarrow> deployment \<Rightarrow> bool" where
  "deployment_in sc d \<longleftrightarrow> (case sc of AllNamespaces \<Rightarrow> True | Namespace ns \<Rightarrow> de_namespace d = Some ns)"

text \<open>The API server answers a namespaced list with objects of that namespace only.\<close>

fun honest :: "kube_event \<Rightarrow> bool" where
  "honest (FinishTick now answers) \<longleftrightarrow>
     (\<forall>sc. (\<forall>ps. tl_pods (answers sc) = Finished (Inr ps) \<longrightarrow> list_all (pod_in sc) ps) \<and>
           (\<forall>ds. tl_deployments (answers sc) = Finished (Inr ds) \<longrightarrow> list_all (deployment_in sc) ds))"
| "honest _ \<longleftrightarrow> True"

text \<open>No rescoping while a resource tick is in flight.\<close>

fun undisturbed :: "kube_event list \<Rightarrow> bool \<Rightarrow> bool" where
  "undisturbed [] fl \<longleftrightarrow> True"
| "undisturbed (StartTick # evs) fl \<longleftrightarrow> undisturbed evs True"
| "undisturbed (FinishTick now answers # evs) fl \<longleftrightarrow> undisturbed evs False"
| "undisturbed (Toggle # evs) fl \<longleftrightarrow> \<not> fl \<and> undisturbed evs fl"
| "undisturbed (SetScope sc # evs) fl \<longleftrightarrow> \<not> fl \<and> undisturbed evs fl"
| "undisturbed (ev # evs) fl \<longleftrightarrow> undisturbed evs fl"

definition scope_inv :: "kube_sys \<Rightarrow> bool" where
  "scope_inv s \<longleftrightarrow>
     list_all (pod_in (ke_scope (kx_engine s))) (rc_pods (ke_resources (kx_engine s))) \<and>
     list_all (deployment_in (ke_scope (kx_engine s))) (rc_deployments (ke_resources (kx_engine s))) \<and>
     (\<forall>sc. kx_inflight s = Some sc \<longrightarrow> sc = ke_scope (kx_engine s))"

lemma undisturbed_weaken: "undisturbed evs fl \<Longrightarrow> (fl' \<longrightarrow> fl) \<Longrightarrow> undisturbed evs fl'"
  by (induction evs fl arbitrary: fl' rule: undisturbed.induct) auto

lemma toggle_scope_simps [simp]:
  "rc_pods (ke_resources (toggle_scope e)) = []" "rc_deployments (ke_resources (toggle_scope e)) = []"
  by (simp_all add: toggle_scope_def set_scope_def split: KubeScope.split)

lemma set_scope_simps [simp]:
  "rc_pods (ke_resources (set_scope sc e)) = []" "rc_deployments (ke_resources (set_scope sc e)) = []"
  "ke_scope (set_scope sc e) = sc"
  by (simp_all add: set_scope_def)

lemma scope_inv_step:
  assumes "scope_inv s" "honest ev" "undisturbed [ev] (kx_inflight s \<noteq> None)"
  shows "scope_inv (kube_step ev s)"
proof (cases ev)
  case (FinishTick now answers)
  show ?thesis
  proof (cases "kx_inflight s")
    case None
    with assms(1) FinishTick show ?thesis by simp
  next
    case (Some sc)
    with assms(1) have "sc = ke_scope (kx_engine s)" by (simp add: scope_inv_def)
    with assms(1,2) FinishTick Some show ?thesis
      by (cases "list_or_warn (tl_pods (answers sc))"; cases "list_or_warn (tl_deployments (answers sc))")
        (auto simp: scope_inv_def tick_resources_def list_or_warn_Some)
  qed
qed (use assms in \<open>auto simp: scope_inv_def split: option.splits\<close>)

lemma scope_inv_run:
  assumes "scope_inv s" "list_all honest evs" "undisturbed evs (kx_inflight s \<noteq> None)"
  shows "scope_inv (kube_run evs s)"
  using assms
proof (induction evs arbitrary: s)
  case (Cons ev evs)
  have "scope_inv (kube_step ev s)"
    using Cons.prems by (intro scope_inv_step) (cases ev; auto)+
  moreover have "undisturbed evs (kx_inflight (kube_step ev s) \<noteq> None)"
    using Cons.prems(3) by (cases ev) (auto elim: undisturbed_weaken split: option.splits)
  ultimately show ?case using Cons.IH Cons.prems(2) by (simp add: kube_run_def)
qed (simp add: kube_run_def)

section \<open>Lemmas\<close>

lemma connect_starts_empty:
  "kube_connect k source context namespace = Inr e \<Longrightarrow>
   scope_inv (kube_start e)"
  by (auto simp: kube_connect_def scope_inv_def split: if_splits sum.splits option.splits)

lemma snapshot_in_scope:
  assumes "scope_inv s" "ke_scope (kx_engine s) = Namespace ns"
  shows "\<forall>p\<in>set (ks_pods (kube_snapshot pf now (kx_engine s))). pod_namespace p = ns"
    and "\<forall>d\<in>set (ks_deployments (kube_snapshot pf now (kx_engine s))). dp_namespace d = ns"
  using assms
  by (auto simp: scope_inv_def kube_snapshot_def Let_def pod_to_snapshot_def deployment_to_snapshot_def
      list_all_iff pod_in_def deployment_in_def unwrap_or_def split: option.splits prod.splits)

definition running_on :: "string \<Rightarrow> PodSnapshot \<Rightarrow> bool" where
  "running_on nm p \<longleftrightarrow>
     pod_node p = nm \<and> nm \<noteq> [] \<and> pod_phase p \<noteq> PP_Succeeded \<and> pod_phase p \<noteq> PP_Failed"

lemma pods_per_node_count:
  "pods_per_node ps counts nm = counts nm + of_nat (length (filter (running_on nm) ps))"
proof (induction ps arbitrary: counts)
  case (Cons p ps)
  show ?case by (simp add: Cons.IH) (simp add: running_on_def)
qed simp

lemma bytes_with_none:
  "\<forall>(sfx, k)\<in>set ms. strip_suffix sfx s = None \<Longrightarrow> bytes_with ms s = unwrap_or (parse_u64 s) 0"
  by (induction ms) auto

lemma toggle_twice_scope:
  "ke_scope (toggle_scope (toggle_scope e)) =
     (case ke_scope e of AllNamespaces \<Rightarrow> AllNamespaces | Namespace _ \<Rightarrow> Namespace (ke_scoped_namespace e))"
  by (simp add: toggle_scope_def set_scope_def split: KubeScope.split)

section \<open>Properties\<close>


definition sample_pod :: "string \<Rightarrow> string \<Rightarrow> pod" where
  "sample_pod ns nm =
     \<lparr>po_namespace = Some ns, po_name = Some nm, po_deletion_timestamp = False, po_creation_ms = None,
      po_node_name = Some ''n1'', po_status = None\<rparr>"

definition sample_answers :: "KubeScope \<Rightarrow> tick_lists" where
  "sample_answers sc =
     \<lparr>tl_pods = Finished (Inr (filter (pod_in sc) [sample_pod ''web'' ''a'', sample_pod ''db'' ''b''])),
      tl_nodes = Finished (Inr []), tl_deployments = TimedOut\<rparr>"

lemma sample_answers_honest: "honest (FinishTick now sample_answers)"
  by (auto simp: sample_answers_def list_all_iff)

definition sample_engine :: KubeEngine where
  "sample_engine =
     \<lparr>ke_cluster_kind = CK_Generic, ke_server_version = None, ke_scoped_namespace = ''web'',
      ke_scope = AllNamespaces,
      ke_resources = \<lparr>rc_pods = [], rc_nodes = [], rc_deployments = [], rc_last_update_ms = 0\<rparr>,
      ke_metrics = \<lparr>mc_available = False, mc_pods = (\<lambda>_. None), mc_nodes = (\<lambda>_. None)\<rparr>\<rparr>"

definition sample_api :: api where
  "sample_api =
     \<lparr>as_build = (\<lambda>_. None), as_request_text = (\<lambda>_. TimedOut), as_request_stream = (\<lambda>_. TimedOut),
      as_utf8 = (\<lambda>_. None), as_from_json = (\<lambda>_. Inl ''eof''), as_parse_f64 = (\<lambda>_. None)\<rparr>"

definition sample_kube :: "string \<Rightarrow> unit kube_rs" where
  "sample_kube ns =
     \<lparr>kr_read_from = (\<lambda>_. Inr ()), kr_apply = (\<lambda>_ _. Inr ns), kr_incluster = Inl ''no'', kr_client_error = None,
      kr_api = sample_api, kr_debug = (\<lambda>s. s)\<rparr>"

lemma sample_connect: "kube_connect (sample_kube ''web'') (KC_Home ''/k'') None None = Inr sample_engine"
  by (simp add: kube_connect_def build_config_def probe_version_def sample_kube_def sample_api_def
      sample_engine_def unwrap_or_def)


text \<open>
  A rescoping during a poll is not enough protected by clearing the cache: the poll that was
  already on its way writes its answer for the old scope, and the engine then names one namespace
  and shows a pod of another.
\<close>

theorem kube_scope_race:
  "let s = kube_run [StartTick, Toggle, FinishTick 5 sample_answers]
             (kube_start sample_engine);
       shown = kube_snapshot (\<lambda>_. None) 5 (kx_engine s)
   in ks_current_namespace shown = ''web'' \<and> map pod_namespace (ks_pods shown) = [''web'', ''db'']"
  by (simp add: kube_run_def sample_engine_def toggle_scope_def set_scope_def tick_resources_def
      sample_answers_def unwrap_or_def pod_in_def sample_pod_def kube_snapshot_def Let_def scope_label_def
      pod_to_snapshot_def)

text \<open>
  Every node of a snapshot carries the number of pods of the same snapshot that are scheduled on
  it and have not run to completion, modulo the width of the counter.
\<close>

theorem node_pod_counts_correct:
  "map nd_pod_count (ks_nodes (kube_snapshot pf now e)) =
   map (\<lambda>n. of_nat (length (filter (running_on (nd_name n)) (ks_pods (kube_snapshot pf now e)))))
     (ks_nodes (kube_snapshot pf now e))"
  by (simp add: kube_snapshot_def Let_def pods_per_node_count)

text \<open>
  A failed list never loses rows: after a poll each of the three lists is either the fresh
  answer or, when that call failed or timed out, exactly what was cached. The poll stamps the cache
  even when all three calls failed, so the snapshot then calls the cluster reachable.
\<close>

theorem failed_lists_keep_rows:
  "rc_pods (tick_resources now l c) = (case tl_pods l of Finished (Inr ps) \<Rightarrow> ps | _ \<Rightarrow> rc_pods c) \<and>
   rc_nodes (tick_resources now l c) = (case tl_nodes l of Finished (Inr ns) \<Rightarrow> ns | _ \<Rightarrow> rc_nodes c) \<and>
   rc_deployments (tick_resources now l c) =
     (case tl_deployments l of Finished (Inr ds) \<Rightarrow> ds | _ \<Rightarrow> rc_deployments c) \<and>
   (ks_reachable (kube_snapshot pf t (e\<lparr>ke_resources := tick_resources now l c\<rparr>)) \<longleftrightarrow> now \<noteq> 0)"
  by (auto simp: tick_resources_def unwrap_or_def kube_snapshot_def Let_def word_gt_0
      split: timed.splits sum.splits)

text \<open>
  A connection made without a namespace takes the one of the kubeconfig as it is, so one toggle
  later the request path contains whatever text that file holds, slashes and question marks included.
\<close>

theorem toggle_puts_kubeconfig_namespace_in_path:
  assumes "kube_connect k (KC_Home path) context None = Inr e"
    and "kr_read_from k path = Inr kc" "kr_apply k kc context = Inr ns"
  shows "pod_metrics_path (ke_scope (toggle_scope e)) =
    ''/apis/metrics.k8s.io/v1beta1/namespaces/'' @ ns @ ''/pods''"
  using assms by (auto simp: kube_connect_def build_config_def toggle_scope_def set_scope_def
      pod_metrics_path_def unwrap_or_def Let_def
      split: option.splits sum.splits prod.splits)

theorem toggle_puts_kubeconfig_namespace_in_path_witness:
  "\<exists>e. kube_connect (sample_kube ''../x?'') (KC_Home ''/k'') None None = Inr e \<and>
     \<not> is_valid_namespace ''../x?'' \<and>
     pod_metrics_path (ke_scope (toggle_scope e)) = ''/apis/metrics.k8s.io/v1beta1/namespaces/../x?/pods''"
proof -
  obtain e where e: "kube_connect (sample_kube ''../x?'') (KC_Home ''/k'') None None = Inr e"
    by (simp add: kube_connect_def build_config_def probe_version_def sample_kube_def sample_api_def)
  have "\<not> is_valid_namespace ''../x?''"
    by (simp add: is_valid_namespace_def is_ns_alnum_def is_ascii_lowercase_def is_ascii_digit_def)
  with e toggle_puts_kubeconfig_namespace_in_path [OF e, of "()" "''../x?''"] show ?thesis by (auto simp: sample_kube_def)
qed

text \<open>
  Reading a metrics body buffers at most one byte more than the cap whatever the server sends,
  and a body is accepted exactly when it arrives without error, fits the cap and is UTF-8.
\<close>

theorem metrics_body_bounded:
  "snd (read_capped utf8 stream cap) \<le> cap + 1 \<and>
   (fst (read_capped utf8 stream cap) = Inr body \<longleftrightarrow>
      snd stream = None \<and> length (fst stream) \<le> cap \<and> utf8 (fst stream) = None \<and> body = fst stream)"
  by (auto simp: read_capped_def Let_def split: option.splits if_splits)

text \<open>
  Metrics are shown as unavailable exactly when neither body arrived whole; nothing of an earlier poll
  survives a poll, so a pod has usage only if the body just read names it.
\<close>

lemma insert_pod_items_dom:
  "foldl (insert_pod_item pf) m items key \<noteq> None \<Longrightarrow> m key = None \<Longrightarrow>
   \<exists>item\<in>set items. str_at [''metadata'', ''namespace''] item = Some (fst key) \<and>
                    str_at [''metadata'', ''name''] item = Some (snd key)"
proof (induction items arbitrary: m)
  case (Cons item items)
  show ?case
  proof (cases "insert_pod_item pf m item key")
    case None
    with Cons show ?thesis by fastforce
  next
    case (Some u)
    with Cons.prems(2) have
      "str_at [''metadata'', ''namespace''] item = Some (fst key) \<and> str_at [''metadata'', ''name''] item = Some (snd key)"
      by (auto simp: insert_pod_item_def Let_def unwrap_or_def split: if_splits option.splits)
    then show ?thesis by simp
  qed
qed simp

theorem metrics_are_of_the_last_poll:
  "(mc_available (tick_metrics a sc c) \<longleftrightarrow>
      fetch_metrics_text a (pod_metrics_path sc) \<noteq> None \<or>
      fetch_metrics_text a ''/apis/metrics.k8s.io/v1beta1/nodes'' \<noteq> None) \<and>
   (mc_pods (tick_metrics a sc c) key \<noteq> None \<longrightarrow>
      (\<exists>item\<in>set (metrics_items a (fetch_metrics_text a (pod_metrics_path sc))).
         str_at [''metadata'', ''namespace''] item = Some (fst key) \<and>
         str_at [''metadata'', ''name''] item = Some (snd key)))"
  using insert_pod_items_dom [of "as_parse_f64 a" "\<lambda>_. None" _ key]
  by (auto simp: tick_metrics_def Let_def)

text \<open>Once shut down, an engine changes by no poll: the loops have ended with their ticks.\<close>

lemma shut_down_frozen:
  assumes "kx_cancelled s" "kx_inflight s = None" "kx_metrics_inflight s = None"
    and "list_all (\<lambda>ev. case ev of Toggle \<Rightarrow> False | SetScope _ \<Rightarrow> False | _ \<Rightarrow> True) evs"
  shows "kube_run evs s = s"
  using assms(4)
proof (induction evs)
  case (Cons ev evs)
  then have "kube_step ev s = s" using assms(1-3) by (cases ev) auto
  with Cons show ?case by (simp add: kube_run_def)
qed (simp add: kube_run_def)

theorem shutdown_ends_polling:
  "list_all (\<lambda>ev. case ev of Toggle \<Rightarrow> False | SetScope _ \<Rightarrow> False | _ \<Rightarrow> True) evs \<Longrightarrow>
   kx_engine (kube_run evs (kube_step Shutdown s)) = kx_engine s"
  by (simp add: shut_down_frozen)

text \<open>
  Nanocores are divided to millicores in 64 bits and then cut to 32, so a value above the 32-bit
  range wraps instead of saturating.
\<close>

lemma metrics_cpu_truncates:
  "parse_u64 digits = Some n \<Longrightarrow> trim (digits @ ''n'') = digits @ ''n'' \<Longrightarrow>
   unat (parse_metrics_cpu_to_millis pf (digits @ ''n'')) = unat n div 1000000 mod 2 ^ 32"
  by (simp add: parse_metrics_cpu_to_millis_def strip_suffix_def ends_with_def unwrap_or_def
      unsigned_ucast_eq take_bit_eq_mod unat_div)

end
