(* ===== verification/Gpu_Engine.thy ===== *)
theory Gpu_Engine
  imports Engine_Targets
begin

text \<open>
  The GPU engines: the composite of \<open>muxtop-core/src/gpu_engine.rs\<close>, the AMD backend of
  \<open>amd_engine.rs\<close> over a file system given by its files and directories, and the NVIDIA backend of
  \<open>nvml_engine.rs\<close> over the answers of the vendor library. What the composite needs of a backend is
  the locale \<open>gpu_backend\<close>; the null engine, both backends and the composite itself are
  instances of it.
\<close>

section \<open>Errors and the null engine\<close>

datatype GpuError =
    NoBackend
  | DriverUnavailable string string
  | Query string
  | Sysfs string string
  | Unsupported string

fun gpu_error_text :: "GpuError \<Rightarrow> string" where
  "gpu_error_text NoBackend = ''no GPU backend available''"
| "gpu_error_text (DriverUnavailable vendor reason) = vendor @ '' driver unavailable: '' @ reason"
| "gpu_error_text (Query e) = ''GPU query failed: '' @ e"
| "gpu_error_text (Sysfs path reason) = ''GPU sysfs read failed at '' @ path @ '': '' @ reason"
| "gpu_error_text (Unsupported e) = e"

definition null_gpu_snapshot :: "string \<Rightarrow> GpuError + GpusSnapshot" where
  "null_gpu_snapshot detail = Inr (gpus_unavailable_with detail)"

section \<open>The composite\<close>

definition absorb_backends :: "GpuBackend list \<Rightarrow> GpuBackend list \<Rightarrow> GpuBackend list" where
  "absorb_backends merged new =
     foldl (\<lambda>m b. if b \<in> set m then m else m @ [b]) merged new"

definition merge_backend :: "GpusSnapshot \<Rightarrow> GpusSnapshot \<Rightarrow> GpusSnapshot" where
  "merge_backend merged snapshot =
     (let offset = of_nat (length (gs_devices merged)) in
      merged\<lparr>gs_devices := gs_devices merged @
               map (\<lambda>d. d\<lparr>gd_index := offset + gd_index d\<rparr>) (gs_devices snapshot),
             gs_processes := gs_processes merged @
               map (\<lambda>p. p\<lparr>gp_device_index := gp_device_index p + offset\<rparr>) (gs_processes snapshot),
             gs_backends := absorb_backends (gs_backends merged) (gs_backends snapshot)\<rparr>)"

fun composite_loop ::
    "(GpuError + GpusSnapshot) list \<Rightarrow> GpusSnapshot \<Rightarrow> string list \<Rightarrow> GpusSnapshot \<times> string list" where
  "composite_loop [] merged failures = (merged, failures)"
| "composite_loop (Inl err # rs) merged failures =
     composite_loop rs merged (failures @ [gpu_error_text err])"
| "composite_loop (Inr snapshot # rs) merged failures =
     (if \<not> gs_available snapshot
      then composite_loop rs merged
             (if gs_detail snapshot \<noteq> [] then failures @ [gs_detail snapshot] else failures)
      else composite_loop rs (merge_backend merged snapshot) failures)"

definition composite_snapshot :: "(GpuError + GpusSnapshot) list \<Rightarrow> GpuError + GpusSnapshot" where
  "composite_snapshot results =
     (let (merged, failures) = composite_loop results gpus_unavailable [];
          merged = merged\<lparr>gs_available := (gs_devices merged \<noteq> [])\<rparr>
      in if gs_available merged then Inr merged
         else Inr (merged\<lparr>gs_detail := (if failures = [] then ''no GPU detected'' else join ''; '' failures)\<rparr>))"

definition composite_backend :: "GpuBackend list \<Rightarrow> GpuBackend" where
  "composite_backend kinds = (case kinds of [] \<Rightarrow> Nvml | k # _ \<Rightarrow> k)"

text \<open>
  Detection: the outcome of each backend compiled in, in probe order; the result is either the
  null engine with a reason or the backends of a composite.
\<close>

fun probe_platform_backends :: "(GpuError + 'b) list \<Rightarrow> 'b list \<Rightarrow> string list \<Rightarrow> 'b list \<times> string list" where
  "probe_platform_backends [] backends reasons = (backends, reasons)"
| "probe_platform_backends (Inr b # rs) backends reasons = probe_platform_backends rs (backends @ [b]) reasons"
| "probe_platform_backends (Inl e # rs) backends reasons =
     probe_platform_backends rs backends (reasons @ [gpu_error_text e])"

definition detect_gpu_engines :: "(GpuError + 'b) list \<Rightarrow> string + 'b list" where
  "detect_gpu_engines probes =
     (let (backends, reasons) = probe_platform_backends probes [] [] in
      if backends = [] then
        Inl (if reasons = [] then ''no supported GPU backend on this platform'' else join ''; '' reasons)
      else Inr backends)"

section \<open>AMD sysfs\<close>

text \<open>A file system: the contents of the readable files, and the entry names of the directories.\<close>

record sysfs =
  fs_read :: "string \<Rightarrow> string option"
  fs_dir :: "string \<Rightarrow> string list option"

definition read_trimmed :: "sysfs \<Rightarrow> string \<Rightarrow> string option" where
  "read_trimmed fs path = map_option trim (fs_read fs path)"

definition read_u64 :: "sysfs \<Rightarrow> string \<Rightarrow> u64 option" where
  "read_u64 fs path = Option.bind (read_trimmed fs path) parse_u64"

definition parse_card_number :: "string \<Rightarrow> u32 option" where
  "parse_card_number nm =
     (case strip_prefix ''card'' nm of
        None \<Rightarrow> None
      | Some rest \<Rightarrow> if rest = [] \<or> \<not> list_all is_ascii_digit rest then None else parse_u32 rest)"

definition is_amd_card :: "sysfs \<Rightarrow> string \<Rightarrow> bool" where
  "is_amd_card fs device_dir =
     unwrap_or (map_option (\<lambda>v. eq_ignore_ascii_case v ''0x1002'') (read_trimmed fs (path_join device_dir ''vendor'')))
       False"

definition card_entry :: "sysfs \<Rightarrow> string \<Rightarrow> string \<Rightarrow> (u32 \<times> string) option" where
  "card_entry fs drm_root nm =
     (case parse_card_number nm of
        None \<Rightarrow> None
      | Some card_number \<Rightarrow>
          let device_dir = path_join (path_join drm_root nm) ''device'' in
          if \<not> is_amd_card fs device_dir then None else Some (card_number, device_dir))"

definition discover_cards :: "sysfs \<Rightarrow> string \<Rightarrow> string list" where
  "discover_cards fs drm_root =
     (case fs_dir fs drm_root of
        None \<Rightarrow> []
      | Some names \<Rightarrow>
          map snd (sort_by (\<lambda>a b. fst a \<le> fst b) (List.map_filter (card_entry fs drm_root) names)))"

definition find_hwmon :: "sysfs \<Rightarrow> string \<Rightarrow> string option" where
  "find_hwmon fs device_dir =
     Option.bind (fs_dir fs (path_join device_dir ''hwmon''))
       (\<lambda>names. case sort (filter (\<lambda>n. starts_with n ''hwmon'') names) of
                   [] \<Rightarrow> None
                 | n # _ \<Rightarrow> Some (path_join (path_join device_dir ''hwmon'') n))"

definition hz_to_mhz :: "u64 \<Rightarrow> u32" where
  "hz_to_mhz hz = ucast (hz div 1000000)"

definition f32_of_u64 :: "u64 \<Rightarrow> fl" where
  "f32_of_u64 v = of_nat_fl F32 (unat v)"

definition uw_to_watts :: "u64 \<Rightarrow> fl" where
  "uw_to_watts uw = fdiv F32 (f32_of_u64 uw) (Fin 1000000)"

definition read_fan_pct :: "sysfs \<Rightarrow> string \<Rightarrow> fl option" where
  "read_fan_pct fs hwmon =
     (case read_u64 fs (path_join hwmon ''pwm1'') of
        None \<Rightarrow> None
      | Some pwm \<Rightarrow>
          let mx = (case read_u64 fs (path_join hwmon ''pwm1_max'') of
                      Some m \<Rightarrow> if 0 < m then m else 255 | None \<Rightarrow> 255)
          in Some (fclamp (fmul F32 (fdiv F32 (f32_of_u64 pwm) (f32_of_u64 mx)) (Fin 100)) (Fin 0) (Fin 100)))"

definition trim_stars :: "string \<Rightarrow> string" where
  "trim_stars s = rev (dropWhile (\<lambda>c. c = CHR ''*'') (rev s))"

fun active_dpm :: "string list \<Rightarrow> u32 option" where
  "active_dpm [] = None"
| "active_dpm (l # ls) =
     (let line = trim l in
      if \<not> ends_with line ''*'' then active_dpm ls
      else
        (case get_opt (split_at (\<lambda>c. c = CHR '':'') line) 1 of
           None \<Rightarrow> None
         | Some w \<Rightarrow>
             let digits = takeWhile is_ascii_digit (to_ascii_lowercase (trim (trim_stars (trim w)))) in
             if digits = [] then active_dpm ls else parse_u32 digits))"

definition read_active_dpm_mhz :: "sysfs \<Rightarrow> string \<Rightarrow> u32 option" where
  "read_active_dpm_mhz fs path = Option.bind (read_trimmed fs path) (\<lambda>content. active_dpm (lines content))"

definition read_device_name :: "sysfs \<Rightarrow> string \<Rightarrow> string" where
  "read_device_name fs device_dir =
     (case read_trimmed fs (path_join device_dir ''product_name'') of
        Some (c # cs) \<Rightarrow> c # cs
      | _ \<Rightarrow>
          (case read_trimmed fs (path_join device_dir ''device'') of
             Some (c # cs) \<Rightarrow> ''AMD GPU '' @ (c # cs)
           | _ \<Rightarrow> ''AMD GPU''))"

fun first_with_prefix :: "string \<Rightarrow> string list \<Rightarrow> string option" where
  "first_with_prefix p [] = None"
| "first_with_prefix p (l # ls) =
     (case strip_prefix p l of Some r \<Rightarrow> Some r | None \<Rightarrow> first_with_prefix p ls)"

definition read_bus_id :: "sysfs \<Rightarrow> string \<Rightarrow> string" where
  "read_bus_id fs device_dir =
     (case read_trimmed fs (path_join device_dir ''uevent'') of
        None \<Rightarrow> []
      | Some uevent \<Rightarrow> unwrap_or (map_option trim (first_with_prefix ''PCI_SLOT_NAME='' (lines uevent))) [])"

definition read_device :: "sysfs \<Rightarrow> string \<Rightarrow> u32 \<Rightarrow> string option \<Rightarrow> GpuDeviceSnapshot" where
  "read_device fs device_dir index driver_version =
     (let hwmon = find_hwmon fs device_dir;
          hw = (\<lambda>f. Option.bind hwmon (\<lambda>h. read_u64 fs (path_join h f)));
          dev = (\<lambda>f. read_u64 fs (path_join device_dir f))
      in \<lparr>gd_index = index, gd_vendor = GV_Amd, gd_backend = AmdSysfs,
          gd_name = read_device_name fs device_dir, gd_bus_id = read_bus_id fs device_dir,
          gd_driver_version = driver_version,
          gd_utilization_pct = map_option f32_of_u64 (dev ''gpu_busy_percent''),
          gd_mem_utilization_pct = map_option f32_of_u64 (dev ''mem_busy_percent''),
          gd_mem_used_bytes = dev ''mem_info_vram_used'',
          gd_mem_total_bytes = dev ''mem_info_vram_total'',
          gd_temperature_c = map_option (\<lambda>v. fdiv F32 (f32_of_u64 v) (Fin 1000)) (hw ''temp1_input''),
          gd_power_watts = map_option uw_to_watts (or_else (hw ''power1_average'') (hw ''power1_input'')),
          gd_power_limit_watts = map_option uw_to_watts (hw ''power1_cap''),
          gd_graphics_clock_mhz = or_else (map_option hz_to_mhz (hw ''freq1_input''))
            (read_active_dpm_mhz fs (path_join device_dir ''pp_dpm_sclk'')),
          gd_memory_clock_mhz = or_else (map_option hz_to_mhz (hw ''freq2_input''))
            (read_active_dpm_mhz fs (path_join device_dir ''pp_dpm_mclk'')),
          gd_fan_pct = Option.bind hwmon (read_fan_pct fs),
          gd_encoder_pct = None, gd_decoder_pct = None, gd_supports_process_stats = False\<rparr>)"

definition amd_collect :: "sysfs \<Rightarrow> string list \<Rightarrow> string option \<Rightarrow> GpusSnapshot" where
  "amd_collect fs cards driver_version =
     (let devices = map (\<lambda>(i, dir). read_device fs dir (of_nat i) driver_version) (enumerate 0 cards) in
      if devices = [] then gpus_unavailable_with ''no amdgpu card readable''
      else \<lparr>gs_backends = [AmdSysfs], gs_available = True, gs_devices = devices, gs_processes = [],
            gs_detail = []\<rparr>)"

record AmdEngine =
  ae_cards :: "string list"
  ae_driver_version :: "string option"

definition amd_connect_at :: "sysfs \<Rightarrow> string \<Rightarrow> GpuError + AmdEngine" where
  "amd_connect_at fs drm_root =
     (let cards = discover_cards fs drm_root in
      if cards = [] then Inl (DriverUnavailable ''AMD'' (''no amdgpu card found under '' @ drm_root))
      else Inr \<lparr>ae_cards = cards, ae_driver_version = read_trimmed fs ''/sys/module/amdgpu/version''\<rparr>)"

text \<open>\<open>join\<close> is the outcome of the blocking task: an error text when it panicked or was cancelled.\<close>

definition amd_snapshot :: "sysfs \<Rightarrow> AmdEngine \<Rightarrow> string option \<Rightarrow> GpuError + GpusSnapshot" where
  "amd_snapshot fs e join_error =
     (case join_error of
        Some err \<Rightarrow> Inl (Query (''AMD sysfs collection task panicked or was cancelled: '' @ err))
      | None \<Rightarrow> Inr (amd_collect fs (ae_cards e) (ae_driver_version e)))"
section \<open>NVIDIA\<close>

text \<open>
  What the vendor library answers: the number of devices or an error text, and for each index that
  can be opened the outcome of every query (\<open>None\<close> for an error). A process entry is a PID and its
  memory, absent where the driver reports none.
\<close>

record nvml_device =
  nv_utilization :: "(u32 \<times> u32) option"
  nv_memory :: "(u64 \<times> u64) option"
  nv_enforced_power_limit :: "u32 option"
  nv_power_management_limit :: "u32 option"
  nv_name :: "string option"
  nv_bus_id :: "string option"
  nv_temperature :: "u32 option"
  nv_power_usage :: "u32 option"
  nv_graphics_clock :: "u32 option"
  nv_memory_clock :: "u32 option"
  nv_fan_speed :: "u32 option"
  nv_encoder :: "u32 option"
  nv_decoder :: "u32 option"
  nv_compute :: "(u32 \<times> u64 option) list option"
  nv_graphics :: "(u32 \<times> u64 option) list option"

record nvml =
  nvml_device_count :: "string + nat"
  nvml_device_by_index :: "nat \<Rightarrow> nvml_device option"
  nvml_driver_version :: "string option"

definition nvml_connect :: "string + nvml \<Rightarrow> GpuError + nvml \<times> string option" where
  "nvml_connect init =
     (case init of
        Inl e \<Rightarrow> Inl (DriverUnavailable ''NVIDIA'' e)
      | Inr n \<Rightarrow>
          (case nvml_device_count n of
             Inl e \<Rightarrow> Inl (DriverUnavailable ''NVIDIA'' (''device enumeration failed: '' @ e))
           | Inr cnt \<Rightarrow>
               if cnt = 0 then Inl (DriverUnavailable ''NVIDIA'' ''NVML loaded but reports no devices'')
               else Inr (n, nvml_driver_version n)))"

fun absorb ::
    "(u32 \<times> u64 option) list \<Rightarrow> GpuProcessKind \<Rightarrow>
     (u32 \<Rightarrow> (GpuProcessKind \<times> u64 option) option) \<times> u32 list \<Rightarrow>
     (u32 \<Rightarrow> (GpuProcessKind \<times> u64 option) option) \<times> u32 list" where
  "absorb [] kind (merged, order) = (merged, order)"
| "absorb ((pid, mem) # procs) kind (merged, order) =
     (case merged pid of
        Some (k, m) \<Rightarrow>
          absorb procs kind (merged(pid \<mapsto> (kind_merge k kind, if m = None then mem else m)), order)
      | None \<Rightarrow> absorb procs kind (merged(pid \<mapsto> (kind, mem)), order @ [pid]))"

definition collect_processes :: "nvml_device \<Rightarrow> u32 \<Rightarrow> GpuProcessSnapshot list" where
  "collect_processes device device_index =
     (let st0 = (\<lambda>_. None, []);
          st1 = (case nv_compute device of Some procs \<Rightarrow> absorb procs GK_Compute st0 | None \<Rightarrow> st0);
          (merged, order) = (case nv_graphics device of Some procs \<Rightarrow> absorb procs GK_Graphics st1 | None \<Rightarrow> st1)
      in map (\<lambda>pid. \<lparr>gp_pid = pid, gp_device_index = device_index, gp_name = [],
                       gp_kind = fst (the (merged pid)), gp_mem_bytes = snd (the (merged pid))\<rparr>) order)"

definition f32_of_u32 :: "u32 \<Rightarrow> fl" where
  "f32_of_u32 v = of_nat_fl F32 (unat v)"

definition nvml_device_snapshot :: "nvml_device \<Rightarrow> u32 \<Rightarrow> string option \<Rightarrow> GpuDeviceSnapshot" where
  "nvml_device_snapshot device index driver_version =
     (let watts = (\<lambda>mw. fdiv F32 (f32_of_u32 mw) (Fin 1000)) in
      \<lparr>gd_index = index, gd_vendor = GV_Nvidia, gd_backend = Nvml,
       gd_name = unwrap_or (nv_name device) [], gd_bus_id = unwrap_or (nv_bus_id device) [],
       gd_driver_version = driver_version,
       gd_utilization_pct = map_option (f32_of_u32 \<circ> fst) (nv_utilization device),
       gd_mem_utilization_pct = map_option (f32_of_u32 \<circ> snd) (nv_utilization device),
       gd_mem_used_bytes = map_option fst (nv_memory device),
       gd_mem_total_bytes = map_option snd (nv_memory device),
       gd_temperature_c = map_option f32_of_u32 (nv_temperature device),
       gd_power_watts = map_option watts (nv_power_usage device),
       gd_power_limit_watts =
         map_option watts (or_else (nv_enforced_power_limit device) (nv_power_management_limit device)),
       gd_graphics_clock_mhz = nv_graphics_clock device, gd_memory_clock_mhz = nv_memory_clock device,
       gd_fan_pct = map_option f32_of_u32 (nv_fan_speed device),
       gd_encoder_pct = map_option f32_of_u32 (nv_encoder device),
       gd_decoder_pct = map_option f32_of_u32 (nv_decoder device), gd_supports_process_stats = True\<rparr>)"

fun nvml_loop ::
    "nvml \<Rightarrow> string option \<Rightarrow> nat list \<Rightarrow> GpuDeviceSnapshot list \<Rightarrow> GpuProcessSnapshot list \<Rightarrow>
     GpuDeviceSnapshot list \<times> GpuProcessSnapshot list" where
  "nvml_loop n version [] devices processes = (devices, processes)"
| "nvml_loop n version (i # is) devices processes =
     (case nvml_device_by_index n i of
        None \<Rightarrow> nvml_loop n version is devices processes
      | Some device \<Rightarrow>
          nvml_loop n version is
            (devices @ [nvml_device_snapshot device (of_nat (length devices)) version])
            (processes @ collect_processes device (of_nat (length devices))))"

definition nvml_collect :: "nvml \<Rightarrow> string option \<Rightarrow> GpuError + GpusSnapshot" where
  "nvml_collect n driver_version =
     (case nvml_device_count n of
        Inl e \<Rightarrow> Inl (Query (''nvmlDeviceGetCount failed: '' @ e))
      | Inr cnt \<Rightarrow>
          let (devices, processes) = nvml_loop n driver_version [0..<cnt] [] [] in
          if devices = [] then Inr (gpus_unavailable_with ''NVML reported devices but none could be read'')
          else Inr \<lparr>gs_backends = [Nvml], gs_available = True, gs_devices = devices,
                    gs_processes = processes, gs_detail = []\<rparr>)"

definition nvml_snapshot :: "nvml \<Rightarrow> string option \<Rightarrow> string option \<Rightarrow> GpuError + GpusSnapshot" where
  "nvml_snapshot n version join_error =
     (case join_error of
        Some err \<Rightarrow> Inl (Query (''NVML collection task panicked or was cancelled: '' @ err))
      | None \<Rightarrow> nvml_collect n version)"

section \<open>What a backend promises\<close>

definition dense :: "GpusSnapshot \<Rightarrow> bool" where
  "dense s \<longleftrightarrow> (\<forall>i<length (gs_devices s). gd_index (gs_devices s ! i) = of_nat i)"

definition points :: "GpusSnapshot \<Rightarrow> bool" where
  "points s \<longleftrightarrow> (\<forall>p\<in>set (gs_processes s). \<exists>i<length (gs_devices s). gp_device_index p = of_nat i)"

definition gpus_ok :: "GpusSnapshot \<Rightarrow> bool" where
  "gpus_ok s \<longleftrightarrow> dense s \<and> points s \<and> (gs_available s \<longleftrightarrow> gs_devices s \<noteq> []) \<and>
     distinct (gs_backends s) \<and> (\<not> gs_available s \<longrightarrow> gs_backends s = [])"

locale gpu_backend =
  fixes answer :: "'env \<Rightarrow> GpuError + GpusSnapshot"
  assumes answer_ok: "answer env = Inr s \<Longrightarrow> gpus_ok s"
begin

lemma process_has_device:
  assumes "answer env = Inr s" "p \<in> set (gs_processes s)"
  shows "\<exists>d\<in>set (gs_devices s). gd_index d = gp_device_index p"
  using answer_ok [OF assms(1)] assms(2) by (fastforce simp: gpus_ok_def dense_def points_def)

lemma unavailable_is_empty:
  assumes "answer env = Inr s" "\<not> gs_available s"
  shows "gs_devices s = [] \<and> gs_processes s = [] \<and> gs_backends s = []"
  using answer_ok [OF assms(1)] assms(2) by (cases "gs_processes s") (auto simp: gpus_ok_def points_def)

end

lemma gpus_ok_unavailable [simp]: "gpus_ok (gpus_unavailable_with d)" "gpus_ok gpus_unavailable"
  by (simp_all add: gpus_ok_def dense_def points_def gpus_unavailable_with_def gpus_unavailable_def)

interpretation null: gpu_backend null_gpu_snapshot
  by unfold_locales (auto simp: null_gpu_snapshot_def)

lemma gpus_ok_amd_collect: "gpus_ok (amd_collect fs cards version)"
  by (auto simp: amd_collect_def gpus_ok_def dense_def points_def Let_def nth_enumerate_eq read_device_def
      simp del: gpus_ok_unavailable)
    (auto simp: gpus_unavailable_with_def gpus_unavailable_def)

interpretation amd: gpu_backend "\<lambda>(fs, e, j). amd_snapshot fs e j"
  by unfold_locales (auto simp: amd_snapshot_def gpus_ok_amd_collect split: option.splits)

lemma collect_processes_index: "p \<in> set (collect_processes device i) \<Longrightarrow> gp_device_index p = i"
  by (auto simp: collect_processes_def Let_def split: prod.splits)

lemma nvml_loop_ok:
  assumes "\<forall>i<length ds. gd_index (ds ! i) = of_nat i"
    and "\<forall>p\<in>set ps. \<exists>i<length ds. gp_device_index p = of_nat i"
    and "nvml_loop n v is ds ps = (ds', ps')"
  shows "(\<forall>i<length ds'. gd_index (ds' ! i) = of_nat i) \<and>
         (\<forall>p\<in>set ps'. \<exists>i<length ds'. gp_device_index p = of_nat i)"
  using assms
proof (induction n v "is" ds ps rule: nvml_loop.induct)
  case (2 n v i "is" ds ps)
  show ?case
  proof (cases "nvml_device_by_index n i")
    case (Some device)
    let ?ds = "ds @ [nvml_device_snapshot device (of_nat (length ds)) v]"
    have "\<forall>i<length ?ds. gd_index (?ds ! i) = of_nat i"
      using 2(3) by (auto simp: nth_append less_Suc_eq nvml_device_snapshot_def Let_def)
    moreover have "\<forall>p\<in>set (ps @ collect_processes device (of_nat (length ds))).
        \<exists>i<length ?ds. gp_device_index p = of_nat i"
      using 2(4) by (auto dest: collect_processes_index intro: less_SucI)
    ultimately show ?thesis using 2(2) [OF Some] 2(5) Some by simp
  qed (use 2 in simp)
qed simp

lemma nvml_collect_ok: "nvml_collect n v = Inr s \<Longrightarrow> gpus_ok s"
  using nvml_loop_ok [of "[]" "[]"]
  by (auto simp: nvml_collect_def Let_def gpus_ok_def dense_def points_def gpus_unavailable_with_def
      gpus_unavailable_def split: sum.splits prod.splits if_splits)

interpretation nv: gpu_backend "\<lambda>(n, v, j). nvml_snapshot n v j"
  by unfold_locales (auto simp: nvml_snapshot_def split: option.splits dest: nvml_collect_ok)

section \<open>The composite keeps the promise\<close>

definition available_of :: "(GpuError + GpusSnapshot) list \<Rightarrow> GpusSnapshot list" where
  "available_of rs = List.map_filter (\<lambda>r. case r of Inr s \<Rightarrow> if gs_available s then Some s else None | Inl _ \<Rightarrow> None) rs"

lemma composite_loop_fst: "fst (composite_loop rs m f) = foldl merge_backend m (available_of rs)"
  by (induction rs m f rule: composite_loop.induct) (simp_all add: available_of_def List.map_filter_simps)

lemma distinct_absorb_backends: "distinct m \<Longrightarrow> distinct (absorb_backends m new)"
  unfolding absorb_backends_def by (induction new arbitrary: m) auto

lemma merge_backend_simps [simp]:
  "length (gs_devices (merge_backend m s)) = length (gs_devices m) + length (gs_devices s)"
  "gs_detail (merge_backend m s) = gs_detail m" "gs_available (merge_backend m s) = gs_available m"
  "gs_backends (merge_backend m s) = absorb_backends (gs_backends m) (gs_backends s)"
  by (simp_all add: merge_backend_def Let_def)

lemma merge_dense: "dense m \<Longrightarrow> dense s \<Longrightarrow> dense (merge_backend m s)"
  by (auto simp: dense_def merge_backend_def Let_def nth_append simp flip: of_nat_add)

lemma merge_points:
  assumes "points m" "points s"
  shows "points (merge_backend m s)"
  unfolding points_def
proof
  fix p assume "p \<in> set (gs_processes (merge_backend m s))"
  then consider "p \<in> set (gs_processes m)"
    | q where "q \<in> set (gs_processes s)"
        "p = q\<lparr>gp_device_index := gp_device_index q + of_nat (length (gs_devices m))\<rparr>"
    by (auto simp: merge_backend_def Let_def)
  then show "\<exists>i<length (gs_devices (merge_backend m s)). gp_device_index p = of_nat i"
  proof cases
    case 1
    with assms(1) obtain i where "i < length (gs_devices m)" "gp_device_index p = of_nat i"
      by (auto simp: points_def)
    then show ?thesis by (intro exI [of _ i]) simp
  next
    case 2
    with assms(2) obtain i where "i < length (gs_devices s)" "gp_device_index q = of_nat i"
      by (auto simp: points_def)
    with 2 show ?thesis by (intro exI [of _ "length (gs_devices m) + i"]) (simp add: add.commute)
  qed
qed

lemma foldl_merge_ok:
  assumes "dense m" "points m" "distinct (gs_backends m)" "\<forall>s\<in>set ss. dense s \<and> points s"
  shows "dense (foldl merge_backend m ss) \<and> points (foldl merge_backend m ss) \<and>
    distinct (gs_backends (foldl merge_backend m ss))"
  using assms
proof (induction ss arbitrary: m)
  case (Cons s ss)
  from Cons.prems show ?case
    by (simp add: Cons.IH merge_dense merge_points distinct_absorb_backends)
qed simp

lemma composite_snapshot_alt:
  obtains f where "composite_snapshot rs =
    (let m = foldl merge_backend gpus_unavailable (available_of rs) in
     Inr (m\<lparr>gs_available := (gs_devices m \<noteq> []),
            gs_detail := (if gs_devices m \<noteq> [] then [] else f)\<rparr>))"
proof -
  obtain m f where l: "composite_loop rs gpus_unavailable [] = (m, f)" by fastforce
  then have m: "m = foldl merge_backend gpus_unavailable (available_of rs)"
    using composite_loop_fst [of rs gpus_unavailable "[]"] by simp
  have "gs_detail (foldl merge_backend b ss) = gs_detail b" for b ss
    by (induction ss arbitrary: b) simp_all
  then have "gs_detail m = []" using m by (simp add: gpus_unavailable_def)
  with l m show ?thesis
    by (intro that [of "if f = [] then ''no GPU detected'' else join ''; '' f"])
      (simp add: composite_snapshot_def Let_def)
qed

lemma foldl_merge_devices:
  "length (gs_devices (foldl merge_backend m ss)) = length (gs_devices m) + (\<Sum>s\<leftarrow>ss. length (gs_devices s))"
  by (induction ss arbitrary: m) simp_all

lemma set_available_of: "set (available_of rs) = {s. Inr s \<in> set rs \<and> gs_available s}"
  by (induction rs) (auto simp: available_of_def List.map_filter_simps split: sum.splits)

lemma composite_ok:
  assumes "\<And>s. Inr s \<in> set rs \<Longrightarrow> gpus_ok s" and "composite_snapshot rs = Inr t"
  shows "gpus_ok t"
proof -
  let ?m = "foldl merge_backend gpus_unavailable (available_of rs)"
  obtain f where t: "t = ?m\<lparr>gs_available := (gs_devices ?m \<noteq> []),
      gs_detail := (if gs_devices ?m \<noteq> [] then [] else f)\<rparr>"
    using assms(2) by (rule_tac composite_snapshot_alt [of rs]) (auto simp: Let_def)
  have "\<forall>s\<in>set (available_of rs). gpus_ok s \<and> gs_available s"
    using assms(1) by (auto simp: set_available_of)
  then have ok: "\<forall>s\<in>set (available_of rs). dense s \<and> points s \<and> gs_devices s \<noteq> []"
    by (auto simp: gpus_ok_def)
  have "dense ?m \<and> points ?m \<and> distinct (gs_backends ?m)"
    using ok by (intro foldl_merge_ok) (auto simp: dense_def points_def gpus_unavailable_def)
  moreover have "gs_devices ?m = [] \<Longrightarrow> available_of rs = []"
    using ok foldl_merge_devices [of gpus_unavailable "available_of rs"]
    by (cases "available_of rs") (auto simp: gpus_unavailable_def)
  then have "gs_devices ?m = [] \<Longrightarrow> gs_backends ?m = []" by (simp add: gpus_unavailable_def)
  ultimately show ?thesis by (auto simp: t gpus_ok_def dense_def points_def)
qed

text \<open>The two backends of a Linux host, probed in this order.\<close>

locale gpu_pair = a: gpu_backend first + b: gpu_backend second
  for first :: "'a \<Rightarrow> GpuError + GpusSnapshot" and second :: "'b \<Rightarrow> GpuError + GpusSnapshot"
begin

lemma pair_ok:
  assumes "composite_snapshot [first x, second y] = Inr s"
  shows "gpus_ok s"
proof (rule composite_ok [OF _ assms])
  fix s assume "Inr s \<in> set [first x, second y]"
  then have "first x = Inr s \<or> second y = Inr s" by auto
  then show "gpus_ok s" using a.answer_ok b.answer_ok by blast
qed

end

sublocale gpu_pair \<subseteq> both: gpu_backend "\<lambda>(x, y). composite_snapshot [first x, second y]"
  by unfold_locales (auto dest: pair_ok)

interpretation linux: gpu_pair "\<lambda>(n, v, j). nvml_snapshot n v j" "\<lambda>(fs, e, j). amd_snapshot fs e j"
  by unfold_locales

section \<open>Ownership of processes\<close>

definition owner :: "GpusSnapshot \<Rightarrow> GpuProcessSnapshot \<Rightarrow> GpuDeviceSnapshot option" where
  "owner s p = map_option (\<lambda>d. d\<lparr>gd_index := 0\<rparr>) (find (\<lambda>d. gd_index d = gp_device_index p) (gs_devices s))"

definition attribution :: "GpusSnapshot \<Rightarrow> (u32 \<times> GpuDeviceSnapshot option) list" where
  "attribution s = map (\<lambda>p. (gp_pid p, owner s p)) (gs_processes s)"

lemma owner_dense:
  assumes "dense s" "length (gs_devices s) \<le> 2 ^ 32" "i < length (gs_devices s)" "gp_device_index p = of_nat i"
  shows "owner s p = Some ((gs_devices s ! i)\<lparr>gd_index := 0\<rparr>)"
proof -
  have inj: "j = i" if "j < length (gs_devices s)" "(of_nat j :: u32) = of_nat i" for j
  proof -
    have "unat (of_nat k :: u32) = k" if "k < length (gs_devices s)" for k
      using that assms(2) by (intro of_nat_inverse [OF refl]) simp
    with that assms(3) show ?thesis by metis
  qed
  have "find (\<lambda>d. gd_index d = gp_device_index p) (gs_devices s) = Some (gs_devices s ! i)"
    unfolding find_Some_iff
  proof (intro exI conjI allI impI)
    fix j assume "j < i"
    with assms(1,3,4) inj [of j] show "gd_index (gs_devices s ! j) \<noteq> gp_device_index p"
      by (auto simp: dense_def)
  qed (use assms in \<open>simp_all add: dense_def\<close>)
  then show ?thesis by (simp add: owner_def)
qed

lemma attribution_merge:
  assumes "dense m" "dense s" "points m" "points s" "length (gs_devices m) + length (gs_devices s) \<le> 2 ^ 32"
  shows "attribution (merge_backend m s) = attribution m @ attribution s"
proof -
  let ?t = "merge_backend m s"
  have t: "dense ?t" "length (gs_devices ?t) \<le> 2 ^ 32" using assms(1,2,5) by (simp_all add: merge_dense)
  have dev: "gs_devices ?t ! i = gs_devices m ! i" if "i < length (gs_devices m)" for i
    using that by (simp add: merge_backend_def Let_def nth_append)
  have dev': "(gs_devices ?t ! (length (gs_devices m) + i))\<lparr>gd_index := 0\<rparr> = (gs_devices s ! i)\<lparr>gd_index := 0\<rparr>"
    if "i < length (gs_devices s)" for i
    using that by (simp add: merge_backend_def Let_def nth_append)
  have "owner ?t p = owner m p" if "p \<in> set (gs_processes m)" for p
  proof -
    from assms(3) that obtain i where i: "i < length (gs_devices m)" "gp_device_index p = of_nat i"
      by (auto simp: points_def)
    have "owner ?t p = Some ((gs_devices ?t ! i)\<lparr>gd_index := 0\<rparr>)"
      using i by (intro owner_dense [OF t]) simp_all
    also have "\<dots> = owner m p"
      using i assms(5) by (subst owner_dense [OF assms(1), of i]) (simp_all add: dev)
    finally show ?thesis .
  qed
  moreover have "owner ?t (p\<lparr>gp_device_index := gp_device_index p + of_nat (length (gs_devices m))\<rparr>) = owner s p"
    if "p \<in> set (gs_processes s)" for p
  proof -
    from assms(4) that obtain i where i: "i < length (gs_devices s)" "gp_device_index p = of_nat i"
      by (auto simp: points_def)
    have "owner ?t (p\<lparr>gp_device_index := gp_device_index p + of_nat (length (gs_devices m))\<rparr>) =
      Some ((gs_devices ?t ! (length (gs_devices m) + i))\<lparr>gd_index := 0\<rparr>)"
      using i by (intro owner_dense [OF t]) (simp_all add: add.commute)
    also have "\<dots> = owner s p"
      using i assms(5) by (subst owner_dense [OF assms(2), of i]) (simp_all add: dev')
    finally show ?thesis .
  qed
  ultimately show ?thesis by (simp add: attribution_def merge_backend_def Let_def)
qed

lemma attribution_foldl:
  assumes "dense m" "points m" "\<forall>s\<in>set ss. dense s \<and> points s"
    "length (gs_devices m) + (\<Sum>s\<leftarrow>ss. length (gs_devices s)) \<le> 2 ^ 32"
  shows "attribution (foldl merge_backend m ss) = attribution m @ concat (map attribution ss)"
  using assms
proof (induction ss arbitrary: m)
  case (Cons s ss)
  have "attribution (foldl merge_backend (merge_backend m s) ss) =
      attribution (merge_backend m s) @ concat (map attribution ss)"
    using Cons.prems by (intro Cons.IH) (auto simp: merge_dense merge_points)
  moreover have "attribution (merge_backend m s) = attribution m @ attribution s"
    using Cons.prems by (intro attribution_merge) auto
  ultimately show ?case by simp
qed simp

lemma composite_attribution:
  assumes "\<forall>s. Inr s \<in> set rs \<longrightarrow> gpus_ok s" "(\<Sum>s\<leftarrow>available_of rs. length (gs_devices s)) \<le> 2 ^ 32"
    and "composite_snapshot rs = Inr t"
  shows "attribution t = concat (map attribution (available_of rs))"
proof -
  let ?m = "foldl merge_backend gpus_unavailable (available_of rs)"
  have "gs_processes t = gs_processes ?m \<and> gs_devices t = gs_devices ?m"
    using assms(3) by (rule_tac composite_snapshot_alt [of rs]) (auto simp: Let_def)
  then have "attribution t = attribution ?m" by (simp add: attribution_def owner_def)
  also have "\<dots> = attribution gpus_unavailable @ concat (map attribution (available_of rs))"
    using assms(1,2) by (intro attribution_foldl)
      (auto simp: set_available_of gpus_ok_def dense_def points_def gpus_unavailable_def)
  finally show ?thesis by (simp add: attribution_def gpus_unavailable_def)
qed

lemma absorb_dom:
  "dom m = set order \<and> distinct order \<Longrightarrow> absorb procs k (m, order) = (m', order') \<Longrightarrow>
   dom m' = set order' \<and> distinct order' \<and> set order' = set order \<union> fst ` set procs"
proof (induction procs k "(m, order)" arbitrary: m order rule: absorb.induct)
  case (2 pid mem procs kind merged order)
  show ?case
  proof (cases "merged pid")
    case None
    then have "pid \<notin> set order" using 2(3) by (metis domIff)
    with 2 None show ?thesis by auto
  next
    case (Some km)
    then have "pid \<in> set order" using 2(3) by (metis domI)
    moreover obtain k0 m0 where "km = (k0, m0)" by fastforce
    ultimately show ?thesis using 2 Some by (auto simp: insert_absorb)
  qed
qed auto

lemma absorb_kind:
  "absorb procs k (m, order) = (m', order') \<Longrightarrow>
   map_option fst (m' pid) =
     (if pid \<in> fst ` set procs
      then Some (kind_merge (unwrap_or (map_option fst (m pid)) GK_Unknown) k) else map_option fst (m pid))"
proof (induction procs arbitrary: m order)
  case (Cons pm procs)
  obtain q mem where q: "pm = (q, mem)" by fastforce
  show ?case
  proof (cases "m q")
    case None
    then have "absorb procs k (m(q \<mapsto> (k, mem)), order @ [q]) = (m', order')" using Cons.prems q by simp
    from Cons.IH [OF this] None q show ?thesis by auto
  next
    case (Some km)
    obtain k0 m0 where km: "km = (k0, m0)" by fastforce
    with Some Cons.prems q have
      "absorb procs k (m(q \<mapsto> (kind_merge k0 k, if m0 = None then mem else m0)), order) = (m', order')" by simp
    from Cons.IH [OF this] Some km q show ?thesis by (auto simp: kind_merge_assoc)
  qed
qed simp

section \<open>Properties\<close>

text \<open>
  C10. Merging the backends never attributes a process to another card: the composite lists exactly
  the processes of the backends that answered, in order, and each is found on the same device as in
  its own backend's snapshot, the renumbered index apart.
\<close>

theorem composite_keeps_ownership:
  assumes "\<forall>s. Inr s \<in> set rs \<longrightarrow> gpus_ok s" and "(\<Sum>s\<leftarrow>available_of rs. length (gs_devices s)) \<le> 2 ^ 32"
    and "composite_snapshot rs = Inr t"
  shows "gpus_ok t \<and> attribution t = concat (map attribution (available_of rs))"
  using composite_ok [OF _ assms(3)] composite_attribution [OF assms] assms(1) by blast

definition sample_device :: "string \<Rightarrow> (u32 \<times> u64 option) list \<Rightarrow> nvml_device" where
  "sample_device bus procs =
     \<lparr>nv_utilization = None, nv_memory = None, nv_enforced_power_limit = None,
      nv_power_management_limit = None, nv_name = None, nv_bus_id = Some bus, nv_temperature = None,
      nv_power_usage = None, nv_graphics_clock = None, nv_memory_clock = None, nv_fan_speed = None,
      nv_encoder = None, nv_decoder = None, nv_compute = Some procs, nv_graphics = None\<rparr>"

definition sample_nvml :: "string \<Rightarrow> u32 \<Rightarrow> nvml" where
  "sample_nvml bus pid =
     \<lparr>nvml_device_count = Inr 2, nvml_device_by_index = (\<lambda>i. if i = 1 then Some (sample_device bus [(pid, None)]) else None),
      nvml_driver_version = None\<rparr>"

theorem composite_keeps_ownership_witness:
  "\<exists>t. composite_snapshot [nvml_snapshot (sample_nvml ''a'' 7) None None, Inl NoBackend,
        nvml_snapshot (sample_nvml ''b'' 9) None None] = Inr t \<and>
      map (\<lambda>(pid, d). (pid, map_option gd_bus_id d)) (attribution t) = [(7, Some ''a''), (9, Some ''b'')]"
proof -
  let ?a = "nvml_snapshot (sample_nvml ''a'' 7) None None"
  let ?b = "nvml_snapshot (sample_nvml ''b'' 9) None None"
  let ?rs = "[?a, Inl NoBackend, ?b]"
  have one: "\<exists>s. nvml_snapshot (sample_nvml bus pid) None None = Inr s \<and> gpus_ok s \<and> gs_available s \<and>
      length (gs_devices s) = 1 \<and>
      map (\<lambda>(pid, d). (pid, map_option gd_bus_id d)) (attribution s) = [(pid, Some bus)]" for bus pid
    using nvml_collect_ok [of "sample_nvml bus pid" None]
    by (simp add: nvml_snapshot_def nvml_collect_def sample_nvml_def sample_device_def numeral_2_eq_2
        nvml_device_snapshot_def collect_processes_def attribution_def owner_def Let_def)
  obtain s1 s2 where
    s: "?a = Inr s1" "gpus_ok s1" "gs_available s1" "length (gs_devices s1) = 1"
      "map (\<lambda>(pid, d). (pid, map_option gd_bus_id d)) (attribution s1) = [(7, Some ''a'')]"
      "?b = Inr s2" "gpus_ok s2" "gs_available s2" "length (gs_devices s2) = 1"
      "map (\<lambda>(pid, d). (pid, map_option gd_bus_id d)) (attribution s2) = [(9, Some ''b'')]"
    using one [of "''a''" 7] one [of "''b''" 9] by metis
  obtain t where t: "composite_snapshot ?rs = Inr t"
    by (rule composite_snapshot_alt [of ?rs]) (simp add: Let_def)
  have av: "available_of ?rs = [s1, s2]" using s by (simp add: available_of_def List.map_filter_simps)
  have "\<forall>s. Inr s \<in> set ?rs \<longrightarrow> gpus_ok s" using s by auto
  from composite_keeps_ownership [OF this _ t] av s(4,9)
  have "attribution t = attribution s1 @ attribution s2" by simp
  with t s(5,10) show ?thesis by auto
qed

text \<open>
  A backend that errors, or that answers with nothing, never hides the others: the devices and
  processes shown are those of the backends that answered alone, and when none did the snapshot says
  why.
\<close>

theorem composite_isolates_failures:
  "\<exists>t u. composite_snapshot rs = Inr t \<and> composite_snapshot (map Inr (available_of rs)) = Inr u \<and>
     gs_devices t = gs_devices u \<and> gs_processes t = gs_processes u \<and> gs_backends t = gs_backends u \<and>
     (gs_available t \<longleftrightarrow> gs_devices t \<noteq> [])"
proof -
  have idem: "available_of (map Inr (available_of rs)) = available_of rs"
    by (induction rs) (auto simp: available_of_def List.map_filter_simps split: sum.splits)
  show ?thesis
    by (rule composite_snapshot_alt [of rs], rule composite_snapshot_alt [of "map Inr (available_of rs)"])
      (simp add: idem Let_def)
qed

text \<open>
  The NVIDIA backend reports each process of a device once, whether the driver lists it as a
  compute process, a graphics process or both, and its kind says which.
\<close>

theorem nvml_one_row_per_process:
  assumes "nv_compute device = Some cs" and "nv_graphics device = Some gs"
  shows "distinct (map gp_pid (collect_processes device i)) \<and>
    gp_pid ` set (collect_processes device i) = fst ` (set cs \<union> set gs) \<and>
    (\<forall>p\<in>set (collect_processes device i).
       gp_kind p = (if gp_pid p \<in> fst ` set cs
                    then (if gp_pid p \<in> fst ` set gs then GK_Both else GK_Compute) else GK_Graphics))"
proof -
  obtain m1 o1 where s1: "absorb cs GK_Compute (\<lambda>_. None, []) = (m1, o1)" by fastforce
  obtain m2 o2 where s2: "absorb gs GK_Graphics (m1, o1) = (m2, o2)" by fastforce
  have d1: "dom m1 = set o1" "distinct o1" "set o1 = fst ` set cs"
    using absorb_dom [OF _ s1] by auto
  have d2: "dom m2 = set o2" "distinct o2" "set o2 = fst ` (set cs \<union> set gs)"
    using absorb_dom [OF _ s2] d1 by auto
  have k1: "map_option fst (m1 pid) = (if pid \<in> fst ` set cs then Some GK_Compute else None)" for pid
    using absorb_kind [OF s1, of pid] by simp
  have k2: "map_option fst (m2 pid) =
      Some (if pid \<in> fst ` set cs then (if pid \<in> fst ` set gs then GK_Both else GK_Compute) else GK_Graphics)"
    if "pid \<in> set o2" for pid
    using absorb_kind [OF s2, of pid] k1 [of pid] that d2(3)
    by (auto simp: kind_merge_def split: option.splits if_splits)
  have rows: "collect_processes device i = map (\<lambda>pid. \<lparr>gp_pid = pid, gp_device_index = i, gp_name = [],
      gp_kind = fst (the (m2 pid)), gp_mem_bytes = snd (the (m2 pid))\<rparr>) o2"
    using assms s1 s2 by (simp add: collect_processes_def)
  have "fst (the (m2 pid)) = (if pid \<in> fst ` set cs
      then (if pid \<in> fst ` set gs then GK_Both else GK_Compute) else GK_Graphics)" if "pid \<in> set o2" for pid
    using k2 [OF that] by (cases "m2 pid") simp_all
  then show ?thesis using d2 by (simp add: rows o_def image_image)
qed

theorem nvml_one_row_per_process_witness:
  "map gp_kind (collect_processes ((sample_device ''a'' [(7, None), (8, None)])\<lparr>nv_graphics := Some [(8, Some 5)]\<rparr>) 0) =
     [GK_Compute, GK_Both] \<and>
   distinct (map gp_pid (collect_processes ((sample_device ''a'' [(7, None), (8, None)])\<lparr>nv_graphics := Some [(8, Some 5)]\<rparr>) 0))"
proof -
  let ?d = "(sample_device ''a'' [(7, None), (8, None)])\<lparr>nv_graphics := Some [(8, Some 5)]\<rparr>"
  have "nv_compute ?d = Some [(7, None), (8, None)]" "nv_graphics ?d = Some [(8, Some 5)]"
    by (simp_all add: sample_device_def)
  from nvml_one_row_per_process [OF this, of 0] show ?thesis
    by (simp add: collect_processes_def sample_device_def kind_merge_def)
qed

text \<open>
  Discovery returns only AMD cards: each directory is that of an entry \<open>card<n>\<close> (so no
  connector) whose vendor file reads \<open>0x1002\<close>, and every such entry is returned, ordered by number.
\<close>

theorem amd_discovery_exact:
  "(case fs_dir fs drm of
      None \<Rightarrow> discover_cards fs drm = []
    | Some names \<Rightarrow>
        \<exists>found. discover_cards fs drm = map snd found \<and> sorted (map fst found) \<and>
          set found = {(k, path_join (path_join drm nm) ''device'') | k nm.
             nm \<in> set names \<and> parse_card_number nm = Some k \<and>
             is_amd_card fs (path_join (path_join drm nm) ''device'')})"
proof (cases "fs_dir fs drm")
  case (Some names)
  let ?le = "\<lambda>a b :: u32 \<times> string. fst a \<le> fst b"
  let ?xs = "List.map_filter (card_entry fs drm) names"
  have "sorted_wrt ?le (sort_by ?le ?xs)"
    by (intro sorted_wrt_sort_by) (auto simp: total_preorder_on_def)
  then have "sorted (map fst (sort_by ?le ?xs))" by (simp add: sorted_wrt_map)
  moreover have "set ?xs = {(k, path_join (path_join drm nm) ''device'') | k nm.
             nm \<in> set names \<and> parse_card_number nm = Some k \<and>
             is_amd_card fs (path_join (path_join drm nm) ''device'')}"
    by (induction names) (auto simp: List.map_filter_simps card_entry_def Let_def split: option.splits)
  ultimately show ?thesis using Some
    by (simp add: discover_cards_def) (intro exI [of _ "sort_by ?le ?xs"], simp)
qed (simp add: discover_cards_def)

end
