(* ===== verification/Network_History.thy ===== *)
theory Network_History
  imports Snapshots
begin

text \<open>
  Interface counters and their history (\<open>muxtop-core/src/network.rs\<close>): the snapshot of the
  counters with saturating totals, and the bounded history from which bandwidths and sparklines
  are computed. The current instant is an argument of \<open>push\<close>.
\<close>

section \<open>Collecting\<close>

text \<open>What \<open>sysinfo\<close> reports of one interface.\<close>

record sys_net =
  sn_received :: u64
  sn_transmitted :: u64
  sn_packets_received :: u64
  sn_packets_transmitted :: u64
  sn_errors_received :: u64
  sn_errors_transmitted :: u64
  sn_mac :: string

definition collect_interface :: "string \<Rightarrow> sys_net \<Rightarrow> NetworkInterfaceSnapshot" where
  "collect_interface n d =
     \<lparr>if_name = n, bytes_rx = sn_received d, bytes_tx = sn_transmitted d,
      packets_rx = sn_packets_received d, packets_tx = sn_packets_transmitted d,
      errors_rx = sn_errors_received d, errors_tx = sn_errors_transmitted d,
      mac_address = sn_mac d, is_up = (0 < sn_received d \<or> 0 < sn_transmitted d)\<rparr>"

definition network_collect :: "(string \<times> sys_net) list \<Rightarrow> NetworkSnapshot" where
  "network_collect nets =
     \<lparr>interfaces = map (\<lambda>(n, d). collect_interface n d) nets,
      total_rx = foldl (\<lambda>acc (n, d). sat_add acc (sn_received d)) 0 nets,
      total_tx = foldl (\<lambda>acc (n, d). sat_add acc (sn_transmitted d)) 0 nets\<rparr>"

section \<open>The history\<close>

record TimestampedSnapshot =
  snapshot :: NetworkSnapshot
  timestamp :: instant

record NetworkHistory =
  samples :: "TimestampedSnapshot list"
  capacity :: nat

definition history_new :: "nat \<Rightarrow> NetworkHistory" where
  "history_new cap = \<lparr>samples = [], capacity = max cap 2\<rparr>"

definition history_push :: "instant \<Rightarrow> NetworkSnapshot \<Rightarrow> NetworkHistory \<Rightarrow> NetworkHistory" where
  "history_push now snap h =
     (let ss = (if capacity h \<le> length (samples h) then drop 1 (samples h) else samples h)
      in h\<lparr>samples := ss @ [\<lparr>snapshot = snap, timestamp = now\<rparr>]\<rparr>)"

definition history_len :: "NetworkHistory \<Rightarrow> nat" where
  "history_len h = length (samples h)"

definition history_is_empty :: "NetworkHistory \<Rightarrow> bool" where
  "history_is_empty h \<longleftrightarrow> samples h = []"

definition find_iface_value ::
    "NetworkSnapshot \<Rightarrow> string \<Rightarrow> (NetworkInterfaceSnapshot \<Rightarrow> u64) \<Rightarrow> u64 option" where
  "find_iface_value snap iface extract =
     map_option extract (find (\<lambda>i. if_name i = iface) (interfaces snap))"

definition bandwidth :: "NetworkHistory \<Rightarrow> string \<Rightarrow> (NetworkInterfaceSnapshot \<Rightarrow> u64) \<Rightarrow> fl" where
  "bandwidth h iface extract =
     (if length (samples h) < 2 then Fin 0
      else
        let prev = samples h ! (length (samples h) - 2);
            curr = samples h ! (length (samples h) - 1);
            prev_val = unwrap_or (find_iface_value (snapshot prev) iface extract) 0;
            curr_val = unwrap_or (find_iface_value (snapshot curr) iface extract) 0;
            delta = of_nat_fl F64 (unat (sat_sub curr_val prev_val));
            elapsed = as_secs F64 (duration_since (timestamp curr) (timestamp prev))
        in if flt (Fin 0) elapsed then fdiv F64 delta elapsed else Fin 0)"

definition sparkline :: "NetworkHistory \<Rightarrow> string \<Rightarrow> nat \<Rightarrow> (NetworkInterfaceSnapshot \<Rightarrow> u64) \<Rightarrow> u64 list" where
  "sparkline h iface points extract =
     (if length (samples h) < 2 \<or> points = 0 then []
      else
        let n = min points (length (samples h) - 1);
            start = length (samples h) - n - 1
        in map (\<lambda>i. sat_sub
                 (unwrap_or (find_iface_value (snapshot (samples h ! (i + 1))) iface extract) 0)
                 (unwrap_or (find_iface_value (snapshot (samples h ! i)) iface extract) 0))
             [start..<length (samples h) - 1])"

definition bandwidth_rx :: "NetworkHistory \<Rightarrow> string \<Rightarrow> fl" where
  "bandwidth_rx h iface = bandwidth h iface bytes_rx"

definition bandwidth_tx :: "NetworkHistory \<Rightarrow> string \<Rightarrow> fl" where
  "bandwidth_tx h iface = bandwidth h iface bytes_tx"

definition sparkline_rx :: "NetworkHistory \<Rightarrow> string \<Rightarrow> nat \<Rightarrow> u64 list" where
  "sparkline_rx h iface points = sparkline h iface points bytes_rx"

definition sparkline_tx :: "NetworkHistory \<Rightarrow> string \<Rightarrow> nat \<Rightarrow> u64 list" where
  "sparkline_tx h iface points = sparkline h iface points bytes_tx"

section \<open>The contract of a bounded history\<close>

text \<open>
  A bounded log promises that after any sequence of pushes it holds the last \<open>cap\<close> of them.
\<close>

locale bounded_log =
  fixes empty :: 's and push :: "'e \<Rightarrow> 's \<Rightarrow> 's" and contents :: "'s \<Rightarrow> 'e list" and cap :: nat
  assumes cap_pos: "0 < cap"
    and contents_empty: "contents empty = []"
    and contents_push: "length (contents s) \<le> cap \<Longrightarrow> contents (push e s) = push_ring cap (contents s) e"
begin

lemma contents_pushes: "contents (fold push es empty) = last_n cap es"
proof (induction es rule: rev_induct)
  case Nil
  then show ?case by (simp add: contents_empty last_n_def)
next
  case (snoc e es)
  have "length (contents (fold push es empty)) \<le> cap" by (simp add: snoc)
  then show ?case by (simp add: contents_push snoc push_ring_last_n cap_pos)
qed

lemma contents_bounded: "length (contents (fold push es empty)) \<le> cap"
  by (simp add: contents_pushes)

end

text \<open>A push keeps the capacity of its history, so the contract holds on the pairs that keep it.\<close>

definition push_sample :: "nat \<Rightarrow> TimestampedSnapshot \<Rightarrow> NetworkHistory \<Rightarrow> NetworkHistory" where
  "push_sample cap s h = history_push (timestamp s) (snapshot s) (h\<lparr>capacity := max cap 2\<rparr>)"

interpretation nh: bounded_log "history_new cap" "push_sample cap" samples "max cap 2" for cap
  by unfold_locales (simp_all add: history_new_def push_sample_def history_push_def push_ring_def Let_def)

definition push_all :: "(instant \<times> NetworkSnapshot) list \<Rightarrow> NetworkHistory \<Rightarrow> NetworkHistory" where
  "push_all es = fold (\<lambda>(t, s). history_push t s) es"

lemma capacity_push_all [simp]: "capacity (push_all es h) = capacity h"
  by (induction es arbitrary: h) (auto simp: push_all_def history_push_def Let_def)

lemma push_all_push_sample:
  "capacity h = max cap 2 \<Longrightarrow>
   push_all es h = fold (push_sample cap) (map (\<lambda>(t, s). \<lparr>snapshot = s, timestamp = t\<rparr>) es) h"
proof (induction es arbitrary: h)
  case (Cons e es)
  obtain t s where e: "e = (t, s)" by fastforce
  have "capacity (history_push t s h) = max cap 2"
    using Cons.prems by (simp add: history_push_def Let_def)
  moreover have "push_sample cap \<lparr>snapshot = s, timestamp = t\<rparr> h = history_push t s h"
    using Cons.prems by (cases h) (simp add: push_sample_def)
  ultimately show ?case using Cons.IH by (simp add: push_all_def e)
qed (simp add: push_all_def)

lemma samples_push_all:
  "samples (push_all es (history_new cap)) =
     last_n (max cap 2) (map (\<lambda>(t, s). \<lparr>snapshot = s, timestamp = t\<rparr>) es)"
proof -
  have "capacity (history_new cap) = max cap 2" by (simp add: history_new_def)
  then show ?thesis by (simp add: push_all_push_sample nh.contents_pushes)
qed

section \<open>Sparklines\<close>

definition iface_val :: "(NetworkInterfaceSnapshot \<Rightarrow> u64) \<Rightarrow> string \<Rightarrow> TimestampedSnapshot \<Rightarrow> u64" where
  "iface_val extract iface s = unwrap_or (find_iface_value (snapshot s) iface extract) 0"

text \<open>Saturating differences of neighbours.\<close>

fun deltas :: "u64 list \<Rightarrow> u64 list" where
  "deltas (a # b # rest) = sat_sub b a # deltas (b # rest)"
| "deltas _ = []"

lemma length_deltas [simp]: "length (deltas xs) = length xs - 1"
  by (induction xs rule: deltas.induct) auto

lemma nth_deltas: "i + 1 < length xs \<Longrightarrow> deltas xs ! i = sat_sub (xs ! (i + 1)) (xs ! i)"
proof (induction xs arbitrary: i rule: deltas.induct)
  case (1 a b rest)
  then show ?case by (cases i) auto
qed auto

lemma sparkline_deltas:
  "sparkline h iface points extract =
     last_n points (deltas (map (iface_val extract iface) (samples h)))"
proof (cases "length (samples h) < 2 \<or> points = 0")
  case True
  then show ?thesis by (auto simp: sparkline_def last_n_def)
next
  case False
  let ?n = "length (samples h)"
  define start where "start = ?n - min points (?n - 1) - 1"
  have "sparkline h iface points extract =
      map (\<lambda>i. deltas (map (iface_val extract iface) (samples h)) ! i) [start..<?n - 1]"
    using False by (auto simp: sparkline_def Let_def start_def nth_deltas iface_val_def)
  also have "\<dots> = drop start (deltas (map (iface_val extract iface) (samples h)))"
    by (rule nth_equalityI) auto
  also have "start = (?n - 1) - points" by (auto simp: start_def)
  finally show ?thesis by (simp add: last_n_def)
qed

lemma unat_sat_add_fold:
  "unat (foldl sat_add acc xs) = min (unat acc + sum_list (map unat xs)) (2 ^ LENGTH('a) - 1)"
  for xs :: "'a::len word list"
proof (induction xs arbitrary: acc)
  case Nil
  have "unat acc < 2 ^ LENGTH('a)" by (rule unsigned_less)
  then have "unat acc \<le> 2 ^ LENGTH('a) - 1" by linarith
  then show ?case by (simp add: min_absorb1)
next
  case (Cons x xs)
  then show ?case by (simp add: unat_sat_add)
qed

lemma foldl_sat_map:
  "foldl (\<lambda>acc (n, d). sat_add acc (f d)) a xs = foldl sat_add a (map (\<lambda>(n, d). f d) xs)"
  by (induction xs arbitrary: a) auto

section \<open>Properties\<close>

text \<open>
  C31. Whatever is pushed, the history holds exactly the last \<open>capacity\<close> samples (at least two) in
  order, and the sparkline of an interface is the last \<open>points\<close> saturating differences between
  neighbouring samples, so a counter reset shows as 0.
\<close>

theorem network_history_correct:
  "samples (push_all es (history_new cap)) =
     last_n (max cap 2) (map (\<lambda>(t, s). \<lparr>snapshot = s, timestamp = t\<rparr>) es)
   \<and> sparkline_rx (push_all es (history_new cap)) iface points =
     last_n points (deltas (map (iface_val bytes_rx iface) (samples (push_all es (history_new cap)))))
   \<and> sparkline_tx (push_all es (history_new cap)) iface points =
     last_n points (deltas (map (iface_val bytes_tx iface) (samples (push_all es (history_new cap)))))"
  by (simp add: samples_push_all sparkline_rx_def sparkline_tx_def sparkline_deltas)

text \<open>
  The totals of a collected network snapshot are the sums of the counters of its interfaces,
  capped at the largest 64-bit value instead of wrapping around.
\<close>

theorem network_totals_saturate:
  "unat (total_rx (network_collect nets)) =
     min (\<Sum>i\<leftarrow>interfaces (network_collect nets). unat (bytes_rx i)) (2 ^ 64 - 1)
   \<and> unat (total_tx (network_collect nets)) =
     min (\<Sum>i\<leftarrow>interfaces (network_collect nets). unat (bytes_tx i)) (2 ^ 64 - 1)"
proof -
  have "(\<Sum>i\<leftarrow>interfaces (network_collect nets). unat (bytes_rx i)) =
      sum_list (map unat (map (\<lambda>(n, d). sn_received d) nets))"
    and "(\<Sum>i\<leftarrow>interfaces (network_collect nets). unat (bytes_tx i)) =
      sum_list (map unat (map (\<lambda>(n, d). sn_transmitted d) nets))"
    by (simp_all add: network_collect_def collect_interface_def o_def case_prod_unfold)
  then show ?thesis
    by (simp add: network_collect_def foldl_sat_map unat_sat_add_fold)
qed

end
