(* ===== verification/Collector.thy ===== *)
theory Collector
  imports Docker_Engine Kube_Engine Gpu_Engine Network_History "HOL-Library.Sublist"
begin

text \<open>
  The collector (\<open>muxtop-core/src/collector.rs\<close>) and the system snapshot (\<open>system.rs\<close>): four loops that
  run concurrently, three of them writing the latest answer of their engine into a slot, the fourth
  reading the slots on every tick and offering a snapshot to a bounded channel. The loops are the
  labelled steps of an inductive relation. What the host reports (\<open>sysinfo\<close>, the clock) is a record.
\<close>

section \<open>The system snapshot\<close>

datatype ProcessStatus = Run | Sleep | Idle | Zombie | StopState | OtherStatus

record sys_proc =
  sp_parent :: "u32 option"
  sp_name :: string
  sp_cmd :: "string list"
  sp_user :: "string option"
  sp_cpu :: fl
  sp_memory :: u64
  sp_status :: ProcessStatus

record sys_info =
  si_global_usage :: fl
  si_cpus :: "(fl \<times> u64) list"
  si_total_memory :: u64
  si_used_memory :: u64
  si_available_memory :: u64
  si_total_swap :: u64
  si_used_swap :: u64
  si_load :: "fl \<times> fl \<times> fl"
  si_uptime :: u64
  si_processes :: "(u32 \<times> sys_proc) list"
  si_networks :: "(string \<times> sys_net) list"
  si_now_ms :: "u64 option"

function extend_core_names :: "string list \<Rightarrow> nat \<Rightarrow> string list" where
  "extend_core_names table i =
     (if length table \<le> i then extend_core_names (table @ [''cpu'' @ dec (length table)]) i else table)"
  by pat_completeness auto

termination
  by (relation "measure (\<lambda>(table, i). Suc i - length table)") auto

declare extend_core_names.simps [simp del]

definition core_name :: "string list \<Rightarrow> nat \<Rightarrow> string \<times> string list" where
  "core_name table i =
     (case get_opt table i of
        Some nm \<Rightarrow> (nm, table)
      | None \<Rightarrow> let table' = extend_core_names table i in (table' ! i, table'))"

fun collect_cores :: "string list \<Rightarrow> nat \<Rightarrow> (fl \<times> u64) list \<Rightarrow> CoreSnapshot list \<times> string list" where
  "collect_cores table i [] = ([], table)"
| "collect_cores table i ((u, f) # cs) =
     (let (nm, table) = core_name table i; (rest, table) = collect_cores table (Suc i) cs
      in (\<lparr>core_label = nm, core_usage = u, core_frequency = f\<rparr> # rest, table))"

definition memory_percent :: "u64 \<Rightarrow> u64 \<Rightarrow> fl" where
  "memory_percent mem total_mem =
     (if 0 < total_mem
      then to_f32 (fclamp (fmul F64 (fdiv F64 (of_nat_fl F64 (unat mem)) (of_nat_fl F64 (unat total_mem))) (Fin 100))
                     (Fin 0) (Fin 100))
      else Fin 0)"

fun status_text :: "ProcessStatus \<Rightarrow> string" where
  "status_text Run = ''Running''"
| "status_text Sleep = ''Sleeping''"
| "status_text Idle = ''Idle''"
| "status_text Zombie = ''Zombie''"
| "status_text StopState = ''Stopped''"
| "status_text OtherStatus = ''Unknown''"

definition collect_process :: "u64 \<Rightarrow> u32 \<Rightarrow> sys_proc \<Rightarrow> ProcessInfo" where
  "collect_process total_mem pid p =
     \<lparr>pr_pid = pid, pr_parent_pid = sp_parent p, pr_name = sp_name p, pr_command = join '' '' (sp_cmd p),
      pr_user = unwrap_or (sp_user p) [], pr_cpu_percent = sp_cpu p, pr_memory_bytes = sp_memory p,
      pr_memory_percent = memory_percent (sp_memory p) total_mem, pr_status = status_text (sp_status p)\<rparr>"

definition system_collect ::
    "string list \<Rightarrow> sys_info \<Rightarrow> ContainersSnapshot option \<Rightarrow> KubeSnapshot option \<Rightarrow> GpusSnapshot option \<Rightarrow>
     SystemSnapshot \<times> string list" where
  "system_collect table sys containers kube gpu =
     (let (cs, table) = collect_cores table 0 (si_cpus sys) in
      (\<lparr>ss_cpu = \<lparr>global_usage = si_global_usage sys, cores = cs\<rparr>,
        ss_memory = \<lparr>mem_total = si_total_memory sys, mem_used = si_used_memory sys,
                     mem_available = si_available_memory sys, swap_total = si_total_swap sys,
                     swap_used = si_used_swap sys\<rparr>,
        ss_load = (case si_load sys of (one, five, fifteen) \<Rightarrow>
                     \<lparr>load_one = one, load_five = five, load_fifteen = fifteen,
                      load_uptime_secs = si_uptime sys\<rparr>),
        ss_processes = map (\<lambda>(pid, p). collect_process (si_total_memory sys) pid p) (si_processes sys),
        ss_networks = network_collect (si_networks sys),
        ss_containers = containers, ss_kube = kube,
        ss_gpu = map_option (resolve_process_names
                   (\<lambda>pid. map_option sp_name (map_of (si_processes sys) pid))) gpu,
        ss_timestamp_ms = unwrap_or (si_now_ms sys) 0\<rparr>, table))"

section \<open>The loops\<close>

definition publish_containers :: "EngineKind \<Rightarrow> EngineError + ContainerSnapshot list \<Rightarrow> ContainersSnapshot" where
  "publish_containers kind r =
     (case r of Inr cs \<Rightarrow> \<lparr>cts_engine = kind, cts_daemon_up = True, cts_containers = cs\<rparr>
      | Inl _ \<Rightarrow> containers_unavailable)"

definition publish_kube :: "ClusterError + KubeSnapshot \<Rightarrow> KubeSnapshot" where
  "publish_kube r = (case r of Inr s \<Rightarrow> s | Inl _ \<Rightarrow> kube_unavailable)"

definition publish_gpu :: "GpuError + GpusSnapshot \<Rightarrow> GpusSnapshot" where
  "publish_gpu r = (case r of Inr s \<Rightarrow> s | Inl e \<Rightarrow> gpus_unavailable_with (gpu_error_text e))"

record collector =
  co_kind :: "EngineKind option"
  co_has_cluster :: bool
  co_has_gpu :: bool
  co_last_containers :: "ContainersSnapshot option"
  co_last_kube :: "KubeSnapshot option"
  co_last_gpu :: "GpusSnapshot option"
  co_table :: "string list"
  co_queue :: "SystemSnapshot list"
  co_rx_open :: bool
  co_cancelled :: bool
  co_system_running :: bool
  co_container_running :: bool
  co_cluster_running :: bool
  co_gpu_running :: bool
  co_done :: bool

definition collector_start :: "EngineKind option \<Rightarrow> bool \<Rightarrow> bool \<Rightarrow> collector" where
  "collector_start kind cluster gpu =
     \<lparr>co_kind = kind, co_has_cluster = cluster, co_has_gpu = gpu,
      co_last_containers = None,
      co_last_kube = (if cluster then None else Some kube_unavailable),
      co_last_gpu = (if gpu then None else Some gpus_unavailable),
      co_table = [], co_queue = [], co_rx_open = True, co_cancelled = False,
      co_system_running = True, co_container_running = (kind \<noteq> None),
      co_cluster_running = cluster, co_gpu_running = gpu, co_done = False\<rparr>"

definition system_tick :: "nat \<Rightarrow> sys_info \<Rightarrow> collector \<Rightarrow> collector" where
  "system_tick cap sys c =
     (let (snapshot, table) = system_collect (co_table c) sys (co_last_containers c) (co_last_kube c) (co_last_gpu c);
          c = c\<lparr>co_table := table\<rparr>
      in if \<not> co_rx_open c then c\<lparr>co_system_running := False\<rparr>
         else if length (co_queue c) < cap then c\<lparr>co_queue := co_queue c @ [snapshot]\<rparr>
         else c)"

datatype collector_event =
    SystemTick sys_info
  | ContainerTick "EngineError + ContainerSnapshot list"
  | ClusterTick "ClusterError + KubeSnapshot"
  | GpuTick "GpuError + GpusSnapshot"
  | Recv SystemSnapshot
  | CloseRx | Cancel
  | StopSystem | StopContainers | StopCluster | StopGpu | Join

text \<open>\<open>cap\<close> is the capacity of the channel.\<close>

inductive collector_step :: "nat \<Rightarrow> collector \<Rightarrow> collector_event \<Rightarrow> collector \<Rightarrow> bool" for cap where
  sys_tick: "co_system_running c \<Longrightarrow> collector_step cap c (SystemTick sys) (system_tick cap sys c)"
| container_tick: "co_container_running c \<Longrightarrow> co_kind c = Some k \<Longrightarrow>
    collector_step cap c (ContainerTick r) (c\<lparr>co_last_containers := Some (publish_containers k r)\<rparr>)"
| cluster_tick: "co_cluster_running c \<Longrightarrow>
    collector_step cap c (ClusterTick rk) (c\<lparr>co_last_kube := Some (publish_kube rk)\<rparr>)"
| gpu_tick: "co_gpu_running c \<Longrightarrow>
    collector_step cap c (GpuTick rg) (c\<lparr>co_last_gpu := Some (publish_gpu rg)\<rparr>)"
| recv: "co_rx_open c \<Longrightarrow> co_queue c = s # rest \<Longrightarrow> collector_step cap c (Recv s) (c\<lparr>co_queue := rest\<rparr>)"
| close_rx: "co_rx_open c \<Longrightarrow> collector_step cap c CloseRx (c\<lparr>co_rx_open := False, co_queue := []\<rparr>)"
| cancel: "collector_step cap c Cancel (c\<lparr>co_cancelled := True\<rparr>)"
| stop_system: "co_system_running c \<Longrightarrow> co_cancelled c \<Longrightarrow>
    collector_step cap c StopSystem (c\<lparr>co_system_running := False\<rparr>)"
| stop_containers: "co_container_running c \<Longrightarrow> co_cancelled c \<Longrightarrow>
    collector_step cap c StopContainers (c\<lparr>co_container_running := False\<rparr>)"
| stop_cluster: "co_cluster_running c \<Longrightarrow> co_cancelled c \<Longrightarrow>
    collector_step cap c StopCluster (c\<lparr>co_cluster_running := False\<rparr>)"
| stop_gpu: "co_gpu_running c \<Longrightarrow> co_cancelled c \<Longrightarrow>
    collector_step cap c StopGpu (c\<lparr>co_gpu_running := False\<rparr>)"
| join_all: "\<not> co_system_running c \<Longrightarrow> \<not> co_container_running c \<Longrightarrow> \<not> co_cluster_running c \<Longrightarrow>
    \<not> co_gpu_running c \<Longrightarrow> \<not> co_done c \<Longrightarrow> collector_step cap c Join (c\<lparr>co_done := True\<rparr>)"

inductive_cases collector_stepE: "collector_step cap c ev c'"

inductive collector_trace :: "nat \<Rightarrow> collector \<Rightarrow> collector_event list \<Rightarrow> collector \<Rightarrow> bool" for cap where
  trace_nil: "collector_trace cap c [] c"
| trace_snoc: "collector_trace cap c evs c' \<Longrightarrow> collector_step cap c' ev c'' \<Longrightarrow> collector_trace cap c (evs @ [ev]) c''"

section \<open>The slots\<close>

text \<open>A loop overwrites its slot on every tick, and a failed poll publishes a value without data.\<close>

locale poll_slot =
  fixes publish :: "'e + 'r \<Rightarrow> 's" and empty_of :: "'s \<Rightarrow> bool"
  assumes failure_empty: "empty_of (publish (Inl e))"
begin

definition slot_after :: "('e + 'r) list \<Rightarrow> 's option \<Rightarrow> 's option" where
  "slot_after rs init = fold (\<lambda>r _. Some (publish r)) rs init"

lemma slot_after_snoc [simp]: "slot_after (rs @ [r]) init = Some (publish r)"
  by (simp add: slot_after_def)

lemma slot_after_Nil [simp]: "slot_after [] init = init"
  by (simp add: slot_after_def)

lemma no_stale_data: "rs \<noteq> [] \<Longrightarrow> last rs = Inl e \<Longrightarrow> \<exists>s. slot_after rs init = Some s \<and> empty_of s"
  by (metis append_butlast_last_id failure_empty slot_after_snoc)

end

interpretation containers: poll_slot "publish_containers k"
    "\<lambda>s. \<not> cts_daemon_up s \<and> cts_containers s = []" for k
  by unfold_locales (simp add: publish_containers_def containers_unavailable_def)

interpretation kube: poll_slot publish_kube
    "\<lambda>s. \<not> ks_reachable s \<and> ks_pods s = [] \<and> ks_nodes s = [] \<and> ks_deployments s = []"
  by unfold_locales (simp add: publish_kube_def kube_unavailable_def)

interpretation gpus: poll_slot publish_gpu "\<lambda>s. \<not> gs_available s \<and> gs_devices s = [] \<and> gs_processes s = []"
  by unfold_locales (simp add: publish_gpu_def gpus_unavailable_with_def gpus_unavailable_def)

section \<open>The table of core names\<close>

definition cpu_names :: "nat \<Rightarrow> string list" where
  "cpu_names n = map (\<lambda>i. ''cpu'' @ dec i) [0..<n]"

lemma cpu_names_simps [simp]:
  "length (cpu_names n) = n" "i < n \<Longrightarrow> cpu_names n ! i = ''cpu'' @ dec i"
  "cpu_names n @ [''cpu'' @ dec n] = cpu_names (Suc n)"
  by (simp_all add: cpu_names_def)

lemma extend_core_names_table: "extend_core_names (cpu_names n) i = cpu_names (max n (Suc i))"
proof (induction "Suc i - n" arbitrary: n)
  case 0
  then show ?case by (simp add: extend_core_names.simps [of _ i] max_def)
next
  case (Suc k)
  then have le: "n \<le> i" by simp
  then have "extend_core_names (cpu_names n) i = extend_core_names (cpu_names n @ [''cpu'' @ dec n]) i"
    by (subst extend_core_names.simps) simp
  also have "\<dots> = cpu_names (max (Suc n) (Suc i))" using Suc by (simp only: cpu_names_simps)
  finally show ?case using le by (simp add: max_def)
qed

lemma core_name_cached: "core_name (cpu_names n) i = (''cpu'' @ dec i, cpu_names (max n (Suc i)))"
proof (cases "i < n")
  case False
  then show ?thesis by (simp add: core_name_def get_opt_def Let_def extend_core_names_table)
qed (simp add: core_name_def get_opt_def max_absorb1)

lemma collect_cores_cached:
  "\<exists>m. collect_cores (cpu_names n) i cs =
     (map (\<lambda>(j, u, f). \<lparr>core_label = ''cpu'' @ dec j, core_usage = u, core_frequency = f\<rparr>) (enumerate i cs),
      cpu_names m)"
proof (induction cs arbitrary: n i)
  case (Cons uf cs)
  obtain u f where uf: "uf = (u, f)" by fastforce
  from Cons [of "max n (Suc i)" "Suc i"] show ?case by (auto simp: uf core_name_cached)
qed auto

section \<open>Invariants of the loops\<close>

fun container_results :: "collector_event list \<Rightarrow> (EngineError + ContainerSnapshot list) list" where
  "container_results evs = concat (map (\<lambda>ev. case ev of ContainerTick r \<Rightarrow> [r] | _ \<Rightarrow> []) evs)"

fun cluster_results :: "collector_event list \<Rightarrow> (ClusterError + KubeSnapshot) list" where
  "cluster_results evs = concat (map (\<lambda>ev. case ev of ClusterTick r \<Rightarrow> [r] | _ \<Rightarrow> []) evs)"

fun gpu_results :: "collector_event list \<Rightarrow> (GpuError + GpusSnapshot) list" where
  "gpu_results evs = concat (map (\<lambda>ev. case ev of GpuTick r \<Rightarrow> [r] | _ \<Rightarrow> []) evs)"

fun tick_times :: "collector_event list \<Rightarrow> u64 list" where
  "tick_times evs = concat (map (\<lambda>ev. case ev of SystemTick sys \<Rightarrow> [unwrap_or (si_now_ms sys) 0] | _ \<Rightarrow> []) evs)"

fun received_snaps :: "collector_event list \<Rightarrow> SystemSnapshot list" where
  "received_snaps evs = concat (map (\<lambda>ev. case ev of Recv s \<Rightarrow> [s] | _ \<Rightarrow> []) evs)"

definition slots_ok :: "collector_event list \<Rightarrow> collector \<Rightarrow> bool" where
  "slots_ok evs c \<longleftrightarrow>
     co_last_containers c = (case co_kind c of
        Some k \<Rightarrow> if container_results evs = [] then None else Some (publish_containers k (last (container_results evs)))
      | None \<Rightarrow> None) \<and>
     co_last_kube c = (if cluster_results evs \<noteq> [] then Some (publish_kube (last (cluster_results evs)))
                       else if co_has_cluster c then None else Some kube_unavailable) \<and>
     co_last_gpu c = (if gpu_results evs \<noteq> [] then Some (publish_gpu (last (gpu_results evs)))
                      else if co_has_gpu c then None else Some gpus_unavailable)"

definition loops_ok :: "collector \<Rightarrow> bool" where
  "loops_ok c \<longleftrightarrow>
     (co_container_running c \<longrightarrow> co_kind c \<noteq> None) \<and>
     (\<not> co_cancelled c \<longrightarrow>
        co_container_running c = (co_kind c \<noteq> None) \<and> co_cluster_running c = co_has_cluster c \<and>
        co_gpu_running c = co_has_gpu c) \<and>
     (co_cluster_running c \<longrightarrow> co_has_cluster c) \<and> (co_gpu_running c \<longrightarrow> co_has_gpu c) \<and>
     (\<not> co_system_running c \<longrightarrow> co_cancelled c \<or> \<not> co_rx_open c) \<and>
     (co_done c \<longrightarrow> \<not> co_system_running c \<and> \<not> co_container_running c \<and> \<not> co_cluster_running c \<and> \<not> co_gpu_running c)"

definition queue_ok :: "nat \<Rightarrow> collector_event list \<Rightarrow> collector \<Rightarrow> bool" where
  "queue_ok cap evs c \<longleftrightarrow> length (co_queue c) \<le> cap \<and>
     subseq (map ss_timestamp_ms (received_snaps evs @ co_queue c)) (tick_times evs)"

lemma system_tick_simps [simp]:
  "co_kind (system_tick cap sys c) = co_kind c" "co_has_cluster (system_tick cap sys c) = co_has_cluster c"
  "co_has_gpu (system_tick cap sys c) = co_has_gpu c"
  "co_last_containers (system_tick cap sys c) = co_last_containers c"
  "co_last_kube (system_tick cap sys c) = co_last_kube c" "co_last_gpu (system_tick cap sys c) = co_last_gpu c"
  "co_rx_open (system_tick cap sys c) = co_rx_open c" "co_cancelled (system_tick cap sys c) = co_cancelled c"
  "co_container_running (system_tick cap sys c) = co_container_running c"
  "co_cluster_running (system_tick cap sys c) = co_cluster_running c"
  "co_gpu_running (system_tick cap sys c) = co_gpu_running c" "co_done (system_tick cap sys c) = co_done c"
  "co_system_running (system_tick cap sys c) = (co_system_running c \<and> co_rx_open c)"
  by (auto simp: system_tick_def Let_def split: prod.splits)

lemma system_collect_timestamp [simp]:
  "ss_timestamp_ms (fst (system_collect t sys cs k g)) = unwrap_or (si_now_ms sys) 0"
  by (simp add: system_collect_def split: prod.splits)

lemma system_tick_queue:
  "co_queue (system_tick cap sys c) =
     (if co_rx_open c \<and> length (co_queue c) < cap
      then co_queue c @ [fst (system_collect (co_table c) sys (co_last_containers c) (co_last_kube c) (co_last_gpu c))]
      else co_queue c)"
  by (auto simp: system_tick_def Let_def split: prod.splits)

lemma collector_step_slots: "collector_step cap c ev c' \<Longrightarrow> slots_ok evs c \<Longrightarrow> slots_ok (evs @ [ev]) c'"
  by (erule collector_stepE) (auto simp: slots_ok_def split: option.splits)

lemma collector_step_loops: "collector_step cap c ev c' \<Longrightarrow> loops_ok c \<Longrightarrow> loops_ok c'"
  by (erule collector_stepE) (auto simp: loops_ok_def)

lemma collector_step_queue: "collector_step cap c ev c' \<Longrightarrow> queue_ok cap evs c \<Longrightarrow> queue_ok cap (evs @ [ev]) c'"
proof (erule collector_stepE)
  fix sys assume q: "queue_ok cap evs c" and e: "ev = SystemTick sys" "c' = system_tick cap sys c"
  have "subseq (map ss_timestamp_ms (received_snaps evs @ co_queue c) @ x) (tick_times evs @ y)"
    if "subseq x y" for x y
    using q that unfolding queue_ok_def by (intro list_emb_append_mono) auto
  from this [of "[]"] this [of "[unwrap_or (si_now_ms sys) 0]" "[unwrap_or (si_now_ms sys) 0]"]
  show "queue_ok cap (evs @ [ev]) c'" using q e
    by (auto simp: queue_ok_def system_tick_queue)
next
  assume "queue_ok cap evs c" "ev = CloseRx" "c' = c\<lparr>co_rx_open := False, co_queue := []\<rparr>"
  moreover have "subseq xs ys" if "subseq (xs @ zs) ys" for xs zs ys :: "u64 list"
    using list_emb_prefix [OF subseq_order.refl, of xs zs] that by (rule subseq_order.trans)
  ultimately show "queue_ok cap (evs @ [ev]) c'" by (auto simp: queue_ok_def)
qed (auto simp: queue_ok_def)

lemma collector_trace_inv:
  "collector_trace cap c evs c' \<Longrightarrow> c = collector_start kind cluster gpu \<Longrightarrow>
   slots_ok evs c' \<and> loops_ok c' \<and> queue_ok cap evs c' \<and>
   co_kind c' = kind \<and> co_has_cluster c' = cluster \<and> co_has_gpu c' = gpu"
proof (induction rule: collector_trace.induct)
  case (trace_nil c)
  then show ?case
    by (auto simp: slots_ok_def loops_ok_def queue_ok_def collector_start_def split: option.splits)
next
  case (trace_snoc c evs c' ev c'')
  have "co_kind c'' = co_kind c' \<and> co_has_cluster c'' = co_has_cluster c' \<and> co_has_gpu c'' = co_has_gpu c'"
    using trace_snoc.hyps(2) by (auto elim!: collector_stepE)
  with trace_snoc show ?case
    by (auto dest: collector_step_slots collector_step_loops collector_step_queue)
qed

section \<open>Properties\<close>


definition sample_sys :: sys_info where
  "sample_sys =
     \<lparr>si_global_usage = Fin 0, si_cpus = [], si_total_memory = 0, si_used_memory = 0, si_available_memory = 0,
      si_total_swap = 0, si_used_swap = 0, si_load = (Fin 0, Fin 0, Fin 0), si_uptime = 0, si_processes = [],
      si_networks = [], si_now_ms = Some 7\<rparr>"

lemma sample_trace:
  "\<exists>c. collector_trace 1 (collector_start (Some EK_Docker) False True)
     [ContainerTick (Inr []), SystemTick sample_sys, GpuTick (Inl NoBackend), SystemTick sample_sys] c"
proof -
  have step: "\<exists>c''. collector_trace cap c (evs @ [ev]) c'' \<and> P c''"
    if "collector_trace cap c evs c' \<and> Q c'" "Q c' \<Longrightarrow> \<exists>c''. collector_step cap c' ev c'' \<and> P c''"
    for cap c evs ev c' P Q
    using that by (blast intro: trace_snoc)
  let ?s = "collector_start (Some EK_Docker) False True"
  let ?running = "\<lambda>c. co_system_running c \<and> co_container_running c \<and> co_gpu_running c \<and>
    co_kind c = Some EK_Docker \<and> co_rx_open c"
  have "collector_trace 1 ?s [] ?s \<and> ?running ?s" by (simp add: trace_nil collector_start_def)
  then obtain c1 where "collector_trace 1 ?s [ContainerTick (Inr [])] c1 \<and> ?running c1"
    using step [of 1 ?s "[]" ?s ?running "ContainerTick (Inr [])" ?running]
    by (fastforce intro: collector_step.container_tick)
  then obtain c2 where "collector_trace 1 ?s [ContainerTick (Inr []), SystemTick sample_sys] c2 \<and> ?running c2"
    using step [of 1 ?s _ c1 ?running "SystemTick sample_sys" ?running]
    by (fastforce intro: collector_step.sys_tick)
  then obtain c3 where "collector_trace 1 ?s [ContainerTick (Inr []), SystemTick sample_sys, GpuTick (Inl NoBackend)] c3 \<and> ?running c3"
    using step [of 1 ?s _ c2 ?running "GpuTick (Inl NoBackend)" ?running]
    by (fastforce intro: collector_step.gpu_tick)
  then show ?thesis
    using step [of 1 ?s _ c3 ?running "SystemTick sample_sys" ?running]
    by (fastforce intro: collector_step.sys_tick)
qed


text \<open>
  C32. The channel never holds more snapshots than its capacity, and what the receiver has got so
  far, followed by what is still queued, is in tick order: a full channel drops snapshots, it never
  reorders or repeats one.
\<close>

theorem snapshots_bounded_and_in_order:
  assumes "collector_trace cap (collector_start kind cluster gpu) evs c"
  shows "length (co_queue c) \<le> cap \<and>
         subseq (map ss_timestamp_ms (received_snaps evs @ co_queue c)) (tick_times evs)"
  using collector_trace_inv [OF assms refl] by (simp add: queue_ok_def)

theorem snapshots_bounded_and_in_order_witness:
  "\<exists>c evs. collector_trace 1 (collector_start (Some EK_Docker) False True) evs c \<and> length (tick_times evs) = 2 \<and>
     length (co_queue c) \<le> 1 \<and> subseq (map ss_timestamp_ms (received_snaps evs @ co_queue c)) (tick_times evs)"
proof -
  from sample_trace obtain c where c: "collector_trace 1 (collector_start (Some EK_Docker) False True)
     [ContainerTick (Inr []), SystemTick sample_sys, GpuTick (Inl NoBackend), SystemTick sample_sys] c" ..
  from snapshots_bounded_and_in_order [OF c] c show ?thesis
    by (intro exI [of _ c] exI conjI) (assumption | simp)+
qed

text \<open>What shutdown still has to do: the loops to stop and the join.\<close>

definition pending :: "collector \<Rightarrow> nat" where
  "pending c = of_bool (co_system_running c) + of_bool (co_container_running c) + of_bool (co_cluster_running c)
     + of_bool (co_gpu_running c) + of_bool (\<not> co_done c)"

lemma shutdown_progress:
  assumes "co_cancelled c" "pending c = Suc n"
  shows "\<exists>ev c'. collector_step cap c ev c' \<and> co_cancelled c' \<and> pending c' = n"
proof -
  consider "co_system_running c" | "co_container_running c" | "co_cluster_running c" | "co_gpu_running c"
    | "\<not> co_system_running c" "\<not> co_container_running c" "\<not> co_cluster_running c" "\<not> co_gpu_running c" "\<not> co_done c"
    using assms(2) by (cases "co_done c") (auto simp: pending_def of_bool_def split: if_splits)
  then show ?thesis
  proof cases
    case 1
    then show ?thesis using stop_system [OF 1 assms(1)] assms by (fastforce simp: pending_def)
  next
    case 2
    then show ?thesis using stop_containers [OF 2 assms(1)] assms by (fastforce simp: pending_def)
  next
    case 3
    then show ?thesis using stop_cluster [OF 3 assms(1)] assms by (fastforce simp: pending_def)
  next
    case 4
    then show ?thesis using stop_gpu [OF 4 assms(1)] assms by (fastforce simp: pending_def)
  next
    case 5
    then show ?thesis using join_all [OF 5] assms by (fastforce simp: pending_def)
  qed
qed

lemma shutdown_runs:
  assumes "co_cancelled c" "n \<le> pending c"
  shows "\<exists>evs c'. collector_trace cap c evs c' \<and> length evs = n \<and> co_cancelled c' \<and> pending c' = pending c - n"
  using assms(2)
proof (induction n)
  case 0
  then show ?case using assms(1) by (auto intro: trace_nil)
next
  case (Suc n)
  then obtain evs c' where c': "collector_trace cap c evs c'" "length evs = n" "co_cancelled c'"
    "pending c' = pending c - n" by auto
  moreover have "pending c' = Suc (pending c - Suc n)" using c'(4) Suc.prems by simp
  ultimately obtain ev c'' where "collector_step cap c' ev c''" "co_cancelled c''" "pending c'' = pending c - Suc n"
    using shutdown_progress [of c' "pending c - Suc n" cap] by blast
  with c' show ?case
    by (intro exI [of _ "evs @ [ev]"] exI [of _ c'']) (auto intro: collector_trace.trace_snoc)
qed

text \<open>
  Shutdown completes and is complete: once the token is cancelled, whatever state the loops are
  in, at most five more steps finish the join; and when the join has finished no loop is running. If
  an engine is attached, the join never finishes before the token is cancelled, even when the
  receiver of the snapshots is gone.
\<close>

theorem collector_shutdown:
  assumes "collector_trace cap (collector_start kind cluster gpu) evs c"
  shows "(co_cancelled c \<longrightarrow> (\<exists>more c'. collector_trace cap c more c' \<and> length more \<le> 5 \<and> co_done c')) \<and>
    (co_done c \<longrightarrow> \<not> co_system_running c \<and> \<not> co_container_running c \<and> \<not> co_cluster_running c \<and> \<not> co_gpu_running c) \<and>
    (co_done c \<and> (kind \<noteq> None \<or> cluster \<or> gpu) \<longrightarrow> co_cancelled c)"
proof -
  have "\<exists>more c'. collector_trace cap c more c' \<and> length more \<le> 5 \<and> co_done c'" if "co_cancelled c"
  proof -
    have "pending c \<le> 5" by (simp add: pending_def of_bool_def)
    moreover have "pending c' = 0 \<Longrightarrow> co_done c'" for c' by (simp add: pending_def)
    ultimately show ?thesis using shutdown_runs [OF that order.refl, of cap] by (metis diff_self_eq_0)
  qed
  moreover from collector_trace_inv [OF assms refl] have "loops_ok c"
    and e: "co_kind c = kind" "co_has_cluster c = cluster" "co_has_gpu c = gpu" by blast+
  ultimately show ?thesis by (auto simp: loops_ok_def)
qed

theorem collector_shutdown_witness:
  "\<exists>c more c'. collector_trace 1 (collector_start (Some EK_Docker) False True) [Cancel] c \<and> co_cancelled c \<and>
     collector_trace 1 c more c' \<and> length more \<le> 5 \<and> co_done c'"
proof -
  let ?s = "collector_start (Some EK_Docker) False True"
  have c: "collector_trace 1 ?s [Cancel] (?s\<lparr>co_cancelled := True\<rparr>)"
    using trace_snoc [OF trace_nil cancel, of 1 ?s] by simp
  have "co_cancelled (?s\<lparr>co_cancelled := True\<rparr>)" by simp
  with collector_shutdown [OF c] c show ?thesis by blast
qed

text \<open>
  The cached table of core names is invisible: every snapshot labels core \<open>i\<close> with \<open>cpu<i>\<close>
  whatever was collected before, a table reached from the empty one staying a table of these names.
\<close>

theorem core_names_cache_correct:
  "\<exists>m. collect_cores (cpu_names n) 0 cs =
     (map (\<lambda>(j, u, f). \<lparr>core_label = ''cpu'' @ dec j, core_usage = u, core_frequency = f\<rparr>) (enumerate 0 cs),
      cpu_names m)"
  by (rule collect_cores_cached)

end
