(* ===== verification/Notify.thy ===== *)
theory Notify
  imports Rust_Str
begin

text \<open>
  The sanitiser (\<open>muxtop-tui/src/ui/sanitize.rs\<close>) and the notifications (\<open>notify.rs\<close>) of the terminal
  interface: control bytes never reach a cell or a message, the visible stack and the log are
  bounded, and expiry is decided by the age and the level of a message. The clock is an argument.
\<close>

section \<open>Sanitising\<close>

definition is_offending :: "char \<Rightarrow> bool" where
  "is_offending b \<longleftrightarrow> (byte_of b < 0x20 \<and> byte_of b \<noteq> 9) \<or> byte_of b = 0x7f"

definition scrub_char :: "string \<Rightarrow> string" where
  "scrub_char ch = (if byte_of (hd ch) < 0x80 \<and> is_offending (hd ch) then ''?'' else ch)"

definition scrub_ctrl :: "string \<Rightarrow> string" where
  "scrub_ctrl s =
     (if \<not> list_ex is_offending s then s
      else concat (map scrub_char (str_chars s)))"

section \<open>Notifications\<close>

datatype Level = Info | Success | Warning | Error | Neutral

definition TTL_INFO :: duration where "TTL_INFO = from_secs 4"
definition TTL_WARNING :: duration where "TTL_WARNING = from_secs 8"
definition TTL_ERROR :: duration where "TTL_ERROR = from_secs 12"
definition MAX_ACTIVE :: nat where "MAX_ACTIVE = 3"
definition LOG_CAPACITY :: nat where "LOG_CAPACITY = 50"

record Toast =
  to_level :: Level
  to_text :: string
  to_at :: instant

definition ttl :: "Toast \<Rightarrow> duration" where
  "ttl t = (case to_level t of Error \<Rightarrow> TTL_ERROR | Warning \<Rightarrow> min TTL_ERROR TTL_WARNING | _ \<Rightarrow> TTL_INFO)"

definition is_expired :: "instant \<Rightarrow> Toast \<Rightarrow> bool" where
  "is_expired now t \<longleftrightarrow> ttl t \<le> duration_since now (to_at t)"

record Notifier =
  nt_active :: "Toast list"
  nt_log :: "Toast list"

definition notifier_new :: Notifier where
  "notifier_new = \<lparr>nt_active = [], nt_log = []\<rparr>"

fun drop_front :: "nat \<Rightarrow> 'a list \<Rightarrow> 'a list" where
  "drop_front cap [] = []"
| "drop_front cap (x # xs) = (if cap < length (x # xs) then drop_front cap xs else x # xs)"

definition notifier_push :: "instant \<Rightarrow> Level \<Rightarrow> string \<Rightarrow> Notifier \<Rightarrow> Notifier" where
  "notifier_push now level text n =
     (let toast = \<lparr>to_level = level, to_text = scrub_ctrl text, to_at = now\<rparr> in
      n\<lparr>nt_log := drop_front LOG_CAPACITY (nt_log n @ [toast]),
        nt_active := drop_front MAX_ACTIVE (nt_active n @ [toast])\<rparr>)"

definition notifier_latest :: "Notifier \<Rightarrow> Toast option" where
  "notifier_latest n = (if nt_active n = [] then None else Some (last (nt_active n)))"

definition notifier_expire :: "instant \<Rightarrow> Notifier \<Rightarrow> bool \<times> Notifier" where
  "notifier_expire now n =
     (let kept = filter (\<lambda>t. \<not> is_expired now t) (nt_active n) in
      (length (nt_active n) \<noteq> length kept, n\<lparr>nt_active := kept\<rparr>))"

definition next_deadline :: "instant \<Rightarrow> Notifier \<Rightarrow> duration option" where
  "next_deadline now n =
     (if nt_active n = [] then None
      else Some (Min (set (map (\<lambda>t. ttl t - duration_since now (to_at t)) (nt_active n)))))"

definition dismiss_all :: "Notifier \<Rightarrow> Notifier" where
  "dismiss_all n = n\<lparr>nt_active := []\<rparr>"

definition notifier_is_empty :: "Notifier \<Rightarrow> bool" where
  "notifier_is_empty n \<longleftrightarrow> nt_active n = []"

section \<open>Lemmas\<close>

lemma drop_front_last_n: "drop_front cap xs = last_n cap xs"
  by (induction cap xs rule: drop_front.induct) (auto simp: last_n_def Suc_diff_le)

lemma is_cont_not_offending: "is_cont c \<Longrightarrow> \<not> is_offending c"
  by (auto simp: is_cont_def is_offending_def)

lemma str_chars_shape: "ch \<in> set (str_chars s) \<Longrightarrow> \<exists>c cs. ch = c # cs \<and> list_all is_cont cs"
proof (induction s rule: str_chars.induct)
  case (2 c cs)
  have "list_all is_cont (takeWhile is_cont cs)" by (auto simp: list_all_iff dest: set_takeWhileD)
  with 2 show ?case by auto
qed simp

lemma scrub_char_clean:
  assumes "ch \<in> set (str_chars s)" "b \<in> set (scrub_char ch)"
  shows "\<not> is_offending b"
proof -
  from str_chars_shape [OF assms(1)] obtain c cs where c: "ch = c # cs" "list_all is_cont cs" by blast
  show ?thesis
  proof (cases "byte_of c < 0x80 \<and> is_offending c")
    case True
    then have "b = CHR ''?''" using assms(2) c by (simp add: scrub_char_def)
    then show ?thesis by (simp add: is_offending_def)
  next
    case False
    then have "b = c \<or> b \<in> set cs" using assms(2) c by (auto simp: scrub_char_def)
    moreover have "\<not> is_offending c" using False by (auto simp: is_offending_def)
    ultimately show ?thesis using c(2) is_cont_not_offending by (auto simp: list_all_iff)
  qed
qed

lemma scrub_ctrl_clean: "\<not> list_ex is_offending (scrub_ctrl s)"
proof (cases "list_ex is_offending s")
  case True
  then have "scrub_ctrl s = concat (map scrub_char (str_chars s))" by (simp add: scrub_ctrl_def)
  then show ?thesis using scrub_char_clean by (auto simp: list_ex_iff)
qed (simp add: scrub_ctrl_def)

lemma scrub_ctrl_idem: "scrub_ctrl (scrub_ctrl s) = scrub_ctrl s"
  using scrub_ctrl_clean [of s] by (simp add: scrub_ctrl_def [of "scrub_ctrl s"])

text \<open>The calls a notifier goes through, in any order.\<close>

datatype notifier_op = Push instant Level string | Expire instant | Dismiss

fun notifier_do :: "notifier_op \<Rightarrow> Notifier \<Rightarrow> Notifier" where
  "notifier_do (Push now l s) n = notifier_push now l s n"
| "notifier_do (Expire now) n = snd (notifier_expire now n)"
| "notifier_do Dismiss n = dismiss_all n"

fun posted :: "notifier_op list \<Rightarrow> Toast list" where
  "posted ops = concat (map (\<lambda>p. case p of
     Push now l s \<Rightarrow> [\<lparr>to_level = l, to_text = scrub_ctrl s, to_at = now\<rparr>] | _ \<Rightarrow> []) ops)"

lemma set_last_n: "set (last_n k xs) \<subseteq> set xs"
  unfolding last_n_def by (rule set_drop_subset)

lemma last_n_snoc_last_n: "0 < k \<Longrightarrow> last_n k (last_n k xs @ [x]) = last_n k (xs @ [x])"
  by (cases "length xs \<le> k") (auto simp: last_n_def Suc_diff_le)

section \<open>Properties\<close>

text \<open>
  No message can carry a control sequence to the terminal: after any sequence of posts, expiries
  and dismissals every visible and every logged text is free of control bytes other than tab, at most
  three messages are visible, and the log is exactly the last fifty messages posted.
\<close>

theorem notifier_bounded_and_clean:
  "let n = fold notifier_do ops notifier_new in
   nt_log n = last_n LOG_CAPACITY (posted ops) \<and> length (nt_active n) \<le> MAX_ACTIVE \<and>
   set (nt_active n) \<subseteq> set (posted ops) \<and>
   list_all (\<lambda>t. \<not> list_ex is_offending (to_text t)) (nt_active n @ nt_log n)"
proof -
  have clean: "\<not> list_ex is_offending (to_text t)" if "t \<in> set (posted ops)" for t ops
    using that scrub_ctrl_clean by (auto split: notifier_op.splits)
  have inv: "nt_log n = last_n LOG_CAPACITY (posted ops) \<and> length (nt_active n) \<le> MAX_ACTIVE \<and>
    set (nt_active n) \<subseteq> set (posted ops)" if "n = fold notifier_do ops notifier_new" for n
    using that
  proof (induction ops arbitrary: n rule: rev_induct)
    case Nil
    then show ?case by (simp add: notifier_new_def last_n_def)
  next
    case (snoc p ops)
    let ?m = "fold notifier_do ops notifier_new"
    have IH: "nt_log ?m = last_n LOG_CAPACITY (posted ops)" "length (nt_active ?m) \<le> MAX_ACTIVE"
      "set (nt_active ?m) \<subseteq> set (posted ops)" using snoc.IH by auto
    have n: "n = notifier_do p ?m" using snoc.prems by simp
    show ?case
    proof (cases p)
      case (Push now l s)
      let ?t = "\<lparr>to_level = l, to_text = scrub_ctrl s, to_at = now\<rparr>"
      have "set (last_n MAX_ACTIVE (nt_active ?m @ [?t])) \<subseteq> insert ?t (set (posted ops))"
        using set_last_n [of MAX_ACTIVE "nt_active ?m @ [?t]"] IH(3) by auto
      then show ?thesis using IH(1)
        by (simp add: n Push notifier_push_def Let_def drop_front_last_n last_n_snoc_last_n LOG_CAPACITY_def)
    next
      case (Expire now)
      have "length (filter (\<lambda>t. \<not> is_expired now t) (nt_active ?m)) \<le> MAX_ACTIVE"
        using IH(2) length_filter_le le_trans by blast
      then show ?thesis using IH by (auto simp: n Expire notifier_expire_def Let_def)
    qed (use IH in \<open>simp add: n dismiss_all_def\<close>)
  qed
  show ?thesis using inv [OF refl] clean set_last_n [of LOG_CAPACITY "posted ops"]
    unfolding Let_def list_all_iff set_append by (metis (no_types, lifting) UnE subsetD)
qed

end
