(* ===== verification/Terminal_Caps.thy ===== *)
theory Terminal_Caps
  imports Notify
begin

unbundle bit_operations_syntax

text \<open>
  The terminal side of \<open>muxtop-tui\<close>: the names of the themes (\<open>ui/theme.rs\<close>), capability detection
  and the set-up and restoration of the terminal (\<open>terminal.rs\<close>), and the clipboard escape sequence
  with its base64 encoder (\<open>clipboard.rs\<close>). The environment is a map from variable names to bytes,
  the operating system test of \<open>cfg!\<close> a flag, and the terminal library (\<open>crossterm\<close>) the argument
  \<open>tty\<close>: the outcome of a command and the state it leaves.
\<close>

section \<open>Themes\<close>

datatype ThemeKind = TokyoNight | TokyoNightLight | Mono

definition ThemeKind_ALL :: "ThemeKind list" where
  "ThemeKind_ALL = [TokyoNight, TokyoNightLight, Mono]"

fun theme_name :: "ThemeKind \<Rightarrow> string" where
  "theme_name TokyoNight = ''tokyo-night''"
| "theme_name TokyoNightLight = ''tokyo-night-light''"
| "theme_name Mono = ''mono''"

definition theme_names :: string where
  "theme_names = join '', '' (map theme_name ThemeKind_ALL)"

definition replace_char :: "char \<Rightarrow> string \<Rightarrow> string \<Rightarrow> string" where
  "replace_char c to s = concat (map (\<lambda>x. if x = c then to else [x]) s)"

definition theme_from_str :: "(string \<Rightarrow> string) \<Rightarrow> string \<Rightarrow> string + ThemeKind" where
  "theme_from_str ulc s =
     (let normalised = replace_char CHR ''_'' ''-'' (to_lowercase ulc (trim s)) in
      if normalised \<in> {''tokyo-night'', ''tokyonight'', ''dark'', ''default''} then Inr TokyoNight
      else if normalised \<in> {''tokyo-night-light'', ''tokyonight-light'', ''light'', ''day''} then Inr TokyoNightLight
      else if normalised \<in> {''mono'', ''monochrome'', ''none''} then Inr Mono
      else Inl (''unknown theme `'' @ normalised @ ''` (available: '' @ theme_names @ '')''))"

section \<open>Capabilities\<close>

datatype ColorSupport = NoColor | Basic | Colors256 | TrueColor

datatype Breakpoint = Xs | Sm | Md | Lg

definition from_width :: "u16 \<Rightarrow> Breakpoint" where
  "from_width width = (if width \<le> 59 then Xs else if width \<le> 99 then Sm else if width \<le> 139 then Md else Lg)"

fun allows_side_panel :: "Breakpoint \<Rightarrow> bool" where
  "allows_side_panel Xs = False"
| "allows_side_panel Sm = False"
| "allows_side_panel Md = True"
| "allows_side_panel Lg = True"

record CapsOverrides =
  ov_no_color :: bool
  ov_ascii :: bool
  ov_no_mouse :: bool

record TermCaps =
  tc_color_support :: ColorSupport
  tc_unicode :: bool
  tc_mouse :: bool
  tc_width :: u16
  tc_height :: u16

definition TermCaps_default :: TermCaps where
  "TermCaps_default =
     \<lparr>tc_color_support = TrueColor, tc_unicode = True, tc_mouse = True, tc_width = 80, tc_height = 24\<rparr>"

definition is_small :: "TermCaps \<Rightarrow> bool" where
  "is_small c \<longleftrightarrow> tc_width c < 80 \<or> tc_height c < 24"

definition set_size :: "u16 \<Rightarrow> u16 \<Rightarrow> TermCaps \<Rightarrow> TermCaps" where
  "set_size width height c = c\<lparr>tc_width := width, tc_height := height\<rparr>"

definition TRUECOLOR_TERMS :: "string list" where
  "TRUECOLOR_TERMS = [''alacritty'', ''contour'', ''foot'', ''ghostty'', ''kitty'', ''rio'', ''wezterm'']"

definition TRUECOLOR_PROGRAMS :: "string list" where
  "TRUECOLOR_PROGRAMS = [''ghostty'', ''iterm.app'', ''wezterm'', ''vscode'', ''hyper'']"

definition detect_color_support :: "(string \<Rightarrow> string) \<Rightarrow> string \<Rightarrow> string \<Rightarrow> string \<Rightarrow> ColorSupport" where
  "detect_color_support ulc term colorterm term_program =
     (let term = to_lowercase ulc term;
          colorterm = to_lowercase ulc colorterm;
          term_program = to_lowercase ulc term_program
      in if term = ''dumb'' \<or> term = [] then NoColor
         else if colorterm = ''truecolor'' \<or> colorterm = ''24bit'' then TrueColor
         else if list_ex (\<lambda>t. str_contains term t) TRUECOLOR_TERMS then TrueColor
         else if term_program \<in> set TRUECOLOR_PROGRAMS then TrueColor
         else if str_contains term ''256color'' \<or> str_contains term ''direct'' then Colors256
         else if starts_with term ''nsterm'' then Colors256
         else Basic)"

definition detect_unicode :: "(string \<Rightarrow> string) \<Rightarrow> bool \<Rightarrow> string \<Rightarrow> string \<Rightarrow> bool" where
  "detect_unicode ulc utf8_os term locale_name =
     (let term = to_lowercase ulc term in
      if term = ''dumb'' \<or> term = [] then False
      else if term = ''linux'' \<or> starts_with term ''vt1'' \<or> starts_with term ''vt2'' then False
      else
        let locale_name = to_lowercase ulc locale_name in
        if str_contains locale_name ''utf-8'' \<or> str_contains locale_name ''utf8'' then True
        else if utf8_os then True
        else False)"

definition detect_mouse :: "(string \<Rightarrow> string) \<Rightarrow> string \<Rightarrow> bool" where
  "detect_mouse ulc term =
     (let term = to_lowercase ulc term in
      \<not> (term = [] \<or> term = ''dumb'' \<or> term = ''linux'' \<or> starts_with term ''vt''))"

text \<open>Well-formed UTF-8, which \<open>env::var\<close> requires of a value.\<close>

abbreviation in_range :: "nat \<Rightarrow> nat \<Rightarrow> char \<Rightarrow> bool" where
  "in_range lo hi c \<equiv> lo \<le> byte_of c \<and> byte_of c \<le> hi"

fun valid_utf8 :: "string \<Rightarrow> bool" where
  "valid_utf8 [] = True"
| "valid_utf8 (c # cs) =
     (if byte_of c < 128 then valid_utf8 cs
      else case cs of
        [] \<Rightarrow> False
      | c1 # cs1 \<Rightarrow>
          if in_range 0xC2 0xDF c then is_cont c1 \<and> valid_utf8 cs1
          else case cs1 of
            [] \<Rightarrow> False
          | c2 # cs2 \<Rightarrow>
              if in_range 0xE0 0xEF c then
                is_cont c1 \<and> (byte_of c = 0xE0 \<longrightarrow> 0xA0 \<le> byte_of c1) \<and>
                (byte_of c = 0xED \<longrightarrow> byte_of c1 < 0xA0) \<and> is_cont c2 \<and> valid_utf8 cs2
              else case cs2 of
                [] \<Rightarrow> False
              | c3 # cs3 \<Rightarrow>
                  in_range 0xF0 0xF4 c \<and> is_cont c1 \<and> (byte_of c = 0xF0 \<longrightarrow> 0x90 \<le> byte_of c1) \<and>
                  (byte_of c = 0xF4 \<longrightarrow> byte_of c1 < 0x90) \<and> is_cont c2 \<and> is_cont c3 \<and> valid_utf8 cs3)"

definition env_var :: "(string \<rightharpoonup> string) \<Rightarrow> string \<Rightarrow> string" where
  "env_var vars k = (case vars k of Some v \<Rightarrow> if valid_utf8 v then v else [] | None \<Rightarrow> [])"

definition detect_terminal_caps_with ::
    "(string \<Rightarrow> string) \<Rightarrow> bool \<Rightarrow> (string \<rightharpoonup> string) \<Rightarrow> (u16 \<times> u16) option \<Rightarrow> CapsOverrides \<Rightarrow> TermCaps" where
  "detect_terminal_caps_with ulc utf8_os vars size_of overrides =
     (let term = env_var vars ''TERM'';
          colorterm = env_var vars ''COLORTERM'';
          term_program = env_var vars ''TERM_PROGRAM'';
          no_color_env = (case vars ''NO_COLOR'' of Some v \<Rightarrow> v \<noteq> [] | None \<Rightarrow> False);
          locale_name = unwrap_or (find (\<lambda>v. v \<noteq> [])
            [env_var vars ''LC_ALL'', env_var vars ''LC_CTYPE'', env_var vars ''LANG'']) [];
          (width, height) = unwrap_or size_of (80, 24)
      in \<lparr>tc_color_support =
            (if ov_no_color overrides \<or> no_color_env then NoColor
             else detect_color_support ulc term colorterm term_program),
          tc_unicode = (\<not> ov_ascii overrides \<and> detect_unicode ulc utf8_os term locale_name),
          tc_mouse = (\<not> ov_no_mouse overrides \<and> detect_mouse ulc term),
          tc_width = width, tc_height = height\<rparr>)"

section \<open>Set-up and restoration\<close>

datatype tty_cmd =
    EnableRawMode | DisableRawMode | EnterAlternateScreen | LeaveAlternateScreen
  | EnableMouseCapture | DisableMouseCapture | NewTerminal | ShowCursor

text \<open>\<open>init_terminal\<close>: the guard's mouse flag on success.\<close>

definition restore_stdout :: "(tty_cmd \<Rightarrow> 's \<Rightarrow> bool \<times> 's) \<Rightarrow> bool \<Rightarrow> 's \<Rightarrow> bool \<times> 's" where
  "restore_stdout tty mouse_enabled s =
     tty LeaveAlternateScreen (if mouse_enabled then snd (tty DisableMouseCapture s) else s)"

definition init_terminal :: "(tty_cmd \<Rightarrow> 's \<Rightarrow> bool \<times> 's) \<Rightarrow> bool \<Rightarrow> 's \<Rightarrow> bool option \<times> 's" where
  "init_terminal tty mouse s =
     (case tty EnableRawMode s of
        (False, s) \<Rightarrow> (None, s)
      | (True, s) \<Rightarrow>
          (case tty EnterAlternateScreen s of
             (False, s) \<Rightarrow> (None, snd (tty DisableRawMode s))
           | (True, s) \<Rightarrow>
               (case (if mouse then tty EnableMouseCapture s else (False, s)) of
                  (mouse_enabled, s) \<Rightarrow>
                    (case tty NewTerminal s of
                       (True, s) \<Rightarrow> (Some mouse_enabled, s)
                     | (False, s) \<Rightarrow> (None, snd (tty DisableRawMode (snd (restore_stdout tty mouse_enabled s))))))))"

definition restore_terminal :: "(tty_cmd \<Rightarrow> 's \<Rightarrow> bool \<times> 's) \<Rightarrow> bool \<Rightarrow> 's \<Rightarrow> bool \<times> 's" where
  "restore_terminal tty mouse_enabled s =
     (case tty DisableRawMode s of
        (False, s) \<Rightarrow> (False, s)
      | (True, s) \<Rightarrow>
          (case (if mouse_enabled then tty DisableMouseCapture s else (True, s)) of
             (False, s) \<Rightarrow> (False, s)
           | (True, s) \<Rightarrow>
               (case tty LeaveAlternateScreen s of
                  (False, s) \<Rightarrow> (False, s)
                | (True, s) \<Rightarrow> tty ShowCursor s)))"

section \<open>Clipboard\<close>

definition ALPHABET :: string where
  "ALPHABET = ''ABCDEFGHIJKLMNOPQRSTUVWXYZabcdefghijklmnopqrstuvwxyz0123456789+/''"

definition MAX_PAYLOAD :: nat where "MAX_PAYLOAD = 4096"

definition byte_u32 :: "char \<Rightarrow> u32" where
  "byte_u32 c = of_nat (byte_of c)"

definition sextet :: "nat \<Rightarrow> u32 \<Rightarrow> char" where
  "sextet shift n = ALPHABET ! unat (drop_bit shift n AND 0x3f)"

definition encode_chunk :: "string \<Rightarrow> string" where
  "encode_chunk chunk =
     (let b0 = byte_u32 (chunk ! 0);
          b1 = (case get_opt chunk 1 of Some c \<Rightarrow> byte_u32 c | None \<Rightarrow> 0);
          b2 = (case get_opt chunk 2 of Some c \<Rightarrow> byte_u32 c | None \<Rightarrow> 0);
          n = push_bit 16 b0 OR push_bit 8 b1 OR b2
      in [sextet 18 n, sextet 12 n,
          if 1 < length chunk then sextet 6 n else CHR ''='',
          if 2 < length chunk then sextet 0 n else CHR ''=''])"

fun chunks3 :: "string \<Rightarrow> string list" where
  "chunks3 (a # b # c # rest) = [a, b, c] # chunks3 rest"
| "chunks3 [] = []"
| "chunks3 cs = [cs]"

definition base64 :: "string \<Rightarrow> string" where
  "base64 inp = concat (map encode_chunk (chunks3 inp))"

text \<open>\<open>copy\<close>: the bytes written to the terminal, or the reason nothing was copied.\<close>

definition copy :: "bool \<Rightarrow> string \<Rightarrow> string + string" where
  "copy stdout_ok text =
     (if text = [] then Inl ''nothing to copy''
      else if MAX_PAYLOAD < length text then Inl ''selection is too large to copy''
      else
        let seq = [CHR 0x1B] @ '']52;c;'' @ base64 text @ [CHR 0x07] in
        if stdout_ok then Inr seq else Inl ''terminal write failed'')"

section \<open>Base64\<close>

lemma push_bit_or:
  fixes b c :: nat
  assumes "c < 2 ^ k"
  shows "push_bit k b OR c = b * 2 ^ k + c"
proof -
  have "n < k" if "bit c n" for n
    using that assms by (metis bit_take_bit_iff take_bit_nat_eq_self)
  then have "push_bit k b + c = push_bit k b OR c"
    by (intro disjunctive_add) (auto simp: bit_push_bit_iff dest: leD)
  then show ?thesis by (simp add: push_bit_eq_mult)
qed

lemma unat_triple:
  assumes "a < 256" "b < 256" "c < 256"
  shows "unat (push_bit 16 (of_nat a) OR push_bit 8 (of_nat b) OR of_nat c :: u32) = a * 65536 + b * 256 + c"
proof -
  have "unat (push_bit 8 (of_nat b) :: u32) = push_bit 8 b" "unat (push_bit 16 (of_nat a) :: u32) = push_bit 16 a"
    "unat (of_nat c :: u32) = c"
    using assms
    by (simp_all only: unsigned_push_bit_eq) (simp_all add: unat_of_nat push_bit_eq_mult take_bit_nat_eq_self)
  moreover have "push_bit 8 b OR c = b * 256 + c" using push_bit_or [of c 8 b] assms by simp
  moreover have "push_bit 16 a OR (b * 256 + c) = a * 65536 + (b * 256 + c)"
    using push_bit_or [of "b * 256 + c" 16 a] assms by simp
  ultimately show ?thesis by (simp add: unsigned_or_eq)
qed

lemma sextet_index: "unat (drop_bit s (n :: u32) AND 0x3f) = unat n div 2 ^ s mod 64"
proof -
  have "unat (drop_bit s n AND 0x3f) = unat (drop_bit s n) AND mask 6"
    by (simp add: unsigned_and_eq mask_numeral)
  also have "\<dots> = unat n div 2 ^ s mod 64"
    by (simp only: take_bit_eq_mask [symmetric] unat_drop_bit_eq) (simp add: take_bit_eq_mod drop_bit_eq_div)
  finally show ?thesis .
qed

text \<open>The reference decoder, on the values of the characters.\<close>

definition sextet_value :: "char \<Rightarrow> nat option" where
  "sextet_value c = position (\<lambda>x. x = c) ALPHABET"

fun decode_chunk :: "nat option \<Rightarrow> nat option \<Rightarrow> nat option \<Rightarrow> nat option \<Rightarrow> string option" where
  "decode_chunk (Some a) (Some b) (Some c) (Some d) =
     Some [char_of (a * 4 + b div 16), char_of (b mod 16 * 16 + c div 4), char_of (c mod 4 * 64 + d)]"
| "decode_chunk (Some a) (Some b) (Some c) None =
     Some [char_of (a * 4 + b div 16), char_of (b mod 16 * 16 + c div 4)]"
| "decode_chunk (Some a) (Some b) None None = Some [char_of (a * 4 + b div 16)]"
| "decode_chunk _ _ _ _ = None"

fun base64_decode :: "string \<Rightarrow> string option" where
  "base64_decode [] = Some []"
| "base64_decode (a # b # c # d # rest) =
     (case (decode_chunk (sextet_value a) (sextet_value b) (sextet_value c) (sextet_value d), base64_decode rest) of
        (Some x, Some y) \<Rightarrow> Some (x @ y)
      | _ \<Rightarrow> None)"
| "base64_decode _ = None"

lemma position_distinct: "distinct xs \<Longrightarrow> i < length xs \<Longrightarrow> position (\<lambda>x. x = xs ! i) xs = Some i"
proof (induction xs arbitrary: i)
  case (Cons x xs)
  then show ?case by (cases i) auto
qed simp

lemma alphabet_facts: "distinct ALPHABET" "length ALPHABET = 64" "CHR ''='' \<notin> set ALPHABET"
  by (simp_all add: ALPHABET_def)

lemma sextet_value_nth: "i < 64 \<Longrightarrow> sextet_value (ALPHABET ! i) = Some i"
  by (simp add: sextet_value_def position_distinct alphabet_facts)

lemma sextet_value_pad: "sextet_value CHR ''='' = None"
  using alphabet_facts(3) by (auto simp: sextet_value_def position_None)

lemma sextet_value_sextet: "sextet_value (sextet s n) = Some (unat n div 2 ^ s mod 64)"
  by (simp add: sextet_def sextet_index sextet_value_nth)

lemma sextet_in_alphabet: "sextet s n \<in> set ALPHABET"
  by (simp add: sextet_def sextet_index alphabet_facts nth_mem)

lemma digits64:
  fixes q r :: nat
  assumes "r < 64"
  shows "(q * 64 + r) div 64 = q" "(q * 64 + r) mod 64 = r"
  using assms by simp_all

lemma three_bytes:
  fixes a b c n :: nat
  assumes "a < 256" "b < 256" "c < 256" and n: "n = a * 65536 + b * 256 + c"
  shows "n div 2 ^ 18 mod 64 * 4 + n div 2 ^ 12 mod 64 div 16 = a"
    "n div 2 ^ 12 mod 64 mod 16 * 16 + n div 2 ^ 6 mod 64 div 4 = b"
    "n div 2 ^ 6 mod 64 mod 4 * 64 + n div 2 ^ 0 mod 64 = c"
proof -
  define a1 a0 b1 b0 c1 c0 where d: "a1 = a div 4" "a0 = a mod 4" "b1 = b div 16" "b0 = b mod 16" "c1 = c div 64" "c0 = c mod 64"
  have lt: "a1 < 64" "a0 < 4" "b1 < 16" "b0 < 16" "c1 < 4" "c0 < 64" using assms by (simp_all add: d)
  have e: "a = a1 * 4 + a0" "b = b1 * 16 + b0" "c = c1 * 64 + c0" by (simp_all add: d)
  have "n = ((a1 * 64 + (a0 * 16 + b1)) * 64 + (b0 * 4 + c1)) * 64 + c0" unfolding n e by simp
  then have q0: "n div 64 = (a1 * 64 + (a0 * 16 + b1)) * 64 + (b0 * 4 + c1)" "n mod 64 = c0"
    by (simp_all only: digits64 [OF lt(6)])
  have r1: "b0 * 4 + c1 < 64" "a0 * 16 + b1 < 64" using lt by linarith+
  have q1: "n div 64 mod 64 = b0 * 4 + c1" "n div 64 div 64 = a1 * 64 + (a0 * 16 + b1)"
    unfolding q0 by (simp_all only: digits64 [OF r1(1)])
  have q2: "n div 64 div 64 mod 64 = a0 * 16 + b1" "n div 64 div 64 div 64 = a1"
    unfolding q1 by (simp_all only: digits64 [OF r1(2)])
  have p: "n div 2 ^ 18 = n div 64 div 64 div 64" "n div 2 ^ 12 = n div 64 div 64" "n div 2 ^ 6 = n div 64" "n div 2 ^ 0 = n"
    by (simp_all add: div_mult2_eq [symmetric])
  show "n div 2 ^ 18 mod 64 * 4 + n div 2 ^ 12 mod 64 div 16 = a"
    unfolding p q2 using lt e(1) by simp
  show "n div 2 ^ 12 mod 64 mod 16 * 16 + n div 2 ^ 6 mod 64 div 4 = b"
    unfolding p q2 q1 using lt e(2) by simp
  show "n div 2 ^ 6 mod 64 mod 4 * 64 + n div 2 ^ 0 mod 64 = c"
    unfolding p q1 q0(2) using lt e(3) by simp
qed

definition encodes :: "string \<Rightarrow> bool" where
  "encodes chunk \<longleftrightarrow>
     (case encode_chunk chunk of
        [a, b, c, d] \<Rightarrow>
          decode_chunk (sextet_value a) (sextet_value b) (sextet_value c) (sextet_value d) = Some chunk \<and>
          {a, b, c, d} \<subseteq> insert CHR ''='' (set ALPHABET)
      | _ \<Rightarrow> False)"

lemmas encodes_simps =
  encodes_def encode_chunk_def get_opt_def Let_def sextet_value_sextet sextet_value_pad sextet_in_alphabet

lemma encodes1: "encodes [x]"
proof -
  have "unat (push_bit 16 (byte_u32 x)) = byte_of x * 65536 + 0 * 256 + 0"
    using unat_triple [OF byte_of_lt [of x], of 0 0] by (simp add: byte_u32_def)
  from three_bytes [OF byte_of_lt _ _ this] show ?thesis by (simp add: encodes_simps)
qed

lemma encodes2: "encodes [x, y]"
proof -
  have "unat (push_bit 16 (byte_u32 x) OR push_bit 8 (byte_u32 y)) = byte_of x * 65536 + byte_of y * 256 + 0"
    using unat_triple [OF byte_of_lt [of x] byte_of_lt [of y], of 0] by (simp add: byte_u32_def)
  from three_bytes [OF byte_of_lt byte_of_lt _ this] show ?thesis by (simp add: encodes_simps)
qed

lemma encodes3: "encodes [x, y, z]"
proof -
  have "unat (push_bit 16 (byte_u32 x) OR push_bit 8 (byte_u32 y) OR byte_u32 z) =
      byte_of x * 65536 + byte_of y * 256 + byte_of z"
    using unat_triple [OF byte_of_lt [of x] byte_of_lt [of y] byte_of_lt [of z]] by (simp add: byte_u32_def)
  from three_bytes [OF byte_of_lt byte_of_lt byte_of_lt this] show ?thesis by (simp add: encodes_simps)
qed

lemma encodes_append:
  assumes "encodes chunk" "base64_decode rest = Some s" "set rest \<subseteq> insert CHR ''='' (set ALPHABET)"
  shows "base64_decode (encode_chunk chunk @ rest) = Some (chunk @ s) \<and>
    set (encode_chunk chunk @ rest) \<subseteq> insert CHR ''='' (set ALPHABET)"
  using assms by (auto simp: encodes_def split: list.splits)

lemma base64_step:
  "base64_decode (base64 rest) = Some rest \<and> set (base64 rest) \<subseteq> insert CHR ''='' (set ALPHABET) \<Longrightarrow>
   base64_decode (base64 (a # b # c # rest)) = Some (a # b # c # rest) \<and>
   set (base64 (a # b # c # rest)) \<subseteq> insert CHR ''='' (set ALPHABET)"
  using encodes_append [OF encodes3, of "base64 rest" rest a b c] by (simp add: base64_def)

lemma base64_round: "base64_decode (base64 s) = Some s \<and> set (base64 s) \<subseteq> insert CHR ''='' (set ALPHABET)"
proof (induction s rule: chunks3.induct, goal_cases)
  case (1 a b c rest)
  then show ?case by (rule base64_step)
next
  case 2
  show ?case by (simp add: base64_def)
next
  case (3 a)
  show ?case using encodes_append [OF encodes1, of "[]" "[]" a] by (simp add: base64_def)
next
  case (4 a b)
  show ?case using encodes_append [OF encodes2, of "[]" "[]" a b] by (simp add: base64_def)
qed

lemma alphabet_printable: "\<forall>c\<in>insert CHR ''='' (set ALPHABET). 43 \<le> byte_of c \<and> byte_of c \<le> 122"
  by (simp add: ALPHABET_def)

section \<open>Terminal state\<close>

text \<open>
  What the terminal library documents: a command that succeeds sets or clears its mode, a command
  that fails leaves every mode as it was, and the commands that leave a mode succeed.
\<close>

record tty_modes =
  raw :: bool
  alternate :: bool
  mouse_capture :: bool

fun tty_effect :: "tty_cmd \<Rightarrow> tty_modes \<Rightarrow> tty_modes" where
  "tty_effect EnableRawMode m = m\<lparr>raw := True\<rparr>"
| "tty_effect DisableRawMode m = m\<lparr>raw := False\<rparr>"
| "tty_effect EnterAlternateScreen m = m\<lparr>alternate := True\<rparr>"
| "tty_effect LeaveAlternateScreen m = m\<lparr>alternate := False\<rparr>"
| "tty_effect EnableMouseCapture m = m\<lparr>mouse_capture := True\<rparr>"
| "tty_effect DisableMouseCapture m = m\<lparr>mouse_capture := False\<rparr>"
| "tty_effect NewTerminal m = m"
| "tty_effect ShowCursor m = m"

definition leaving :: "tty_cmd set" where
  "leaving = {DisableRawMode, LeaveAlternateScreen, DisableMouseCapture, ShowCursor}"

definition tty_law :: "(tty_cmd \<Rightarrow> 's \<Rightarrow> bool \<times> 's) \<Rightarrow> ('s \<Rightarrow> tty_modes) \<Rightarrow> bool" where
  "tty_law tty modes \<longleftrightarrow>
     (\<forall>c s. modes (snd (tty c s)) = (if fst (tty c s) then tty_effect c (modes s) else modes s)) \<and>
     (\<forall>c\<in>leaving. \<forall>s. fst (tty c s))"

definition shell_modes :: tty_modes where
  "shell_modes = \<lparr>raw = False, alternate = False, mouse_capture = False\<rparr>"

lemma tty_step:
  assumes "tty_law tty modes" "tty c s = (ok, s')"
  shows "modes s' = (if ok then tty_effect c (modes s) else modes s)" "c \<in> leaving \<Longrightarrow> ok"
  using assms by (auto simp: tty_law_def) (metis fst_conv snd_conv)+

lemma restore_stdout_modes:
  assumes "tty_law tty modes" "modes s = \<lparr>raw = r, alternate = a, mouse_capture = m\<rparr>" "m \<longrightarrow> mouse_enabled"
  shows "modes (snd (restore_stdout tty mouse_enabled s)) = \<lparr>raw = r, alternate = False, mouse_capture = False\<rparr>"
  using assms by (cases m) (auto simp: restore_stdout_def tty_law_def leaving_def)

lemma tty_lawD:
  assumes "tty_law tty modes"
  shows "modes (snd (tty c s)) = (if fst (tty c s) then tty_effect c (modes s) else modes s)"
    "c \<in> leaving \<Longrightarrow> \<exists>s'. tty c s = (True, s')"
  using assms by (auto simp: tty_law_def prod_eq_iff)

lemma restore_terminal_modes:
  assumes law: "tty_law tty modes" and s: "modes s = \<lparr>raw = r, alternate = a, mouse_capture = m\<rparr>"
  shows "fst (restore_terminal tty m s) \<and> modes (snd (restore_terminal tty m s)) = shell_modes"
proof -
  obtain s1 where 1: "tty DisableRawMode s = (True, s1)" using tty_lawD(2) [OF law, of DisableRawMode s] by (auto simp: leaving_def)
  have m1: "modes s1 = \<lparr>raw = False, alternate = a, mouse_capture = m\<rparr>"
    using tty_lawD(1) [OF law, of DisableRawMode s] by (simp add: 1 s)
  obtain s2 where 2: "(if m then tty DisableMouseCapture s1 else (True, s1)) = (True, s2)"
    using tty_lawD(2) [OF law, of DisableMouseCapture s1] by (cases m) (auto simp: leaving_def)
  have m2: "modes s2 = \<lparr>raw = False, alternate = a, mouse_capture = False\<rparr>"
    using tty_lawD(1) [OF law, of DisableMouseCapture s1] 2 m1 by (cases m) simp_all
  obtain s3 where 3: "tty LeaveAlternateScreen s2 = (True, s3)" using tty_lawD(2) [OF law, of LeaveAlternateScreen s2] by (auto simp: leaving_def)
  have m3: "modes s3 = shell_modes"
    using tty_lawD(1) [OF law, of LeaveAlternateScreen s2] by (simp add: 3 m2 shell_modes_def)
  obtain s4 where 4: "tty ShowCursor s3 = (True, s4)" using tty_lawD(2) [OF law, of ShowCursor s3] by (auto simp: leaving_def)
  have "modes s4 = shell_modes"
    using tty_lawD(1) [OF law, of ShowCursor s3] by (simp add: 4 m3)
  then show ?thesis by (simp add: restore_terminal_def 1 2 3 4)
qed

section \<open>Properties\<close>


text \<open>Setting up the terminal either fails and leaves it as the shell had it, not in raw mode, on
  the main screen and without mouse capture, or succeeds with a guard whose restoration, with the mouse
  flag the guard recorded, succeeds and brings the terminal back to the shell's modes.\<close>

theorem terminal_restored:
  assumes law: "tty_law tty modes" and start: "modes s = shell_modes"
  shows "case init_terminal tty mouse s of
      (None, s') \<Rightarrow> modes s' = shell_modes
    | (Some m, s') \<Rightarrow> modes s' = \<lparr>raw = True, alternate = True, mouse_capture = m\<rparr> \<and>
        fst (restore_terminal tty m s') \<and> modes (snd (restore_terminal tty m s')) = shell_modes"
proof -
  note eff = tty_lawD(1) [OF law]
  obtain ok1 s1 where 1: "tty EnableRawMode s = (ok1, s1)" by fastforce
  obtain ok2 s2 where 2: "tty EnterAlternateScreen s1 = (ok2, s2)" by fastforce
  obtain m s3 where 3: "(if mouse then tty EnableMouseCapture s2 else (False, s2)) = (m, s3)" by fastforce
  obtain ok4 s4 where 4: "tty NewTerminal s3 = (ok4, s4)" by fastforce
  have m1: "modes s1 = (if ok1 then shell_modes\<lparr>raw := True\<rparr> else shell_modes)"
    using eff [of EnableRawMode s] by (simp add: 1 start)
  have m2: "modes s2 = (if ok2 then tty_effect EnterAlternateScreen (modes s1) else modes s1)"
    using eff [of EnterAlternateScreen s1] by (simp add: 2)
  have m3: "modes s3 = (if m then tty_effect EnableMouseCapture (modes s2) else modes s2)"
    using eff [of EnableMouseCapture s2] 3 by (cases mouse) auto
  have m4: "modes s4 = modes s3" using eff [of NewTerminal s3] by (simp add: 4 split: if_splits)
  show ?thesis
  proof (cases "ok1 \<and> ok2")
    case True
    then have modes4: "modes s4 = \<lparr>raw = True, alternate = True, mouse_capture = m\<rparr>"
      by (simp add: m4 m3 m2 m1 shell_modes_def)
    show ?thesis
    proof (cases ok4)
      case True
      with \<open>ok1 \<and> ok2\<close> modes4 restore_terminal_modes [OF law modes4] show ?thesis
        by (simp add: init_terminal_def 1 2 3 4)
    next
      case False
      define s5 where "s5 = snd (restore_stdout tty m s4)"
      have "modes s5 = \<lparr>raw = True, alternate = False, mouse_capture = False\<rparr>"
        unfolding s5_def by (rule restore_stdout_modes [OF law modes4]) simp
      then have "modes (snd (tty DisableRawMode s5)) = shell_modes"
        using eff [of DisableRawMode s5] tty_lawD(2) [OF law, of DisableRawMode s5] by (auto simp: leaving_def shell_modes_def)
      with False \<open>ok1 \<and> ok2\<close> show ?thesis by (simp add: init_terminal_def 1 2 3 4 s5_def)
    qed
  next
    case False
    have "modes (snd (tty DisableRawMode s2)) = (modes s2)\<lparr>raw := False\<rparr>"
      using eff [of DisableRawMode s2] tty_lawD(2) [OF law, of DisableRawMode s2] by (auto simp: leaving_def)
    with False m1 m2 show ?thesis
      by (cases ok1) (simp_all add: init_terminal_def 1 2 shell_modes_def)
  qed
qed

definition failing_tty :: "tty_cmd \<Rightarrow> tty_modes \<Rightarrow> bool \<times> tty_modes" where
  "failing_tty c m = (if c = NewTerminal then (False, m) else (True, tty_effect c m))"

theorem terminal_restored_witness:
  "tty_law failing_tty id \<and> id shell_modes = shell_modes \<and>
   init_terminal failing_tty True shell_modes = (None, shell_modes)"
proof -
  have law: "tty_law failing_tty id" by (auto simp: tty_law_def failing_tty_def leaving_def)
  have none: "fst (init_terminal failing_tty True shell_modes) = None"
    by (simp add: init_terminal_def failing_tty_def)
  from terminal_restored [OF law, of shell_modes True] none law show ?thesis
    by (cases "init_terminal failing_tty True shell_modes") auto
qed


end
