(* ===== verification/Theming.thy ===== *)
theory Theming
  imports Terminal_Caps Rust_Float
begin

text \<open>
  Colours and styles (\<open>muxtop-tui/ui/theme.rs\<close>): the ramps, the theme resolved for a kind and a colour
  depth, and the styles of the components. Colours, modifiers and styles are values of the drawing
  library, kept as data; a style is what a \<open>Style::default()\<close> has been given.
\<close>

section \<open>Colours and styles\<close>

datatype Color =
    Reset | Black | Red | Green | Yellow | Blue | Magenta | Cyan | Gray | DarkGray | White
  | Rgb u8 u8 u8 | Indexed u8

datatype Modifier = BOLD | DIM | UNDERLINED | REVERSED

record Style =
  st_fg :: "Color option"
  st_bg :: "Color option"
  st_mods :: "Modifier set"

definition style_default :: Style where
  "style_default = \<lparr>st_fg = None, st_bg = None, st_mods = {}\<rparr>"

definition with_fg :: "Color \<Rightarrow> Style \<Rightarrow> Style" where
  "with_fg c s = s\<lparr>st_fg := Some c\<rparr>"

definition with_bg :: "Color \<Rightarrow> Style \<Rightarrow> Style" where
  "with_bg c s = s\<lparr>st_bg := Some c\<rparr>"

definition add_modifier :: "Modifier set \<Rightarrow> Style \<Rightarrow> Style" where
  "add_modifier ms s = s\<lparr>st_mods := st_mods s \<union> ms\<rparr>"

section \<open>Ramps\<close>

record Ramp =
  ra_bg :: Color
  ra_bg_alt :: Color
  ra_surface :: Color
  ra_overlay :: Color
  ra_border :: Color
  ra_fg :: Color
  ra_fg_muted :: Color
  ra_fg_subtle :: Color
  ra_fg_inverse :: Color
  ra_sel_bg :: Color
  ra_sel_fg :: Color
  ra_cyan :: Color
  ra_purple :: Color
  ra_green :: Color
  ra_yellow :: Color
  ra_red :: Color
  ra_blue :: Color

definition TOKYO_NIGHT_RGB :: Ramp where
  "TOKYO_NIGHT_RGB =
     \<lparr>ra_bg = Rgb 26 27 38, ra_bg_alt = Rgb 30 32 48, ra_surface = Rgb 36 40 59,
      ra_overlay = Rgb 41 46 66, ra_border = Rgb 59 66 97, ra_fg = Rgb 192 202 245,
      ra_fg_muted = Rgb 134 145 190, ra_fg_subtle = Rgb 86 95 137, ra_fg_inverse = Rgb 26 27 38,
      ra_sel_bg = Rgb 55 65 115, ra_sel_fg = Rgb 255 255 255, ra_cyan = Rgb 125 207 255,
      ra_purple = Rgb 187 154 247, ra_green = Rgb 158 206 106, ra_yellow = Rgb 224 175 104,
      ra_red = Rgb 247 118 142, ra_blue = Rgb 122 162 247\<rparr>"

definition TOKYO_NIGHT_256 :: Ramp where
  "TOKYO_NIGHT_256 =
     \<lparr>ra_bg = Indexed 234, ra_bg_alt = Indexed 235, ra_surface = Indexed 236,
      ra_overlay = Indexed 237, ra_border = Indexed 238, ra_fg = Indexed 189,
      ra_fg_muted = Indexed 146, ra_fg_subtle = Indexed 60, ra_fg_inverse = Indexed 234,
      ra_sel_bg = Indexed 60, ra_sel_fg = Indexed 255, ra_cyan = Indexed 117,
      ra_purple = Indexed 141, ra_green = Indexed 149, ra_yellow = Indexed 179,
      ra_red = Indexed 210, ra_blue = Indexed 111\<rparr>"

definition TOKYO_DAY_RGB :: Ramp where
  "TOKYO_DAY_RGB =
     \<lparr>ra_bg = Rgb 225 226 231, ra_bg_alt = Rgb 213 214 219, ra_surface = Rgb 200 202 212,
      ra_overlay = Rgb 183 193 227, ra_border = Rgb 160 166 189, ra_fg = Rgb 52 59 88,
      ra_fg_muted = Rgb 101 109 145, ra_fg_subtle = Rgb 132 140 181, ra_fg_inverse = Rgb 225 226 231,
      ra_sel_bg = Rgb 183 193 227, ra_sel_fg = Rgb 26 27 38, ra_cyan = Rgb 0 113 151,
      ra_purple = Rgb 120 71 189, ra_green = Rgb 88 117 57, ra_yellow = Rgb 140 108 62,
      ra_red = Rgb 196 26 74, ra_blue = Rgb 45 91 179\<rparr>"

definition TOKYO_DAY_256 :: Ramp where
  "TOKYO_DAY_256 =
     \<lparr>ra_bg = Indexed 255, ra_bg_alt = Indexed 254, ra_surface = Indexed 253,
      ra_overlay = Indexed 252, ra_border = Indexed 247, ra_fg = Indexed 236,
      ra_fg_muted = Indexed 60, ra_fg_subtle = Indexed 103, ra_fg_inverse = Indexed 255,
      ra_sel_bg = Indexed 152, ra_sel_fg = Indexed 232, ra_cyan = Indexed 31,
      ra_purple = Indexed 91, ra_green = Indexed 64, ra_yellow = Indexed 136,
      ra_red = Indexed 125, ra_blue = Indexed 26\<rparr>"

definition ANSI_DARK :: Ramp where
  "ANSI_DARK =
     \<lparr>ra_bg = Reset, ra_bg_alt = Reset, ra_surface = Black,
      ra_overlay = Black, ra_border = DarkGray, ra_fg = Gray,
      ra_fg_muted = DarkGray, ra_fg_subtle = DarkGray, ra_fg_inverse = Black,
      ra_sel_bg = Blue, ra_sel_fg = White, ra_cyan = Cyan,
      ra_purple = Magenta, ra_green = Green, ra_yellow = Yellow,
      ra_red = Red, ra_blue = Blue\<rparr>"

definition NO_COLOR :: Ramp where
  "NO_COLOR =
     \<lparr>ra_bg = Reset, ra_bg_alt = Reset, ra_surface = Reset,
      ra_overlay = Reset, ra_border = Reset, ra_fg = Reset,
      ra_fg_muted = Reset, ra_fg_subtle = Reset, ra_fg_inverse = Reset,
      ra_sel_bg = Reset, ra_sel_fg = Reset, ra_cyan = Reset,
      ra_purple = Reset, ra_green = Reset, ra_yellow = Reset,
      ra_red = Reset, ra_blue = Reset\<rparr>"

definition ramp_for :: "ThemeKind \<Rightarrow> ColorSupport \<Rightarrow> Ramp" where
  "ramp_for kind support =
     (if support = NoColor \<or> kind = Mono then NO_COLOR
      else case (kind, support) of
        (TokyoNight, TrueColor) \<Rightarrow> TOKYO_NIGHT_RGB
      | (TokyoNight, Colors256) \<Rightarrow> TOKYO_NIGHT_256
      | (TokyoNight, Basic) \<Rightarrow> ANSI_DARK
      | (TokyoNightLight, TrueColor) \<Rightarrow> TOKYO_DAY_RGB
      | (TokyoNightLight, Colors256) \<Rightarrow> TOKYO_DAY_256
      | (TokyoNightLight, Basic) \<Rightarrow> ANSI_DARK
      | _ \<Rightarrow> NO_COLOR)"

section \<open>The theme\<close>

record Theme =
  th_bg :: Color
  th_surface :: Color
  th_header_bg :: Color
  th_overlay_bg :: Color
  th_border :: Color
  th_border_focus :: Color
  th_fg :: Color
  th_text_dim :: Color
  th_text_subtle :: Color
  th_fg_inverse :: Color
  th_accent_primary :: Color
  th_accent_secondary :: Color
  th_selection_bg :: Color
  th_selection_fg :: Color
  th_selection_edge :: Color
  th_success :: Color
  th_warning :: Color
  th_danger :: Color
  th_info :: Color
  th_sleeping :: Color
  th_bar_empty :: Color
  th_scrollbar_thumb :: Color
  th_scrollbar_track :: Color
  th_mono :: bool
  th_light :: bool

definition with_kind :: "ThemeKind \<Rightarrow> ColorSupport \<Rightarrow> Theme" where
  "with_kind kind support =
     (let r = ramp_for kind support in
      \<lparr>th_bg = ra_bg r, th_surface = ra_bg_alt r, th_header_bg = ra_surface r,
       th_overlay_bg = ra_bg_alt r, th_border = ra_border r, th_border_focus = ra_cyan r,
       th_fg = ra_fg r, th_text_dim = ra_fg_muted r, th_text_subtle = ra_fg_subtle r,
       th_fg_inverse = ra_fg_inverse r, th_accent_primary = ra_cyan r, th_accent_secondary = ra_purple r,
       th_selection_bg = ra_sel_bg r, th_selection_fg = ra_sel_fg r, th_selection_edge = ra_cyan r,
       th_success = ra_green r, th_warning = ra_yellow r, th_danger = ra_red r,
       th_info = ra_blue r, th_sleeping = ra_fg_subtle r, th_bar_empty = ra_overlay r,
       th_scrollbar_thumb = ra_fg_subtle r, th_scrollbar_track = ra_overlay r, th_mono = (support = NoColor \<or> kind = Mono),
       th_light = (kind = TokyoNightLight)\<rparr>)"

definition theme_new :: "ColorSupport \<Rightarrow> Theme" where
  "theme_new support = with_kind TokyoNight support"

definition gauge_color :: "Theme \<Rightarrow> fl \<Rightarrow> Color" where
  "gauge_color t percent =
     (if fle (Fin 80) percent then th_danger t
      else if fle (Fin 50) percent then th_warning t
      else th_success t)"

primrec level_color :: "Theme \<Rightarrow> Level \<Rightarrow> Color" where
  "level_color t Info = th_info t"
| "level_color t Success = th_success t"
| "level_color t Warning = th_warning t"
| "level_color t Error = th_danger t"
| "level_color t Neutral = th_text_dim t"

section \<open>Component styles\<close>

definition body :: "Theme \<Rightarrow> Style" where
  "body t = with_bg (th_bg t) (with_fg (th_fg t) style_default)"

definition dim :: "Theme \<Rightarrow> Style" where
  "dim t = (let s = with_fg (th_text_dim t) style_default in if th_mono t then add_modifier {DIM} s else s)"

definition subtle :: "Theme \<Rightarrow> Style" where
  "subtle t = (let s = with_fg (th_text_subtle t) style_default in if th_mono t then add_modifier {DIM} s else s)"

definition strong :: "Theme \<Rightarrow> Style" where
  "strong t = add_modifier {BOLD} (with_fg (th_fg t) style_default)"

definition accent :: "Theme \<Rightarrow> Style" where
  "accent t = add_modifier {BOLD} (with_fg (th_accent_primary t) style_default)"

definition accent_fill :: "Theme \<Rightarrow> Style" where
  "accent_fill t =
     (if th_mono t then add_modifier {REVERSED, BOLD} style_default
      else add_modifier {BOLD} (with_bg (th_accent_primary t) (with_fg (th_fg_inverse t) style_default)))"

definition chrome :: "Theme \<Rightarrow> Style" where
  "chrome t = with_bg (th_header_bg t) (with_fg (th_fg t) style_default)"

definition table_header :: "Theme \<Rightarrow> Style" where
  "table_header t =
     (if th_mono t then add_modifier {BOLD, UNDERLINED} style_default
      else add_modifier {BOLD} (with_bg (th_header_bg t) (with_fg (th_accent_primary t) style_default)))"

definition selected_row :: "Theme \<Rightarrow> Style" where
  "selected_row t =
     (if th_mono t then add_modifier {REVERSED} style_default
      else add_modifier {BOLD} (with_bg (th_selection_bg t) (with_fg (th_selection_fg t) style_default)))"

definition row_style :: "Theme \<Rightarrow> bool \<Rightarrow> Style" where
  "row_style t odd_row =
     (if th_mono t then style_default
      else if odd_row then with_bg (th_surface t) (with_fg (th_fg t) style_default)
      else with_bg (th_bg t) (with_fg (th_fg t) style_default))"

definition level_style :: "Theme \<Rightarrow> Level \<Rightarrow> Style" where
  "level_style t level =
     (let s = with_fg (level_color t level) style_default in
      case (th_mono t, level) of
        (True, Error) \<Rightarrow> add_modifier {BOLD, REVERSED} s
      | (True, Warning) \<Rightarrow> add_modifier {BOLD} s
      | (True, Neutral) \<Rightarrow> add_modifier {DIM} s
      | _ \<Rightarrow> s)"

definition level_fill :: "Theme \<Rightarrow> Level \<Rightarrow> Style" where
  "level_fill t level =
     (if th_mono t then add_modifier {REVERSED, BOLD} style_default
      else add_modifier {BOLD} (with_bg (level_color t level) (with_fg (th_fg_inverse t) style_default)))"

definition border_style :: "Theme \<Rightarrow> bool \<Rightarrow> Style" where
  "border_style t focused =
     (if th_mono t then (if focused then add_modifier {BOLD} style_default else add_modifier {DIM} style_default)
      else if focused then with_fg (th_border_focus t) style_default
      else with_fg (th_border t) style_default)"

definition key_style :: "Theme \<Rightarrow> Style" where
  "key_style t =
     (if th_mono t then add_modifier {BOLD, REVERSED} style_default
      else add_modifier {BOLD} (with_bg (th_selection_bg t) (with_fg (th_fg t) style_default)))"

definition key_desc :: "Theme \<Rightarrow> Style" where
  "key_desc t =
     (if th_mono t then style_default
      else with_bg (th_header_bg t) (with_fg (th_text_dim t) style_default))"

section \<open>Facts\<close>

lemmas ramp_defs = TOKYO_NIGHT_RGB_def TOKYO_NIGHT_256_def TOKYO_DAY_RGB_def TOKYO_DAY_256_def
  ANSI_DARK_def NO_COLOR_def

lemmas style_defs = style_default_def with_fg_def with_bg_def add_modifier_def

text \<open>Every style the theme hands out, for the statement that none of them carries a colour.\<close>

definition all_levels :: "Level list" where
  "all_levels = [Info, Success, Warning, Error, Neutral]"

definition styles_of :: "Theme \<Rightarrow> Style list" where
  "styles_of t =
     [body t, dim t, subtle t, strong t, accent t, accent_fill t, chrome t, table_header t, selected_row t,
      row_style t True, row_style t False, border_style t True, border_style t False, key_style t, key_desc t] @
     map (level_style t) all_levels @ map (level_fill t) all_levels"

definition colourless :: "Style \<Rightarrow> bool" where
  "colourless s \<longleftrightarrow> st_fg s \<in> {None, Some Reset} \<and> st_bg s \<in> {None, Some Reset}"

lemma mono_theme: "support = NoColor \<or> kind = Mono \<Longrightarrow> with_kind kind support = with_kind kind NoColor"
  by (auto simp: with_kind_def ramp_for_def)

lemma no_color_styles: "list_all colourless (styles_of (with_kind kind NoColor))"
  by (simp add: styles_of_def all_levels_def with_kind_def ramp_for_def ramp_defs style_defs colourless_def
      body_def dim_def subtle_def strong_def accent_def accent_fill_def chrome_def table_header_def
      selected_row_def row_style_def border_style_def key_style_def key_desc_def level_style_def level_fill_def)

lemma mono_styles: "list_all colourless (styles_of (with_kind Mono support))"
  using no_color_styles [of Mono] mono_theme [of support Mono] by simp

lemma with_kind_colours:
  "th_info (with_kind kind support) = ra_blue (ramp_for kind support)"
  "th_success (with_kind kind support) = ra_green (ramp_for kind support)"
  "th_warning (with_kind kind support) = ra_yellow (ramp_for kind support)"
  "th_danger (with_kind kind support) = ra_red (ramp_for kind support)"
  "th_text_dim (with_kind kind support) = ra_fg_muted (ramp_for kind support)"
  "th_mono (with_kind kind support) \<longleftrightarrow> support = NoColor \<or> kind = Mono"
  by (simp_all add: with_kind_def Let_def)

lemma level_style_fields:
  "st_fg (level_style t l) = Some (level_color t l)"
  "st_mods (level_style t l) = (if th_mono t then (case l of Error \<Rightarrow> {BOLD, REVERSED} | Warning \<Rightarrow> {BOLD}
     | Neutral \<Rightarrow> {DIM} | _ \<Rightarrow> {}) else {})"
  by (simp_all add: level_style_def style_defs Let_def split: Level.split bool.split)

lemma level_colours_distinct:
  "\<not> (support = NoColor \<or> kind = Mono) \<Longrightarrow> distinct (map (level_color (with_kind kind support)) all_levels)"
  by (cases kind; cases support) (simp_all add: all_levels_def with_kind_colours ramp_for_def ramp_defs)

lemma level_style_inj:
  "level_style (with_kind kind support) a = level_style (with_kind kind support) b \<longleftrightarrow>
     a = b \<or> (support = NoColor \<or> kind = Mono) \<and> {a, b} \<subseteq> {Info, Success}"
  (is "?l \<longleftrightarrow> ?r")
proof (cases "support = NoColor \<or> kind = Mono")
  case True
  let ?t = "with_kind kind support"
  have mono: "th_mono ?t" using True by (simp add: with_kind_colours)
  have same: "level_style ?t Info = level_style ?t Success"
    using True mono by (auto simp: level_style_def with_kind_colours ramp_for_def NO_COLOR_def)
  have "?r" if ?l
    using arg_cong [OF that, of st_mods] True mono
    by (cases a; cases b) (simp_all add: level_style_fields)
  with same True show ?thesis by auto
next
  case False
  have "a = b" if ?l
    using arg_cong [OF that, of st_fg] level_colours_distinct [OF False]
    by (cases a; cases b) (simp_all add: level_style_fields all_levels_def)
  with False show ?thesis by auto
qed

lemma selection_visible: "selected_row (with_kind kind support) \<noteq> row_style (with_kind kind support) odd_row"
  by (auto simp: selected_row_def row_style_def style_defs)

section \<open>Properties\<close>

text \<open>
  Severity and selection survive every terminal. Without colour, by the environment or by the
  monochrome theme, no style of the interface sets a colour; and in every theme at every colour depth
  two severities are drawn alike only if they are the same, or both harmless on a terminal without
  colour, and the selected row never looks like another row.
\<close>

theorem severity_survives_without_colour:
  "list_all colourless (styles_of (with_kind kind NoColor)) \<and>
   list_all colourless (styles_of (with_kind Mono support)) \<and>
   (level_style (with_kind kind support) a = level_style (with_kind kind support) b \<longleftrightarrow>
      a = b \<or> (support = NoColor \<or> kind = Mono) \<and> {a, b} \<subseteq> {Info, Success}) \<and>
   selected_row (with_kind kind support) \<noteq> row_style (with_kind kind support) odd_row"
  by (intro conjI no_color_styles mono_styles level_style_inj selection_visible)

end
