(* ===== verification/Actions.thy ===== *)
theory Actions
  imports Engine_Targets
begin

text \<open>
  Sending signals and changing priorities (\<open>muxtop-core/src/actions.rs\<close>, \<open>error.rs\<close>). The kernel
  is a parameter: for each call, given the calls made before, it answers with a return value and,
  possibly, a new \<open>errno\<close>. The state keeps the trace of calls, so that what must never be called
  can be stated. The POSIX implementations are modelled; \<open>pid_t\<close> is a 32-bit signed integer.
\<close>

section \<open>Errors\<close>

datatype CoreError =
    Collection string
  | ProcessNotFound u32
  | Permission string
  | CoreIo int
  | ChannelClosed
  | Engine EngineError
  | Cluster ClusterError

section \<open>The kernel\<close>

datatype syscall = Kill int int | SetPriority int int | GetPriority int

type_synonym kernel = "syscall list \<Rightarrow> syscall \<Rightarrow> int \<times> int option"

record os =
  calls :: "syscall list"
  errno :: int

definition syscall :: "kernel \<Rightarrow> syscall \<Rightarrow> os \<Rightarrow> int \<times> os" where
  "syscall k c s =
     (case k (calls s) c of
        (ret, e) \<Rightarrow> (ret, s\<lparr>calls := calls s @ [c], errno := unwrap_or e (errno s)\<rparr>))"

definition SIGTERM :: int where "SIGTERM = 15"
definition SIGKILL :: int where "SIGKILL = 9"
definition ESRCH :: int where "ESRCH = 3"
definition EPERM :: int where "EPERM = 1"

section \<open>Actions\<close>

definition validate_pid :: "u32 \<Rightarrow> CoreError + int" where
  "validate_pid pid =
     (if 2 ^ 31 \<le> uint pid then Inl (ProcessNotFound pid)
      else if uint pid \<le> 0 then Inl (ProcessNotFound pid)
      else Inr (uint pid))"

datatype Signal = SigTerm | SigKill

fun as_libc :: "Signal \<Rightarrow> int" where
  "as_libc SigTerm = SIGTERM"
| "as_libc SigKill = SIGKILL"

fun signal_debug :: "Signal \<Rightarrow> string" where
  "signal_debug SigTerm = ''Term''"
| "signal_debug SigKill = ''Kill''"

definition kill_process :: "kernel \<Rightarrow> u32 \<Rightarrow> Signal \<Rightarrow> os \<Rightarrow> (CoreError + unit) \<times> os" where
  "kill_process k pid signal s =
     (case validate_pid pid of
        Inl e \<Rightarrow> (Inl e, s)
      | Inr pid_i32 \<Rightarrow>
          (case syscall k (Kill pid_i32 (as_libc signal)) s of
             (ret, s) \<Rightarrow>
               if ret = 0 then (Inr (), s)
               else if errno s = ESRCH then (Inl (ProcessNotFound pid), s)
               else if errno s = EPERM then
                 (Inl (Permission (''permission denied sending signal '' @ signal_debug signal @
                    '' to pid '' @ dec (unat pid))), s)
               else (Inl (CoreIo (errno s)), s)))"

definition set_errno_raw :: "int \<Rightarrow> os \<Rightarrow> os" where
  "set_errno_raw v s = s\<lparr>errno := v\<rparr>"

definition renice_process :: "kernel \<Rightarrow> u32 \<Rightarrow> int \<Rightarrow> os \<Rightarrow> (CoreError + unit) \<times> os" where
  "renice_process k pid nice_value s =
     (case validate_pid pid of
        Inl e \<Rightarrow> (Inl e, s)
      | Inr pid_i32 \<Rightarrow>
          (case syscall k (SetPriority pid_i32 nice_value) (set_errno_raw 0 s) of
             (ret, s) \<Rightarrow>
               if ret = 0 then (Inr (), s)
               else if errno s = 0 then (Inr (), s)
               else if errno s = ESRCH then (Inl (ProcessNotFound pid), s)
               else if errno s = EPERM then
                 (Inl (Permission (''permission denied changing priority of pid '' @ dec (unat pid) @
                    '' to '' @ dec_int nice_value)), s)
               else (Inl (CoreIo (errno s)), s)))"

definition get_process_priority :: "kernel \<Rightarrow> u32 \<Rightarrow> os \<Rightarrow> (CoreError + int) \<times> os" where
  "get_process_priority k pid s =
     (case validate_pid pid of
        Inl e \<Rightarrow> (Inl e, s)
      | Inr pid_i32 \<Rightarrow>
          (case syscall k (GetPriority pid_i32) (set_errno_raw 0 s) of
             (ret, s) \<Rightarrow>
               if errno s = 0 then (Inr ret, s)
               else if errno s = ESRCH then (Inl (ProcessNotFound pid), s)
               else if errno s = EPERM then
                 (Inl (Permission (''permission denied reading priority of pid '' @ dec (unat pid))), s)
               else (Inl (CoreIo (errno s)), s)))"

section \<open>Facts\<close>

lemma validate_pid_Inr: "validate_pid pid = Inr p \<longleftrightarrow> p = uint pid \<and> 0 < p \<and> p < 2 ^ 31"
  by (auto simp: validate_pid_def order_less_le)

lemma validate_pid_Inl: "validate_pid pid = Inl e \<Longrightarrow> e = ProcessNotFound pid"
  by (auto simp: validate_pid_def split: if_splits)

text \<open>A call that may be made: on one process, with a positive id that fits, and a known signal.\<close>

fun safe_call :: "syscall \<Rightarrow> bool" where
  "safe_call (Kill p sig) \<longleftrightarrow> 0 < p \<and> p < 2 ^ 31 \<and> sig \<in> {SIGTERM, SIGKILL}"
| "safe_call (SetPriority p n) \<longleftrightarrow> 0 < p \<and> p < 2 ^ 31"
| "safe_call (GetPriority p) \<longleftrightarrow> 0 < p \<and> p < 2 ^ 31"

lemma as_libc_known: "as_libc sig \<in> {SIGTERM, SIGKILL}"
  by (cases sig) auto

datatype action = ActKill u32 Signal | ActRenice u32 int | ActGetPriority u32

fun do_action :: "kernel \<Rightarrow> action \<Rightarrow> os \<Rightarrow> os" where
  "do_action k (ActKill pid sig) s = snd (kill_process k pid sig s)"
| "do_action k (ActRenice pid n) s = snd (renice_process k pid n s)"
| "do_action k (ActGetPriority pid) s = snd (get_process_priority k pid s)"

lemma do_action_safe:
  "list_all safe_call (calls s) \<Longrightarrow> list_all safe_call (calls (do_action k a s))"
  using as_libc_known
  by (cases a) (auto simp: kill_process_def renice_process_def get_process_priority_def syscall_def
      set_errno_raw_def validate_pid_Inr split: sum.splits prod.splits)

lemma do_actions_safe:
  "list_all safe_call (calls s) \<Longrightarrow> list_all safe_call (calls (fold (do_action k) acts s))"
  by (induction acts arbitrary: s) (simp_all add: do_action_safe)

text \<open>A kernel as POSIX specifies these calls: -1 with \<open>errno\<close> set on failure, else \<open>errno\<close> unset.\<close>

definition posix_kernel :: "kernel \<Rightarrow> bool" where
  "posix_kernel k \<longleftrightarrow>
     (\<forall>h c. case k h c of
        (ret, Some e) \<Rightarrow> ret = -1 \<and> e \<noteq> 0
      | (ret, None) \<Rightarrow> (case c of GetPriority _ \<Rightarrow> True | _ \<Rightarrow> ret = 0))"

section \<open>Properties\<close>

text \<open>
  C36. Whatever process ids the interface passes, and whatever the kernel answers, no sequence of
  actions ever calls \<open>kill\<close>, \<open>setpriority\<close> or \<open>getpriority\<close> with an id that is zero or negative
  (a process group or every process), nor \<open>kill\<close> with a signal other than TERM and KILL.
\<close>

theorem only_safe_syscalls:
  "list_all safe_call (calls (fold (do_action k) acts \<lparr>calls = [], errno = e\<rparr>))"
  by (rule do_actions_safe) simp

text \<open>
  An id that does not fit a positive \<open>pid_t\<close> is refused before any system call, as a process
  that was not found, and the state is untouched.
\<close>

theorem invalid_pid_no_syscall:
  assumes "pid = 0 \<or> 2 ^ 31 \<le> uint pid"
  shows "kill_process k pid sig s = (Inl (ProcessNotFound pid), s) \<and>
    renice_process k pid n s = (Inl (ProcessNotFound pid), s) \<and>
    get_process_priority k pid s = (Inl (ProcessNotFound pid), s)"
  using assms
  by (auto simp: kill_process_def renice_process_def get_process_priority_def validate_pid_def)

theorem invalid_pid_no_syscall_witness:
  "kill_process (\<lambda>_ _. (0, None)) 4294967295 SigKill \<lparr>calls = [], errno = 0\<rparr> =
     (Inl (ProcessNotFound 4294967295), \<lparr>calls = [], errno = 0\<rparr>)"
  using invalid_pid_no_syscall [of 4294967295] by simp

text \<open>
  The priority of a process is read correctly although -1 is both an error return and a valid
  priority, even when \<open>errno\<close> holds the error of an earlier call: on a POSIX kernel the value is
  returned exactly when the call succeeded, and a failure is reported by kind.
\<close>

theorem priority_read_correct:
  assumes "posix_kernel k" "0 < uint pid" "uint pid < 2 ^ 31"
  shows "fst (get_process_priority k pid s) =
    (case k (calls s) (GetPriority (uint pid)) of
       (ret, None) \<Rightarrow> Inr ret
     | (ret, Some e) \<Rightarrow>
         Inl (if e = ESRCH then ProcessNotFound pid
              else if e = EPERM then Permission (''permission denied reading priority of pid '' @ dec (unat pid))
              else CoreIo e))"
proof -
  have v: "validate_pid pid = Inr (uint pid)" using assms(2,3) by (simp add: validate_pid_Inr)
  obtain ret e where k: "k (calls s) (GetPriority (uint pid)) = (ret, e)" by fastforce
  have "e \<noteq> Some 0"
    using assms(1) k unfolding posix_kernel_def by (metis (mono_tags, lifting) case_prod_conv option.simps(5))
  with v k show ?thesis
    by (cases e) (auto simp: get_process_priority_def syscall_def set_errno_raw_def)
qed

definition sample_kernel :: kernel where
  "sample_kernel h c = (case c of GetPriority p \<Rightarrow> if p = 7 then (-1, None) else (-1, Some 3) | _ \<Rightarrow> (0, None))"

theorem priority_read_correct_witness:
  "fst (get_process_priority sample_kernel 7 \<lparr>calls = [], errno = 13\<rparr>) = Inr (-1) \<and>
   fst (get_process_priority sample_kernel 8 \<lparr>calls = [], errno = 13\<rparr>) = Inl (ProcessNotFound 8)"
proof -
  have "posix_kernel sample_kernel"
    by (auto simp: posix_kernel_def sample_kernel_def split: syscall.splits)
  from priority_read_correct [OF this, of 7] priority_read_correct [OF this, of 8]
  show ?thesis by (simp add: sample_kernel_def ESRCH_def)
qed

end
