(* ===== verification/Keymap.thy ===== *)
theory Keymap
  imports Actions
begin

text \<open>
  The keymap (\<open>muxtop-tui/src/keymap.rs\<close>): the table of bindings as the code has it, resolution of a
  key press to an action on a tab, and the help rows and hints derived from the table. A character
  key carries the UTF-8 encoding of its character; of the modifier bits the code distinguishes
  \<open>CONTROL\<close>, \<open>ALT\<close>, \<open>SHIFT\<close> and the rest.
\<close>

section \<open>Tabs and actions\<close>

datatype Tab = TGeneral | TProcesses | TNetwork | TContainers | TKube | TGpu

definition Tab_ALL :: "Tab list" where
  "Tab_ALL = [TGeneral, TProcesses, TNetwork, TContainers, TKube, TGpu]"

fun tab_label :: "Tab \<Rightarrow> string" where
  "tab_label TGeneral = ''General''"
| "tab_label TProcesses = ''Processes''"
| "tab_label TNetwork = ''Network''"
| "tab_label TContainers = ''Containers''"
| "tab_label TKube = ''Kube''"
| "tab_label TGpu = ''GPU''"

definition tab_next :: "Tab \<Rightarrow> Tab" where
  "tab_next t = Tab_ALL ! ((unwrap_or (position (\<lambda>x. x = t) Tab_ALL) 0 + 1) mod length Tab_ALL)"

definition tab_prev :: "Tab \<Rightarrow> Tab" where
  "tab_prev t = Tab_ALL ! ((unwrap_or (position (\<lambda>x. x = t) Tab_ALL) 0 + length Tab_ALL - 1) mod length Tab_ALL)"

datatype KubeSubview = KVPods | KVNodes | KVDeployments

datatype GpuSubview = GVDevices | GVProcs

datatype Action =
    AQuit | AHelp | APalette | ACommandMode | ATogglePause | ARefresh | AToggleLog
  | ANextTab | APrevTab | AGoTab Tab | ANextSubview | APrevSubview
  | ARowDown | ARowUp | ARowPageDown | ARowPageUp | ARowHalfDown | ARowHalfUp | ARowFirst | ARowLast
  | AColLeft | AColRight | AOpenInspector | AActionsMenu | ACopySelection
  | AOpenFilter | ABack | ACycleSort | AReverseSort
  | AToggleTree | ARenice int | AKill Signal
  | AContainerStop | AContainerKill | AContainerRestart
  | AKubeSubview KubeSubview | AToggleKubeScope
  | AGpuSubview GpuSubview

fun is_local_only :: "Action \<Rightarrow> bool" where
  "is_local_only (ARenice _) = True"
| "is_local_only (AKill _) = True"
| "is_local_only AContainerStop = True"
| "is_local_only AContainerKill = True"
| "is_local_only AContainerRestart = True"
| "is_local_only AToggleKubeScope = True"
| "is_local_only _ = False"

section \<open>Bindings\<close>

datatype Scope = Global | OnTab Tab

fun scope_matches :: "Scope \<Rightarrow> Tab \<Rightarrow> bool" where
  "scope_matches Global tab = True"
| "scope_matches (OnTab t) tab = (t = tab)"

datatype Group = GNavigation | GTable | GSortFilter | GActions | GApp

fun group_title :: "Group \<Rightarrow> string" where
  "group_title GNavigation = ''NAVIGATION''"
| "group_title GTable = ''TABLE''"
| "group_title GSortFilter = ''SORT & FILTER''"
| "group_title GActions = ''ACTIONS''"
| "group_title GApp = ''APPLICATION''"

datatype KeyCode =
    KChar string | KF nat | KEsc | KEnter | KTab | KBackTab | KBackspace
  | KUp | KDown | KLeft | KRight | KPageUp | KPageDown | KHome | KEnd | KOther nat

datatype KeyModifiers = Mods (km_control: bool) (km_alt: bool) (km_shift: bool) (km_other: bool)

definition MNONE :: KeyModifiers where "MNONE = Mods False False False False"
definition MCTRL :: KeyModifiers where "MCTRL = Mods True False False False"
definition MALT :: KeyModifiers where "MALT = Mods False True False False"

record Binding =
  b_code :: KeyCode
  b_mods :: KeyModifiers
  b_action :: Action
  b_scope :: Scope
  b_group :: Group
  b_display :: string
  b_label :: string
  b_hint :: bool
  b_primary :: bool

definition bind ::
    "KeyCode \<Rightarrow> KeyModifiers \<Rightarrow> Action \<Rightarrow> Scope \<Rightarrow> Group \<Rightarrow> string \<Rightarrow> string \<Rightarrow> bool \<Rightarrow> bool \<Rightarrow> Binding" where
  "bind c m a s g d l h p =
     \<lparr>b_code = c, b_mods = m, b_action = a, b_scope = s, b_group = g, b_display = d, b_label = l,
      b_hint = h, b_primary = p\<rparr>"

text \<open>The table, in the sections of the source.\<close>

definition process_bindings :: "Binding list" where
  "process_bindings =
     [bind (KChar ''t'') MNONE (AToggleTree) (OnTab TProcesses) GTable ''t'' ''Tree view'' True True,
      bind (KF 5) MNONE (AToggleTree) (OnTab TProcesses) GTable ''F5'' ''Tree view'' False False,
      bind (KF 7) MNONE (ARenice 1) (OnTab TProcesses) GActions ''F7'' ''Lower priority (nice +1)'' False True,
      bind (KChar ''-'') MNONE (ARenice 1) (OnTab TProcesses) GActions ''-'' ''Lower priority (nice +1)'' False False,
      bind (KF 8) MNONE (ARenice (-1)) (OnTab TProcesses) GActions ''F8'' ''Raise priority (nice -1)'' False True,
      bind (KChar ''+'') MNONE (ARenice (-1)) (OnTab TProcesses) GActions ''+'' ''Raise priority (nice -1)'' False False,
      bind (KF 9) MNONE (AKill SigTerm) (OnTab TProcesses) GActions ''F9'' ''Kill process (SIGTERM)'' True True,
      bind (KF 10) MNONE (AKill SigKill) (OnTab TProcesses) GActions ''F10'' ''Force kill (SIGKILL)'' False True]"

definition container_bindings :: "Binding list" where
  "container_bindings =
     [bind (KF 9) MNONE (AContainerStop) (OnTab TContainers) GActions ''F9'' ''Stop container'' True True,
      bind (KF 10) MNONE (AContainerKill) (OnTab TContainers) GActions ''F10'' ''Kill container'' False True,
      bind (KF 11) MNONE (AContainerRestart) (OnTab TContainers) GActions ''F11'' ''Restart container'' False True]"

definition kube_bindings :: "Binding list" where
  "kube_bindings =
     [bind (KChar ''P'') MNONE (AKubeSubview KVPods) (OnTab TKube) GNavigation ''P'' ''Pods sub-view'' True True,
      bind (KChar ''N'') MNONE (AKubeSubview KVNodes) (OnTab TKube) GNavigation ''N'' ''Nodes sub-view'' False True,
      bind (KChar ''D'') MNONE (AKubeSubview KVDeployments) (OnTab TKube) GNavigation ''D'' ''Deployments sub-view'' False True,
      bind (KChar ''A'') MNONE (AToggleKubeScope) (OnTab TKube) GActions ''A'' ''Toggle namespace scope'' True True]"

definition gpu_bindings :: "Binding list" where
  "gpu_bindings =
     [bind (KChar ''D'') MNONE (AGpuSubview GVDevices) (OnTab TGpu) GNavigation ''D'' ''Devices sub-view'' True True,
      bind (KChar ''P'') MNONE (AGpuSubview GVProcs) (OnTab TGpu) GNavigation ''P'' ''Processes sub-view'' False True]"

definition app_bindings :: "Binding list" where
  "app_bindings =
     [bind (KChar ''q'') MNONE (AQuit) (Global) GApp ''q'' ''Quit'' True True,
      bind (KChar ''c'') MCTRL (AQuit) (Global) GApp ''Ctrl+C'' ''Quit'' False False,
      bind (KChar ''?'') MNONE (AHelp) (Global) GApp ''?'' ''Help'' True True,
      bind (KF 1) MNONE (AHelp) (Global) GApp ''F1'' ''Help'' False False,
      bind (KChar ''p'') MCTRL (APalette) (Global) GApp ''Ctrl+P'' ''Command palette'' True True,
      bind (KChar ''k'') MCTRL (APalette) (Global) GApp ''Ctrl+K'' ''Command palette'' False False,
      bind (KChar '':'') MNONE (ACommandMode) (Global) GApp '':'' ''Command mode'' False True,
      bind (KChar '' '') MNONE (ATogglePause) (Global) GApp ''Space'' ''Pause / resume refresh'' True True,
      bind (KChar ''r'') MNONE (ARefresh) (Global) GApp ''r'' ''Refresh now'' False True,
      bind (KChar ''l'') MCTRL (AToggleLog) (Global) GApp ''Ctrl+L'' ''Message log'' False True]"

definition navigation_bindings :: "Binding list" where
  "navigation_bindings =
     [bind (KTab) MNONE (ANextTab) (Global) GNavigation ''Tab'' ''Next tab'' True True,
      bind (KBackTab) MNONE (APrevTab) (Global) GNavigation ''Shift+Tab'' ''Previous tab'' False True,
      bind (KChar ''1'') MALT (AGoTab TGeneral) (Global) GNavigation ''Alt+1'' ''General tab'' False True,
      bind (KChar ''2'') MALT (AGoTab TProcesses) (Global) GNavigation ''Alt+2'' ''Processes tab'' False True,
      bind (KChar ''3'') MALT (AGoTab TNetwork) (Global) GNavigation ''Alt+3'' ''Network tab'' False True,
      bind (KChar ''4'') MALT (AGoTab TContainers) (Global) GNavigation ''Alt+4'' ''Containers tab'' False True,
      bind (KChar ''5'') MALT (AGoTab TKube) (Global) GNavigation ''Alt+5'' ''Kubernetes tab'' False True,
      bind (KChar ''6'') MALT (AGoTab TGpu) (Global) GNavigation ''Alt+6'' ''GPU tab'' False True,
      bind (KChar '']'') MNONE (ANextSubview) (Global) GNavigation '']'' ''Next sub-view'' False True,
      bind (KChar ''['') MNONE (APrevSubview) (Global) GNavigation ''['' ''Previous sub-view'' False True]"

definition row_bindings :: "Binding list" where
  "row_bindings =
     [bind (KChar ''j'') MNONE (ARowDown) (Global) GTable ''j'' ''Move down'' False True,
      bind (KDown) MNONE (ARowDown) (Global) GTable ([CHR 0xE2] @ [CHR 0x86] @ [CHR 0x93]) ''Move down'' False False,
      bind (KChar ''k'') MNONE (ARowUp) (Global) GTable ''k'' ''Move up'' False True,
      bind (KUp) MNONE (ARowUp) (Global) GTable ([CHR 0xE2] @ [CHR 0x86] @ [CHR 0x91]) ''Move up'' False False,
      bind (KPageDown) MNONE (ARowPageDown) (Global) GTable ''PgDn'' ''Page down'' False True,
      bind (KPageUp) MNONE (ARowPageUp) (Global) GTable ''PgUp'' ''Page up'' False True,
      bind (KChar ''d'') MCTRL (ARowHalfDown) (Global) GTable ''Ctrl+D'' ''Half page down'' False True,
      bind (KChar ''u'') MCTRL (ARowHalfUp) (Global) GTable ''Ctrl+U'' ''Half page up'' False True,
      bind (KChar ''g'') MNONE (ARowFirst) (Global) GTable ''g'' ''First row'' False True,
      bind (KHome) MNONE (ARowFirst) (Global) GTable ''Home'' ''First row'' False False,
      bind (KChar ''G'') MNONE (ARowLast) (Global) GTable ''G'' ''Last row'' False True,
      bind (KEnd) MNONE (ARowLast) (Global) GTable ''End'' ''Last row'' False False]"

definition column_bindings :: "Binding list" where
  "column_bindings =
     [bind (KChar ''h'') MNONE (AColLeft) (Global) GTable ''h'' ''Scroll columns left'' False True,
      bind (KLeft) MNONE (AColLeft) (Global) GTable ([CHR 0xE2] @ [CHR 0x86] @ [CHR 0x90]) ''Scroll columns left'' False False,
      bind (KChar ''l'') MNONE (AColRight) (Global) GTable ''l'' ''Scroll columns right'' False True,
      bind (KRight) MNONE (AColRight) (Global) GTable ([CHR 0xE2] @ [CHR 0x86] @ [CHR 0x92]) ''Scroll columns right'' False False,
      bind (KEnter) MNONE (AOpenInspector) (Global) GTable ''Enter'' ''Inspect selected row'' True True,
      bind (KChar ''i'') MNONE (AOpenInspector) (Global) GTable ''i'' ''Inspect selected row'' False False,
      bind (KChar ''x'') MNONE (AActionsMenu) (Global) GActions ''x'' ''Actions menu'' True True,
      bind (KChar ''y'') MNONE (ACopySelection) (Global) GTable ''y'' ''Copy row identifier'' False True]"

definition filter_bindings :: "Binding list" where
  "filter_bindings =
     [bind (KChar ''/'') MNONE (AOpenFilter) (Global) GSortFilter ''/'' ''Filter'' True True,
      bind (KF 4) MNONE (AOpenFilter) (Global) GSortFilter ''F4'' ''Filter'' False False,
      bind (KF 3) MNONE (AOpenFilter) (Global) GSortFilter ''F3'' ''Search'' False False,
      bind (KChar ''s'') MNONE (ACycleSort) (Global) GSortFilter ''s'' ''Cycle sort column'' True True,
      bind (KF 6) MNONE (ACycleSort) (Global) GSortFilter ''F6'' ''Cycle sort column'' False False,
      bind (KChar ''S'') MNONE (AReverseSort) (Global) GSortFilter ''S'' ''Reverse sort order'' False True,
      bind (KChar ''I'') MNONE (AReverseSort) (Global) GSortFilter ''I'' ''Reverse sort order'' False False,
      bind (KEsc) MNONE (ABack) (Global) GSortFilter ''Esc'' ''Back / clear filter'' False True]"

definition BINDINGS :: "Binding list" where
  "BINDINGS =
     process_bindings @ container_bindings @ kube_bindings @ gpu_bindings @
     app_bindings @ navigation_bindings @ row_bindings @ column_bindings @ filter_bindings"

lemmas bindings_defs = BINDINGS_def process_bindings_def container_bindings_def kube_bindings_def gpu_bindings_def app_bindings_def navigation_bindings_def row_bindings_def column_bindings_def filter_bindings_def

section \<open>Resolution\<close>

definition normalise :: "KeyCode \<Rightarrow> KeyModifiers \<Rightarrow> KeyModifiers" where
  "normalise code mods =
     (let m = (case code of KChar _ \<Rightarrow> Mods (km_control mods) (km_alt mods) False (km_other mods) | _ \<Rightarrow> mods)
      in Mods (km_control m) (km_alt m) False False)"

definition resolve :: "KeyCode \<Rightarrow> KeyModifiers \<Rightarrow> Tab \<Rightarrow> Action option" where
  "resolve code mods tab =
     (let mods = normalise code mods in
      map_option b_action (find (\<lambda>b. b_code b = code \<and> b_mods b = mods \<and> scope_matches (b_scope b) tab) BINDINGS))"

definition for_tab :: "Tab \<Rightarrow> Binding list" where
  "for_tab tab = filter (\<lambda>b. scope_matches (b_scope b) tab) BINDINGS"

fun help_loop :: "Scope \<Rightarrow> Binding list \<Rightarrow> Action list \<Rightarrow> (string \<times> string \<times> Group) list" where
  "help_loop scope [] seen = []"
| "help_loop scope (b # bs) seen =
     (if b_action b \<in> set seen then help_loop scope bs seen
      else (join '' '' (map b_display (filter (\<lambda>o'. b_action o' = b_action b \<and> b_scope o' = b_scope b) BINDINGS)),
            b_label b, b_group b) # help_loop scope bs (seen @ [b_action b]))"

definition help_rows :: "Tab \<Rightarrow> Scope \<Rightarrow> (string \<times> string \<times> Group) list" where
  "help_rows tab scope =
     help_loop scope (filter (\<lambda>b. b_scope b = scope \<and> scope_matches (b_scope b) tab) BINDINGS) []"

definition hints :: "Tab \<Rightarrow> bool \<Rightarrow> (string \<times> string) list" where
  "hints tab remote =
     (let shown = filter (\<lambda>b. \<not> (remote \<and> is_local_only (b_action b))) in
      map (\<lambda>b. (b_display b, b_label b)) (shown (filter (\<lambda>b. b_hint b \<and> b_scope b = OnTab tab) BINDINGS)) @
      map (\<lambda>b. (b_display b, b_label b))
        (shown (filter (\<lambda>b. b_hint b \<and> b_scope b = Global \<and> b_primary b) BINDINGS)))"

section \<open>Lemmas\<close>

lemma normalise_simps [simp]:
  "normalise code mods = Mods (km_control mods) (km_alt mods) False False"
  by (simp add: normalise_def split: KeyCode.split)

lemma tab_cycle: "tab_next (tab_prev t) = t" "tab_prev (tab_next t) = t"
  by (cases t; simp add: tab_next_def tab_prev_def Tab_ALL_def)+

text \<open>Two bindings are disjoint when no key press on a tab could mean both.\<close>

fun overlap :: "Scope \<Rightarrow> Scope \<Rightarrow> bool" where
  "overlap (OnTab s) (OnTab t) = (s = t)"
| "overlap _ _ = True"

definition disjoint_keys :: "Binding \<Rightarrow> Binding \<Rightarrow> bool" where
  "disjoint_keys b c \<longleftrightarrow> \<not> (b_code b = b_code c \<and> b_mods b = b_mods c \<and> overlap (b_scope b) (b_scope c))"

lemma overlap_iff: "overlap s t \<longleftrightarrow> (\<exists>tab. scope_matches s tab \<and> scope_matches t tab)"
  by (cases s; cases t) auto

lemma bindings_disjoint: "sorted_wrt disjoint_keys BINDINGS"
  by code_simp

lemma bindings_plain: "list_all (\<lambda>b. \<not> km_shift (b_mods b) \<and> \<not> km_other (b_mods b)) BINDINGS"
  by (simp add: bindings_defs bind_def MNONE_def MCTRL_def MALT_def)

lemma find_first_of_disjoint:
  assumes "sorted_wrt disjoint_keys bs" "b \<in> set bs" "scope_matches (b_scope b) tab"
  shows "find (\<lambda>c. b_code c = b_code b \<and> b_mods c = b_mods b \<and> scope_matches (b_scope c) tab) bs = Some b"
  using assms
proof (induction bs)
  case (Cons c bs)
  show ?case
  proof (cases "b = c")
    case False
    then have b: "b \<in> set bs" using Cons.prems(2) by simp
    then have "disjoint_keys c b" using Cons.prems(1) by simp
    then have "\<not> (b_code c = b_code b \<and> b_mods c = b_mods b \<and> scope_matches (b_scope c) tab)"
      using Cons.prems(3) by (auto simp: disjoint_keys_def overlap_iff)
    moreover have "find (\<lambda>c. b_code c = b_code b \<and> b_mods c = b_mods b \<and> scope_matches (b_scope c) tab) bs = Some b"
      using Cons b by simp
    ultimately show ?thesis by auto
  qed (use Cons.prems(3) in simp)
qed simp

lemma resolve_binding:
  assumes "b \<in> set BINDINGS" "scope_matches (b_scope b) tab"
    "km_control mods = km_control (b_mods b)" "km_alt mods = km_alt (b_mods b)"
  shows "resolve (b_code b) mods tab = Some (b_action b)"
proof -
  have "\<not> km_shift (b_mods b) \<and> \<not> km_other (b_mods b)"
    using bindings_plain assms(1) by (simp add: list_all_iff)
  then have "normalise (b_code b) mods = b_mods b" using assms(3,4) by (cases "b_mods b") simp
  then show ?thesis using find_first_of_disjoint [OF bindings_disjoint assms(1,2)]
    by (simp only: resolve_def Let_def) simp
qed

lemma resolve_Some:
  assumes "resolve code mods tab = Some a"
  obtains b where "b \<in> set BINDINGS" "b_code b = code" "b_action b = a" "scope_matches (b_scope b) tab"
  using assms by (auto simp: resolve_def Let_def dest: find_Some_in)

lemma local_only_is_tab_scoped:
  "list_all (\<lambda>b. is_local_only (b_action b) \<longrightarrow>
     b_scope b = (case b_action b of
        AKill _ \<Rightarrow> OnTab TProcesses | ARenice _ \<Rightarrow> OnTab TProcesses | AToggleKubeScope \<Rightarrow> OnTab TKube
      | _ \<Rightarrow> OnTab TContainers)) BINDINGS"
  by (simp add: bindings_defs bind_def)

definition keys_of :: "Action \<Rightarrow> Scope \<Rightarrow> string" where
  "keys_of a scope = join '' '' (map b_display (filter (\<lambda>b. b_action b = a \<and> b_scope b = scope) BINDINGS))"

lemma help_loop_keys:
  assumes "\<forall>c\<in>set bs. b_scope c = scope" "b \<in> set bs" "b_action b \<notin> set seen"
  shows "keys_of (b_action b) scope \<in> fst ` set (help_loop scope bs seen)"
  using assms
proof (induction bs arbitrary: seen)
  case (Cons c bs)
  show ?case
  proof (cases "b_action c = b_action b")
    case True
    then have "b_action c \<notin> set seen" "b_scope c = scope" using Cons.prems by auto
    then show ?thesis using True by (simp add: keys_of_def)
  next
    case False
    then have "b \<in> set bs" using Cons.prems(2) by auto
    with False Cons.prems show ?thesis by (simp add: Cons.IH)
  qed
qed simp

text \<open>Every binding is documented: its key is in the row of its action on the help screen.\<close>

lemma help_lists_every_binding:
  assumes "b \<in> set BINDINGS" "scope_matches (b_scope b) tab"
  shows "keys_of (b_action b) (b_scope b) \<in> fst ` set (help_rows tab (b_scope b))"
  unfolding help_rows_def using assms by (intro help_loop_keys) auto

section \<open>Properties\<close>

text \<open>
  The keymap has no dead and no ambiguous binding: on every tab where it applies, pressing the
  key of a binding triggers the action of that binding and no other, whatever the state of the shift
  and lock modifiers.
\<close>

theorem every_binding_fires:
  assumes "b \<in> set BINDINGS" and "scope_matches (b_scope b) tab"
    and "km_control mods = km_control (b_mods b)" and "km_alt mods = km_alt (b_mods b)"
  shows "resolve (b_code b) mods tab = Some (b_action b)"
  by (rule resolve_binding [OF assms])

theorem every_binding_fires_witness:
  "resolve (KF 9) (Mods False False True True) TProcesses = Some (AKill SigTerm)"
proof -
  let ?b = "bind (KF 9) MNONE (AKill SigTerm) (OnTab TProcesses) GActions ''F9'' ''Kill process (SIGTERM)'' True True"
  have "?b \<in> set BINDINGS" by (simp add: bindings_defs)
  from every_binding_fires [OF this, of TProcesses "Mods False False True True"]
  show ?thesis by (simp add: bind_def MNONE_def)
qed

text \<open>
  No key reaches an action that changes something outside muxtop except on the tab that shows
  its target: signals and priorities only on the process tab, container actions only on the
  container tab, the namespace scope only on the cluster tab.
\<close>

theorem destructive_keys_are_tab_scoped:
  assumes "resolve code mods tab = Some a" and "is_local_only a"
  shows "tab = (case a of AKill _ \<Rightarrow> TProcesses | ARenice _ \<Rightarrow> TProcesses | AToggleKubeScope \<Rightarrow> TKube
                | _ \<Rightarrow> TContainers)"
proof -
  from assms(1) obtain b where b: "b \<in> set BINDINGS" "b_action b = a" "scope_matches (b_scope b) tab"
    by (rule resolve_Some)
  with local_only_is_tab_scoped assms(2) have
    "b_scope b = (case a of AKill _ \<Rightarrow> OnTab TProcesses | ARenice _ \<Rightarrow> OnTab TProcesses | AToggleKubeScope \<Rightarrow> OnTab TKube
      | _ \<Rightarrow> OnTab TContainers)" by (auto simp: list_all_iff)
  with b(3) show ?thesis by (cases a) auto
qed

theorem destructive_keys_are_tab_scoped_witness:
  "resolve (KF 10) MNONE TContainers = Some AContainerKill \<and> TContainers \<noteq> TProcesses"
proof -
  have r: "resolve (KF 10) MNONE TContainers = Some AContainerKill"
    by (simp add: resolve_def bindings_defs bind_def MNONE_def MCTRL_def MALT_def)
  from destructive_keys_are_tab_scoped [OF r] r show ?thesis by simp
qed

end
