(* ===== verification/Views.thy ===== *)
theory Views
  imports Process_Table Network_History Keymap
begin

text \<open>
  The projections behind the tables of \<open>muxtop-tui\<close>: the sort fields of each tab and how they
  cycle (\<open>app.rs\<close>), the filtered and sorted rows of the Kube, GPU, Network and Containers tabs
  (\<open>ui/kube.rs\<close>, \<open>ui/gpu.rs\<close>, \<open>ui/network.rs\<close>, \<open>app.rs\<close>), the connectors of the process tree
  (\<open>ui/processes.rs\<close>), the viewport arithmetic (\<open>ui/widgets/mod.rs\<close>) and the responsive column
  layout (\<open>ui/widgets/columns.rs\<close>). \<open>sort_by\<close> is the standard library's stable sort; it fixes an
  order for comparators that are not total, which the library leaves open (only reachable here with
  not-a-number CPU values).
\<close>

section \<open>Viewport\<close>

definition viewport_offset :: "nat \<Rightarrow> nat \<Rightarrow> nat \<Rightarrow> nat" where
  "viewport_offset selected offset height =
     (if height = 0 then 0
      else if selected < offset then selected
      else if offset + height \<le> selected then selected - (height - 1)
      else offset)"

definition clamp_selection :: "nat \<Rightarrow> nat \<Rightarrow> nat" where
  "clamp_selection selected cnt = (if cnt = 0 then 0 else min selected (cnt - 1))"

section \<open>Sort fields\<close>

datatype NetworkSortField = NSF_Name | NSF_RxRate | NSF_TxRate | NSF_TotalRx | NSF_TotalTx | NSF_Errors

datatype ContainerSortField = CSF_Name | CSF_Cpu | CSF_Mem | CSF_NetRx | CSF_NetTx | CSF_Uptime

datatype KubeSortField =
    PodName | PodCpu | PodMem | PodRestarts | PodAge | PodPhase
  | NodeName | NodeCpuPct | NodeMemPct | NodePodCount | NodeAge
  | DeployNamespace | DeployName | DeployReadyRatio | DeployAge

datatype GpuSortField =
    DeviceIndex | DeviceName | DeviceUtil | DeviceMem | DeviceTemp | DevicePower
  | ProcPid | ProcName | ProcMem | ProcDevice

fun kube_default_for :: "KubeSubview \<Rightarrow> KubeSortField" where
  "kube_default_for KVPods = PodCpu"
| "kube_default_for KVNodes = NodeCpuPct"
| "kube_default_for KVDeployments = DeployName"

fun gpu_default_for :: "GpuSubview \<Rightarrow> GpuSortField" where
  "gpu_default_for GVDevices = DeviceIndex"
| "gpu_default_for GVProcs = ProcMem"

fun next_sort_field :: "SortField \<Rightarrow> SortField" where
  "next_sort_field SF_Cpu = SF_Mem"
| "next_sort_field SF_Mem = SF_Pid"
| "next_sort_field SF_Pid = SF_Name"
| "next_sort_field SF_Name = SF_User"
| "next_sort_field SF_User = SF_Cpu"

fun next_net_sort_field :: "NetworkSortField \<Rightarrow> NetworkSortField" where
  "next_net_sort_field NSF_RxRate = NSF_TxRate"
| "next_net_sort_field NSF_TxRate = NSF_Name"
| "next_net_sort_field NSF_Name = NSF_Errors"
| "next_net_sort_field NSF_Errors = NSF_TotalRx"
| "next_net_sort_field NSF_TotalRx = NSF_TotalTx"
| "next_net_sort_field NSF_TotalTx = NSF_RxRate"

definition next_gpu_sort_field :: "GpuSortField \<Rightarrow> GpuSubview \<Rightarrow> GpuSortField" where
  "next_gpu_sort_field field sv =
     (case sv of
        GVDevices \<Rightarrow>
          (case field of
             DeviceIndex \<Rightarrow> DeviceUtil
           | DeviceUtil \<Rightarrow> DeviceMem
           | DeviceMem \<Rightarrow> DeviceTemp
           | DeviceTemp \<Rightarrow> DevicePower
           | DevicePower \<Rightarrow> DeviceName
           | DeviceName \<Rightarrow> DeviceIndex
           | _ \<Rightarrow> gpu_default_for sv)
      | GVProcs \<Rightarrow>
          (case field of
             ProcMem \<Rightarrow> ProcPid
           | ProcPid \<Rightarrow> ProcName
           | ProcName \<Rightarrow> ProcDevice
           | ProcDevice \<Rightarrow> ProcMem
           | _ \<Rightarrow> gpu_default_for sv))"

definition next_kube_sort_field :: "KubeSortField \<Rightarrow> KubeSubview \<Rightarrow> KubeSortField" where
  "next_kube_sort_field field sv =
     (case sv of
        KVPods \<Rightarrow>
          (case field of
             PodCpu \<Rightarrow> PodMem
           | PodMem \<Rightarrow> PodName
           | PodName \<Rightarrow> PodRestarts
           | PodRestarts \<Rightarrow> PodAge
           | PodAge \<Rightarrow> PodPhase
           | PodPhase \<Rightarrow> PodCpu
           | _ \<Rightarrow> kube_default_for sv)
      | KVNodes \<Rightarrow>
          (case field of
             NodeCpuPct \<Rightarrow> NodeMemPct
           | NodeMemPct \<Rightarrow> NodeName
           | NodeName \<Rightarrow> NodePodCount
           | NodePodCount \<Rightarrow> NodeAge
           | NodeAge \<Rightarrow> NodeCpuPct
           | _ \<Rightarrow> kube_default_for sv)
      | KVDeployments \<Rightarrow>
          (case field of
             DeployName \<Rightarrow> DeployReadyRatio
           | DeployReadyRatio \<Rightarrow> DeployNamespace
           | DeployNamespace \<Rightarrow> DeployAge
           | DeployAge \<Rightarrow> DeployName
           | _ \<Rightarrow> kube_default_for sv))"

fun next_container_sort_field :: "ContainerSortField \<Rightarrow> ContainerSortField" where
  "next_container_sort_field CSF_Cpu = CSF_Mem"
| "next_container_sort_field CSF_Mem = CSF_Name"
| "next_container_sort_field CSF_Name = CSF_NetRx"
| "next_container_sort_field CSF_NetRx = CSF_NetTx"
| "next_container_sort_field CSF_NetTx = CSF_Uptime"
| "next_container_sort_field CSF_Uptime = CSF_Cpu"

section \<open>The Kube tables\<close>

text \<open>\<open>sort_by_key\<close> with a key and with \<open>Reverse\<close> of a key.\<close>

definition by_key :: "('a \<Rightarrow> 'b::linorder) \<Rightarrow> 'a \<Rightarrow> 'a \<Rightarrow> bool" where
  "by_key f a b \<longleftrightarrow> f a \<le> f b"

definition by_key_rev :: "('a \<Rightarrow> 'b::linorder) \<Rightarrow> 'a \<Rightarrow> 'a \<Rightarrow> bool" where
  "by_key_rev f a b \<longleftrightarrow> f b \<le> f a"

text \<open>Comparison of a pair of keys.\<close>

definition by_keys :: "('a \<Rightarrow> 'b::linorder) \<Rightarrow> ('a \<Rightarrow> 'c::linorder) \<Rightarrow> 'a \<Rightarrow> 'a \<Rightarrow> bool" where
  "by_keys f g a b \<longleftrightarrow> f a < f b \<or> (f a = f b \<and> g a \<le> g b)"

fun phase_rank :: "PodPhase \<Rightarrow> u8" where
  "phase_rank PP_CrashLoop = 0"
| "phase_rank PP_Failed = 1"
| "phase_rank PP_Unknown = 2"
| "phase_rank PP_Pending = 3"
| "phase_rank PP_Terminating = 4"
| "phase_rank PP_Running = 5"
| "phase_rank PP_Succeeded = 6"

definition pod_le :: "KubeSortField \<Rightarrow> PodSnapshot \<Rightarrow> PodSnapshot \<Rightarrow> bool" where
  "pod_le field =
     (case field of
        PodName \<Rightarrow> by_keys pod_namespace pod_name
      | PodPhase \<Rightarrow> by_key (\<lambda>p. phase_rank (pod_phase p))
      | PodRestarts \<Rightarrow> by_key_rev pod_restarts
      | PodCpu \<Rightarrow> by_key_rev (\<lambda>p. unwrap_or (pod_cpu_millis p) 0)
      | PodMem \<Rightarrow> by_key_rev (\<lambda>p. unwrap_or (pod_mem_bytes p) 0)
      | PodAge \<Rightarrow> by_key_rev pod_age_seconds
      | _ \<Rightarrow> by_key_rev (\<lambda>p. unwrap_or (pod_cpu_millis p) 0))"

definition node_le :: "KubeSortField \<Rightarrow> NodeSnapshot \<Rightarrow> NodeSnapshot \<Rightarrow> bool" where
  "node_le field =
     (case field of
        NodeName \<Rightarrow> by_key nd_name
      | NodeMemPct \<Rightarrow> by_key_rev (\<lambda>n. unwrap_or (nd_mem_used_bytes n) 0)
      | NodePodCount \<Rightarrow> by_key_rev nd_pod_count
      | NodeAge \<Rightarrow> by_key_rev nd_age_seconds
      | _ \<Rightarrow> by_key_rev (\<lambda>n. unwrap_or (nd_cpu_used_millis n) 0))"

definition ratio :: "DeploymentSnapshot \<Rightarrow> fl" where
  "ratio d =
     (if dp_replicas_desired d = 0 then Fin 1
      else fdiv F64 (of_nat_fl F64 (unat (dp_replicas_ready d))) (of_nat_fl F64 (unat (dp_replicas_desired d))))"

definition deploy_le :: "KubeSortField \<Rightarrow> DeploymentSnapshot \<Rightarrow> DeploymentSnapshot \<Rightarrow> bool" where
  "deploy_le field =
     (case field of
        DeployNamespace \<Rightarrow> by_keys dp_namespace dp_name
      | DeployReadyRatio \<Rightarrow> (\<lambda>a b. not_gt (ratio a) (ratio b))
      | DeployAge \<Rightarrow> by_key_rev dp_age_seconds
      | _ \<Rightarrow> by_key dp_name)"

definition flip_if_asc :: "SortOrder \<Rightarrow> 'a list \<Rightarrow> 'a list" where
  "flip_if_asc order rows = (case order of Asc \<Rightarrow> rev rows | Desc \<Rightarrow> rows)"

definition sort_pods :: "nat list \<Rightarrow> PodSnapshot list \<Rightarrow> KubeSortField \<Rightarrow> SortOrder \<Rightarrow> nat list" where
  "sort_pods idx pods field order = flip_if_asc order (sort_by (\<lambda>a b. pod_le field (pods ! a) (pods ! b)) idx)"

definition sort_nodes :: "nat list \<Rightarrow> NodeSnapshot list \<Rightarrow> KubeSortField \<Rightarrow> SortOrder \<Rightarrow> nat list" where
  "sort_nodes idx nodes field order = flip_if_asc order (sort_by (\<lambda>a b. node_le field (nodes ! a) (nodes ! b)) idx)"

definition sort_deployments ::
    "nat list \<Rightarrow> DeploymentSnapshot list \<Rightarrow> KubeSortField \<Rightarrow> SortOrder \<Rightarrow> nat list" where
  "sort_deployments idx deploys field order =
     flip_if_asc order (sort_by (\<lambda>a b. deploy_le field (deploys ! a) (deploys ! b)) idx)"

definition compute_view_indices ::
    "(string \<Rightarrow> string) \<Rightarrow> KubeSnapshot \<Rightarrow> KubeSubview \<Rightarrow> string \<Rightarrow> KubeSortField \<Rightarrow> SortOrder \<Rightarrow> nat list" where
  "compute_view_indices ulc snap subview pat sort_field sort_order =
     (let needle = to_lowercase ulc pat in
      case subview of
        KVPods \<Rightarrow>
          sort_pods
            (filter (\<lambda>i. contains_ignore_case ulc (pod_name (ks_pods snap ! i)) needle \<or>
                         contains_ignore_case ulc (pod_namespace (ks_pods snap ! i)) needle)
              [0..<length (ks_pods snap)])
            (ks_pods snap) sort_field sort_order
      | KVNodes \<Rightarrow>
          sort_nodes
            (filter (\<lambda>i. contains_ignore_case ulc (nd_name (ks_nodes snap ! i)) needle)
              [0..<length (ks_nodes snap)])
            (ks_nodes snap) sort_field sort_order
      | KVDeployments \<Rightarrow>
          sort_deployments
            (filter (\<lambda>i. contains_ignore_case ulc (dp_name (ks_deployments snap ! i)) needle \<or>
                         contains_ignore_case ulc (dp_namespace (ks_deployments snap ! i)) needle)
              [0..<length (ks_deployments snap)])
            (ks_deployments snap) sort_field sort_order)"

section \<open>The GPU tables\<close>

definition f32_key :: "fl \<Rightarrow> int" where
  "f32_key v = sat_cast (- (2 ^ 63)) (2 ^ 63 - 1) (fmul F32 v (Fin 100))"

definition metric_missing :: "GpuDeviceSnapshot \<Rightarrow> GpuSortField \<Rightarrow> bool" where
  "metric_missing d field =
     (case field of
        DeviceUtil \<Rightarrow> gd_utilization_pct d = None
      | DeviceMem \<Rightarrow> gd_mem_used_bytes d = None
      | DeviceTemp \<Rightarrow> gd_temperature_c d = None
      | DevicePower \<Rightarrow> gd_power_watts d = None
      | _ \<Rightarrow> False)"

definition device_le :: "GpuSortField \<Rightarrow> GpuDeviceSnapshot \<Rightarrow> GpuDeviceSnapshot \<Rightarrow> bool" where
  "device_le field =
     (case field of
        DeviceName \<Rightarrow> by_key gd_name
      | DeviceUtil \<Rightarrow> by_key_rev (\<lambda>d. f32_key (unwrap_or (gd_utilization_pct d) (Fin 0)))
      | DeviceMem \<Rightarrow> by_key_rev (\<lambda>d. unwrap_or (gd_mem_used_bytes d) 0)
      | DeviceTemp \<Rightarrow> by_key_rev (\<lambda>d. f32_key (unwrap_or (gd_temperature_c d) (Fin 0)))
      | DevicePower \<Rightarrow> by_key_rev (\<lambda>d. f32_key (unwrap_or (gd_power_watts d) (Fin 0)))
      | _ \<Rightarrow> by_key gd_index)"

text \<open>
  Both GPU tables park the rows that lack the sorted metric: a sort by ``missing'', a split at the
  first missing row, and a sort of the part before it.
\<close>

definition park_sort :: "('a \<Rightarrow> bool) \<Rightarrow> ('a \<Rightarrow> 'a \<Rightarrow> bool) \<Rightarrow> bool \<Rightarrow> 'a list \<Rightarrow> 'a list" where
  "park_sort missing le flip rows =
     (let parked = sort_by (by_key missing) rows;
          split = unwrap_or (position missing parked) (length parked);
          reported = sort_by le (take split parked)
      in (if flip then rev reported else reported) @ drop split parked)"

definition sort_devices :: "GpuSortField \<Rightarrow> SortOrder \<Rightarrow> GpuDeviceSnapshot list \<Rightarrow> GpuDeviceSnapshot list" where
  "sort_devices field order devices =
     park_sort (\<lambda>d. metric_missing d field) (device_le field)
       ((order = Asc) \<noteq> (field = DeviceIndex \<or> field = DeviceName)) devices"

definition proc_missing :: "GpuSortField \<Rightarrow> GpuProcessSnapshot \<Rightarrow> bool" where
  "proc_missing field p \<longleftrightarrow> field = ProcMem \<and> gp_mem_bytes p = None"

definition gproc_le :: "GpuSortField \<Rightarrow> GpuProcessSnapshot \<Rightarrow> GpuProcessSnapshot \<Rightarrow> bool" where
  "gproc_le field =
     (case field of
        ProcPid \<Rightarrow> by_key gp_pid
      | ProcName \<Rightarrow> by_key gp_name
      | ProcDevice \<Rightarrow> by_keys gp_device_index gp_pid
      | _ \<Rightarrow> by_key_rev (\<lambda>p. unwrap_or (gp_mem_bytes p) 0))"

definition sort_procs :: "GpuSortField \<Rightarrow> SortOrder \<Rightarrow> GpuProcessSnapshot list \<Rightarrow> GpuProcessSnapshot list" where
  "sort_procs field order procs =
     park_sort (proc_missing field) (gproc_le field) ((order = Asc) \<noteq> (field \<noteq> ProcMem)) procs"

text \<open>The labels of the devices table, which differ from those of the snapshot.\<close>

fun table_vendor_label :: "GpuVendor \<Rightarrow> string" where
  "table_vendor_label GV_Nvidia = ''NVIDIA''"
| "table_vendor_label GV_Amd = ''AMD''"
| "table_vendor_label GV_Intel = ''Intel''"
| "table_vendor_label GV_Apple = ''Apple''"
| "table_vendor_label GV_Unknown = ''Unknown''"

definition device_rows ::
    "(string \<Rightarrow> string) \<Rightarrow> string \<Rightarrow> GpuSortField \<Rightarrow> SortOrder \<Rightarrow> GpusSnapshot \<Rightarrow> GpuDeviceSnapshot list" where
  "device_rows ulc pat field order snap =
     (let f = to_lowercase ulc pat in
      sort_devices field order
        (filter (\<lambda>d. f = [] \<or> str_contains (to_lowercase ulc (gd_name d)) f \<or>
                     str_contains (to_lowercase ulc (table_vendor_label (gd_vendor d))) f) (gs_devices snap)))"

definition proc_rows ::
    "(string \<Rightarrow> string) \<Rightarrow> string \<Rightarrow> GpuSortField \<Rightarrow> SortOrder \<Rightarrow> GpusSnapshot \<Rightarrow> GpuProcessSnapshot list" where
  "proc_rows ulc pat field order snap =
     (let f = to_lowercase ulc pat in
      sort_procs field order
        (filter (\<lambda>p. f = [] \<or> str_contains (to_lowercase ulc (gp_name p)) f) (gs_processes snap)))"

section \<open>The Network and Containers tables\<close>

definition visible_interfaces :: "(string \<Rightarrow> string) \<Rightarrow> string \<Rightarrow> SystemSnapshot option \<Rightarrow> NetworkInterfaceSnapshot list" where
  "visible_interfaces ulc pat snap =
     (case snap of
        None \<Rightarrow> []
      | Some s \<Rightarrow>
          let f = to_lowercase ulc pat in
          filter (\<lambda>i. f = [] \<or> str_contains (to_lowercase ulc (if_name i)) f) (interfaces (ss_networks s)))"

definition iface_le :: "NetworkHistory \<Rightarrow> NetworkSortField \<Rightarrow> NetworkInterfaceSnapshot \<Rightarrow> NetworkInterfaceSnapshot \<Rightarrow> bool" where
  "iface_le history field =
     (case field of
        NSF_Name \<Rightarrow> by_key if_name
      | NSF_RxRate \<Rightarrow> (\<lambda>a b. not_gt (bandwidth_rx history (if_name b)) (bandwidth_rx history (if_name a)))
      | NSF_TxRate \<Rightarrow> (\<lambda>a b. not_gt (bandwidth_tx history (if_name b)) (bandwidth_tx history (if_name a)))
      | NSF_TotalRx \<Rightarrow> by_key_rev bytes_rx
      | NSF_TotalTx \<Rightarrow> by_key_rev bytes_tx
      | NSF_Errors \<Rightarrow> by_key_rev (\<lambda>i. errors_rx i + errors_tx i))"

definition sorted_interfaces ::
    "(string \<Rightarrow> string) \<Rightarrow> string \<Rightarrow> NetworkHistory \<Rightarrow> NetworkSortField \<Rightarrow> SortOrder \<Rightarrow> SystemSnapshot option \<Rightarrow>
     NetworkInterfaceSnapshot list" where
  "sorted_interfaces ulc pat history field order snap =
     (let rows = sort_by (iface_le history field) (visible_interfaces ulc pat snap) in
      if (order = Asc) \<noteq> (field = NSF_Name) then rev rows else rows)"

definition container_matches :: "(string \<Rightarrow> string) \<Rightarrow> string \<Rightarrow> ContainerSnapshot \<Rightarrow> bool" where
  "container_matches ulc f c \<longleftrightarrow>
     str_contains (to_lowercase ulc (ct_name c)) f \<or>
     str_contains (to_lowercase ulc (ct_image c)) f \<or>
     str_contains (to_lowercase ulc (ct_id c)) f"

definition container_le :: "ContainerSortField \<Rightarrow> ContainerSnapshot \<Rightarrow> ContainerSnapshot \<Rightarrow> bool" where
  "container_le field =
     (case field of
        CSF_Name \<Rightarrow> by_key ct_name
      | CSF_Cpu \<Rightarrow> (\<lambda>a b. not_gt (ct_cpu_pct b) (ct_cpu_pct a))
      | CSF_Mem \<Rightarrow> by_key_rev ct_mem_used_bytes
      | CSF_NetRx \<Rightarrow> by_key_rev ct_net_rx_bytes
      | CSF_NetTx \<Rightarrow> by_key_rev ct_net_tx_bytes
      | CSF_Uptime \<Rightarrow> by_key ct_started_at_ms)"

definition containers_view ::
    "(string \<Rightarrow> string) \<Rightarrow> string \<Rightarrow> ContainerSortField \<Rightarrow> SortOrder \<Rightarrow> SystemSnapshot option \<Rightarrow> ContainerSnapshot list" where
  "containers_view ulc pat field order snap =
     (case snap of
        None \<Rightarrow> []
      | Some s \<Rightarrow>
          (case ss_containers s of
             None \<Rightarrow> []
           | Some cs \<Rightarrow>
               if \<not> cts_daemon_up cs then []
               else
                 let rows = (if pat = [] then cts_containers cs
                             else filter (container_matches ulc (to_lowercase ulc pat)) (cts_containers cs));
                     rows = sort_by (container_le field) rows
                 in if (order = Asc) \<noteq> (field = CSF_Name \<or> field = CSF_Uptime) then rev rows else rows))"

section \<open>Connectors of the process tree\<close>

text \<open>\<open>entries[idx + 1..]\<close> is the list of the depths after the entry.\<close>

fun is_last_loop :: "nat \<Rightarrow> nat list \<Rightarrow> bool" where
  "is_last_loop depth [] = True"
| "is_last_loop depth (d # ds) =
     (if d < depth then True else if d = depth then False else is_last_loop depth ds)"

definition is_last_at_depth :: "(ProcessInfo \<times> nat) list \<Rightarrow> nat \<Rightarrow> bool" where
  "is_last_at_depth entries idx = is_last_loop (snd (entries ! idx)) (map snd (drop (idx + 1) entries))"

fun more_siblings_loop :: "nat \<Rightarrow> nat list \<Rightarrow> bool" where
  "more_siblings_loop level [] = False"
| "more_siblings_loop level (d # ds) =
     (if d < level then False else if d = level then True else more_siblings_loop level ds)"

definition ancestor_has_more_siblings :: "(ProcessInfo \<times> nat) list \<Rightarrow> nat \<Rightarrow> nat \<Rightarrow> bool" where
  "ancestor_has_more_siblings entries idx level = more_siblings_loop level (map snd (drop (idx + 1) entries))"

record tree_glyphs =
  tree_pipe :: string
  tree_gap :: string
  tree_last :: string
  tree_branch :: string

definition tree_prefix :: "tree_glyphs \<Rightarrow> (ProcessInfo \<times> nat) list \<Rightarrow> nat \<Rightarrow> string" where
  "tree_prefix g entries idx =
     (let depth = snd (entries ! idx) in
      if depth = 0 then []
      else
        concat (map (\<lambda>level. if ancestor_has_more_siblings entries idx level then tree_pipe g else tree_gap g)
                  [1..<depth]) @
        (if is_last_at_depth entries idx then tree_last g else tree_branch g))"

section \<open>Columns\<close>

datatype Align = Left | Right

datatype Width = Fixed u16 | Flex u16

record Column =
  co_label :: string
  co_width :: Width
  co_align :: Align
  co_priority :: u8

definition PRIO_ESSENTIAL :: u8 where "PRIO_ESSENTIAL = 0"
definition PRIO_HIGH :: u8 where "PRIO_HIGH = 1"
definition PRIO_MEDIUM :: u8 where "PRIO_MEDIUM = 2"
definition PRIO_LOW :: u8 where "PRIO_LOW = 3"

definition col_fixed :: "string \<Rightarrow> u16 \<Rightarrow> Align \<Rightarrow> u8 \<Rightarrow> Column" where
  "col_fixed label width align priority =
     \<lparr>co_label = label, co_width = Fixed width, co_align = align, co_priority = priority\<rparr>"

definition col_flex :: "string \<Rightarrow> u16 \<Rightarrow> u8 \<Rightarrow> Column" where
  "col_flex label mn priority =
     \<lparr>co_label = label, co_width = Flex mn, co_align = Left, co_priority = priority\<rparr>"

definition min_width :: "Column \<Rightarrow> u16" where
  "min_width c = (case co_width c of Fixed w \<Rightarrow> w | Flex mn \<Rightarrow> mn)"

text \<open>
  The sums are \<open>u32\<close> in the code; they are natural numbers here, the same as long as a table has
  fewer than 65537 columns.
\<close>

definition required_width :: "Column list \<Rightarrow> nat list \<Rightarrow> nat" where
  "required_width columns idx = sum_list (map (\<lambda>i. unat (min_width (columns ! i))) idx)"

definition kept_indices :: "Column list \<Rightarrow> nat list \<Rightarrow> nat list" where
  "kept_indices columns dropped = filter (\<lambda>i. i \<notin> set dropped) [0..<length columns]"

definition drop_order :: "Column list \<Rightarrow> nat list" where
  "drop_order columns =
     sort_by (\<lambda>i j. co_priority (columns ! j) < co_priority (columns ! i) \<or>
                    (co_priority (columns ! i) = co_priority (columns ! j) \<and> j \<le> i))
       (filter (\<lambda>i. co_priority (columns ! i) \<noteq> PRIO_ESSENTIAL) [0..<length columns])"

fun drop_loop :: "Column list \<Rightarrow> nat \<Rightarrow> nat list \<Rightarrow> nat list \<Rightarrow> nat list" where
  "drop_loop columns width dropped [] = dropped"
| "drop_loop columns width dropped (i # rest) =
     (if required_width columns (kept_indices columns dropped) \<le> width then dropped
      else drop_loop columns width (i # dropped) rest)"

definition resolve_columns :: "Column list \<Rightarrow> u16 \<Rightarrow> (nat \<times> u16) list" where
  "resolve_columns columns width =
     (let kept = kept_indices columns (drop_loop columns (unat width) [] (drop_order columns));
          fixed_total = required_width columns kept;
          flex_idx = find (\<lambda>i. case co_width (columns ! i) of Flex _ \<Rightarrow> True | Fixed _ \<Rightarrow> False) kept;
          slack = unat width - fixed_total
      in map (\<lambda>i. let w = (case co_width (columns ! i) of
                             Fixed w \<Rightarrow> unat w
                           | Flex mn \<Rightarrow> if flex_idx = Some i then unat mn + slack else unat mn)
                  in (i, of_nat (min w 65535))) kept)"

fun skip_columns :: "nat \<Rightarrow> nat \<Rightarrow> Column list \<Rightarrow> (nat \<times> Column) list" where
  "skip_columns remaining i [] = []"
| "skip_columns remaining i (c # cs) =
     (if co_priority c = PRIO_ESSENTIAL \<or> remaining = 0 then (i, c) # skip_columns remaining (Suc i) cs
      else skip_columns (remaining - 1) (Suc i) cs)"

definition resolve_scrolled :: "Column list \<Rightarrow> u16 \<Rightarrow> nat \<Rightarrow> (nat \<times> u16) list" where
  "resolve_scrolled columns width skip =
     (if skip = 0 then resolve_columns columns width
      else
        let kept = skip_columns skip 0 columns;
            original = map fst kept
        in map (\<lambda>(i, w). (original ! i, w)) (resolve_columns (map snd kept) width))"

section \<open>Orders\<close>

named_theorems view_orders \<open>comparators that are total preorders\<close>

lemma by_key_total [view_orders]: "total_preorder_on A (by_key f)"
  by (auto simp: total_preorder_on_def by_key_def)

lemma by_key_rev_total [view_orders]: "total_preorder_on A (by_key_rev f)"
  by (auto simp: total_preorder_on_def by_key_rev_def)

lemma by_keys_total [view_orders]: "total_preorder_on A (by_keys f g)"
  by (auto simp: total_preorder_on_def by_keys_def)

lemma of_nat_fl_F64_exact:
  assumes "n < 2 ^ 53"
  shows "of_nat_fl F64 n = Fin (of_nat n)"
proof -
  have "rnd F64 (of_nat n) = of_nat n" using assms by (simp add: rnd_nat_exact)
  moreover have "(of_nat n :: rat) < of_nat (2 ^ 53)" using assms by (simp only: of_nat_less_iff)
  moreover have "(of_nat (2 ^ 53) :: rat) < pow2 (emax F64 + 1)"
    using pow2_less_iff [of 53 1024] by (simp add: pow2_def)
  ultimately show ?thesis by (simp add: of_nat_fl_def fl_round_cases)
qed

lemma fdiv_nat_not_NaN:
  assumes "a < 2 ^ 53" "b < 2 ^ 53" "b \<noteq> 0"
  shows "fdiv F64 (of_nat_fl F64 a) (of_nat_fl F64 b) \<noteq> NaN"
  using assms by (simp add: of_nat_fl_F64_exact fl_round_nonneg nonneg_not_NaN)

lemma ratio_not_NaN: "ratio d \<noteq> NaN"
proof -
  have "unat w < 2 ^ 53" for w :: u32 using unsigned_less [of w, where ?'a = nat] by simp
  then show ?thesis by (simp add: ratio_def fdiv_nat_not_NaN unat_eq_0)
qed

lemma pod_le_total [view_orders]: "total_preorder_on A (pod_le field)"
  unfolding pod_le_def by (cases field) (simp_all add: view_orders)

lemma node_le_total [view_orders]: "total_preorder_on A (node_le field)"
  unfolding node_le_def by (cases field) (simp_all add: view_orders)

lemma deploy_le_total [view_orders]: "total_preorder_on A (deploy_le field)"
  unfolding deploy_le_def
  by (cases field) (simp_all add: view_orders not_gt_total ratio_not_NaN)

lemma device_le_total [view_orders]: "total_preorder_on A (device_le field)"
  unfolding device_le_def by (cases field) (simp_all add: view_orders)

lemma gproc_le_total [view_orders]: "total_preorder_on A (gproc_le field)"
  unfolding gproc_le_def by (cases field) (simp_all add: view_orders)

lemma total_preorder_on_comp: "total_preorder_on (f ` A) le \<Longrightarrow> total_preorder_on A (\<lambda>a b. le (f a) (f b))"
  unfolding total_preorder_on_def by blast

section \<open>Exact projections\<close>

text \<open>A view of a table: the matching rows, each once, in comparator order or the reverse.\<close>

definition exact_view ::
    "('a \<Rightarrow> bool) \<Rightarrow> ('a \<Rightarrow> 'a \<Rightarrow> bool) \<Rightarrow> bool \<Rightarrow> 'a list \<Rightarrow> nat list \<Rightarrow> bool" where
  "exact_view match le flip rows idx \<longleftrightarrow>
     distinct idx \<and> set idx = {i. i < length rows \<and> match (rows ! i)} \<and>
     sorted_wrt (\<lambda>i j. if flip then le (rows ! j) (rows ! i) else le (rows ! i) (rows ! j)) idx"

lemma flip_if_asc_view:
  assumes "total_preorder_on UNIV le"
  shows "exact_view match le (order = Asc) rows
    (flip_if_asc order (sort_by (\<lambda>a b. le (rows ! a) (rows ! b)) (filter (\<lambda>i. match (rows ! i)) [0..<length rows])))"
proof -
  define idx where "idx = filter (\<lambda>i. match (rows ! i)) [0..<length rows]"
  define s where "s = sort_by (\<lambda>a b. le (rows ! a) (rows ! b)) idx"
  have "sorted_wrt (\<lambda>a b. le (rows ! a) (rows ! b)) s"
    unfolding s_def
    by (rule sorted_wrt_sort_by, rule total_preorder_on_comp [where f = "(!) rows"],
        rule total_preorder_on_subset [OF assms]) simp
  moreover have "set s = {i. i < length rows \<and> match (rows ! i)}" by (auto simp: s_def idx_def)
  moreover have "distinct idx" by (simp add: idx_def)
  then have "distinct s" unfolding s_def by (metis mset_eq_imp_distinct_iff mset_sort_by)
  ultimately have "exact_view match le (order = Asc) rows (flip_if_asc order s)"
    by (cases order) (simp_all add: exact_view_def flip_if_asc_def sorted_wrt_rev)
  then show ?thesis by (simp only: s_def idx_def)
qed

lemma position_sorted_split:
  assumes "sorted_wrt (by_key missing) xs"
  shows "take (unwrap_or (position missing xs) (length xs)) xs = filter (\<lambda>x. \<not> missing x) xs \<and>
         drop (unwrap_or (position missing xs) (length xs)) xs = filter missing xs"
  using assms
proof (induction xs)
  case (Cons x xs)
  show ?case
  proof (cases "missing x")
    case True
    with Cons.prems have "\<forall>y\<in>set xs. missing y" by (auto simp: by_key_def)
    with True show ?thesis by simp
  next
    case False
    with Cons show ?thesis by (cases "position missing xs") auto
  qed
qed simp

lemma insert_by_filter:
  assumes "sorted_wrt (by_key missing) ys"
  shows "filter missing (insert_by (by_key missing) x ys) = filter missing (x # ys)"
  using assms
proof (induction ys)
  case (Cons y ys)
  then show ?case by (cases "missing x"; cases "missing y") (simp_all add: by_key_def)
qed simp

lemma sort_by_filter: "filter missing (sort_by (by_key missing) xs) = filter missing xs"
proof (induction xs)
  case (Cons x xs)
  have "sorted_wrt (by_key missing) (sort_by (by_key missing) xs)"
    by (intro sorted_wrt_sort_by by_key_total)
  from insert_by_filter [OF this] Cons show ?case by simp
qed simp

text \<open>
  Parking: the rows that report the metric come first, in order, and the others keep the order they
  came in.
\<close>

lemma park_sort_cases:
  assumes "total_preorder_on UNIV le"
  obtains front where "park_sort missing le flip rows = front @ filter missing rows"
    "mset front = mset (filter (\<lambda>x. \<not> missing x) rows)"
    "sorted_wrt (\<lambda>x y. if flip then le y x else le x y) front"
proof -
  let ?p = "sort_by (by_key missing) rows"
  let ?r = "sort_by le (filter (\<lambda>x. \<not> missing x) ?p)"
  have s: "sorted_wrt (by_key missing) ?p" by (intro sorted_wrt_sort_by by_key_total)
  have "sorted_wrt le ?r"
    by (intro sorted_wrt_sort_by total_preorder_on_subset [OF assms]) simp
  then have "sorted_wrt (\<lambda>x y. if flip then le y x else le x y) (if flip then rev ?r else ?r)"
    by (simp add: sorted_wrt_rev)
  moreover have "park_sort missing le flip rows = (if flip then rev ?r else ?r) @ filter missing rows"
    using position_sorted_split [OF s] by (simp add: park_sort_def Let_def sort_by_filter)
  moreover have "mset (if flip then rev ?r else ?r) = mset (filter (\<lambda>x. \<not> missing x) rows)"
    by simp
  ultimately show ?thesis using that by blast
qed

section \<open>Tree connectors\<close>

text \<open>The recursive drawing: a child extends its parent's margin and hangs on a branch or a corner.\<close>

fun draw_node :: "tree_glyphs \<Rightarrow> string \<Rightarrow> string \<Rightarrow> TreeNode \<Rightarrow> string list"
  and draw_children :: "tree_glyphs \<Rightarrow> string \<Rightarrow> TreeNode list \<Rightarrow> string list" where
  "draw_node g here margin (TreeNode p cs d) = here # draw_children g margin cs"
| "draw_children g margin [] = []"
| "draw_children g margin (c # cs) =
     draw_node g (margin @ (if cs = [] then tree_last g else tree_branch g))
       (margin @ (if cs = [] then tree_gap g else tree_pipe g)) c @ draw_children g margin cs"

definition draw_forest :: "tree_glyphs \<Rightarrow> TreeNode list \<Rightarrow> string list" where
  "draw_forest g roots = concat (map (draw_node g [] []) roots)"

text \<open>The prefix of a row depends on its depth and the depths that follow.\<close>

definition margin_at :: "tree_glyphs \<Rightarrow> nat \<Rightarrow> nat list \<Rightarrow> string" where
  "margin_at g d ds = concat (map (\<lambda>l. if more_siblings_loop l ds then tree_pipe g else tree_gap g) [1..<d])"

definition prefix_at :: "tree_glyphs \<Rightarrow> nat \<Rightarrow> nat list \<Rightarrow> string" where
  "prefix_at g d ds =
     (if d = 0 then [] else margin_at g d ds @ (if more_siblings_loop d ds then tree_branch g else tree_last g))"

fun prefixes :: "tree_glyphs \<Rightarrow> nat list \<Rightarrow> nat list \<Rightarrow> string list" where
  "prefixes g [] after = []"
| "prefixes g (d # ds) after = prefix_at g d (ds @ after) # prefixes g ds after"

lemma is_last_more: "is_last_loop d ds \<longleftrightarrow> \<not> more_siblings_loop d ds"
  by (induction ds) auto

lemma length_prefixes [simp]: "length (prefixes g ds after) = length ds"
  by (induction ds) auto

lemma prefixes_append: "prefixes g (xs @ ys) after = prefixes g xs (ys @ after) @ prefixes g ys after"
  by (induction xs) auto

lemma prefixes_nth: "i < length ds \<Longrightarrow> prefixes g ds [] ! i = prefix_at g (ds ! i) (drop (Suc i) ds)"
  by (induction ds arbitrary: i) (auto simp: nth_Cons')

lemma tree_prefix_prefixes:
  "i < length entries \<Longrightarrow> tree_prefix g entries i = prefixes g (map snd entries) [] ! i"
  by (simp add: prefixes_nth tree_prefix_def prefix_at_def margin_at_def Let_def is_last_at_depth_def
      ancestor_has_more_siblings_def is_last_more drop_map)

lemma more_siblings_deeper:
  "\<forall>d\<in>set ds. l < d \<Longrightarrow> more_siblings_loop l (ds @ after) = more_siblings_loop l after"
  by (induction ds) auto

lemma margin_at_deeper:
  "\<forall>x\<in>set ds. d \<le> x \<Longrightarrow> margin_at g d (ds @ after) = margin_at g d after"
  unfolding margin_at_def
  by (intro arg_cong [where f = concat] map_cong if_cong refl more_siblings_deeper) fastforce

lemma margin_at_Suc:
  "margin_at g (Suc d) ds = (if d = 0 then [] else margin_at g d ds @ (if more_siblings_loop d ds then tree_pipe g else tree_gap g))"
  by (cases d) (auto simp: margin_at_def)

lemma tree_ok_walk: "tree_ok d t \<Longrightarrow> \<exists>rest. map snd (walk t) = d # rest \<and> (\<forall>x\<in>set rest. d < x)"
proof (induction t arbitrary: d)
  case (TreeNode p cs d')
  have "\<forall>x\<in>set (map snd (walk c)). d < x" if "c \<in> set cs" for c
    using TreeNode.IH [OF that, of "Suc d"] TreeNode.prems that by fastforce
  then show ?case using TreeNode.prems by (fastforce simp: map_concat)
qed

text \<open>What follows a subtree at depth \<open>d\<close> starts no deeper than \<open>d\<close>.\<close>

definition closes :: "nat \<Rightarrow> nat list \<Rightarrow> bool" where
  "closes d after \<longleftrightarrow> (case after of [] \<Rightarrow> True | x # _ \<Rightarrow> x \<le> d)"

lemma closes_no_more: "closes d after \<Longrightarrow> d < l \<Longrightarrow> \<not> more_siblings_loop l after"
  by (cases after) (auto simp: closes_def)

lemma children_depths:
  assumes "\<forall>c\<in>set cs. tree_ok d c"
  shows "\<forall>x\<in>set (map snd (flatten_tree cs)). d \<le> x" "closes d after \<Longrightarrow> closes d (map snd (flatten_tree cs) @ after)"
    "more_siblings_loop d (map snd (flatten_tree cs) @ after) \<longleftrightarrow> cs \<noteq> [] \<or> more_siblings_loop d after"
proof -
  show "\<forall>x\<in>set (map snd (flatten_tree cs)). d \<le> x"
    using assms tree_ok_walk by (fastforce simp: flatten_tree_def dest: less_imp_le)
  show "closes d after \<Longrightarrow> closes d (map snd (flatten_tree cs) @ after)"
    using assms tree_ok_walk by (cases cs) (fastforce simp: flatten_tree_def closes_def)+
  show "more_siblings_loop d (map snd (flatten_tree cs) @ after) \<longleftrightarrow> cs \<noteq> [] \<or> more_siblings_loop d after"
    using assms tree_ok_walk by (cases cs) (fastforce simp: flatten_tree_def)+
qed

lemma flatten_tree_Cons: "flatten_tree (c # cs) = walk c @ flatten_tree cs"
  by (simp add: flatten_tree_def)

lemma draw_prefixes:
  shows "tree_ok d t \<Longrightarrow> closes d after \<Longrightarrow> here = prefix_at g d after \<Longrightarrow> margin = margin_at g (Suc d) after \<Longrightarrow>
      draw_node g here margin t = prefixes g (map snd (walk t)) after"
    and "\<forall>c\<in>set cs. tree_ok (Suc d) c \<Longrightarrow> closes d after \<Longrightarrow> margin = margin_at g (Suc d) after \<Longrightarrow>
      draw_children g margin cs = prefixes g (map snd (flatten_tree cs)) after"
proof (induction g here margin t and g margin cs arbitrary: d after and d after rule: draw_node_draw_children.induct)
  case (1 g here margin p cs d')
  then have d: "d' = d" and cs: "\<forall>c\<in>set cs. tree_ok (Suc d) c" by auto
  have walk: "map snd (walk (TreeNode p cs d')) = d # map snd (flatten_tree cs)"
    by (simp add: d flatten_tree_def)
  have deeper: "\<forall>x\<in>set (map snd (flatten_tree cs)). Suc d \<le> x" by (rule children_depths(1) [OF cs])
  then have "prefix_at g d (map snd (flatten_tree cs) @ after) = prefix_at g d after"
    by (simp add: prefix_at_def margin_at_deeper more_siblings_deeper Suc_le_eq less_imp_le)
  with 1 cs show ?case by (simp only: walk prefixes.simps draw_node.simps)
next
  case (2 g margin)
  then show ?case by (simp add: flatten_tree_def)
next
  case (3 g margin c cs)
  let ?after = "map snd (flatten_tree cs) @ after"
  have cs: "\<forall>c\<in>set cs. tree_ok (Suc d) c" and c: "tree_ok (Suc d) c" using "3.prems"(1) by auto
  have more: "more_siblings_loop (Suc d) ?after \<longleftrightarrow> cs \<noteq> []"
    using children_depths(3) [OF cs] closes_no_more [OF "3.prems"(2)] by blast
  have "closes (Suc d) after" using "3.prems"(2) by (cases after) (auto simp: closes_def)
  then have closes: "closes (Suc d) ?after" by (rule children_depths(2) [OF cs])
  have margin: "margin_at g (Suc d) ?after = margin"
    using children_depths(1) [OF cs] "3.prems"(3) by (simp add: margin_at_deeper)
  have "draw_node g (margin @ (if cs = [] then tree_last g else tree_branch g))
      (margin @ (if cs = [] then tree_gap g else tree_pipe g)) c = prefixes g (map snd (walk c)) ?after"
    by (rule "3.IH"(1) [OF c closes])
      (simp_all add: prefix_at_def margin_at_Suc [of g "Suc d"] margin more)
  with "3.IH"(2) [OF cs "3.prems"(2,3)] show ?case
    by (simp only: draw_children.simps flatten_tree_Cons map_append prefixes_append)
qed

lemma draw_forest_prefixes:
  "\<forall>t\<in>set roots. tree_ok 0 t \<Longrightarrow> draw_forest g roots = prefixes g (map snd (flatten_tree roots)) []"
proof (induction roots)
  case (Cons t roots)
  have "closes 0 (map snd (flatten_tree roots) @ [])"
    by (rule children_depths(2)) (use Cons.prems in \<open>auto simp: closes_def\<close>)
  then have "draw_node g [] [] t = prefixes g (map snd (walk t)) (map snd (flatten_tree roots))"
    using Cons.prems by (intro draw_prefixes(1) [of 0]) (simp_all add: prefix_at_def margin_at_def)
  with Cons show ?case by (simp add: draw_forest_def flatten_tree_Cons prefixes_append)
qed (simp add: draw_forest_def flatten_tree_def)

section \<open>Column layout\<close>

abbreviation essential :: "Column list \<Rightarrow> nat \<Rightarrow> bool" where
  "essential columns i \<equiv> co_priority (columns ! i) = PRIO_ESSENTIAL"

definition drops_before :: "Column list \<Rightarrow> nat \<Rightarrow> nat \<Rightarrow> bool" where
  "drops_before columns i j \<longleftrightarrow>
     co_priority (columns ! j) < co_priority (columns ! i) \<or>
     (co_priority (columns ! i) = co_priority (columns ! j) \<and> j \<le> i)"

lemma drop_order_facts:
  "set (drop_order columns) = {i. i < length columns \<and> \<not> essential columns i}"
  "sorted_wrt (drops_before columns) (drop_order columns)"
proof -
  show "set (drop_order columns) = {i. i < length columns \<and> \<not> essential columns i}"
    by (auto simp: drop_order_def)
  have "total_preorder_on A (drops_before columns)" for A
    unfolding total_preorder_on_def drops_before_def
    by (intro conjI ballI impI) (auto simp: not_less_iff_gr_or_eq elim: less_trans)
  then show "sorted_wrt (drops_before columns) (drop_order columns)"
    unfolding drop_order_def drops_before_def [symmetric] by (intro sorted_wrt_sort_by)
qed

lemma drop_loop_cases:
  obtains k where "drop_loop columns width dropped rest = rev (take k rest) @ dropped" "k \<le> length rest"
    "required_width columns (kept_indices columns (drop_loop columns width dropped rest)) \<le> width \<or> k = length rest"
proof (induction rest arbitrary: dropped thesis)
  case Nil
  show ?case by (rule Nil [of 0]) simp_all
next
  case (Cons i rest)
  show ?case
  proof (cases "required_width columns (kept_indices columns dropped) \<le> width")
    case True
    then show ?thesis by (intro Cons.prems [of 0]) simp_all
  next
    case False
    show ?thesis
    proof (rule Cons.IH [of "i # dropped"])
      fix k assume "drop_loop columns width (i # dropped) rest = rev (take k rest) @ i # dropped" "k \<le> length rest"
        "required_width columns (kept_indices columns (drop_loop columns width (i # dropped) rest)) \<le> width \<or> k = length rest"
      with False show thesis by (intro Cons.prems [of "Suc k"]) simp_all
    qed
  qed
qed

definition layout_kept :: "Column list \<Rightarrow> u16 \<Rightarrow> nat list" where
  "layout_kept columns width = kept_indices columns (drop_loop columns (unat width) [] (drop_order columns))"

lemma layout_kept_facts:
  fixes columns width
  defines "kept \<equiv> layout_kept columns width"
  shows "sorted_wrt (<) kept" "set kept \<subseteq> {..<length columns}"
    "i < length columns \<Longrightarrow> essential columns i \<Longrightarrow> i \<in> set kept"
    "required_width columns kept \<le> unat width \<or> (\<forall>i\<in>set kept. essential columns i)"
    "i \<in> set kept \<Longrightarrow> \<not> essential columns i \<Longrightarrow> j < length columns \<Longrightarrow> j \<notin> set kept \<Longrightarrow> drops_before columns j i"
proof -
  obtain k where r: "drop_loop columns (unat width) [] (drop_order columns) = rev (take k (drop_order columns)) @ []"
    and fit: "required_width columns (kept_indices columns (drop_loop columns (unat width) [] (drop_order columns))) \<le> unat width
      \<or> k = length (drop_order columns)"
    by (rule drop_loop_cases)
  have set_kept: "set kept = {i. i < length columns \<and> i \<notin> set (take k (drop_order columns))}"
    by (auto simp: kept_def layout_kept_def r kept_indices_def)
  show "sorted_wrt (<) kept"
    by (auto simp: kept_def layout_kept_def kept_indices_def intro: sorted_wrt_filter)
  show "set kept \<subseteq> {..<length columns}" by (auto simp: set_kept)
  show "i < length columns \<Longrightarrow> essential columns i \<Longrightarrow> i \<in> set kept"
    using drop_order_facts(1) [of columns] by (auto simp: set_kept dest: in_set_takeD)
  show "required_width columns kept \<le> unat width \<or> (\<forall>i\<in>set kept. essential columns i)"
  proof (cases "k = length (drop_order columns)")
    case True
    then have "\<forall>i\<in>set kept. essential columns i"
      using drop_order_facts(1) [of columns] by (simp add: set_kept)
    then show ?thesis ..
  next
    case False
    with fit show ?thesis by (simp only: kept_def layout_kept_def simp_thms)
  qed
  show "drops_before columns j i"
    if "i \<in> set kept" "\<not> essential columns i" "j < length columns" "j \<notin> set kept"
  proof -
    have "i \<in> set (drop_order columns)" "i \<notin> set (take k (drop_order columns))"
      using that drop_order_facts(1) [of columns] by (auto simp: set_kept)
    then have "i \<in> set (drop k (drop_order columns))" by (metis Un_iff append_take_drop_id set_append)
    moreover have "j \<in> set (take k (drop_order columns))" using that by (auto simp: set_kept)
    moreover have "sorted_wrt (drops_before columns) (take k (drop_order columns) @ drop k (drop_order columns))"
      by (simp add: drop_order_facts(2))
    ultimately show ?thesis unfolding sorted_wrt_append by blast
  qed
qed

lemma sum_list_with_slack:
  fixes f :: "nat \<Rightarrow> nat"
  assumes "distinct xs" "i \<in> set xs"
  shows "sum_list (map (\<lambda>x. f x + (if x = i then s else 0)) xs) = sum_list (map f xs) + s"
  using assms by (induction xs) (auto simp: sum_list_addf map_idI cong: map_cong)

abbreviation is_flex :: "Column \<Rightarrow> bool" where
  "is_flex c \<equiv> (case co_width c of Flex _ \<Rightarrow> True | Fixed _ \<Rightarrow> False)"

definition column_width :: "Column list \<Rightarrow> nat list \<Rightarrow> nat \<Rightarrow> nat \<Rightarrow> nat" where
  "column_width columns kept slack i =
     unat (min_width (columns ! i)) +
     (if find (\<lambda>i. is_flex (columns ! i)) kept = Some i then slack else 0)"

lemma resolve_columns_map:
  "resolve_columns columns width =
     map (\<lambda>i. (i, of_nat (min (column_width columns (layout_kept columns width)
                            (unat width - required_width columns (layout_kept columns width)) i) 65535)))
       (layout_kept columns width)"
proof -
  have "(case co_width (columns ! i) of Fixed w \<Rightarrow> unat w
         | Flex mn \<Rightarrow> if find (\<lambda>i. is_flex (columns ! i)) kept = Some i then unat mn + slack else unat mn) =
        column_width columns kept slack i" for kept slack i
    by (cases "co_width (columns ! i)") (auto simp: column_width_def min_width_def find_Some_iff)
  then show ?thesis
    by (simp only: resolve_columns_def layout_kept_def [symmetric] Let_def)
qed

lemma column_width_sum:
  assumes "distinct kept"
  shows "sum_list (map (column_width columns kept slack) kept) =
    required_width columns kept + (if list_ex (\<lambda>i. is_flex (columns ! i)) kept then slack else 0)"
proof (cases "find (\<lambda>i. is_flex (columns ! i)) kept")
  case None
  then have "column_width columns kept slack = (\<lambda>i. unat (min_width (columns ! i)))"
    by (simp add: column_width_def fun_eq_iff)
  with None show ?thesis by (auto simp: required_width_def find_None_iff list_ex_iff)
next
  case (Some i)
  then have i: "i \<in> set kept" "is_flex (columns ! i)" by (auto dest: find_Some_in)
  have "column_width columns kept slack =
      (\<lambda>x. unat (min_width (columns ! x)) + (if x = i then slack else 0))"
    using Some by (auto simp: column_width_def fun_eq_iff)
  moreover have "list_ex (\<lambda>i. is_flex (columns ! i)) kept" using i by (auto simp: list_ex_iff)
  ultimately show ?thesis
    by (simp only: required_width_def if_True sum_list_with_slack [OF assms i(1)])
qed

lemma member_le_column_sum: "i \<in> set kept \<Longrightarrow> column_width columns kept slack i \<le> sum_list (map (column_width columns kept slack) kept)"
  by (intro member_le_sum_list) auto

lemma layout_total:
  assumes "required_width columns (layout_kept columns width) \<le> unat width"
  shows "sum_list (map (\<lambda>(_, w). unat w) (resolve_columns columns width)) =
    (if list_ex (\<lambda>i. is_flex (columns ! i)) (layout_kept columns width) then unat width
     else required_width columns (layout_kept columns width))"
proof -
  define kept where "kept = layout_kept columns width"
  define slack where "slack = unat width - required_width columns kept"
  have "distinct kept" using layout_kept_facts(1) [of columns width]
    by (simp add: kept_def strict_sorted_iff)
  note total = column_width_sum [OF this, of columns slack]
  have "unat width < 2 ^ 16" using unsigned_less [of width, where ?'a = nat] by simp
  then have bound: "sum_list (map (column_width columns kept slack) kept) \<le> 65535"
    using assms unfolding total by (simp add: slack_def kept_def)
  have "unat (of_nat (min (column_width columns kept slack i) 65535) :: u16) = column_width columns kept slack i"
    if "i \<in> set kept" for i
    using member_le_column_sum [OF that, of columns slack] bound by (simp add: unat_of_nat)
  then have "map (\<lambda>(_, w). unat w) (resolve_columns columns width) = map (column_width columns kept slack) kept"
    by (simp add: resolve_columns_map kept_def slack_def)
  with total assms show ?thesis by (simp add: kept_def slack_def)
qed

section \<open>Properties\<close>


text \<open>A GPU table is a permutation of the devices in which those that cannot report the sorted
  metric stand at the end, in snapshot order, whichever way the column is sorted; the devices that
  report it come first, in the order of the column.\<close>

theorem unreported_devices_parked:
  "\<exists>front. sort_devices field order devices = front @ filter (\<lambda>d. metric_missing d field) devices \<and>
     mset front = mset (filter (\<lambda>d. \<not> metric_missing d field) devices) \<and>
     sorted_wrt (\<lambda>a b. if (order = Asc) \<noteq> (field = DeviceIndex \<or> field = DeviceName)
                       then device_le field b a else device_le field a b) front"
  unfolding sort_devices_def
  by (rule park_sort_cases [OF device_le_total, of "\<lambda>d. metric_missing d field" field
        "(order = Asc) \<noteq> (field = DeviceIndex \<or> field = DeviceName)" devices]) blast

text \<open>C23. The connector drawn in front of a row of the process tree, found by scanning the depths of
  the rows that follow, is the one a recursive drawing of the tree gives: a pipe for every ancestor
  that has a later sibling, then a corner for a last child and a branch for any other.\<close>

theorem tree_connectors_correct:
  "map (tree_prefix g (flatten_tree (build_process_tree procs))) [0..<length (flatten_tree (build_process_tree procs))] =
   draw_forest g (build_process_tree procs)"
proof -
  let ?rows = "flatten_tree (build_process_tree procs)"
  have "draw_forest g (build_process_tree procs) = prefixes g (map snd ?rows) []"
    by (rule draw_forest_prefixes [OF build_process_tree_ok])
  moreover have "map (tree_prefix g ?rows) [0..<length ?rows] = prefixes g (map snd ?rows) []"
    by (rule nth_equalityI) (simp_all add: tree_prefix_prefixes)
  ultimately show ?thesis by simp
qed

text \<open>C38. The column layout keeps the columns in table order and every essential one. Either the widths
  it gives fit the terminal, exactly filling it when a flexible column is kept, or only essential
  columns are left. A column that was dropped is less important than every optional column that was
  kept, or as important and further to the right.\<close>

theorem column_layout_correct:
  fixes columns :: "Column list" and width :: u16
  defines "kept \<equiv> map fst (resolve_columns columns width)"
    and "used \<equiv> sum_list (map (\<lambda>(_, w). unat w) (resolve_columns columns width))"
  shows "sorted_wrt (<) kept \<and>
    {i. i < length columns \<and> essential columns i} \<subseteq> set kept \<and> set kept \<subseteq> {i. i < length columns} \<and>
    (set kept \<subseteq> {i. essential columns i} \<or>
     (if list_ex (\<lambda>i. is_flex (columns ! i)) kept then used = unat width else used \<le> unat width)) \<and>
    ({i. i \<in> set kept \<and> \<not> essential columns i} \<times> {j. j < length columns \<and> j \<notin> set kept}
       \<subseteq> {(i, j). drops_before columns j i})"
proof -
  have kept: "kept = layout_kept columns width"
    by (simp add: kept_def resolve_columns_map comp_def)
  note facts = layout_kept_facts [where columns = columns and width = width, folded kept]
  have "set kept \<subseteq> {i. essential columns i} \<or>
      (if list_ex (\<lambda>i. is_flex (columns ! i)) kept then used = unat width else used \<le> unat width)"
  proof (cases "required_width columns kept \<le> unat width")
    case True
    then show ?thesis using layout_total [of columns width, folded kept] by (simp add: used_def)
  next
    case False
    then show ?thesis using facts(4) by blast
  qed
  then show ?thesis using facts(1,2,3,5) by (intro conjI) blast+
qed

end
