(* ===== verification/Widgets.thy ===== *)
theory Widgets
  imports Theming Views
begin

text \<open>
  The building blocks of the screen (\<open>muxtop-tui/ui/glyphs.rs\<close> and \<open>ui/widgets\<close>): glyph sets, cells
  and headers of tables, sparklines, load meters, byte counts, scrollbars, badges, empty states,
  overlay geometry and the table itself. A widget is the lines it hands to the drawing library: a
  line is a list of texts with their styles.
\<close>

type_synonym Span = "string \<times> Style"
type_synonym Line = "Span list"

section \<open>Text\<close>

definition char_count :: "string \<Rightarrow> nat" where
  "char_count s = length (str_chars s)"

definition spaces :: "nat \<Rightarrow> string" where
  "spaces n = replicate n CHR '' ''"

definition repeat_str :: "nat \<Rightarrow> string \<Rightarrow> string" where
  "repeat_str n s = concat (replicate n s)"

text \<open>The format \<open>{s:<n$}\<close>.\<close>

definition pad_right :: "nat \<Rightarrow> string \<Rightarrow> string" where
  "pad_right n s = s @ spaces (n - char_count s)"

text \<open>
  The format \<open>{x:.d}\<close> of a float: the exact value rounded to \<open>d\<close> decimals, ties to even. The sign of
  a negative value is kept even when it rounds to zero.
\<close>

definition fmt_digits :: "nat \<Rightarrow> nat \<Rightarrow> string" where
  "fmt_digits d n =
     (if d = 0 then dec n
      else let frac = dec (n mod 10 ^ d) in
           dec (n div 10 ^ d) @ ''.'' @ replicate (d - length frac) CHR ''0'' @ frac)"

fun fmt_fixed :: "nat \<Rightarrow> fl \<Rightarrow> string" where
  "fmt_fixed d NaN = ''NaN''"
| "fmt_fixed d PInf = ''inf''"
| "fmt_fixed d NInf = ''-inf''"
| "fmt_fixed d (Fin x) = (if x < 0 then ''-'' else []) @ fmt_digits d (nat (rhe (\<bar>x\<bar> * 10 ^ d)))"

text \<open>\<open>as usize\<close> and \<open>as u64\<close> of a float.\<close>

definition to_usize :: "fl \<Rightarrow> nat" where
  "to_usize x = nat (sat_cast 0 (2 ^ 64 - 1) x)"

fun ffloor :: "fl \<Rightarrow> fl" where
  "ffloor (Fin x) = Fin (of_int \<lfloor>x\<rfloor>)"
| "ffloor a = a"

section \<open>Glyphs\<close>

record Glyphs = tree_glyphs +
  meter_full :: string
  meter_empty :: string
  meter_partials :: "string list"
  spark :: "string list"
  sort_desc :: string
  sort_asc :: string
  sel_edge :: string
  scroll_thumb :: string
  scroll_track :: string
  st_running :: string
  st_idle :: string
  st_paused :: string
  st_warn :: string
  st_dead :: string
  st_unknown :: string
  arrow_up :: string
  arrow_down :: string
  chevron :: string
  spinner :: "string list"
  sep :: string
  cursor :: string
  conn_local :: string
  conn_remote :: string
  conn_down :: string
  gl_ellipsis :: string
  gl_none :: string
  gl_dash :: string
  gl_unicode :: bool

text \<open>The character of a code point of three bytes, from its encoding.\<close>

definition utf3 :: "nat \<Rightarrow> nat \<Rightarrow> string" where
  "utf3 b c = [CHR 0xE2, char_of b, char_of c]"

definition UNICODE_PARTIALS :: "string list" where
  "UNICODE_PARTIALS = map (utf3 0x96) [0x8F, 0x8E, 0x8D, 0x8C, 0x8B, 0x8A, 0x89]"

definition UNICODE_SPARK :: "string list" where
  "UNICODE_SPARK = map (utf3 0x96) [0x81, 0x82, 0x83, 0x84, 0x85, 0x86, 0x87, 0x88]"

definition ASCII_SPARK :: "string list" where
  "ASCII_SPARK = [''.'', ''.'', '':'', '':'', ''|'', ''|'', ''#'', ''#'']"

definition UNICODE_SPINNER :: "string list" where
  "UNICODE_SPINNER =
     [utf3 0xA0 0x8B, utf3 0xA0 0x99, utf3 0xA0 0xB9, utf3 0xA0 0xB8, utf3 0xA0 0xBC,
      utf3 0xA0 0xB4, utf3 0xA0 0xA6, utf3 0xA0 0xA7, utf3 0xA0 0x87, utf3 0xA0 0x8F]"

definition ASCII_SPINNER :: "string list" where
  "ASCII_SPINNER = [''-'', [CHR 0x5C], ''|'', ''/'']"

definition UNICODE :: Glyphs where
  "UNICODE =
     \<lparr>tree_pipe = utf3 0x94 0x82 @ ''   '', tree_gap = ''    '',
      tree_last = utf3 0x94 0x94 @ utf3 0x94 0x80 @ utf3 0x94 0x80 @ '' '',
      tree_branch = utf3 0x94 0x9C @ utf3 0x94 0x80 @ utf3 0x94 0x80 @ '' '',
      meter_full = utf3 0x96 0x88, meter_empty = '' '', meter_partials = UNICODE_PARTIALS,
      spark = UNICODE_SPARK, sort_desc = utf3 0x96 0xBC, sort_asc = utf3 0x96 0xB2,
      sel_edge = utf3 0x96 0x8E, scroll_thumb = utf3 0x96 0x88, scroll_track = utf3 0x94 0x82,
      st_running = utf3 0x97 0x8F, st_idle = utf3 0x97 0x8B, st_paused = utf3 0x97 0x90,
      st_warn = utf3 0x96 0xB2, st_dead = utf3 0x9C 0x95, st_unknown = ''?'',
      arrow_up = utf3 0x86 0x91, arrow_down = utf3 0x86 0x93, chevron = utf3 0x80 0xBA,
      spinner = UNICODE_SPINNER, sep = [CHR 0xC2, CHR 0xB7], cursor = utf3 0x96 0x88,
      conn_local = utf3 0x97 0x8F, conn_remote = utf3 0x97 0x86, conn_down = utf3 0x9C 0x95,
      gl_ellipsis = utf3 0x80 0xA6, gl_none = utf3 0x80 0x94, gl_dash = utf3 0x80 0x94, gl_unicode = True\<rparr>"

definition ASCII :: Glyphs where
  "ASCII =
     \<lparr>tree_pipe = ''|   '', tree_gap = ''    '', tree_last = CHR 0x5C # ''-- '', tree_branch = ''|-- '',
      meter_full = ''|'', meter_empty = '' '', meter_partials = [],
      spark = ASCII_SPARK, sort_desc = ''v'', sort_asc = ''^'',
      sel_edge = ''>'', scroll_thumb = ''#'', scroll_track = ''|'',
      st_running = ''R'', st_idle = ''S'', st_paused = ''T'', st_warn = ''!'', st_dead = ''X'', st_unknown = ''?'',
      arrow_up = ''^'', arrow_down = ''v'', chevron = ''>'',
      spinner = ASCII_SPINNER, sep = ''-'', cursor = ''_'',
      conn_local = ''*'', conn_remote = ''@'', conn_down = ''X'',
      gl_ellipsis = ''~'', gl_none = ''-'', gl_dash = ''-'', gl_unicode = False\<rparr>"

definition glyphs_new :: "bool \<Rightarrow> Glyphs" where
  "glyphs_new unicode = (if unicode then UNICODE else ASCII)"

definition spinner_frame :: "Glyphs \<Rightarrow> nat \<Rightarrow> string" where
  "spinner_frame g tick = spinner g ! (tick mod length (spinner g))"

definition spark_level :: "Glyphs \<Rightarrow> u64 \<Rightarrow> u64 \<Rightarrow> string" where
  "spark_level g val mx =
     (if mx = 0 then spark g ! 0
      else let idx = to_usize (fround (fmul F64 (fdiv F64 (of_nat_fl F64 (unat (min val mx)))
                                                  (of_nat_fl F64 (unat mx))) (Fin 7)))
           in spark g ! min idx 7)"

definition glyph_truncate :: "Glyphs \<Rightarrow> string \<Rightarrow> nat \<Rightarrow> string" where
  "glyph_truncate g s width =
     (if width = 0 then []
      else if char_count s \<le> width then s
      else if width = 1 then gl_ellipsis g
      else take_chars (width - 1) s @ gl_ellipsis g)"

section \<open>Cells and headers\<close>

definition cell :: "string \<Rightarrow> u16 \<Rightarrow> Align \<Rightarrow> Glyphs \<Rightarrow> string" where
  "cell txt width align g =
     (let width = unat width in
      if width = 0 then []
      else case align of
        Left \<Rightarrow> let t = glyph_truncate g txt width in t @ spaces (width - char_count t)
      | Right \<Rightarrow>
          let inner = max (width - 1) 1; t = glyph_truncate g txt inner
          in spaces (inner - char_count t) @ t @ (if inner < width then '' '' else []))"

definition header_line ::
    "Column list \<Rightarrow> (nat \<times> u16) list \<Rightarrow> nat option \<Rightarrow> bool \<Rightarrow> Theme \<Rightarrow> Glyphs \<Rightarrow> Line" where
  "header_line columns layout sort_col descending t g =
     (let arrow = (if descending then sort_desc g else sort_asc g); base = table_header t in
      map (\<lambda>(idx, width).
             let col = columns ! idx; active = (sort_col = Some idx);
                 label = (if active then co_label col @ arrow else co_label col);
                 style = (if active then add_modifier {BOLD, UNDERLINED} (with_fg (th_accent_primary t) base) else base)
             in (cell label width (co_align col) g, style)) layout)"

section \<open>Sparklines\<close>

datatype Tint = Flat | Load

definition spark_line ::
    "u64 list \<Rightarrow> u16 \<Rightarrow> u64 option \<Rightarrow> Tint \<Rightarrow> Color \<Rightarrow> Theme \<Rightarrow> Glyphs \<Rightarrow> Line" where
  "spark_line xs width mx tint color t g =
     (let width = unat width in
      if width = 0 then []
      else
        let window = (if width < length xs then drop (length xs - width) xs else xs);
            scale = max (unwrap_or (or_else mx (if window = [] then None else Some (fold max window 0))) 0) 1;
            pad = width - length window
        in (if 0 < pad then [(spaces pad, with_fg (th_bar_empty t) style_default)] else []) @
           map (\<lambda>v. (spark_level g v scale,
                       case tint of
                         Flat \<Rightarrow> with_fg color style_default
                       | Load \<Rightarrow>
                           with_fg (gauge_color t
                             (fmul F64 (fdiv F64 (of_nat_fl F64 (unat (min v scale))) (of_nat_fl F64 (unat scale)))
                               (Fin 100))) style_default)) window)"

definition line_percent :: "fl list \<Rightarrow> u16 \<Rightarrow> Theme \<Rightarrow> Glyphs \<Rightarrow> Line" where
  "line_percent xs width t g =
     spark_line (map (\<lambda>v. of_nat (to_usize (fround (fclamp v (Fin 0) (Fin 100))))) xs) width (Some 100) Load
       (th_accent_primary t) t g"

section \<open>Load meters\<close>

definition ZONE_WARN :: fl where "ZONE_WARN = Fin (1 / 2)"

definition ZONE_DANGER :: fl where "ZONE_DANGER = fl_round F64 (4 / 5)"

definition zone_color :: "nat \<Rightarrow> nat \<Rightarrow> nat \<Rightarrow> Theme \<Rightarrow> Color" where
  "zone_color cell_index warn_at danger_at t =
     (if danger_at \<le> cell_index then th_danger t
      else if warn_at \<le> cell_index then th_warning t
      else th_success t)"

definition push_cells :: "string \<Rightarrow> nat \<Rightarrow> Color \<Rightarrow> Line" where
  "push_cells glyph n color = (if 0 < n then [(repeat_str n glyph, with_fg color style_default)] else [])"

definition meter_partial :: "Glyphs \<Rightarrow> fl \<Rightarrow> nat \<Rightarrow> nat \<Rightarrow> string option" where
  "meter_partial g exact full track =
     (if meter_partials g = [] \<or> track \<le> full then None
      else let step = to_usize (fround (fmul F64 (fsub F64 exact (of_nat_fl F64 full)) (Fin 8)))
           in if 1 \<le> step \<and> step \<le> 7 then Some (meter_partials g ! (step - 1)) else None)"

definition fill_spans :: "fl \<Rightarrow> nat \<Rightarrow> Theme \<Rightarrow> Glyphs \<Rightarrow> Line" where
  "fill_spans percent track t g =
     (if track = 0 then []
      else
        let percent = fclamp percent (Fin 0) (Fin 100);
            exact = fdiv F64 (fmul F64 (of_nat_fl F64 track) percent) (Fin 100);
            full = min (to_usize (ffloor exact)) track;
            partial = meter_partial g exact full track;
            warn_at = to_usize (fround (fmul F64 (of_nat_fl F64 track) ZONE_WARN));
            danger_at = to_usize (fround (fmul F64 (of_nat_fl F64 track) ZONE_DANGER));
            green = min full warn_at;
            yellow = min (full - warn_at) (danger_at - warn_at);
            red = full - danger_at;
            used = (case partial of Some _ \<Rightarrow> full + 1 | None \<Rightarrow> full)
        in push_cells (meter_full g) green (th_success t) @
           push_cells (meter_full g) yellow (th_warning t) @
           push_cells (meter_full g) red (th_danger t) @
           (case partial of
              Some p \<Rightarrow> [(p, with_fg (zone_color full warn_at danger_at t) style_default)]
            | None \<Rightarrow> []) @
           push_cells (meter_empty g) (track - used) (th_bar_empty t))"

definition bar_line :: "string \<Rightarrow> nat \<Rightarrow> string \<Rightarrow> fl \<Rightarrow> u16 \<Rightarrow> Theme \<Rightarrow> Glyphs \<Rightarrow> Line" where
  "bar_line label label_width info percent width t g =
     (if unat width \<le> label_width + 2 then [(cell label width Left g, strong t)]
      else
        let bar_w = unat width - label_width - 2;
            info = glyph_truncate g info bar_w;
            track = bar_w - char_count info
        in [(pad_right label_width label, strong t), (''['', dim t)] @ fill_spans percent track t g @
           [(info, dim t), ('']'', dim t)])"

definition inline :: "fl \<Rightarrow> u16 \<Rightarrow> Theme \<Rightarrow> Glyphs \<Rightarrow> Line" where
  "inline percent width t g = fill_spans percent (unat width) t g"

definition UNITS :: "(nat \<times> string) list" where
  "UNITS = [(2 ^ 50, ''P''), (2 ^ 40, ''T''), (2 ^ 30, ''G''), (2 ^ 20, ''M''), (2 ^ 10, ''K''), (1, ''B'')]"

fun units_loop :: "nat \<Rightarrow> (nat \<times> string) list \<Rightarrow> string" where
  "units_loop bytes [] = ''0B''"
| "units_loop bytes ((scale, suff) # rest) =
     (if scale \<le> bytes then
        let val = fdiv F64 (of_nat_fl F64 bytes) (of_nat_fl F64 scale)
        in (if fle (Fin 100) val \<or> scale = 1 then fmt_fixed 0 val else fmt_fixed 1 val) @ suff
      else units_loop bytes rest)"

definition human_bytes :: "u64 \<Rightarrow> string" where
  "human_bytes bytes = units_loop (unat bytes) UNITS"

definition human_rate :: "u64 \<Rightarrow> string" where
  "human_rate bytes_per_sec = human_bytes bytes_per_sec @ ''/s''"

section \<open>Scrollbars\<close>

definition thumb_size :: "nat \<Rightarrow> nat \<Rightarrow> nat \<Rightarrow> nat" where
  "thumb_size height total_rows visible =
     min (to_usize (fmax (fround (fmul F64 (fdiv F64 (of_nat_fl F64 visible) (of_nat_fl F64 total_rows))
                                           (of_nat_fl F64 height))) (Fin 1))) height"

definition thumb_start :: "nat \<Rightarrow> nat \<Rightarrow> nat \<Rightarrow> nat \<Rightarrow> nat" where
  "thumb_start travel total_rows visible offset =
     (let max_offset = total_rows - visible in
      min (if max_offset = 0 then 0
           else to_usize (fround (fmul F64 (fdiv F64 (of_nat_fl F64 (min offset max_offset))
                                                    (of_nat_fl F64 max_offset)) (of_nat_fl F64 travel)))) travel)"

definition scrollbar_vertical :: "nat \<Rightarrow> nat \<Rightarrow> nat \<Rightarrow> nat \<Rightarrow> nat \<Rightarrow> Theme \<Rightarrow> Glyphs \<Rightarrow> Line list" where
  "scrollbar_vertical width height total_rows visible offset t g =
     (if width = 0 \<or> height = 0 \<or> total_rows \<le> visible \<or> visible = 0 then []
      else
        let thumb = thumb_size height total_rows visible;
            start = thumb_start (height - thumb) total_rows visible offset
        in map (\<lambda>i. if start \<le> i \<and> i < start + thumb
                       then [(scroll_thumb g, with_fg (th_scrollbar_thumb t) style_default)]
                       else [(scroll_track g, with_fg (th_scrollbar_track t) style_default)]) [0..<height])"

definition position_label :: "nat \<Rightarrow> nat \<Rightarrow> string option" where
  "position_label selected total_rows =
     (if 0 < total_rows then Some (dec (min selected (total_rows - 1) + 1) @ ''/'' @ dec total_rows) else None)"

section \<open>Badges, empty states and overlays\<close>

primrec marker :: "Level \<Rightarrow> Glyphs \<Rightarrow> string" where
  "marker Success g = st_running g"
| "marker Neutral g = st_idle g"
| "marker Info g = st_paused g"
| "marker Warning g = st_warn g"
| "marker Error g = st_dead g"

definition chip :: "string \<Rightarrow> string \<Rightarrow> Theme \<Rightarrow> Line" where
  "chip label val t = [(label @ '': '', subtle t), (val, with_fg (th_fg t) (dim t))]"

record EmptyState =
  es_title :: string
  es_reason :: "string option"
  es_remedy :: "string option"
  es_level :: Level

definition no_match :: "string \<Rightarrow> EmptyState" where
  "no_match noun =
     \<lparr>es_title = noun, es_reason = Some ''No rows match the active filter.'',
      es_remedy = Some ''Press Esc to clear it, or / to edit it.'', es_level = Neutral\<rparr>"

definition empty_state :: "string \<Rightarrow> string option \<Rightarrow> EmptyState" where
  "empty_state title reason = \<lparr>es_title = title, es_reason = reason, es_remedy = None, es_level = Neutral\<rparr>"

definition error_state :: "string \<Rightarrow> string \<Rightarrow> string \<Rightarrow> EmptyState" where
  "error_state title reason remedy =
     \<lparr>es_title = title, es_reason = Some reason, es_remedy = Some remedy, es_level = Error\<rparr>"

definition waiting_state :: "string \<Rightarrow> EmptyState" where
  "waiting_state what = \<lparr>es_title = what, es_reason = None, es_remedy = None, es_level = Info\<rparr>"

definition empty_lines :: "EmptyState \<Rightarrow> Theme \<Rightarrow> Line list" where
  "empty_lines e t =
     [[(es_title e, add_modifier {BOLD} (level_style t (es_level e)))]] @
     (case es_reason e of Some reason \<Rightarrow> [[], [(reason, dim t)]] | None \<Rightarrow> []) @
     (case es_remedy e of Some remedy \<Rightarrow> [[(remedy, subtle t)]] | None \<Rightarrow> [])"

record Rect =
  rx :: u16
  ry :: u16
  rwidth :: u16
  rheight :: u16

definition centered :: "u16 \<Rightarrow> u16 \<Rightarrow> Rect \<Rightarrow> Rect" where
  "centered width height area =
     (let w = min width (rwidth area); h = min height (rheight area) in
      \<lparr>rx = rx area + (rwidth area - w) div 2, ry = ry area + (rheight area - h) div 2,
       rwidth = w, rheight = h\<rparr>)"

definition centered_percent :: "u16 \<Rightarrow> u16 \<Rightarrow> Rect \<Rightarrow> Rect" where
  "centered_percent percent_x percent_y area =
     (let w = sat_mul (rwidth area) (min percent_x 100) div 100;
          h = sat_mul (rheight area) (min percent_y 100) div 100
      in centered (max w 1) (max h 1) area)"

text \<open>Where an empty state is drawn: centred vertically, its title never off the top.\<close>

definition empty_area :: "Rect \<Rightarrow> EmptyState \<Rightarrow> Theme \<Rightarrow> Rect" where
  "empty_area area e t =
     (let top_pad = sat_sub (rheight area) (of_nat (length (empty_lines e t))) div 2;
          shift = min top_pad (sat_sub (rheight area) 1)
      in area\<lparr>ry := ry area + shift, rheight := rheight area - shift\<rparr>)"

section \<open>The table\<close>

record Cell =
  ce_text :: string
  ce_color :: "Color option"

definition cell_new :: "string \<Rightarrow> Cell" where
  "cell_new txt = \<lparr>ce_text = txt, ce_color = None\<rparr>"

definition cell_colored :: "string \<Rightarrow> Color \<Rightarrow> Cell" where
  "cell_colored txt color = \<lparr>ce_text = txt, ce_color = Some color\<rparr>"

type_synonym Row = "Cell list"

record Spec =
  sp_columns :: "Column list"
  sp_sort_col :: "nat option"
  sp_descending :: bool
  sp_total :: nat
  sp_selected :: nat
  sp_scroll :: nat
  sp_col_scroll :: nat
  sp_empty :: EmptyState

text \<open>What the table draws: the header, then the body or the placeholder, and the scrollbar.\<close>

record table_frame =
  tf_header :: Line
  tf_body :: "Line list"
  tf_bar :: "Line list"

definition row_line :: "Theme \<Rightarrow> Glyphs \<Rightarrow> Spec \<Rightarrow> (nat \<times> u16) list \<Rightarrow> (nat \<Rightarrow> Row) \<Rightarrow> nat \<Rightarrow> Line" where
  "row_line t g spec layout row_at idx =
     (let selected = (idx = sp_selected spec);
          base = (if selected then selected_row t else row_style t (idx mod 2 = 1));
          row = row_at idx
      in (if selected then (sel_edge g, with_fg (th_selection_edge t) base) else ('' '', base)) #
         map (\<lambda>(col_idx, width).
                let c = get_opt row col_idx;
                    txt = (case c of Some x \<Rightarrow> ce_text x | None \<Rightarrow> []);
                    style = (case Option.bind c ce_color of Some color \<Rightarrow> with_fg color base | None \<Rightarrow> base)
                in (cell txt width (co_align (sp_columns spec ! col_idx)) g, style)) layout)"

text \<open>
  \<open>draw\<close> into an area of this width and height: the scroll offset used and the frame, if any. The
  area splits into the header row and the rest, and the last column goes to the scrollbar when there
  is one.
\<close>

definition draw_table ::
    "Theme \<Rightarrow> Glyphs \<Rightarrow> u16 \<Rightarrow> u16 \<Rightarrow> Spec \<Rightarrow> (nat \<Rightarrow> Row) \<Rightarrow> nat \<times> table_frame option" where
  "draw_table t g width height spec row_at =
     (if height = 0 \<or> width = 0 then (sp_scroll spec, None)
      else
        let needs_scrollbar = (4 < width \<and> unat (sat_sub height 1) < sp_total spec);
            table_width = (if needs_scrollbar then width - 1 else width);
            layout = resolve_scrolled (sp_columns spec) (sat_sub table_width 1) (sp_col_scroll spec);
            header = ('' '', table_header t) #
                     header_line (sp_columns spec) layout (sp_sort_col spec) (sp_descending spec) t g;
            body_height = unat height - 1
        in if body_height = 0 then (sp_scroll spec, Some \<lparr>tf_header = header, tf_body = [], tf_bar = []\<rparr>)
           else if sp_total spec = 0 then
             (0, Some \<lparr>tf_header = header, tf_body = empty_lines (sp_empty spec) t, tf_bar = []\<rparr>)
           else
             let scroll = viewport_offset (sp_selected spec) (sp_scroll spec) body_height;
                 stop = min (scroll + body_height) (sp_total spec)
             in (scroll,
                 Some \<lparr>tf_header = header,
                       tf_body = map (row_line t g spec layout row_at) [scroll..<stop],
                       tf_bar = (if needs_scrollbar
                                 then scrollbar_vertical 1 body_height (sp_total spec) body_height scroll t g
                                 else [])\<rparr>))"

section \<open>Facts about text\<close>

text \<open>What every Rust string satisfies: it does not begin inside a character.\<close>

definition starts_char :: "string \<Rightarrow> bool" where
  "starts_char s \<longleftrightarrow> s = [] \<or> \<not> is_cont (hd s)"

lemma str_chars_append: "starts_char b \<Longrightarrow> str_chars (a @ b) = str_chars a @ str_chars b"
proof (induction a rule: str_chars.induct)
  case (2 c cs)
  have b: "takeWhile is_cont b = []" "dropWhile is_cont b = b"
    using "2.prems" by (cases b; simp add: starts_char_def)+
  show ?case
  proof (cases "\<forall>x\<in>set cs. is_cont x")
    case True
    then show ?thesis
      using b by (cases b) (simp_all add: takeWhile_append2 dropWhile_append2 takeWhile_eq_all_conv [THEN iffD2]
          dropWhile_eq_Nil_conv [THEN iffD2])
  next
    case False
    then obtain x where x: "x \<in> set cs" "\<not> is_cont x" by blast
    then show ?thesis using 2 x by (simp add: takeWhile_append1 [of x cs is_cont] dropWhile_append1 [of x cs is_cont])
  qed
qed simp

lemma char_count_append: "starts_char b \<Longrightarrow> char_count (a @ b) = char_count a + char_count b"
  by (simp add: char_count_def str_chars_append)

lemma str_chars_single: "\<forall>c\<in>set s. \<not> is_cont c \<Longrightarrow> str_chars s = map (\<lambda>c. [c]) s"
proof (induction s)
  case (Cons c cs)
  then have "takeWhile is_cont cs = []" "dropWhile is_cont cs = cs" by (cases cs; simp)+
  with Cons show ?case by simp
qed simp

lemma space_not_cont [simp]: "\<not> is_cont CHR '' ''"
  by (simp add: is_cont_def)

lemma char_count_spaces [simp]: "char_count (spaces n) = n"
  by (simp add: char_count_def spaces_def str_chars_single)

lemma char_count_Nil [simp]: "char_count [] = 0"
  by (simp add: char_count_def)

lemma starts_char_spaces [simp]: "starts_char (spaces n)" "starts_char []" "starts_char '' ''"
  by (cases n) (simp_all add: starts_char_def spaces_def)

lemma starts_char_append: "starts_char a \<Longrightarrow> starts_char b \<Longrightarrow> starts_char (a @ b)"
  by (cases a) (simp_all add: starts_char_def)

lemma str_chars_chars: "str_chars (concat (take n (str_chars s))) = take n (str_chars s)"
proof (induction s arbitrary: n rule: str_chars.induct)
  case (2 c cs)
  show ?case
  proof (cases n)
    case (Suc k)
    have rest: "starts_char (concat (take k (str_chars (dropWhile is_cont cs))))"
    proof (cases "dropWhile is_cont cs")
      case (Cons d ds)
      then have "\<not> is_cont d" using hd_dropWhile [of is_cont cs] by simp
      then show ?thesis by (cases k) (simp_all add: Cons starts_char_def)
    next
      case Nil
      show ?thesis unfolding Nil by simp
    qed
    have dw: "dropWhile is_cont (takeWhile is_cont cs) = []" by (auto dest: set_takeWhileD)
    have one: "str_chars (c # takeWhile is_cont cs) = [c # takeWhile is_cont cs]"
      by (simp add: dw del: dropWhile_eq_Nil_conv)
    show ?thesis
      using str_chars_append [OF rest, of "c # takeWhile is_cont cs"] one 2 [of k] by (simp add: Suc)
  qed simp
qed simp

lemma char_count_take_chars: "char_count (take_chars n s) = min n (char_count s)"
  by (simp add: char_count_def take_chars_def str_chars_chars min.commute)

lemma starts_char_take: "starts_char s \<Longrightarrow> starts_char (take_chars n s)"
  by (cases s; cases n) (simp_all add: take_chars_def starts_char_def)


section \<open>Facts about cells\<close>

definition one_char :: "string \<Rightarrow> bool" where
  "one_char s \<longleftrightarrow> starts_char s \<and> char_count s = 1"

lemma one_char_utf3: "128 \<le> b \<and> b < 192 \<and> 128 \<le> c \<and> c < 192 \<Longrightarrow> one_char (utf3 b c)"
  by (auto simp: one_char_def utf3_def starts_char_def char_count_def is_cont_def byte_of_char_of)

lemma one_char_ascii: "\<not> is_cont c \<Longrightarrow> one_char [c]"
  by (simp add: one_char_def starts_char_def char_count_def)

definition glyphs_ok :: "Glyphs \<Rightarrow> bool" where
  "glyphs_ok g \<longleftrightarrow> one_char (gl_ellipsis g) \<and> one_char (meter_full g) \<and> one_char (meter_empty g) \<and>
     list_all one_char (meter_partials g) \<and> length (meter_partials g) \<in> {0, 7} \<and>
     list_all one_char (spark g) \<and> length (spark g) = 8 \<and> one_char (sel_edge g) \<and>
     one_char (scroll_thumb g) \<and> one_char (scroll_track g) \<and> one_char (sort_desc g) \<and> one_char (sort_asc g)"

lemma glyphs_ok [simp]: "glyphs_ok (glyphs_new u)"
  by (simp add: glyphs_new_def glyphs_ok_def UNICODE_def ASCII_def UNICODE_PARTIALS_def UNICODE_SPARK_def
      ASCII_SPARK_def one_char_utf3 one_char_ascii is_cont_def)

lemma truncate_count:
  assumes "glyphs_ok g"
  shows "char_count (glyph_truncate g s width) = min (char_count s) width"
proof -
  have e: "starts_char (gl_ellipsis g)" "char_count (gl_ellipsis g) = 1"
    using assms by (auto simp: glyphs_ok_def one_char_def)
  then show ?thesis
    by (auto simp: glyph_truncate_def char_count_append char_count_take_chars)
qed

lemma truncate_starts:
  assumes "glyphs_ok g" "starts_char s"
  shows "starts_char (glyph_truncate g s width)"
  using assms by (auto simp: glyph_truncate_def glyphs_ok_def one_char_def intro!: starts_char_append starts_char_take)

lemma cell_width:
  assumes "glyphs_ok g" "starts_char txt"
  shows "char_count (cell txt width align g) = unat width"
proof (cases "unat width = 0")
  case False
  show ?thesis
  proof (cases align)
    case Left
    then show ?thesis using False assms(1) by (simp add: cell_def Let_def char_count_append truncate_count)
  next
    case Right
    let ?t = "glyph_truncate g txt (max (unat width - 1) 1)"
    have "starts_char ?t" by (rule truncate_starts [OF assms])
    then have "starts_char (?t @ (if c then '' '' else []))" for c by (simp add: starts_char_append)
    moreover have "char_count (?t @ (if c then '' '' else [])) = char_count ?t + (if c then 1 else 0)" for c
      using char_count_append [of "'' ''" ?t] one_char_ascii [of "CHR '' ''"] by (simp add: one_char_def)
    ultimately show ?thesis
      using False assms(1) Right by (simp add: cell_def Let_def char_count_append truncate_count)
  qed
qed (simp add: cell_def)

lemma cell_starts:
  assumes "glyphs_ok g" "starts_char txt"
  shows "starts_char (cell txt width align g)"
  using truncate_starts [OF assms] by (auto simp: cell_def Let_def intro!: starts_char_append split: Align.split)

text \<open>The width of a line is the number of characters of its spans.\<close>

definition line_width :: "Line \<Rightarrow> nat" where
  "line_width l = sum_list (map (char_count \<circ> fst) l)"

lemma line_width_simps [simp]:
  "line_width [] = 0" "line_width (x # l) = char_count (fst x) + line_width l"
  "line_width (a @ b) = line_width a + line_width b"
  by (simp_all add: line_width_def)

lemma repeat_count: "one_char s \<Longrightarrow> char_count (repeat_str n s) = n \<and> starts_char (repeat_str n s)"
  by (induction n) (simp_all add: repeat_str_def char_count_append starts_char_append one_char_def)

section \<open>Facts about casts\<close>

lemma zone_danger: obtains d where "ZONE_DANGER = Fin d" "1 / 2 \<le> d"
proof -
  have half: "rnd F64 (1 / 2) = 1 / 2"
    using rnd_exact [of "1 / 2" 1 "- 1" F64] by (simp add: pow2_def)
  then have "1 / 2 \<le> rnd F64 (4 / 5)" using rnd_mono [of "1 / 2" "4 / 5" F64] by simp
  moreover have "rnd F64 (4 / 5) \<le> rnd F64 (of_nat 1)" by (rule rnd_mono) simp_all
  then have "rnd F64 (4 / 5) < pow2 1024" using rnd_nat_exact [of 1 F64] by (simp add: pow2_def)
  ultimately show ?thesis
    using that [of "rnd F64 (4 / 5)"] by (simp add: ZONE_DANGER_def fl_round_cases)
qed

lemma fround_mono:
  assumes "nonneg a" "fle a b"
  shows "fle (fround a) (fround b) \<and> nonneg (fround a)"
proof (cases "b = PInf")
  case True
  with assms(1) show ?thesis by (auto simp: nonneg_cases)
next
  case False
  with assms obtain x y where "a = Fin x" "b = Fin y" "0 \<le> x" "x \<le> y"
    by (cases b) (auto simp: nonneg_cases fle_def)
  moreover from this have "\<lfloor>x + 1 / 2\<rfloor> \<le> \<lfloor>y + 1 / 2\<rfloor>" by (intro floor_mono) simp
  ultimately show ?thesis by (simp add: nonneg_def)
qed

lemma sat_cast_mono:
  assumes "nonneg a" "fle a b" "0 \<le> hi"
  shows "sat_cast 0 hi a \<le> sat_cast 0 hi b"
proof (cases "b = PInf")
  case True
  with assms show ?thesis by (auto simp: nonneg_cases)
next
  case False
  with assms obtain x y where "a = Fin x" "b = Fin y" "0 \<le> x" "x \<le> y"
    by (cases b) (auto simp: nonneg_cases fle_def)
  moreover from this have "\<lfloor>x\<rfloor> \<le> \<lfloor>y\<rfloor>" by (intro floor_mono)
  ultimately show ?thesis by (simp add: trunc_def)
qed

lemma to_usize_mono: "nonneg a \<Longrightarrow> fle a b \<Longrightarrow> to_usize a \<le> to_usize b"
  unfolding to_usize_def by (intro nat_mono sat_cast_mono) simp_all

lemma to_usize_Fin_nat: "n < 2 ^ 64 \<Longrightarrow> to_usize (Fin (of_nat n)) = n"
  by (simp add: to_usize_def trunc_def)

lemma of_nat_fl_exact: "n < 2 ^ 53 \<Longrightarrow> of_nat_fl F64 n = Fin (of_nat n)"
proof -
  assume n: "n < 2 ^ 53"
  then have "rnd F64 (of_nat n) = of_nat n" by (intro rnd_nat_exact) simp
  moreover have "(of_nat n :: rat) < of_nat (2 ^ 53)" using n by (simp only: of_nat_less_iff)
  then have "(of_nat n :: rat) < pow2 1024" by (simp add: pow2_def)
  ultimately show ?thesis by (simp add: of_nat_fl_def fl_round_cases)
qed

lemma of_nat_fl_pos:
  assumes "0 < n" "n < 2 ^ 64"
  obtains x where "of_nat_fl F64 n = Fin x" "1 \<le> x"
proof -
  have "rnd F64 (of_nat 1) \<le> rnd F64 (of_nat n)" by (rule rnd_mono) (use assms in auto)
  then have ge: "1 \<le> rnd F64 (of_nat n)" using rnd_nat_exact [of 1 F64] by simp
  have two: "rnd F64 (pow2 64) = pow2 64" using rnd_exact [of "pow2 64" 1 64 F64] by simp
  have "(of_nat n :: rat) \<le> of_nat (2 ^ 64)" using assms(2) by (simp only: of_nat_le_iff less_imp_le)
  then have "rnd F64 (of_nat n) \<le> rnd F64 (pow2 64)" by (intro rnd_mono) (simp_all add: pow2_def)
  then have "rnd F64 (of_nat n) < pow2 1024" using two pow2_less_iff [of 64 1024] by simp
  with ge show ?thesis using that by (simp add: of_nat_fl_def fl_round_cases)
qed

definition zone_cell :: "fl \<Rightarrow> nat \<Rightarrow> nat" where
  "zone_cell z track = to_usize (fround (fmul F64 (of_nat_fl F64 track) z))"

lemma zones_ordered: "zone_cell ZONE_WARN n \<le> zone_cell ZONE_DANGER n"
proof -
  obtain d where d: "ZONE_DANGER = Fin d" "1 / 2 \<le> d" by (rule zone_danger)
  have nn: "nonneg (of_nat_fl F64 n)" by (rule of_nat_fl_nonneg)
  have "nonneg (fmul F64 (of_nat_fl F64 n) ZONE_WARN) \<and>
    fle (fmul F64 (of_nat_fl F64 n) ZONE_WARN) (fmul F64 (of_nat_fl F64 n) ZONE_DANGER)"
  proof (cases "of_nat_fl F64 n")
    case (Fin x)
    with nn have "0 \<le> x" by (simp add: nonneg_def)
    moreover have "x * (1 / 2) \<le> x * d" using d(2) \<open>0 \<le> x\<close> by (intro mult_left_mono) simp_all
    ultimately show ?thesis
      using fl_round_mono [of "x * (1 / 2)" "x * d" F64] fl_round_nonneg [of "x * (1 / 2)" F64]
      by (simp add: Fin d ZONE_WARN_def)
  next
    case PInf
    show ?thesis unfolding PInf d(1) using d(2) by (simp add: ZONE_WARN_def inf_signed_def nonneg_def fle_def)
  qed (use nn in \<open>auto simp: nonneg_cases\<close>)
  then show ?thesis unfolding zone_cell_def using fround_mono to_usize_mono by blast
qed


section \<open>Facts about meters\<close>

text \<open>The colour of every cell of a line.\<close>

definition cell_colors :: "Line \<Rightarrow> Color option list" where
  "cell_colors l = concat (map (\<lambda>(s, st). replicate (char_count s) (st_fg st)) l)"

lemma cell_colors_simps [simp]:
  "cell_colors [] = []" "cell_colors (a @ b) = cell_colors a @ cell_colors b"
  by (simp_all add: cell_colors_def)

lemma cell_colors_push:
  "one_char glyph \<Longrightarrow> cell_colors (push_cells glyph n color) = replicate n (Some color)"
  by (simp add: push_cells_def cell_colors_def repeat_count with_fg_def)

lemma cell_colors_one:
  "one_char p \<Longrightarrow> cell_colors ((p, with_fg color style_default) # l) = Some color # cell_colors l"
  by (simp add: cell_colors_def with_fg_def one_char_def)

definition meter_exact :: "fl \<Rightarrow> nat \<Rightarrow> fl" where
  "meter_exact percent track = fdiv F64 (fmul F64 (of_nat_fl F64 track) (fclamp percent (Fin 0) (Fin 100))) (Fin 100)"

definition meter_used :: "fl \<Rightarrow> nat \<Rightarrow> Glyphs \<Rightarrow> nat" where
  "meter_used percent track g =
     (let full = min (to_usize (ffloor (meter_exact percent track))) track in
      case meter_partial g (meter_exact percent track) full track of Some _ \<Rightarrow> full + 1 | None \<Rightarrow> full)"

lemma zone_map:
  assumes "w \<le> d"
  shows "map (\<lambda>i. Some (zone_color i w d t)) [0..<n] =
    replicate (min n w) (Some (th_success t)) @ replicate (min (n - w) (d - w)) (Some (th_warning t)) @
    replicate (n - d) (Some (th_danger t))"
proof -
  let ?z = "\<lambda>i. Some (zone_color i w d t)"
  have const: "map f [a..<b] = replicate (b - a) c" if "\<And>i. a \<le> i \<Longrightarrow> i < b \<Longrightarrow> f i = c" for f :: "nat \<Rightarrow> Color option" and a b c
    using that by (intro nth_equalityI) auto
  let ?a = "min n w" and ?b = "min n d"
  have split: "[0..<n] = [0..<?a] @ [?a..<?b] @ [?b..<n]"
    using assms upt_add_eq_append [of 0 ?a "n - ?a"] upt_add_eq_append [of ?a ?b "n - ?b"] by simp
  have "map ?z [0..<?a] = replicate (?a - 0) (Some (th_success t))"
    by (rule const) (use assms in \<open>auto simp: zone_color_def\<close>)
  moreover have "map ?z [?a..<?b] = replicate (?b - ?a) (Some (th_warning t))"
    by (rule const) (auto simp: zone_color_def min_def split: if_splits)
  moreover have "map ?z [?b..<n] = replicate (n - ?b) (Some (th_danger t))"
    by (rule const) (auto simp: zone_color_def min_def split: if_splits)
  moreover have "?b - ?a = min (n - w) (d - w)" "n - ?b = n - d" using assms by auto
  ultimately show ?thesis unfolding split map_append by simp
qed

lemma meter_partial_one:
  assumes "glyphs_ok g" "meter_partial g exact full track = Some p"
  shows "one_char p" "full < track"
proof -
  from assms(2) obtain k where k: "1 \<le> k" "k \<le> 7" "p = meter_partials g ! (k - 1)" "meter_partials g \<noteq> []" "full < track"
    by (auto simp: meter_partial_def Let_def split: if_splits)
  with assms(1) have "length (meter_partials g) = 7" "list_all one_char (meter_partials g)"
    by (auto simp: glyphs_ok_def)
  with k show "one_char p" by (simp add: list_all_length)
  show "full < track" by fact
qed

lemma fill_spans_colors:
  assumes "glyphs_ok g"
  shows "meter_used percent track g \<le> track \<and>
    cell_colors (fill_spans percent track t g) =
      map (\<lambda>i. Some (if i < meter_used percent track g
                       then zone_color i (zone_cell ZONE_WARN track) (zone_cell ZONE_DANGER track) t
                       else th_bar_empty t)) [0..<track]"
proof -
  let ?w = "zone_cell ZONE_WARN track" and ?d = "zone_cell ZONE_DANGER track"
  let ?x = "meter_exact percent track"
  define full where "full = min (to_usize (ffloor ?x)) track"
  define used where "used = meter_used percent track g"
  have f: "one_char (meter_full g)" "one_char (meter_empty g)" using assms by (simp_all add: glyphs_ok_def)
  have used: "used = (case meter_partial g ?x full track of Some _ \<Rightarrow> full + 1 | None \<Rightarrow> full)"
    unfolding used_def meter_used_def full_def Let_def ..
  have le: "used \<le> track"
    using meter_partial_one(2) [OF assms, of ?x full track]
    by (auto simp: used full_def split: option.split)
  have upt: "[0..<track] = [0..<used] @ [used..<track]"
    using le upt_add_eq_append [of 0 used "track - used"] by simp
  have "map (\<lambda>i. Some (if i < used then zone_color i ?w ?d t else th_bar_empty t)) [0..<track] =
      map (\<lambda>i. Some (zone_color i ?w ?d t)) [0..<used] @ replicate (track - used) (Some (th_bar_empty t))"
    unfolding upt map_append by (intro arg_cong2 [where f = append] nth_equalityI) auto
  moreover have "map (\<lambda>i. Some (zone_color i ?w ?d t)) [0..<used] =
      map (\<lambda>i. Some (zone_color i ?w ?d t)) [0..<full] @
      (case meter_partial g ?x full track of Some _ \<Rightarrow> [Some (zone_color full ?w ?d t)] | None \<Rightarrow> [])"
    by (simp add: used split: option.split)
  moreover have "cell_colors (fill_spans percent track t g) =
      replicate (min full ?w) (Some (th_success t)) @ replicate (min (full - ?w) (?d - ?w)) (Some (th_warning t)) @
      replicate (full - ?d) (Some (th_danger t)) @
      (case meter_partial g ?x full track of Some _ \<Rightarrow> [Some (zone_color full ?w ?d t)] | None \<Rightarrow> []) @
      replicate (track - used) (Some (th_bar_empty t))"
  proof (cases "track = 0")
    case False
    then show ?thesis
      using f meter_partial_one(1) [OF assms, of ?x full track]
      by (cases "meter_partial g ?x full track")
        (simp_all add: fill_spans_def Let_def cell_colors_push cell_colors_one used full_def meter_exact_def zone_cell_def)
  qed (use le in \<open>auto simp: fill_spans_def full_def meter_partial_def\<close>)
  ultimately show ?thesis using le zone_map [OF zones_ordered, of track t full] by (simp add: used_def)
qed


lemma meter_exact_ends:
  assumes "track < 65536"
  shows "fle (Fin 100) percent \<Longrightarrow> meter_used percent track g = track"
    "fle percent (Fin 0) \<Longrightarrow> meter_used percent track g = 0"
proof -
  have n: "of_nat_fl F64 k = Fin (of_nat k)" if "k \<le> 65536 * 100" for k
    by (rule of_nat_fl_exact) (use that in simp)
  then have round: "fl_round F64 (of_nat k) = Fin (of_nat k)" if "k \<le> 65536 * 100" for k
    using that by (simp add: of_nat_fl_def)
  show "meter_used percent track g = track" if "fle (Fin 100) percent"
  proof -
    have "fclamp percent (Fin 0) (Fin 100) = Fin 100"
      using that by (cases percent) (auto simp: fclamp_def fle_def)
    then have "meter_exact percent track = Fin (of_nat track)"
      using assms n [of track] round [of "track * 100"] round [of track] by (simp add: meter_exact_def)
    then show ?thesis
      using assms by (simp add: meter_used_def Let_def meter_partial_def to_usize_Fin_nat)
  qed
  show "meter_used percent track g = 0" if "fle percent (Fin 0)"
  proof -
    have "fclamp percent (Fin 0) (Fin 100) = Fin 0"
      using that by (cases percent) (auto simp: fclamp_def fle_def)
    then have "meter_exact percent track = Fin 0"
      using assms n [of track] round [of 0] by (simp add: meter_exact_def)
    then show ?thesis
      using round [of 0] n [of 0]
      by (simp add: meter_used_def Let_def meter_partial_def fsub_def to_usize_def trunc_def)
  qed
qed

section \<open>Facts about scrollbars\<close>

lemma to_usize_ge_one: "a \<noteq> NaN \<Longrightarrow> 1 \<le> to_usize (fmax a (Fin 1))"
proof -
  have "fle (Fin 1) (fmax a (Fin 1))" by (cases a) (auto simp: fmax_def fle_def)
  then have "to_usize (Fin 1) \<le> to_usize (fmax a (Fin 1))" by (intro to_usize_mono) (simp_all add: nonneg_def)
  then show ?thesis using to_usize_Fin_nat [of 1] by simp
qed

lemma to_usize_fmax: "1 \<le> to_usize (fmax a (Fin 1))"
  using to_usize_ge_one [of a] to_usize_Fin_nat [of 1] by (cases "a = NaN") (simp_all add: fmax_def)

lemma thumb_size_bounds: "0 < height \<Longrightarrow> 1 \<le> thumb_size height n v \<and> thumb_size height n v \<le> height"
  using to_usize_fmax by (auto simp: thumb_size_def)

lemma fl_round_one: "fl_round F64 1 = Fin 1"
  using of_nat_fl_exact [of 1] by (simp add: of_nat_fl_def)

lemma thumb_start_bounds: "thumb_start travel n v offset \<le> travel"
  by (simp add: thumb_start_def Let_def)

lemma thumb_start_ends:
  assumes "travel < 65536" "n < 2 ^ 64"
  shows "thumb_start travel n v 0 = 0"
    "v < n \<Longrightarrow> n - v \<le> offset \<Longrightarrow> thumb_start travel n v offset = travel"
proof -
  have z: "of_nat_fl F64 0 = Fin 0" using of_nat_fl_exact [of 0] by simp
  have t: "of_nat_fl F64 travel = Fin (of_nat travel)" using assms by (intro of_nat_fl_exact) simp
  have zero: "fl_round F64 0 = Fin 0" using z by (simp add: of_nat_fl_def)
  show "thumb_start travel n v 0 = 0"
  proof (cases "n - v = 0")
    case False
    obtain x where x: "of_nat_fl F64 (n - v) = Fin x" "1 \<le> x"
      by (rule of_nat_fl_pos [of "n - v"]) (use assms(2) False in auto)
    then have "fdiv F64 (Fin 0) (Fin x) = Fin 0" using zero by simp
    then show ?thesis using z t x zero by (simp add: thumb_start_def Let_def to_usize_def trunc_def)
  qed (simp add: thumb_start_def)
  show "thumb_start travel n v offset = travel" if vn: "v < n" "n - v \<le> offset"
  proof -
    obtain x where x: "of_nat_fl F64 (n - v) = Fin x" "1 \<le> x"
      by (rule of_nat_fl_pos [of "n - v"]) (use assms(2) vn in auto)
    have "fl_round F64 (of_nat travel) = Fin (of_nat travel)" using t by (simp add: of_nat_fl_def)
    moreover have "\<lfloor>1 / 2 :: rat\<rfloor> = 0" by (simp add: floor_eq_iff)
    ultimately show ?thesis
      using x t vn assms(1) by (simp add: thumb_start_def Let_def min_absorb2 fl_round_one to_usize_Fin_nat)
  qed
qed

section \<open>Facts about byte counts\<close>

lemma length_dec: "n < 10 ^ Suc k \<Longrightarrow> length (dec n) \<le> Suc k"
proof (induction k arbitrary: n)
  case (Suc k)
  have "n div 10 < 10 ^ Suc k" using Suc.prems by (simp add: less_mult_imp_div_less mult.commute)
  from Suc.IH [OF this] show ?case by (subst dec.simps) simp
qed (simp add: dec.simps)

lemma rhe_nat_bound: "0 \<le> x \<Longrightarrow> x \<le> of_nat n \<Longrightarrow> nat (rhe x) \<le> n"
  using rhe_le [of x "int n"] by simp

lemma fmt_fixed_length:
  "0 \<le> x \<Longrightarrow> x \<le> 16384 \<Longrightarrow> length (fmt_fixed 0 (Fin x)) \<le> 5"
  "0 \<le> x \<Longrightarrow> x \<le> 100 \<Longrightarrow> length (fmt_fixed 1 (Fin x)) \<le> 5"
proof -
  show "length (fmt_fixed 0 (Fin x)) \<le> 5" if "0 \<le> x" "x \<le> 16384"
  proof -
    have "nat (rhe x) \<le> 16384" using that by (intro rhe_nat_bound) simp_all
    then show ?thesis using that length_dec [of "nat (rhe x)" 4] by (simp add: fmt_digits_def)
  qed
  show "length (fmt_fixed 1 (Fin x)) \<le> 5" if "0 \<le> x" "x \<le> 100"
  proof -
    let ?n = "nat (rhe (x * 10))"
    have n: "?n \<le> 1000" using that by (intro rhe_nat_bound) simp_all
    have "length (dec (?n div 10)) \<le> 3" using n length_dec [of "?n div 10" 2] by simp
    moreover have "length (dec (?n mod 10)) \<le> 1" using length_dec [of "?n mod 10" 0] by simp
    ultimately show ?thesis using that by (simp add: fmt_digits_def Let_def)
  qed
qed


lemma scaled_value:
  assumes "scale = 2 ^ k" "k \<le> 50" "scale \<le> bytes" "bytes \<le> m * scale" "j \<le> 14" "m = 2 ^ j"
  obtains x where "fdiv F64 (of_nat_fl F64 bytes) (of_nat_fl F64 scale) = Fin x" "0 \<le> x" "x \<le> of_nat m"
proof -
  have p: "pow2 (int i) = of_nat (2 ^ i)" for i by (simp add: pow2_def)
  have ex: "rnd F64 (of_nat (2 ^ i)) = of_nat (2 ^ i)" if "i \<le> 64" for i
    using rnd_exact [of "of_nat (2 ^ i)" 1 "int i" F64] by (simp add: p)
  have fin: "fl_round F64 y = Fin (rnd F64 y) \<and> 0 \<le> rnd F64 y \<and> rnd F64 y \<le> of_nat (2 ^ i)"
    if "0 \<le> y" "y \<le> of_nat (2 ^ i)" "i \<le> 64" for y i
  proof -
    have le: "rnd F64 y \<le> of_nat (2 ^ i)" using rnd_mono [OF that(1,2), of F64] ex [OF that(3)] by simp
    also have "\<dots> < pow2 1024" using that(3) pow2_less_iff [of "int i" 1024] by (simp add: p)
    finally show ?thesis using le that(1) rnd_nonneg [OF that(1)] by (simp add: fl_round_cases)
  qed
  have "(of_nat bytes :: rat) \<le> of_nat (2 ^ (j + k))"
    using assms(1,4,6) by (metis of_nat_le_iff power_add)
  note b = fin [OF _ this]
  have s: "of_nat_fl F64 scale = Fin (of_nat scale)"
    using fin [of "of_nat scale" k] ex [of k] assms(1,2) by (simp add: of_nat_fl_def)
  let ?q = "rnd F64 (of_nat bytes) / of_nat scale"
  have "0 \<le> ?q" "?q \<le> of_nat (2 ^ j)"
    using b assms(1,2) assms(5) by (simp_all add: divide_le_eq power_add)
  from fin [OF this] have "fl_round F64 ?q = Fin (rnd F64 ?q)" "0 \<le> rnd F64 ?q" "rnd F64 ?q \<le> of_nat m"
    using assms(5) assms(6) by auto
  with b s assms(1,2) assms(5) show ?thesis by (intro that [of "rnd F64 ?q"]) (simp_all add: of_nat_fl_def)
qed

lemma unit_length:
  assumes "scale = 2 ^ k" "k \<le> 50" "scale \<le> bytes" "bytes \<le> m * scale" "j \<le> 14" "m = 2 ^ j" "length suff = 1"
  shows "length (units_loop bytes ((scale, suff) # rest)) \<le> 6"
proof -
  obtain x where x: "fdiv F64 (of_nat_fl F64 bytes) (of_nat_fl F64 scale) = Fin x" "0 \<le> x" "x \<le> of_nat m"
    by (rule scaled_value [OF assms(1-6)])
  have "m \<le> 2 ^ 14" unfolding assms(6) by (rule power_increasing) (use assms(5) in simp_all)
  then have "(of_nat m :: rat) \<le> of_nat (2 ^ 14)" by (simp only: of_nat_le_iff)
  with x(3) have "x \<le> 16384" by simp
  with x fmt_fixed_length [of x] assms(3,7) show ?thesis
    by (auto simp: Let_def simp del: fmt_fixed.simps)
qed

lemma human_bytes_length: "length (human_bytes b) \<le> 6"
proof -
  let ?n = "unat b"
  have big: "?n < 2 ^ 64" using unsigned_less [of b, where ?'a = nat] by simp
  have len: "length (units_loop ?n ((2 ^ k, suff) # rest)) \<le> 6"
    if "2 ^ k \<le> ?n" "?n \<le> 2 ^ j * 2 ^ k" "k \<le> 50" "j \<le> 14" "length suff = 1" for k j suff rest
    by (rule unit_length [OF refl that(3,1,2,4) refl that(5)])
  consider "2 ^ 50 \<le> ?n" | "2 ^ 40 \<le> ?n" "?n < 2 ^ 50" | "2 ^ 30 \<le> ?n" "?n < 2 ^ 40"
    | "2 ^ 20 \<le> ?n" "?n < 2 ^ 30" | "2 ^ 10 \<le> ?n" "?n < 2 ^ 20" | "2 ^ 0 \<le> ?n" "?n < 2 ^ 10" | "?n = 0"
    by fastforce
  then show ?thesis
  proof cases
    case 1
    with big len [of 50 14 "''P''" "tl UNITS"] show ?thesis
      by (simp add: human_bytes_def UNITS_def del: fmt_fixed.simps)
  next
    case 2
    with len [of 40 10 "''T''" "drop 2 UNITS"] show ?thesis
      by (simp add: human_bytes_def UNITS_def del: fmt_fixed.simps)
  next
    case 3
    with len [of 30 10 "''G''" "drop 3 UNITS"] show ?thesis
      by (simp add: human_bytes_def UNITS_def del: fmt_fixed.simps)
  next
    case 4
    with len [of 20 10 "''M''" "drop 4 UNITS"] show ?thesis
      by (simp add: human_bytes_def UNITS_def del: fmt_fixed.simps)
  next
    case 5
    with len [of 10 10 "''K''" "drop 5 UNITS"] show ?thesis
      by (simp add: human_bytes_def UNITS_def del: fmt_fixed.simps)
  next
    case 6
    with len [of 0 10 "''B''" "[]"] show ?thesis
      by (simp add: human_bytes_def UNITS_def del: fmt_fixed.simps)
  qed (simp add: human_bytes_def UNITS_def)
qed

section \<open>Facts about tables\<close>

lemma resolve_columns_index: "(i, w) \<in> set (resolve_columns columns width) \<Longrightarrow> i < length columns"
  by (auto simp: resolve_columns_def Let_def kept_indices_def)

lemma skip_columns_index: "(j, c) \<in> set (skip_columns skip i columns) \<Longrightarrow> i \<le> j \<and> j < i + length columns"
  by (induction skip i columns rule: skip_columns.induct) (auto split: if_splits)

lemma resolve_scrolled_index:
  assumes "(i, w) \<in> set (resolve_scrolled columns width skip)"
  shows "i < length columns"
proof (cases "skip = 0")
  case False
  with assms obtain j where j: "(j, w) \<in> set (resolve_columns (map snd (skip_columns skip 0 columns)) width)"
    "i = map fst (skip_columns skip 0 columns) ! j"
    by (auto simp: resolve_scrolled_def Let_def)
  then have "j < length (skip_columns skip 0 columns)" using resolve_columns_index by fastforce
  then have "(i, snd (skip_columns skip 0 columns ! j)) \<in> set (skip_columns skip 0 columns)"
    using j(2) nth_mem [of j "skip_columns skip 0 columns"] by (metis nth_map prod.collapse)
  from skip_columns_index [OF this] show ?thesis by simp
qed (use assms resolve_columns_index in \<open>auto simp: resolve_scrolled_def\<close>)

definition layout_width :: "(nat \<times> u16) list \<Rightarrow> nat" where
  "layout_width layout = sum_list (map (unat \<circ> snd) layout)"

lemma sum_cells:
  assumes "\<And>i w. (i, w) \<in> set layout \<Longrightarrow> char_count (fst (f (i, w))) = unat w"
  shows "line_width (map f layout) = layout_width layout"
  using assms
proof (induction layout)
  case (Cons x layout)
  obtain i w where x: "x = (i, w)" by fastforce
  with Cons.prems have "char_count (fst (f x)) = unat w" by simp
  with Cons x show ?case by (simp add: layout_width_def)
qed (simp add: layout_width_def)

lemma header_width:
  assumes "glyphs_ok g" "list_all (starts_char \<circ> co_label) columns"
    and "\<And>i w. (i, w) \<in> set layout \<Longrightarrow> i < length columns"
  shows "line_width (header_line columns layout sort_col desc t g) = layout_width layout"
  unfolding header_line_def Let_def
proof (rule sum_cells, goal_cases)
  case (1 i w)
  have "starts_char (co_label (columns ! i))" using assms(2,3) 1 by (auto simp: list_all_length)
  moreover have "starts_char (if desc then sort_desc g else sort_asc g)"
    using assms(1) by (simp add: glyphs_ok_def one_char_def)
  ultimately show ?case using assms(1) by (simp add: cell_width starts_char_append)
qed

lemma row_width:
  assumes "glyphs_ok g" "list_all (starts_char \<circ> ce_text) (row_at idx)"
  shows "line_width (row_line t g spec layout row_at idx) = 1 + layout_width layout"
proof -
  have edge: "char_count (sel_edge g) = 1" "char_count '' '' = 1"
    using assms(1) one_char_ascii [of "CHR '' ''"] by (simp_all add: glyphs_ok_def one_char_def)
  have "line_width (tl (row_line t g spec layout row_at idx)) = layout_width layout"
    unfolding row_line_def Let_def list.sel
  proof (rule sum_cells, goal_cases)
    case (1 i w)
    have "starts_char (case get_opt (row_at idx) i of Some x \<Rightarrow> ce_text x | None \<Rightarrow> [])"
      using assms(2) by (auto simp: list_all_length get_opt_def split: option.split if_splits)
    then show ?case using assms(1) by (simp add: cell_width)
  qed
  then show ?thesis using edge by (simp add: row_line_def Let_def)
qed

lemma row_marker:
  "fst (hd (row_line t (glyphs_new u) spec layout row_at idx)) = sel_edge (glyphs_new u) \<longleftrightarrow> idx = sp_selected spec"
  by (simp add: row_line_def Let_def glyphs_new_def UNICODE_def ASCII_def utf3_def)

lemma viewport_contains:
  "0 < height \<Longrightarrow> viewport_offset selected offset height \<le> selected \<and> selected < viewport_offset selected offset height + height"
  by (auto simp: viewport_offset_def)

section \<open>Properties\<close>

text \<open>
  A table always shows the row that is selected, whatever the stored scroll offset is: if the
  selection is one of the rows and there is room for a row, the frame contains its line, that line and
  no other carries the selection marker, and every line is exactly as wide as the header, so that the
  columns line up whatever the texts are.
\<close>

theorem table_shows_selection:
  assumes "sp_selected spec < sp_total spec" "1 < unat height" "width \<noteq> 0"
    and "list_all (starts_char \<circ> co_label) (sp_columns spec)" "\<forall>i. list_all (starts_char \<circ> ce_text) (row_at i)"
  shows "\<exists>scroll fr. draw_table t (glyphs_new u) width height spec row_at = (scroll, Some fr) \<and>
    scroll \<le> sp_selected spec \<and> sp_selected spec < scroll + length (tf_body fr) \<and>
    (\<forall>i<length (tf_body fr).
       (fst (hd (tf_body fr ! i)) = sel_edge (glyphs_new u) \<longleftrightarrow> scroll + i = sp_selected spec) \<and>
       line_width (tf_body fr ! i) = line_width (tf_header fr))"
proof -
  let ?g = "glyphs_new u"
  define h where "h = unat height - 1"
  define scroll where "scroll = viewport_offset (sp_selected spec) (sp_scroll spec) h"
  define stop where "stop = min (scroll + h) (sp_total spec)"
  define bar where "bar = (4 < width \<and> unat (sat_sub height 1) < sp_total spec)"
  define layout where "layout = resolve_scrolled (sp_columns spec) (sat_sub (if bar then width - 1 else width) 1) (sp_col_scroll spec)"
  define fr where "fr = \<lparr>tf_header = ('' '', table_header t) # header_line (sp_columns spec) layout (sp_sort_col spec) (sp_descending spec) t ?g,
     tf_body = map (row_line t ?g spec layout row_at) [scroll..<stop],
     tf_bar = (if bar then scrollbar_vertical 1 h (sp_total spec) h scroll t ?g else [])\<rparr>"
  have pos: "height \<noteq> 0" "h \<noteq> 0" "sp_total spec \<noteq> 0" using assms(1,2) by (auto simp: h_def)
  have draw: "draw_table t ?g width height spec row_at = (scroll, Some fr)"
    unfolding draw_table_def Let_def bar_def [symmetric] layout_def [symmetric] h_def [symmetric]
      scroll_def [symmetric] stop_def [symmetric] fr_def
    using pos assms(3) by simp
  have hw: "line_width (tf_header fr) = 1 + layout_width layout"
    using header_width [OF glyphs_ok assms(4), of layout] resolve_scrolled_index one_char_ascii [of "CHR '' ''"]
    by (auto simp: fr_def layout_def one_char_def)
  have rw: "line_width (row_line t ?g spec layout row_at i) = line_width (tf_header fr)" for i
    using row_width [OF glyphs_ok, of row_at i] assms(5) hw by simp
  have sel: "scroll \<le> sp_selected spec" "sp_selected spec < stop"
    using viewport_contains [of h "sp_selected spec" "sp_scroll spec"] pos assms(1)
    by (auto simp: scroll_def stop_def)
  have len: "length (tf_body fr) = stop - scroll" by (simp add: fr_def)
  have nth: "tf_body fr ! i = row_line t ?g spec layout row_at (scroll + i)" if "i < stop - scroll" for i
    using that by (simp add: fr_def)
  show ?thesis
    by (rule exI [of _ scroll], rule exI [of _ fr]) (use draw sel rw in \<open>simp add: nth row_marker len\<close>)
qed

definition sample_spec :: Spec where
  "sample_spec =
     \<lparr>sp_columns = [col_fixed ''PID'' 7 Right PRIO_ESSENTIAL, col_flex ''COMMAND'' 12 PRIO_ESSENTIAL],
      sp_sort_col = Some 0, sp_descending = True, sp_total = 100, sp_selected = 70, sp_scroll = 3,
      sp_col_scroll = 0, sp_empty = no_match ''none''\<rparr>"

theorem table_shows_selection_witness:
  "\<exists>scroll fr. draw_table (theme_new Basic) (glyphs_new False) 40 10 sample_spec
       (\<lambda>i. [cell_new (dec i), cell_new ''init'']) = (scroll, Some fr) \<and>
     scroll \<le> 70 \<and> 70 < scroll + length (tf_body fr)"
proof -
  have sel: "sp_selected sample_spec < sp_total sample_spec" by (simp add: sample_spec_def)
  have h: "1 < unat (10 :: u16)" "(40 :: u16) \<noteq> 0" by simp_all
  have l: "list_all (starts_char \<circ> co_label) (sp_columns sample_spec)"
    by (simp add: sample_spec_def col_fixed_def col_flex_def starts_char_def is_cont_def)
  have "\<not> is_cont (hd (dec i))" for i
    using dec_digits [of i] dec_nonempty [of i]
    by (cases "dec i") (auto simp: is_cont_def is_ascii_digit_def)
  then have r: "\<forall>i. list_all (starts_char \<circ> ce_text) ((\<lambda>i. [cell_new (dec i), cell_new ''init'']) i)"
    by (simp add: cell_new_def starts_char_def is_cont_def)
  from table_shows_selection [OF sel h l r, of "theme_new Basic" False]
  show ?thesis by (auto simp: sample_spec_def)
qed

text \<open>
  A load meter is coloured by where its cells are: a meter of any width has exactly that many cells,
  the first of them filled and coloured by the zone of their position (the zones begin at half and at
  four fifths of the meter), the others empty; a load of 100 or more fills it, a load of 0 or less
  leaves it empty, and no load, not even NaN, can make it overflow.
\<close>

theorem meter_fills_by_zone:
  "cell_colors (inline percent width t (glyphs_new u)) =
     map (\<lambda>i. Some (if i < meter_used percent (unat width) (glyphs_new u)
                      then zone_color i (zone_cell ZONE_WARN (unat width)) (zone_cell ZONE_DANGER (unat width)) t
                      else th_bar_empty t)) [0..<unat width] \<and>
   meter_used percent (unat width) (glyphs_new u) \<le> unat width \<and>
   (fle (Fin 100) percent \<longrightarrow> meter_used percent (unat width) (glyphs_new u) = unat width) \<and>
   (fle percent (Fin 0) \<longrightarrow> meter_used percent (unat width) (glyphs_new u) = 0)"
proof -
  have "unat width < 65536" using unsigned_less [of width, where ?'a = nat] by simp
  then show ?thesis
    using fill_spans_colors [OF glyphs_ok, of percent "unat width" u t] meter_exact_ends [of "unat width" percent]
    by (simp add: inline_def)
qed

theorem meter_fills_by_zone_witness:
  "cell_colors (inline (Fin 100) 4 (theme_new Basic) (glyphs_new False)) =
     map (\<lambda>i. Some (zone_color i (zone_cell ZONE_WARN 4) (zone_cell ZONE_DANGER 4) (theme_new Basic))) [0..<4] \<and>
   meter_used (Fin 0) 4 (glyphs_new False) = 0"
  using meter_fills_by_zone [of "Fin 100" 4 "theme_new Basic" False]
    meter_fills_by_zone [of "Fin 0" 4 "theme_new Basic" False] by (simp add: upt_rec)

text \<open>
  A scrollbar's thumb is at least one cell and lies within the track; it is at the top at the first
  row and reaches the bottom at the last.
\<close>

theorem scrollbar_thumb_in_track:
  assumes "0 < height" "height < 65536" "visible < rows" "rows < 2 ^ 64"
  shows "1 \<le> thumb_size height rows visible \<and>
    thumb_start (height - thumb_size height rows visible) rows visible offset + thumb_size height rows visible \<le> height \<and>
    thumb_start (height - thumb_size height rows visible) rows visible 0 = 0 \<and>
    thumb_start (height - thumb_size height rows visible) rows visible (rows - visible) + thumb_size height rows visible = height"
proof -
  note b = thumb_size_bounds [OF assms(1), of rows visible]
  then have "height - thumb_size height rows visible < 65536" using assms(2) by linarith
  from thumb_start_ends [OF this assms(4), of visible] assms(3) b
    thumb_start_bounds [of "height - thumb_size height rows visible" rows visible offset]
  show ?thesis by (intro conjI) (simp, linarith, simp_all)
qed

text \<open>A byte count never needs more than six characters, so the columns sized for it never truncate it.\<close>

theorem human_bytes_fits: "length (human_bytes b) \<le> 6"
  by (rule human_bytes_length)

end
