(* ===== verification/Palette.thy ===== *)
theory Palette
  imports Keymap
begin

text \<open>
  The command registry and the palette of \<open>muxtop-tui/src/app.rs\<close>: the commands with their labels,
  shortcuts, verbs and home tabs, and the palette state with its filtering. The fuzzy matcher
  (\<open>nucleo\<close>) is the argument \<open>score\<close>: the score of a query against a text, if it matches. Sorting
  is the standard library's stable sort.
\<close>

section \<open>Commands\<close>

datatype Command =
    CQuit | CToggleTreeView | CSortByCpu | CSortByMem | CSortByPid | CSortByName
  | CSortByUser | CToggleSortOrder | CCycleSort | CSwitchToGeneral | CSwitchToProcesses | COpenFilter
  | CNextTab | CPrevTab | CKillProcess | CForceKillProcess | CNiceDown | CNiceUp
  | CClearFilter | CSwitchToNetwork | CSortNetByRx | CSortNetByTx | CSortNetByName | CSortNetByErrors
  | CSwitchToContainers | CSortContainersByCpu | CSortContainersByMem | CSortContainersByName | CSortContainersByNetRx | CStopContainer
  | CKillContainer | CRestartContainer | CSwitchToKube | CSwitchToGpu | CShowHelp | CTogglePause
  | CRefreshNow | CShowLog | CInspectRow | CCopyRowId | CKubePods | CKubeNodes
  | CKubeDeployments | CKubeToggleScope | CKillNamed | CStopNamed | CRestartNamed | CSortBy
  | CFilterBy | CSetTheme | CGoToTab

definition Command_ALL :: "Command list" where
  "Command_ALL =
     [CQuit, CToggleTreeView, CSortByCpu, CSortByMem, CSortByPid, CSortByName,
      CSortByUser, CToggleSortOrder, CCycleSort, CSwitchToGeneral, CSwitchToProcesses, COpenFilter,
      CNextTab, CPrevTab, CKillProcess, CForceKillProcess, CNiceDown, CNiceUp,
      CClearFilter, CSwitchToNetwork, CSortNetByRx, CSortNetByTx, CSortNetByName, CSortNetByErrors,
      CSwitchToContainers, CSortContainersByCpu, CSortContainersByMem, CSortContainersByName, CSortContainersByNetRx, CStopContainer,
      CKillContainer, CRestartContainer, CSwitchToKube, CSwitchToGpu, CShowHelp, CTogglePause,
      CRefreshNow, CShowLog, CInspectRow, CCopyRowId, CKubePods, CKubeNodes,
      CKubeDeployments, CKubeToggleScope, CKillNamed, CStopNamed, CRestartNamed, CSortBy,
      CFilterBy, CSetTheme, CGoToTab]"

definition verb :: "Command \<Rightarrow> string option" where
  "verb c =
     (case c of
        CKillNamed \<Rightarrow> Some ''kill''
      | CStopNamed \<Rightarrow> Some ''stop''
      | CRestartNamed \<Rightarrow> Some ''restart''
      | CSortBy \<Rightarrow> Some ''sort''
      | CFilterBy \<Rightarrow> Some ''filter''
      | CSetTheme \<Rightarrow> Some ''theme''
      | CGoToTab \<Rightarrow> Some ''tab''
      | _ \<Rightarrow> None)"

definition is_verb_only :: "Command \<Rightarrow> bool" where
  "is_verb_only c \<longleftrightarrow> verb c \<noteq> None"

definition home_tab :: "Command \<Rightarrow> Tab option" where
  "home_tab c =
     (case c of
        CToggleTreeView \<Rightarrow> Some TProcesses
      | CSortByCpu \<Rightarrow> Some TProcesses
      | CSortByMem \<Rightarrow> Some TProcesses
      | CSortByPid \<Rightarrow> Some TProcesses
      | CSortByName \<Rightarrow> Some TProcesses
      | CSortByUser \<Rightarrow> Some TProcesses
      | CKillProcess \<Rightarrow> Some TProcesses
      | CForceKillProcess \<Rightarrow> Some TProcesses
      | CKillNamed \<Rightarrow> Some TProcesses
      | CNiceDown \<Rightarrow> Some TProcesses
      | CNiceUp \<Rightarrow> Some TProcesses
      | CSortNetByRx \<Rightarrow> Some TNetwork
      | CSortNetByTx \<Rightarrow> Some TNetwork
      | CSortNetByName \<Rightarrow> Some TNetwork
      | CSortNetByErrors \<Rightarrow> Some TNetwork
      | CSortContainersByCpu \<Rightarrow> Some TContainers
      | CSortContainersByMem \<Rightarrow> Some TContainers
      | CSortContainersByName \<Rightarrow> Some TContainers
      | CSortContainersByNetRx \<Rightarrow> Some TContainers
      | CStopContainer \<Rightarrow> Some TContainers
      | CKillContainer \<Rightarrow> Some TContainers
      | CRestartContainer \<Rightarrow> Some TContainers
      | CStopNamed \<Rightarrow> Some TContainers
      | CRestartNamed \<Rightarrow> Some TContainers
      | CKubePods \<Rightarrow> Some TKube
      | CKubeNodes \<Rightarrow> Some TKube
      | CKubeDeployments \<Rightarrow> Some TKube
      | CKubeToggleScope \<Rightarrow> Some TKube
      | _ \<Rightarrow> None)"

primrec command_label :: "Command \<Rightarrow> string" where
  "command_label CQuit = ''Quit''"
| "command_label CToggleTreeView = ''Toggle tree view''"
| "command_label CSortByCpu = ''Sort by CPU''"
| "command_label CSortByMem = ''Sort by Memory''"
| "command_label CSortByPid = ''Sort by PID''"
| "command_label CSortByName = ''Sort by Name''"
| "command_label CSortByUser = ''Sort by User''"
| "command_label CToggleSortOrder = ''Toggle sort order''"
| "command_label CCycleSort = ''Cycle sort field''"
| "command_label CSwitchToGeneral = ''Switch to General tab''"
| "command_label CSwitchToProcesses = ''Switch to Processes tab''"
| "command_label COpenFilter = ''Open filter''"
| "command_label CNextTab = ''Next tab''"
| "command_label CPrevTab = ''Previous tab''"
| "command_label CKillProcess = ''Kill process (SIGTERM)''"
| "command_label CForceKillProcess = ''Force kill (SIGKILL)''"
| "command_label CNiceDown = ''Lower priority (+1)''"
| "command_label CNiceUp = ''Raise priority (-1)''"
| "command_label CClearFilter = ''Clear filter''"
| "command_label CSwitchToNetwork = ''Switch to Network tab''"
| "command_label CSortNetByRx = ''Sort network by RX''"
| "command_label CSortNetByTx = ''Sort network by TX''"
| "command_label CSortNetByName = ''Sort network by name''"
| "command_label CSortNetByErrors = ''Sort network by errors''"
| "command_label CSwitchToContainers = ''Switch to Containers tab''"
| "command_label CSortContainersByCpu = ''Sort containers by CPU''"
| "command_label CSortContainersByMem = ''Sort containers by memory''"
| "command_label CSortContainersByName = ''Sort containers by name''"
| "command_label CSortContainersByNetRx = ''Sort containers by network RX''"
| "command_label CStopContainer = ''Stop container (SIGTERM)''"
| "command_label CKillContainer = ''Kill container (SIGKILL)''"
| "command_label CRestartContainer = ''Restart container''"
| "command_label CSwitchToKube = ''Switch to Kubernetes tab''"
| "command_label CSwitchToGpu = ''Switch to GPU tab''"
| "command_label CShowHelp = (''Help '' @ [CHR 0xE2] @ [CHR 0x80] @ [CHR 0x94] @ '' keyboard reference'')"
| "command_label CTogglePause = ''Pause / resume refresh''"
| "command_label CRefreshNow = ''Refresh now''"
| "command_label CShowLog = ''Message log''"
| "command_label CInspectRow = ''Inspect selected row''"
| "command_label CCopyRowId = ''Copy row identifier''"
| "command_label CKubePods = ''Kube: Pods sub-view''"
| "command_label CKubeNodes = ''Kube: Nodes sub-view''"
| "command_label CKubeDeployments = ''Kube: Deployments sub-view''"
| "command_label CKubeToggleScope = ''Kube: toggle namespace scope''"
| "command_label CKillNamed = ''Kill process by name''"
| "command_label CStopNamed = ''Stop container by name''"
| "command_label CRestartNamed = ''Restart container by name''"
| "command_label CSortBy = ''Sort by field''"
| "command_label CFilterBy = ''Filter by text''"
| "command_label CSetTheme = ''Switch theme''"
| "command_label CGoToTab = ''Switch tab by name''"

primrec shortcut :: "Command \<Rightarrow> string" where
  "shortcut CQuit = ''q''"
| "shortcut CToggleTreeView = ''t''"
| "shortcut CSortByCpu = ''F3''"
| "shortcut CSortByMem = ''F4''"
| "shortcut CSortByPid = ''F1''"
| "shortcut CSortByName = ''F2''"
| "shortcut CSortByUser = ''F5''"
| "shortcut CToggleSortOrder = ''S''"
| "shortcut CCycleSort = ''s''"
| "shortcut CSwitchToGeneral = ''Alt+1''"
| "shortcut CSwitchToProcesses = ''Alt+2''"
| "shortcut COpenFilter = ''/''"
| "shortcut CNextTab = ''Tab''"
| "shortcut CPrevTab = ''Shift+Tab''"
| "shortcut CKillProcess = ''F9''"
| "shortcut CForceKillProcess = ''F10''"
| "shortcut CNiceDown = ''F7''"
| "shortcut CNiceUp = ''F8''"
| "shortcut CClearFilter = ''Esc''"
| "shortcut CSwitchToNetwork = ''Alt+3''"
| "shortcut CSortNetByRx = ''''"
| "shortcut CSortNetByTx = ''''"
| "shortcut CSortNetByName = ''''"
| "shortcut CSortNetByErrors = ''''"
| "shortcut CSwitchToContainers = ''Alt+4''"
| "shortcut CSortContainersByCpu = ''''"
| "shortcut CSortContainersByMem = ''''"
| "shortcut CSortContainersByName = ''''"
| "shortcut CSortContainersByNetRx = ''''"
| "shortcut CStopContainer = ''F9''"
| "shortcut CKillContainer = ''F10''"
| "shortcut CRestartContainer = ''F11''"
| "shortcut CSwitchToKube = ''Alt+5''"
| "shortcut CSwitchToGpu = ''Alt+6''"
| "shortcut CShowHelp = ''?''"
| "shortcut CTogglePause = ''Space''"
| "shortcut CRefreshNow = ''r''"
| "shortcut CShowLog = ''Ctrl+L''"
| "shortcut CInspectRow = ''Enter''"
| "shortcut CCopyRowId = ''y''"
| "shortcut CKubePods = ''P''"
| "shortcut CKubeNodes = ''N''"
| "shortcut CKubeDeployments = ''D''"
| "shortcut CKubeToggleScope = ''A''"
| "shortcut CKillNamed = ''kill <name>''"
| "shortcut CStopNamed = ''stop <name>''"
| "shortcut CRestartNamed = ''restart <name>''"
| "shortcut CSortBy = ''sort <field>''"
| "shortcut CFilterBy = ''filter <text>''"
| "shortcut CSetTheme = ''theme <name>''"
| "shortcut CGoToTab = ''tab <name>''"

definition search_text :: "Command \<Rightarrow> string" where
  "search_text c = command_label c @ '' '' @ shortcut c"

definition search_texts :: "string list" where
  "search_texts = map search_text Command_ALL"

section \<open>The palette\<close>

record PaletteState =
  pal_input :: string
  pal_selected :: nat
  pal_filtered :: "(Command \<times> u16 option) list"
  pal_arg :: "string option"
  pal_history :: "Command list"

definition palette_new :: PaletteState where
  "palette_new =
     \<lparr>pal_input = [], pal_selected = 0,
      pal_filtered = map (\<lambda>c. (c, None)) (filter (\<lambda>c. \<not> is_verb_only c) Command_ALL),
      pal_arg = None, pal_history = []\<rparr>"

definition HISTORY_LEN :: nat where "HISTORY_LEN = 5"

definition remember :: "Command \<Rightarrow> PaletteState \<Rightarrow> PaletteState" where
  "remember cmd p = p\<lparr>pal_history := take HISTORY_LEN (cmd # filter (\<lambda>c. c \<noteq> cmd) (pal_history p))\<rparr>"

text \<open>\<open>split_once\<close> at the first white-space character.\<close>

definition split_once_whitespace :: "string \<Rightarrow> (string \<times> string) option" where
  "split_once_whitespace s =
     (case dropWhile (\<lambda>ch. \<not> is_whitespace ch) (str_chars s) of
        [] \<Rightarrow> None
      | _ # rest \<Rightarrow> Some (concat (takeWhile (\<lambda>ch. \<not> is_whitespace ch) (str_chars s)), concat rest))"

definition parse_verb :: "(string \<Rightarrow> string) \<Rightarrow> string \<Rightarrow> (Command \<times> string) option" where
  "parse_verb ulc inp =
     (case split_once_whitespace inp of
        None \<Rightarrow> None
      | Some (head, rest) \<Rightarrow>
          map_option (\<lambda>cmd. (cmd, trim rest)) (find (\<lambda>c. verb c = Some (to_lowercase ulc head)) Command_ALL))"

definition recency :: "PaletteState \<Rightarrow> Command \<Rightarrow> nat" where
  "recency p c = unwrap_or (position (\<lambda>h. h = c) (pal_history p)) HISTORY_LEN"

definition context_rank :: "Tab option \<Rightarrow> Command \<Rightarrow> nat" where
  "context_rank tab c =
     (case (home_tab c, tab) of
        (Some home, Some active) \<Rightarrow> if home = active then 0 else 2
      | (None, _) \<Rightarrow> 1
      | _ \<Rightarrow> 2)"

definition context_bonus :: "Tab option \<Rightarrow> Command \<Rightarrow> u16" where
  "context_bonus tab c =
     (case (home_tab c, tab) of
        (Some home, Some active) \<Rightarrow> if home = active then 24 else 0
      | (None, _) \<Rightarrow> 8
      | _ \<Rightarrow> 0)"

definition rank_le :: "PaletteState \<Rightarrow> Tab option \<Rightarrow> Command \<Rightarrow> Command \<Rightarrow> bool" where
  "rank_le p tab c d \<longleftrightarrow>
     recency p c < recency p d \<or> (recency p c = recency p d \<and> context_rank tab c \<le> context_rank tab d)"

definition empty_query :: "Command list \<Rightarrow> Tab option \<Rightarrow> PaletteState \<Rightarrow> (Command \<times> u16 option) list" where
  "empty_query excluded tab p =
     map (\<lambda>c. (c, None))
       (sort_by (rank_le p tab)
         (filter (\<lambda>c. c \<notin> set excluded) (filter (\<lambda>c. \<not> is_verb_only c) Command_ALL)))"

definition fuzzy_query ::
    "(string \<Rightarrow> string \<Rightarrow> u16 option) \<Rightarrow> Command list \<Rightarrow> Tab option \<Rightarrow> PaletteState \<Rightarrow> (Command \<times> u16 option) list" where
  "fuzzy_query score excluded tab p =
     map (\<lambda>(c, s). (c, Some s))
       (sort_by (\<lambda>a b. snd b \<le> snd a)
         (List.map_filter
           (\<lambda>(idx, c). map_option (\<lambda>s. (c, sat_add s (context_bonus tab c))) (score (pal_input p) (search_texts ! idx)))
           (filter (\<lambda>(_, c). c \<notin> set excluded) (filter (\<lambda>(_, c). \<not> is_verb_only c) (enumerate 0 Command_ALL)))))"

definition refilter_ctx ::
    "(string \<Rightarrow> string) \<Rightarrow> (string \<Rightarrow> string \<Rightarrow> u16 option) \<Rightarrow> Command list \<Rightarrow> Tab option \<Rightarrow> PaletteState \<Rightarrow> PaletteState" where
  "refilter_ctx ulc score excluded tab p =
     (case (case parse_verb ulc (pal_input p) of
              Some (cmd, arg) \<Rightarrow> if cmd \<notin> set excluded then Some (cmd, arg) else None
            | None \<Rightarrow> None) of
        Some (cmd, arg) \<Rightarrow>
          p\<lparr>pal_arg := Some arg, pal_filtered := [(cmd, Some (- 1))], pal_selected := 0\<rparr>
      | None \<Rightarrow>
          let filtered = (if pal_input p = [] then empty_query excluded tab p
                          else fuzzy_query score excluded tab p)
          in p\<lparr>pal_arg := None, pal_filtered := filtered,
               pal_selected := (if filtered = [] then 0 else min (pal_selected p) (length filtered - 1))\<rparr>)"

definition refilter_excluding ::
    "(string \<Rightarrow> string) \<Rightarrow> (string \<Rightarrow> string \<Rightarrow> u16 option) \<Rightarrow> Command list \<Rightarrow> PaletteState \<Rightarrow> PaletteState" where
  "refilter_excluding ulc score excluded = refilter_ctx ulc score excluded None"

section \<open>Lemmas\<close>

lemma Command_ALL_distinct: "distinct Command_ALL"
  by (simp add: Command_ALL_def)

lemma Command_ALL_complete: "c \<in> set Command_ALL"
  by (cases c) (simp_all add: Command_ALL_def)

lemma length_search_texts: "length search_texts = length Command_ALL"
  by (simp add: search_texts_def)

definition palette_ok :: "Command list \<Rightarrow> PaletteState \<Rightarrow> bool" where
  "palette_ok excluded p \<longleftrightarrow>
     (\<forall>c\<in>fst ` set (pal_filtered p). c \<notin> set excluded \<and> (is_verb_only c \<longrightarrow> pal_arg p \<noteq> None)) \<and>
     (pal_filtered p = [] \<or> pal_selected p < length (pal_filtered p))"

lemma empty_query_set: "fst ` set (empty_query excluded tab p) = {c. c \<notin> set excluded \<and> \<not> is_verb_only c}"
  using Command_ALL_complete by (auto simp: empty_query_def image_image)

lemma fuzzy_query_set: "c \<in> fst ` set (fuzzy_query score excluded tab p) \<Longrightarrow> c \<notin> set excluded \<and> \<not> is_verb_only c"
  by (auto simp: fuzzy_query_def List.map_filter_def)

text \<open>A refiltering takes either the argument form or a query.\<close>

lemma refilter_ctx_cases:
  obtains (verb) cmd arg where "parse_verb ulc (pal_input p) = Some (cmd, arg)" "cmd \<notin> set excluded"
      "refilter_ctx ulc score excluded tab p =
         p\<lparr>pal_arg := Some arg, pal_filtered := [(cmd, Some (- 1))], pal_selected := 0\<rparr>"
  | (query) F where "F = (if pal_input p = [] then empty_query excluded tab p else fuzzy_query score excluded tab p)"
      "refilter_ctx ulc score excluded tab p =
         p\<lparr>pal_arg := None, pal_filtered := F,
           pal_selected := (if F = [] then 0 else min (pal_selected p) (length F - 1))\<rparr>"
proof (cases "\<exists>cmd arg. parse_verb ulc (pal_input p) = Some (cmd, arg) \<and> cmd \<notin> set excluded")
  case True
  then obtain cmd arg where "parse_verb ulc (pal_input p) = Some (cmd, arg)" "cmd \<notin> set excluded" by blast
  then show ?thesis by (intro verb) (simp_all add: refilter_ctx_def)
next
  case False
  then have "(case parse_verb ulc (pal_input p) of
      Some (cmd, arg) \<Rightarrow> if cmd \<notin> set excluded then Some (cmd, arg) else None | None \<Rightarrow> None) = None"
    by (cases "parse_verb ulc (pal_input p)") (auto split: prod.splits)
  then show ?thesis by (intro query [OF refl]) (simp only: refilter_ctx_def Let_def option.case)
qed

lemma refilter_ctx_ok: "palette_ok excluded (refilter_ctx ulc score excluded tab p)"
proof (rule refilter_ctx_cases [of ulc p excluded score tab])
  fix F assume F: "F = (if pal_input p = [] then empty_query excluded tab p else fuzzy_query score excluded tab p)"
    and r: "refilter_ctx ulc score excluded tab p =
         p\<lparr>pal_arg := None, pal_filtered := F,
           pal_selected := (if F = [] then 0 else min (pal_selected p) (length F - 1))\<rparr>"
  have "\<forall>c\<in>fst ` set F. c \<notin> set excluded \<and> \<not> is_verb_only c"
    using fuzzy_query_set empty_query_set by (cases "pal_input p = []") (auto simp: F)
  moreover have "F \<noteq> [] \<Longrightarrow> min (pal_selected p) (length F - 1) < length F" by (cases F) auto
  ultimately show ?thesis by (simp add: r palette_ok_def)
qed (simp add: palette_ok_def)

lemma remember_history:
  "distinct (pal_history p) \<Longrightarrow> distinct (pal_history (remember c p)) \<and> length (pal_history (remember c p)) \<le> HISTORY_LEN"
  by (simp add: remember_def distinct_take)

section \<open>Properties\<close>

text \<open>Whatever was typed, the palette offers no excluded command, offers a command that needs an
  argument only together with one, and has its selection on an entry whenever it offers any. An empty
  query offers every other command exactly once.\<close>

theorem palette_offers_usable_commands:
  "palette_ok excluded (refilter_ctx ulc score excluded tab p) \<and>
   mset (map fst (pal_filtered (refilter_ctx ulc score excluded tab (p\<lparr>pal_input := []\<rparr>)))) =
   mset (filter (\<lambda>c. c \<notin> set excluded) (filter (\<lambda>c. \<not> is_verb_only c) Command_ALL))"
proof -
  have "parse_verb ulc [] = None"
    by (simp add: parse_verb_def split_once_whitespace_def)
  then have "map fst (pal_filtered (refilter_ctx ulc score excluded tab (p\<lparr>pal_input := []\<rparr>))) =
      sort_by (rank_le (p\<lparr>pal_input := []\<rparr>) tab) (filter (\<lambda>c. c \<notin> set excluded) (filter (\<lambda>c. \<not> is_verb_only c) Command_ALL))"
    by (simp add: refilter_ctx_def empty_query_def comp_def Let_def)
  then show ?thesis using refilter_ctx_ok [of excluded ulc score tab p] by (simp only: mset_sort_by simp_thms)
qed

end
