(* ===== verification/App_State.thy ===== *)
theory App_State
  imports Views Palette Terminal_Caps
begin

text \<open>
  The application state of the terminal client (\<open>muxtop-tui/src/app.rs\<close>): \<open>AppState\<close> with its
  caches, the counts and selections of each tab, the recomputation of the derived views, filters and
  sorting. \<open>env\<close> gathers what the handlers read from outside: the Unicode tables, the fuzzy matcher,
  the unstable sort, the kernel, the texts of operating system errors, the clock (one reading per
  event) and whether standard output accepts bytes. The effects of a handler that leave the state are
  collected in it: the system calls in \<open>ap_os\<close>, the tasks handed to the runtime in \<open>ap_tasks\<close> and
  the bytes written to the terminal in \<open>ap_stdout\<close>. \<open>usize\<close> counters are natural numbers.
\<close>

section \<open>Data\<close>

datatype Overlay = ONone | OPalette | OCommand | OHelp | OActions | OInspector | OLog

fun is_text_input :: "Overlay \<Rightarrow> bool" where
  "is_text_input OPalette = True"
| "is_text_input OCommand = True"
| "is_text_input _ = False"

datatype ConfirmAction =
    ConfirmKill u32 string Signal
  | ConfirmRenice u32 string int
  | ConfirmStopContainer string string
  | ConfirmKillContainer string string
  | ConfirmRestartContainer string string

definition short_id :: "string \<Rightarrow> string" where
  "short_id i = take_chars 12 i"

fun sig_name :: "Signal \<Rightarrow> string" where
  "sig_name SigKill = ''SIGKILL''"
| "sig_name SigTerm = ''SIGTERM''"

fun prompt :: "ConfirmAction \<Rightarrow> string" where
  "prompt (ConfirmKill pid name signal) =
     ''Send '' @ sig_name signal @ '' to '' @ scrub_ctrl name @ '' (PID '' @ dec (unat pid) @ '')?  [y/n]''"
| "prompt (ConfirmRenice pid name delta) =
     ''Renice '' @ scrub_ctrl name @ '' (PID '' @ dec (unat pid) @ '') to '' @
     (if 0 < delta then ''lower priority (+1)'' else ''higher priority (-1)'') @ ''?  [y/n]''"
| "prompt (ConfirmStopContainer i name) =
     ''Stop container '' @ scrub_ctrl name @ '' ('' @ short_id i @ '')?  [y/n]''"
| "prompt (ConfirmKillContainer i name) =
     ''Kill container '' @ scrub_ctrl name @ '' ('' @ short_id i @ '')?  [y/n]''"
| "prompt (ConfirmRestartContainer i name) =
     ''Restart container '' @ scrub_ctrl name @ '' ('' @ short_id i @ '')?  [y/n]''"

datatype ConnectionMode = Local | Remote string string

record CliConfig =
  cfg_filter :: "string option"
  cfg_sort_field :: SortField
  cfg_tree_mode :: bool
  cfg_connection_mode :: ConnectionMode
  cfg_theme :: ThemeKind
  cfg_caps :: CapsOverrides

text \<open>A task handed to the runtime: the engine call it makes when it is polled.\<close>

datatype task =
    StopTask string string
  | KillTask string string
  | RestartTask string string
  | ToggleScopeTask

record env =
  e_ulc :: "string \<Rightarrow> string"
  e_score :: "string \<Rightarrow> string \<Rightarrow> u16 option"
  e_usort :: proc_usort
  e_kernel :: kernel
  e_io_text :: "int \<Rightarrow> string"
  e_dur_text :: "duration \<Rightarrow> string"
  e_now :: instant
  e_stdout_ok :: bool

record AppState =
  ap_tab :: Tab
  ap_sort_field :: SortField
  ap_sort_order :: SortOrder
  ap_filter_input :: string
  ap_filter_active :: bool
  ap_tree_mode :: bool
  ap_selected :: nat
  ap_scroll_offset :: nat
  ap_overlay :: Overlay
  ap_palette :: PaletteState
  ap_confirm :: "ConfirmAction option"
  ap_notifier :: Notifier
  ap_term_caps :: TermCaps
  ap_theme_kind :: ThemeKind
  ap_paused :: bool
  ap_col_scroll :: nat
  ap_actions_selected :: nat
  ap_overlay_scroll :: nat
  ap_tick :: nat
  ap_running :: bool
  ap_last_snapshot :: "SystemSnapshot option"
  ap_visible_processes :: "ProcessInfo list"
  ap_visible_tree :: "(ProcessInfo \<times> nat) list"
  ap_network_history :: NetworkHistory
  ap_net_selected :: nat
  ap_net_scroll_offset :: nat
  ap_net_sort_field :: NetworkSortField
  ap_net_sort_order :: SortOrder
  ap_net_filter_input :: string
  ap_net_filter_active :: bool
  ap_containers_selected :: nat
  ap_containers_scroll_offset :: nat
  ap_kube_subview :: KubeSubview
  ap_kube_sort_field :: KubeSortField
  ap_kube_sort_order :: SortOrder
  ap_kube_filter_input :: string
  ap_kube_filter_active :: bool
  ap_kube_selected :: nat
  ap_kube_scroll_offset :: nat
  ap_kube_view_cache :: "nat list"
  ap_gpu_subview :: GpuSubview
  ap_gpu_sort_field :: GpuSortField
  ap_gpu_sort_order :: SortOrder
  ap_gpu_filter_input :: string
  ap_gpu_filter_active :: bool
  ap_gpu_selected :: nat
  ap_gpu_scroll_offset :: nat
  ap_containers_sort_field :: ContainerSortField
  ap_containers_sort_order :: SortOrder
  ap_containers_filter_input :: string
  ap_containers_filter_active :: bool
  ap_container_cpu_hist :: "string \<Rightarrow> fl list option"
  ap_container_rx_last :: "string \<Rightarrow> u64 option"
  ap_container_rx_hist :: "string \<Rightarrow> u64 list option"
  ap_containers_cache :: "ContainerSnapshot list"
  ap_container_engine :: bool
  ap_cluster_engine :: bool
  ap_action_rx :: "(Level \<times> string) list"
  ap_connection_mode :: ConnectionMode
  ap_needs_redraw :: bool
  ap_last_filter_change :: "instant option"
  ap_shutdown :: bool
  ap_os :: os
  ap_tasks :: "task list"
  ap_stdout :: "string list"

definition app_new :: "os \<Rightarrow> AppState" where
  "app_new world =
     \<lparr>ap_tab = TGeneral, ap_sort_field = SF_Cpu, ap_sort_order = Desc, ap_filter_input = [],
      ap_filter_active = False, ap_tree_mode = False, ap_selected = 0, ap_scroll_offset = 0,
      ap_overlay = ONone, ap_palette = palette_new, ap_confirm = None, ap_notifier = notifier_new,
      ap_term_caps = TermCaps_default, ap_theme_kind = TokyoNight, ap_paused = False, ap_col_scroll = 0,
      ap_actions_selected = 0, ap_overlay_scroll = 0, ap_tick = 0, ap_running = True,
      ap_last_snapshot = None, ap_visible_processes = [], ap_visible_tree = [],
      ap_network_history = history_new 60, ap_net_selected = 0, ap_net_scroll_offset = 0,
      ap_net_sort_field = NSF_RxRate, ap_net_sort_order = Desc, ap_net_filter_input = [],
      ap_net_filter_active = False, ap_containers_selected = 0, ap_containers_scroll_offset = 0,
      ap_kube_subview = KVPods, ap_kube_sort_field = kube_default_for KVPods, ap_kube_sort_order = Desc,
      ap_kube_filter_input = [], ap_kube_filter_active = False, ap_kube_selected = 0,
      ap_kube_scroll_offset = 0, ap_kube_view_cache = [],
      ap_gpu_subview = GVDevices, ap_gpu_sort_field = gpu_default_for GVDevices, ap_gpu_sort_order = Desc,
      ap_gpu_filter_input = [], ap_gpu_filter_active = False, ap_gpu_selected = 0, ap_gpu_scroll_offset = 0,
      ap_containers_sort_field = CSF_Cpu, ap_containers_sort_order = Desc, ap_containers_filter_input = [],
      ap_containers_filter_active = False, ap_container_cpu_hist = (\<lambda>_. None), ap_container_rx_last = (\<lambda>_. None),
      ap_container_rx_hist = (\<lambda>_. None), ap_containers_cache = [], ap_container_engine = False,
      ap_cluster_engine = False, ap_action_rx = [], ap_connection_mode = Local, ap_needs_redraw = True,
      ap_last_filter_change = None, ap_shutdown = False, ap_os = world, ap_tasks = [], ap_stdout = []\<rparr>"

definition with_config :: "CliConfig \<Rightarrow> TermCaps \<Rightarrow> os \<Rightarrow> AppState" where
  "with_config config term_caps world =
     (app_new world)\<lparr>ap_sort_field := cfg_sort_field config, ap_tree_mode := cfg_tree_mode config,
        ap_filter_input := unwrap_or (cfg_filter config) [], ap_term_caps := term_caps,
        ap_theme_kind := cfg_theme config, ap_connection_mode := cfg_connection_mode config\<rparr>"

section \<open>Small operations\<close>

definition is_remote :: "AppState \<Rightarrow> bool" where
  "is_remote s \<longleftrightarrow> (case ap_connection_mode s of Remote _ _ \<Rightarrow> True | Local \<Rightarrow> False)"

definition mark_dirty :: "AppState \<Rightarrow> AppState" where
  "mark_dirty s = s\<lparr>ap_needs_redraw := True\<rparr>"

definition notify :: "env \<Rightarrow> Level \<Rightarrow> string \<Rightarrow> AppState \<Rightarrow> AppState" where
  "notify E level msg s =
     s\<lparr>ap_notifier := notifier_push (e_now E) level msg (ap_notifier s), ap_needs_redraw := True\<rparr>"

definition status_message_just_expired :: "env \<Rightarrow> AppState \<Rightarrow> bool \<times> AppState" where
  "status_message_just_expired E s =
     (case notifier_expire (e_now E) (ap_notifier s) of (changed, n) \<Rightarrow> (changed, s\<lparr>ap_notifier := n\<rparr>))"

definition tick :: "AppState \<Rightarrow> AppState" where
  "tick s = s\<lparr>ap_tick := (ap_tick s + 1) mod 2 ^ 64\<rparr>"

definition quit :: "AppState \<Rightarrow> AppState" where
  "quit s = s\<lparr>ap_running := False, ap_shutdown := True\<rparr>"

definition take_needs_redraw :: "AppState \<Rightarrow> bool \<times> AppState" where
  "take_needs_redraw s = (ap_needs_redraw s, s\<lparr>ap_needs_redraw := False\<rparr>)"

definition set_container_engine :: "AppState \<Rightarrow> AppState" where
  "set_container_engine s = s\<lparr>ap_container_engine := True\<rparr>"

definition set_cluster_engine :: "AppState \<Rightarrow> AppState" where
  "set_cluster_engine s = s\<lparr>ap_cluster_engine := True\<rparr>"

section \<open>Counts and selections\<close>

definition process_count :: "AppState \<Rightarrow> nat" where
  "process_count s = (if ap_tree_mode s then length (ap_visible_tree s) else length (ap_visible_processes s))"

definition net_interface_count :: "env \<Rightarrow> AppState \<Rightarrow> nat" where
  "net_interface_count E s =
     (case ap_last_snapshot s of
        None \<Rightarrow> 0
      | Some snap \<Rightarrow>
          if ap_net_filter_input s = [] then length (interfaces (ss_networks snap))
          else
            let f = to_lowercase (e_ulc E) (ap_net_filter_input s) in
            length (filter (\<lambda>i. str_contains (to_lowercase (e_ulc E) (if_name i)) f) (interfaces (ss_networks snap))))"

definition containers_count :: "env \<Rightarrow> AppState \<Rightarrow> nat" where
  "containers_count E s =
     (case ap_last_snapshot s of
        None \<Rightarrow> 0
      | Some snap \<Rightarrow>
          (case ss_containers snap of
             None \<Rightarrow> 0
           | Some cs \<Rightarrow>
               if ap_containers_filter_input s = [] then length (cts_containers cs)
               else length (filter (container_matches (e_ulc E) (to_lowercase (e_ulc E) (ap_containers_filter_input s)))
                              (cts_containers cs))))"

definition kube_count :: "AppState \<Rightarrow> nat" where
  "kube_count s = length (ap_kube_view_cache s)"

definition snapshot_gpu :: "AppState \<Rightarrow> GpusSnapshot option" where
  "snapshot_gpu s = Option.bind (ap_last_snapshot s) ss_gpu"

definition snapshot_kube :: "AppState \<Rightarrow> KubeSnapshot option" where
  "snapshot_kube s = Option.bind (ap_last_snapshot s) ss_kube"

definition gpu_count :: "env \<Rightarrow> AppState \<Rightarrow> nat" where
  "gpu_count E s =
     (case snapshot_gpu s of
        None \<Rightarrow> 0
      | Some snap \<Rightarrow>
          let f = to_lowercase (e_ulc E) (ap_gpu_filter_input s) in
          (case ap_gpu_subview s of
             GVDevices \<Rightarrow>
               length (filter (\<lambda>d. f = [] \<or> str_contains (to_lowercase (e_ulc E) (gd_name d)) f \<or>
                                   str_contains (vendor_label (gd_vendor d)) f) (gs_devices snap))
           | GVProcs \<Rightarrow>
               length (filter (\<lambda>p. f = [] \<or> str_contains (to_lowercase (e_ulc E) (gp_name p)) f \<or>
                                   str_contains (dec (unat (gp_pid p))) f) (gs_processes snap))))"

definition item_count :: "env \<Rightarrow> AppState \<Rightarrow> nat" where
  "item_count E s =
     (case ap_tab s of
        TNetwork \<Rightarrow> net_interface_count E s
      | TContainers \<Rightarrow> containers_count E s
      | TKube \<Rightarrow> kube_count s
      | TGpu \<Rightarrow> gpu_count E s
      | _ \<Rightarrow> process_count s)"

text \<open>\<open>selected_mut\<close>: reading and writing the selection and the scroll offset of the active tab.\<close>

definition sel_off :: "AppState \<Rightarrow> nat \<times> nat" where
  "sel_off s =
     (case ap_tab s of
        TNetwork \<Rightarrow> (ap_net_selected s, ap_net_scroll_offset s)
      | TContainers \<Rightarrow> (ap_containers_selected s, ap_containers_scroll_offset s)
      | TKube \<Rightarrow> (ap_kube_selected s, ap_kube_scroll_offset s)
      | TGpu \<Rightarrow> (ap_gpu_selected s, ap_gpu_scroll_offset s)
      | _ \<Rightarrow> (ap_selected s, ap_scroll_offset s))"

definition set_sel_off :: "nat \<times> nat \<Rightarrow> AppState \<Rightarrow> AppState" where
  "set_sel_off so s =
     (case ap_tab s of
        TNetwork \<Rightarrow> s\<lparr>ap_net_selected := fst so, ap_net_scroll_offset := snd so\<rparr>
      | TContainers \<Rightarrow> s\<lparr>ap_containers_selected := fst so, ap_containers_scroll_offset := snd so\<rparr>
      | TKube \<Rightarrow> s\<lparr>ap_kube_selected := fst so, ap_kube_scroll_offset := snd so\<rparr>
      | TGpu \<Rightarrow> s\<lparr>ap_gpu_selected := fst so, ap_gpu_scroll_offset := snd so\<rparr>
      | _ \<Rightarrow> s\<lparr>ap_selected := fst so, ap_scroll_offset := snd so\<rparr>)"

definition selected_process :: "AppState \<Rightarrow> ProcessInfo option" where
  "selected_process s =
     (if ap_tree_mode s then map_option fst (get_opt (ap_visible_tree s) (ap_selected s))
      else get_opt (ap_visible_processes s) (ap_selected s))"

definition selected_container :: "AppState \<Rightarrow> ContainerSnapshot option" where
  "selected_container s =
     (case Option.bind (ap_last_snapshot s) ss_containers of
        None \<Rightarrow> None
      | Some cs \<Rightarrow>
          if \<not> cts_daemon_up cs then None else get_opt (ap_containers_cache s) (ap_containers_selected s))"

definition selected_kube_name :: "AppState \<Rightarrow> string option" where
  "selected_kube_name s =
     (case snapshot_kube s of
        None \<Rightarrow> None
      | Some snap \<Rightarrow>
          (case get_opt (ap_kube_view_cache s) (ap_kube_selected s) of
             None \<Rightarrow> None
           | Some idx \<Rightarrow>
               (case ap_kube_subview s of
                  KVPods \<Rightarrow> map_option pod_name (get_opt (ks_pods snap) idx)
                | KVNodes \<Rightarrow> map_option nd_name (get_opt (ks_nodes snap) idx)
                | KVDeployments \<Rightarrow> map_option dp_name (get_opt (ks_deployments snap) idx))))"

definition selected_gpu_name :: "env \<Rightarrow> AppState \<Rightarrow> string option" where
  "selected_gpu_name E s =
     (case snapshot_gpu s of
        None \<Rightarrow> None
      | Some snap \<Rightarrow>
          let f = to_lowercase (e_ulc E) (ap_gpu_filter_input s) in
          (case ap_gpu_subview s of
             GVDevices \<Rightarrow>
               map_option gd_name
                 (get_opt (filter (\<lambda>d. f = [] \<or> str_contains (to_lowercase (e_ulc E) (gd_name d)) f) (gs_devices snap))
                   (ap_gpu_selected s))
           | GVProcs \<Rightarrow>
               map_option (\<lambda>p. dec (unat (gp_pid p)))
                 (get_opt (filter (\<lambda>p. f = [] \<or> str_contains (to_lowercase (e_ulc E) (gp_name p)) f) (gs_processes snap))
                   (ap_gpu_selected s))))"

definition selected_identifier :: "env \<Rightarrow> AppState \<Rightarrow> string option" where
  "selected_identifier E s =
     (case ap_tab s of
        TNetwork \<Rightarrow>
          map_option if_name
            (get_opt (visible_interfaces (e_ulc E) (ap_net_filter_input s) (ap_last_snapshot s)) (ap_net_selected s))
      | TContainers \<Rightarrow> map_option ct_id_full (get_opt (ap_containers_cache s) (ap_containers_selected s))
      | TKube \<Rightarrow> selected_kube_name s
      | TGpu \<Rightarrow> selected_gpu_name E s
      | _ \<Rightarrow> map_option (\<lambda>p. dec (unat (pr_pid p))) (selected_process s))"

section \<open>Derived views\<close>

definition recompute_kube_view :: "env \<Rightarrow> AppState \<Rightarrow> AppState" where
  "recompute_kube_view E s =
     s\<lparr>ap_kube_view_cache :=
         (case snapshot_kube s of
            Some snap \<Rightarrow>
              compute_view_indices (e_ulc E) snap (ap_kube_subview s) (ap_kube_filter_input s) (ap_kube_sort_field s)
                (ap_kube_sort_order s)
          | None \<Rightarrow> [])\<rparr>"

definition recompute_containers_view :: "env \<Rightarrow> AppState \<Rightarrow> AppState" where
  "recompute_containers_view E s =
     s\<lparr>ap_containers_cache :=
         containers_view (e_ulc E) (ap_containers_filter_input s) (ap_containers_sort_field s)
           (ap_containers_sort_order s) (ap_last_snapshot s)\<rparr>"

definition recompute_visible :: "env \<Rightarrow> AppState \<Rightarrow> AppState" where
  "recompute_visible E s =
     (case ap_last_snapshot s of
        None \<Rightarrow> s\<lparr>ap_visible_processes := [], ap_visible_tree := []\<rparr>
      | Some snap \<Rightarrow>
          let filtered = filter_processes (e_ulc E) (ss_processes snap) (ap_filter_input s);
              s = s\<lparr>ap_visible_tree := (if ap_tree_mode s then flatten_tree (build_process_tree filtered) else []),
                    ap_visible_processes :=
                      sort_processes (e_ulc E) (e_usort E) (ap_sort_field s) (ap_sort_order s) filtered\<rparr>;
              cnt = process_count s
          in if 0 < cnt
             then s\<lparr>ap_selected := min (ap_selected s) (cnt - 1), ap_scroll_offset := min (ap_scroll_offset s) (cnt - 1)\<rparr>
             else s\<lparr>ap_selected := 0, ap_scroll_offset := 0\<rparr>)"

definition FILTER_DEBOUNCE :: duration where
  "FILTER_DEBOUNCE = from_millis 50"

definition recompute_visible_debounced :: "env \<Rightarrow> AppState \<Rightarrow> AppState" where
  "recompute_visible_debounced E s =
     (let should_recompute =
        (case ap_last_filter_change s of
           None \<Rightarrow> True
         | Some prev \<Rightarrow> FILTER_DEBOUNCE \<le> duration_since (e_now E) prev);
          s = s\<lparr>ap_last_filter_change := Some (e_now E)\<rparr>
      in if should_recompute then recompute_visible E s else s)"

definition switch_gpu_subview :: "GpuSubview \<Rightarrow> AppState \<Rightarrow> AppState" where
  "switch_gpu_subview sv s =
     s\<lparr>ap_gpu_subview := sv, ap_gpu_sort_field := gpu_default_for sv, ap_gpu_sort_order := Desc,
       ap_gpu_filter_input := [], ap_gpu_filter_active := False, ap_gpu_selected := 0, ap_gpu_scroll_offset := 0\<rparr>"

definition switch_kube_subview :: "env \<Rightarrow> KubeSubview \<Rightarrow> AppState \<Rightarrow> AppState" where
  "switch_kube_subview E sv s =
     recompute_kube_view E
       (s\<lparr>ap_kube_subview := sv, ap_kube_sort_field := kube_default_for sv, ap_kube_sort_order := Desc,
          ap_kube_filter_input := [], ap_kube_filter_active := False, ap_kube_selected := 0, ap_kube_scroll_offset := 0\<rparr>)"

definition CONTAINER_HISTORY_LEN :: nat where
  "CONTAINER_HISTORY_LEN = 60"

text \<open>One container: the CPU ring, then the RX delta against the last cumulative value.\<close>

definition push_container :: "ContainerSnapshot \<Rightarrow> AppState \<Rightarrow> AppState" where
  "push_container c s =
     (let i = ct_id c;
          cpu = push_ring CONTAINER_HISTORY_LEN (unwrap_or (ap_container_cpu_hist s i) []) (ct_cpu_pct c);
          delta = (case ap_container_rx_last s i of Some prev \<Rightarrow> sat_sub (ct_net_rx_bytes c) prev | None \<Rightarrow> 0);
          rx = push_ring CONTAINER_HISTORY_LEN (unwrap_or (ap_container_rx_hist s i) []) delta
      in s\<lparr>ap_container_cpu_hist := (ap_container_cpu_hist s)(i := Some cpu),
            ap_container_rx_last := (ap_container_rx_last s)(i := Some (ct_net_rx_bytes c)),
            ap_container_rx_hist := (ap_container_rx_hist s)(i := Some rx)\<rparr>)"

definition drop_missing :: "string set \<Rightarrow> (string \<Rightarrow> 'v option) \<Rightarrow> string \<Rightarrow> 'v option" where
  "drop_missing seen m = (\<lambda>k. if k \<in> seen then m k else None)"

definition push_container_history :: "ContainersSnapshot \<Rightarrow> AppState \<Rightarrow> AppState" where
  "push_container_history cs s =
     (let seen = set (map ct_id (cts_containers cs));
          s = fold push_container (cts_containers cs) s
      in s\<lparr>ap_container_cpu_hist := drop_missing seen (ap_container_cpu_hist s),
            ap_container_rx_hist := drop_missing seen (ap_container_rx_hist s),
            ap_container_rx_last := drop_missing seen (ap_container_rx_last s)\<rparr>)"

definition apply_snapshot :: "env \<Rightarrow> SystemSnapshot \<Rightarrow> AppState \<Rightarrow> AppState" where
  "apply_snapshot E snap s =
     (if ap_paused s then s
      else
        let s = s\<lparr>ap_network_history := history_push (e_now E) (ss_networks snap) (ap_network_history s)\<rparr>;
            s = (case ss_containers snap of Some cs \<Rightarrow> push_container_history cs s | None \<Rightarrow> s);
            s = s\<lparr>ap_last_snapshot := Some snap\<rparr>;
            s = recompute_visible E s;
            s = recompute_containers_view E s;
            s = recompute_kube_view E s
        in mark_dirty s)"

definition pump_action_results :: "env \<Rightarrow> AppState \<Rightarrow> AppState" where
  "pump_action_results E s =
     (let s' = fold (\<lambda>(level, msg). notify E level msg) (ap_action_rx s) s in
      if ap_action_rx s = [] then s else mark_dirty (s'\<lparr>ap_action_rx := []\<rparr>))"

section \<open>Filters\<close>

definition filter_editing :: "AppState \<Rightarrow> bool" where
  "filter_editing s =
     (case ap_tab s of
        TGpu \<Rightarrow> ap_gpu_filter_active s
      | TNetwork \<Rightarrow> ap_net_filter_active s
      | TContainers \<Rightarrow> ap_containers_filter_active s
      | TKube \<Rightarrow> ap_kube_filter_active s
      | _ \<Rightarrow> ap_filter_active s)"

definition filter_text :: "AppState \<Rightarrow> string" where
  "filter_text s =
     (case ap_tab s of
        TGpu \<Rightarrow> ap_gpu_filter_input s
      | TNetwork \<Rightarrow> ap_net_filter_input s
      | TContainers \<Rightarrow> ap_containers_filter_input s
      | TKube \<Rightarrow> ap_kube_filter_input s
      | _ \<Rightarrow> ap_filter_input s)"

definition set_filter_editing :: "bool \<Rightarrow> AppState \<Rightarrow> AppState" where
  "set_filter_editing on s =
     (case ap_tab s of
        TGpu \<Rightarrow> s\<lparr>ap_gpu_filter_active := on\<rparr>
      | TNetwork \<Rightarrow> s\<lparr>ap_net_filter_active := on\<rparr>
      | TContainers \<Rightarrow> s\<lparr>ap_containers_filter_active := on\<rparr>
      | TKube \<Rightarrow> s\<lparr>ap_kube_filter_active := on\<rparr>
      | _ \<Rightarrow> s\<lparr>ap_filter_active := on\<rparr>)"

definition set_filter_text :: "string \<Rightarrow> AppState \<Rightarrow> AppState" where
  "set_filter_text txt s =
     (case ap_tab s of
        TGpu \<Rightarrow> s\<lparr>ap_gpu_filter_input := txt\<rparr>
      | TNetwork \<Rightarrow> s\<lparr>ap_net_filter_input := txt\<rparr>
      | TContainers \<Rightarrow> s\<lparr>ap_containers_filter_input := txt\<rparr>
      | TKube \<Rightarrow> s\<lparr>ap_kube_filter_input := txt\<rparr>
      | _ \<Rightarrow> s\<lparr>ap_filter_input := txt\<rparr>)"

definition refilter_tab :: "env \<Rightarrow> bool \<Rightarrow> AppState \<Rightarrow> AppState" where
  "refilter_tab E immediate s =
     (case ap_tab s of
        TContainers \<Rightarrow> recompute_containers_view E s
      | TKube \<Rightarrow> recompute_kube_view E s
      | TGpu \<Rightarrow> s
      | TNetwork \<Rightarrow> s
      | _ \<Rightarrow>
          if immediate then recompute_visible E (s\<lparr>ap_last_filter_change := None\<rparr>)
          else recompute_visible_debounced E s)"

definition after_filter_change :: "env \<Rightarrow> bool \<Rightarrow> AppState \<Rightarrow> AppState" where
  "after_filter_change E immediate s =
     (let s = refilter_tab E immediate s;
          cnt = item_count E s
      in mark_dirty (set_sel_off (clamp_selection (fst (sel_off s)) cnt, 0) s))"

definition clear_filter :: "env \<Rightarrow> AppState \<Rightarrow> AppState" where
  "clear_filter E s = after_filter_change E True (set_filter_text [] s)"

definition set_filter :: "env \<Rightarrow> string \<Rightarrow> AppState \<Rightarrow> AppState" where
  "set_filter E txt s = after_filter_change E True (set_filter_text txt s)"

definition MAX_FILTER_LEN :: nat where
  "MAX_FILTER_LEN = 256"

definition handle_filter_key :: "env \<Rightarrow> KeyCode \<Rightarrow> KeyModifiers \<Rightarrow> AppState \<Rightarrow> AppState" where
  "handle_filter_key E code mods s =
     mark_dirty
       (case code of
          KEsc \<Rightarrow> set_filter_editing False s
        | KEnter \<Rightarrow> after_filter_change E True (set_filter_editing False s)
        | KBackspace \<Rightarrow> after_filter_change E False (set_filter_text (pop_char (filter_text s)) s)
        | KChar c \<Rightarrow>
            if km_control mods then s
            else if length (filter_text s) < MAX_FILTER_LEN
            then after_filter_change E False (set_filter_text (filter_text s @ c) s)
            else s
        | _ \<Rightarrow> s)"

section \<open>Sorting\<close>

definition cycle_sort :: "env \<Rightarrow> AppState \<Rightarrow> AppState" where
  "cycle_sort E s =
     (case ap_tab s of
        TNetwork \<Rightarrow> s\<lparr>ap_net_sort_field := next_net_sort_field (ap_net_sort_field s)\<rparr>
      | TContainers \<Rightarrow>
          recompute_containers_view E (s\<lparr>ap_containers_sort_field := next_container_sort_field (ap_containers_sort_field s)\<rparr>)
      | TKube \<Rightarrow>
          recompute_kube_view E
            (s\<lparr>ap_kube_sort_field := next_kube_sort_field (ap_kube_sort_field s) (ap_kube_subview s),
               ap_kube_selected := 0, ap_kube_scroll_offset := 0\<rparr>)
      | TGpu \<Rightarrow>
          s\<lparr>ap_gpu_sort_field := next_gpu_sort_field (ap_gpu_sort_field s) (ap_gpu_subview s),
            ap_gpu_selected := 0, ap_gpu_scroll_offset := 0\<rparr>
      | _ \<Rightarrow> recompute_visible E (s\<lparr>ap_sort_field := next_sort_field (ap_sort_field s)\<rparr>))"

fun flip_order :: "SortOrder \<Rightarrow> SortOrder" where
  "flip_order Asc = Desc"
| "flip_order Desc = Asc"

definition reverse_sort :: "env \<Rightarrow> AppState \<Rightarrow> AppState" where
  "reverse_sort E s =
     (case ap_tab s of
        TNetwork \<Rightarrow> s\<lparr>ap_net_sort_order := flip_order (ap_net_sort_order s)\<rparr>
      | TContainers \<Rightarrow> recompute_containers_view E (s\<lparr>ap_containers_sort_order := flip_order (ap_containers_sort_order s)\<rparr>)
      | TKube \<Rightarrow> recompute_kube_view E (s\<lparr>ap_kube_sort_order := flip_order (ap_kube_sort_order s)\<rparr>)
      | TGpu \<Rightarrow> s\<lparr>ap_gpu_sort_order := flip_order (ap_gpu_sort_order s)\<rparr>
      | _ \<Rightarrow> recompute_visible E (s\<lparr>ap_sort_order := flip_order (ap_sort_order s)\<rparr>))"

end
