(* ===== verification/Frames.thy ===== *)
theory Frames
  imports Widgets App_State
begin

text \<open>
  The frame a view draws into (\<open>ui/mod.rs\<close>, \<open>widgets/panel.rs\<close>, \<open>widgets/overlay.rs\<close>,
  \<open>ui/filter_bar.rs\<close>). A frame is the list of its \<open>render_widget\<close> calls in order, so a drawing
  function returns what it renders. The terminal library's layout solver and the inside of a bordered
  block are parameters: the areas they return are arguments of everything drawn in them.
\<close>

section \<open>The frame\<close>

datatype Constraint = Length u16 | Fill u16 | Percentage u16

datatype Alignment = AlignLeft | AlignCenter | AlignCenterWrapped

datatype border_set = ROUNDED | ASCII_BORDER

record Block =
  bk_set :: border_set
  bk_border :: Style
  bk_title :: "string option"
  bk_title_style :: Style

text \<open>What is rendered: a table's header, body and scrollbar are one drawing.\<close>

datatype drawing =
  Clear Rect
| DrawBlock Rect Block
| Paragraph Rect Alignment Style "Line list"
| DrawTable Rect table_frame

text \<open>\<open>Layout::vertical\<close> and \<open>Layout::horizontal\<close> give the i-th area; \<open>Block::inner\<close> the area inside the border.\<close>

record ratatui =
  rt_vertical :: "Constraint list \<Rightarrow> Rect \<Rightarrow> nat \<Rightarrow> Rect"
  rt_horizontal :: "Constraint list \<Rightarrow> Rect \<Rightarrow> nat \<Rightarrow> Rect"
  rt_inner :: "Block \<Rightarrow> Rect \<Rightarrow> Rect"

definition plain :: "Rect \<Rightarrow> Line list \<Rightarrow> drawing" where
  "plain area ls = Paragraph area AlignLeft style_default ls"

section \<open>Breakpoints\<close>

datatype Breakpoint = Xs | Sm | Md | Lg

definition from_width :: "u16 \<Rightarrow> Breakpoint" where
  "from_width width = (if width \<le> 59 then Xs else if width \<le> 99 then Sm else if width \<le> 139 then Md else Lg)"

fun breakpoint_rank :: "Breakpoint \<Rightarrow> nat" where
  "breakpoint_rank Xs = 0"
| "breakpoint_rank Sm = 1"
| "breakpoint_rank Md = 2"
| "breakpoint_rank Lg = 3"

instantiation Breakpoint :: linorder
begin

definition less_eq_Breakpoint :: "Breakpoint \<Rightarrow> Breakpoint \<Rightarrow> bool" where
  "less_eq_Breakpoint a b \<longleftrightarrow> breakpoint_rank a \<le> breakpoint_rank b"

definition less_Breakpoint :: "Breakpoint \<Rightarrow> Breakpoint \<Rightarrow> bool" where
  "less_Breakpoint a b \<longleftrightarrow> breakpoint_rank a < breakpoint_rank b"

instance
proof
  fix a b :: Breakpoint
  show "a \<le> b \<Longrightarrow> b \<le> a \<Longrightarrow> a = b"
    by (cases a; cases b) (simp_all add: less_eq_Breakpoint_def)
qed (auto simp: less_eq_Breakpoint_def less_Breakpoint_def)

end

definition allows_side_panel :: "Breakpoint \<Rightarrow> bool" where
  "allows_side_panel b \<longleftrightarrow> Md \<le> b"

section \<open>What a view needs\<close>

record Render =
  r_app :: AppState
  r_theme :: Theme
  r_glyphs :: Glyphs
  r_breakpoint :: Breakpoint
  r_env :: env
  r_rt :: ratatui
  r_host :: "string option"

abbreviation r_lower :: "Render \<Rightarrow> string \<Rightarrow> string" where
  "r_lower r s \<equiv> to_lowercase (e_ulc (r_env r)) s"

definition r_ellipsis :: "Render \<Rightarrow> string \<Rightarrow> string" where
  "r_ellipsis r txt = txt @ gl_ellipsis (r_glyphs r)"

definition titled :: "Render \<Rightarrow> string \<Rightarrow> string \<Rightarrow> string" where
  "titled r kind name = kind @ '' '' @ gl_dash (r_glyphs r) @ '' '' @ name"

text \<open>The format \<open>{s:>n}\<close>.\<close>

definition pad_left :: "nat \<Rightarrow> string \<Rightarrow> string" where
  "pad_left n s = spaces (n - char_count s) @ s"

definition vsplit :: "Render \<Rightarrow> Constraint list \<Rightarrow> Rect \<Rightarrow> nat \<Rightarrow> Rect" where
  "vsplit r = rt_vertical (r_rt r)"

definition hsplit :: "Render \<Rightarrow> Constraint list \<Rightarrow> Rect \<Rightarrow> nat \<Rightarrow> Rect" where
  "hsplit r = rt_horizontal (r_rt r)"

definition no_room :: "Rect \<Rightarrow> bool" where
  "no_room area \<longleftrightarrow> rheight area = 0 \<or> rwidth area = 0"

section \<open>Panels, popups, placeholders and tables\<close>

definition panel_block :: "string option \<Rightarrow> bool \<Rightarrow> Theme \<Rightarrow> Glyphs \<Rightarrow> Block" where
  "panel_block title focused t g =
     \<lparr>bk_set = (if gl_unicode g then ROUNDED else ASCII_BORDER), bk_border = border_style t focused,
      bk_title = map_option (\<lambda>s. '' '' @ s @ '' '') title,
      bk_title_style = (if title = None then style_default else if focused then accent t else dim t)\<rparr>"

text \<open>\<open>popup\<close>: what it renders and the region left for the content.\<close>

definition popup :: "Render \<Rightarrow> Rect \<Rightarrow> string \<Rightarrow> drawing list \<times> Rect" where
  "popup r area title =
     (if rwidth area < 3 \<or> rheight area < 3
      then ([], \<lparr>rx = rx area, ry = ry area, rwidth = 0, rheight = 0\<rparr>)
      else let b = panel_block (Some title) True (r_theme r) (r_glyphs r)
           in ([Clear area, DrawBlock area b], rt_inner (r_rt r) b area))"

definition render_empty :: "Render \<Rightarrow> Rect \<Rightarrow> EmptyState \<Rightarrow> drawing list" where
  "render_empty r area e =
     (if no_room area then []
      else [Paragraph (empty_area area e (r_theme r)) AlignCenter style_default (empty_lines e (r_theme r))])"

definition render_table :: "Render \<Rightarrow> Rect \<Rightarrow> Spec \<Rightarrow> (nat \<Rightarrow> Row) \<Rightarrow> drawing list" where
  "render_table r area spec row_at =
     (case snd (draw_table (r_theme r) (r_glyphs r) (rwidth area) (rheight area) spec row_at) of
        None \<Rightarrow> [] | Some tf \<Rightarrow> [DrawTable area tf])"

section \<open>The filter bar\<close>

definition draw_filter_bar :: "Render \<Rightarrow> Rect \<Rightarrow> string \<Rightarrow> drawing list" where
  "draw_filter_bar r area label =
     (if no_room area then []
      else
        let s = r_app r; t = r_theme r; txt = filter_text s; n = item_count (r_env r) s in
        [plain area
          [[('' '' @ label @ '' '', accent_fill t), ('' '', body t), (txt, body t),
            (cursor (r_glyphs r), accent t)] @
           (if txt \<noteq> []
            then [(''   '' @ dec n @ '' match'', dim t)] @ (if n \<noteq> 1 then [(''es'', dim t)] else [])
            else []) @
           [(''   Enter apply '' @ sep (r_glyphs r) @ '' Esc leave'', subtle t)]]])"

text \<open>The filter row of a tab takes one line while the filter is edited.\<close>

definition filter_h :: "Render \<Rightarrow> u16" where
  "filter_h r = (if filter_editing (r_app r) then 1 else 0)"

definition filter_row :: "Render \<Rightarrow> Rect \<Rightarrow> string \<Rightarrow> drawing list" where
  "filter_row r area label = (if 0 < filter_h r then draw_filter_bar r area label else [])"

end
