(* ===== verification/Tables.thy ===== *)
theory Tables
  imports Frames
begin

text \<open>
  The tabs that show a table (\<open>ui/processes.rs\<close>, \<open>ui/network.rs\<close>, \<open>ui/containers.rs\<close>,
  \<open>ui/kube.rs\<close>, \<open>ui/gpu.rs\<close>): their columns, how a record becomes a row, the summary and graph
  around the table, and what each tab renders. The rows come from the views of the theory on views
  and from the caches of the application state, and the table widget draws them.
\<close>

section \<open>Ages and counts\<close>

definition format_age :: "u64 \<Rightarrow> string" where
  "format_age secs =
     (let s = unat secs in
      if 86400 \<le> s then dec (s div 86400) @ ''d''
      else if 3600 \<le> s then dec (s div 3600) @ ''h''
      else if 60 \<le> s then dec (s div 60) @ ''m''
      else dec s @ ''s'')"

text \<open>The row of a list at an index, or an empty row past its end.\<close>

definition row_or_empty :: "('a \<Rightarrow> Row) \<Rightarrow> 'a list \<Rightarrow> nat \<Rightarrow> Row" where
  "row_or_empty f xs idx = (case get_opt xs idx of Some x \<Rightarrow> f x | None \<Rightarrow> [])"

definition percent_of :: "nat \<Rightarrow> nat \<Rightarrow> fl" where
  "percent_of used cap = fmul F64 (fdiv F64 (of_nat_fl F64 used) (of_nat_fl F64 cap)) (Fin 100)"

section \<open>Processes\<close>

definition PROCESS_COLUMNS :: "Column list" where
  "PROCESS_COLUMNS =
     [col_fixed ''PID'' 7 Right PRIO_ESSENTIAL, col_fixed ''USER'' 10 Left PRIO_MEDIUM,
      col_fixed ''S'' 2 Left PRIO_HIGH, col_fixed ''CPU%'' 7 Right PRIO_HIGH,
      col_fixed ''MEM%'' 7 Right PRIO_HIGH, col_fixed ''RSS'' 8 Right PRIO_LOW,
      col_flex ''COMMAND'' 12 PRIO_ESSENTIAL]"

fun process_sort_column :: "SortField \<Rightarrow> nat option" where
  "process_sort_column SF_Pid = Some 0"
| "process_sort_column SF_User = Some 1"
| "process_sort_column SF_Cpu = Some 3"
| "process_sort_column SF_Mem = Some 4"
| "process_sort_column SF_Name = Some 6"

definition process_state_level :: "string \<Rightarrow> Level" where
  "process_state_level status =
     (if status = ''Running'' then Success
      else if status = ''Sleeping'' \<or> status = ''Idle'' then Neutral
      else if status = ''Zombie'' then Error
      else if status = ''Stopped'' then Warning
      else Info)"

definition process_row :: "Render \<Rightarrow> string option \<Rightarrow> ProcessInfo \<Rightarrow> Row" where
  "process_row r pre p =
     (let command = scrub_ctrl (pr_command p);
          command = (case pre of Some s \<Rightarrow> s @ command | None \<Rightarrow> command);
          level = process_state_level (pr_status p);
          t = r_theme r
      in [cell_new (dec (unat (pr_pid p))), cell_new (scrub_ctrl (pr_user p)),
          cell_colored (marker level (r_glyphs r)) (level_color t level),
          cell_colored (fmt_fixed 1 (pr_cpu_percent p)) (gauge_color t (pr_cpu_percent p)),
          cell_new (fmt_fixed 1 (pr_memory_percent p)), cell_new (human_bytes (pr_memory_bytes p)),
          cell_new command])"

definition process_row_at :: "Render \<Rightarrow> nat \<Rightarrow> Row" where
  "process_row_at r idx =
     (let s = r_app r in
      if ap_tree_mode s then
        (case get_opt (ap_visible_tree s) idx of
           Some (p, _) \<Rightarrow>
             process_row r (Some (tree_prefix (tree_glyphs.truncate (r_glyphs r)) (ap_visible_tree s) idx)) p
         | None \<Rightarrow> [])
      else row_or_empty (process_row r None) (ap_visible_processes s) idx)"

definition process_spec :: "Render \<Rightarrow> Spec" where
  "process_spec r =
     (let s = r_app r in
      \<lparr>sp_columns = PROCESS_COLUMNS, sp_sort_col = process_sort_column (ap_sort_field s),
       sp_descending = (ap_sort_order s = Desc), sp_total = process_count s, sp_selected = ap_selected s,
       sp_scroll = ap_scroll_offset s, sp_col_scroll = ap_col_scroll s,
       sp_empty = (if filter_text s \<noteq> [] then no_match ''No matching processes''
                   else empty_state ''No processes'' None)\<rparr>)"

definition draw_processes_tab :: "Render \<Rightarrow> Rect \<Rightarrow> drawing list" where
  "draw_processes_tab r area =
     (if ap_last_snapshot (r_app r) = None
      then render_empty r area (waiting_state (r_ellipsis r ''Waiting for data''))
      else
        let split = vsplit r [Fill 1, Length (filter_h r)] area in
        render_table r (split 0) (process_spec r) (process_row_at r) @
        filter_row r (split 1) ''Filter processes'')"

section \<open>Network\<close>

definition NETWORK_COLUMNS :: "Column list" where
  "NETWORK_COLUMNS =
     [col_flex ''INTERFACE'' 12 PRIO_ESSENTIAL, col_fixed ''S'' 2 Left PRIO_LOW,
      col_fixed ''RX/s'' 12 Right PRIO_ESSENTIAL, col_fixed ''TX/s'' 12 Right PRIO_ESSENTIAL,
      col_fixed ''TOTAL RX'' 10 Right PRIO_MEDIUM, col_fixed ''TOTAL TX'' 10 Right PRIO_MEDIUM,
      col_fixed ''ERR'' 7 Right PRIO_HIGH]"

definition GRAPH_HEIGHT :: u16 where "GRAPH_HEIGHT = 4"

fun network_sort_column :: "NetworkSortField \<Rightarrow> nat option" where
  "network_sort_column NSF_Name = Some 0"
| "network_sort_column NSF_RxRate = Some 2"
| "network_sort_column NSF_TxRate = Some 3"
| "network_sort_column NSF_TotalRx = Some 4"
| "network_sort_column NSF_TotalTx = Some 5"
| "network_sort_column NSF_Errors = Some 6"

definition table_interfaces :: "Render \<Rightarrow> NetworkInterfaceSnapshot list" where
  "table_interfaces r =
     (let s = r_app r in
      sorted_interfaces (e_ulc (r_env r)) (ap_net_filter_input s) (ap_network_history s) (ap_net_sort_field s)
        (ap_net_sort_order s) (ap_last_snapshot s))"

definition interface_row :: "Render \<Rightarrow> NetworkInterfaceSnapshot \<Rightarrow> Row" where
  "interface_row r i =
     (let h = ap_network_history (r_app r); t = r_theme r; g = r_glyphs r;
          down = of_nat (to_usize (bandwidth_rx h (if_name i)));
          up = of_nat (to_usize (bandwidth_tx h (if_name i)));
          errors = errors_rx i + errors_tx i;
          level = (if is_up i then Success else Neutral)
      in [cell_new (scrub_ctrl (if_name i)), cell_colored (marker level g) (level_color t level),
          cell_new (arrow_down g @ '' '' @ human_rate down), cell_new (arrow_up g @ '' '' @ human_rate up),
          cell_new (human_bytes (bytes_rx i)), cell_new (human_bytes (bytes_tx i)),
          (if 0 < errors then cell_colored (dec (unat errors)) (th_danger t) else cell_new ''0'')])"

definition network_spec :: "Render \<Rightarrow> Spec" where
  "network_spec r =
     (let s = r_app r in
      \<lparr>sp_columns = NETWORK_COLUMNS, sp_sort_col = network_sort_column (ap_net_sort_field s),
       sp_descending = (ap_net_sort_order s = Desc), sp_total = length (table_interfaces r),
       sp_selected = ap_net_selected s, sp_scroll = ap_net_scroll_offset s, sp_col_scroll = ap_col_scroll s,
       sp_empty = (if ap_net_filter_input s \<noteq> [] then no_match ''No matching interfaces''
                   else empty_state ''No network interfaces'' (Some ''Nothing is reporting traffic.''))\<rparr>)"

definition sum_rates :: "(string \<Rightarrow> fl) \<Rightarrow> NetworkInterfaceSnapshot list \<Rightarrow> u64" where
  "sum_rates rate ifs = of_nat (to_usize (foldl (\<lambda>acc i. fadd F64 acc (rate (if_name i))) (Fin 0) ifs))"

definition network_summary :: "Render \<Rightarrow> NetworkInterfaceSnapshot list \<Rightarrow> Line" where
  "network_summary r ifs =
     (let h = ap_network_history (r_app r); t = r_theme r; g = r_glyphs r in
      [('' Network '', accent_fill t),
       (''  Interfaces '' @ dec (length (filter is_up ifs)) @ ''/'' @ dec (length ifs), dim t),
       (''   Total '' @ arrow_down g @ '' '' @ human_rate (sum_rates (bandwidth_rx h) ifs) @ ''   '' @
        arrow_up g @ '' '' @ human_rate (sum_rates (bandwidth_tx h) ifs), body t)])"

definition series_scale :: "u64 list \<Rightarrow> u64 list \<Rightarrow> u64" where
  "series_scale a b = max (if a @ b = [] then 1 else fold max (a @ b) 0) 1"

definition network_graph :: "Render \<Rightarrow> Rect \<Rightarrow> NetworkInterfaceSnapshot list \<Rightarrow> drawing list" where
  "network_graph r area ifs =
     (case get_opt ifs (ap_net_selected (r_app r)) of
        None \<Rightarrow> []
      | Some i \<Rightarrow>
          let width = sat_sub (rwidth area) 14 in
          if width = 0 then []
          else
            let h = ap_network_history (r_app r); t = r_theme r; g = r_glyphs r;
                down = sparkline_rx h (if_name i) (unat width);
                up = sparkline_tx h (if_name i) (unat width);
                scale = series_scale down up
            in [plain area
                  ([[('' '' @ scrub_ctrl (if_name i) @ '' '', accent t)]] @
                   map (\<lambda>(arrow, series, color).
                          ('' '' @ arrow @ '' '', dim t) # spark_line series width (Some scale) Flat color t g)
                     [(arrow_down g, down, th_success t), (arrow_up g, up, th_info t)] @
                   [[('' peak '' @ human_rate scale, subtle t)]])])"

definition graph_h :: "bool \<Rightarrow> u16 \<Rightarrow> Rect \<Rightarrow> u16" where
  "graph_h rows threshold area = (if rows \<and> threshold \<le> rheight area then GRAPH_HEIGHT else 0)"

definition draw_network_tab :: "Render \<Rightarrow> Rect \<Rightarrow> drawing list" where
  "draw_network_tab r area =
     (if ap_last_snapshot (r_app r) = None
      then render_empty r area (waiting_state (r_ellipsis r ''Waiting for data''))
      else
        let ifs = table_interfaces r;
            gh = graph_h (ifs \<noteq> []) 12 area;
            split = vsplit r [Length 1, Fill 1, Length gh, Length (filter_h r)] area
        in [plain (split 0) [network_summary r ifs]] @
           render_table r (split 1) (network_spec r) (row_or_empty (interface_row r) ifs) @
           (if 0 < gh then network_graph r (split 2) ifs else []) @
           filter_row r (split 3) ''Filter interfaces'')"

section \<open>Containers\<close>

definition CONTAINER_COLUMNS :: "Column list" where
  "CONTAINER_COLUMNS =
     [col_fixed ''NAME'' 22 Left PRIO_ESSENTIAL, col_flex ''IMAGE'' 16 PRIO_MEDIUM,
      col_fixed ''STATE'' 13 Left PRIO_ESSENTIAL, col_fixed ''CPU%'' 7 Right PRIO_HIGH,
      col_fixed ''MEMORY'' 18 Right PRIO_HIGH, col_fixed ''RX/s'' 10 Right PRIO_LOW,
      col_fixed ''TX/s'' 10 Right PRIO_LOW, col_fixed ''UPTIME'' 9 Right PRIO_LOW]"

fun container_sort_column :: "ContainerSortField \<Rightarrow> nat option" where
  "container_sort_column CSF_Name = Some 0"
| "container_sort_column CSF_Cpu = Some 3"
| "container_sort_column CSF_Mem = Some 4"
| "container_sort_column CSF_NetRx = Some 5"
| "container_sort_column CSF_NetTx = Some 6"
| "container_sort_column CSF_Uptime = Some 7"

fun container_state_level :: "ContainerState \<Rightarrow> Level" where
  "container_state_level CS_Running = Success"
| "container_state_level CS_Paused = Info"
| "container_state_level CS_Created = Info"
| "container_state_level CS_Restarting = Warning"
| "container_state_level CS_Removing = Warning"
| "container_state_level CS_Exited = Error"
| "container_state_level CS_Dead = Error"

fun container_state_label :: "ContainerState \<Rightarrow> string" where
  "container_state_label CS_Created = ''created''"
| "container_state_label CS_Running = ''running''"
| "container_state_label CS_Paused = ''paused''"
| "container_state_label CS_Restarting = ''restarting''"
| "container_state_label CS_Exited = ''exited''"
| "container_state_label CS_Dead = ''dead''"
| "container_state_label CS_Removing = ''removing''"

definition uptime :: "u64 \<Rightarrow> u64 \<Rightarrow> string" where
  "uptime started_at_ms now_ms =
     (if started_at_ms = 0 \<or> now_ms \<le> started_at_ms then ''0s''
      else format_age ((now_ms - started_at_ms) div 1000))"

definition container_row :: "Render \<Rightarrow> u64 \<Rightarrow> ContainerSnapshot \<Rightarrow> Row" where
  "container_row r now_ms c =
     (let level = container_state_level (ct_state c); running = (ct_state c = CS_Running);
          t = r_theme r; g = r_glyphs r;
          memory = (if 0 < ct_mem_limit_bytes c
                    then human_bytes (ct_mem_used_bytes c) @ ''/'' @ human_bytes (ct_mem_limit_bytes c)
                    else human_bytes (ct_mem_used_bytes c));
          dash = cell_new (gl_none g)
      in [cell_new (scrub_ctrl (ct_name c)), cell_new (scrub_ctrl (ct_image c)),
          cell_colored (marker level g @ '' '' @ container_state_label (ct_state c)) (level_color t level),
          (if running then cell_colored (fmt_fixed 1 (ct_cpu_pct c)) (gauge_color t (ct_cpu_pct c)) else dash),
          (if running then cell_new memory else dash),
          (if running then cell_new (human_bytes (ct_net_rx_bytes c)) else dash),
          (if running then cell_new (human_bytes (ct_net_tx_bytes c)) else dash),
          (if running then cell_new (uptime (ct_started_at_ms c) now_ms) else dash)])"

definition container_spec :: "Render \<Rightarrow> Spec" where
  "container_spec r =
     (let s = r_app r in
      \<lparr>sp_columns = CONTAINER_COLUMNS, sp_sort_col = container_sort_column (ap_containers_sort_field s),
       sp_descending = (ap_containers_sort_order s = Desc), sp_total = length (ap_containers_cache s),
       sp_selected = ap_containers_selected s, sp_scroll = ap_containers_scroll_offset s,
       sp_col_scroll = ap_col_scroll s,
       sp_empty = (if ap_containers_filter_input s \<noteq> [] then no_match ''No matching containers''
                   else empty_state ''No containers'' (Some ''The daemon is up but has nothing running.''))\<rparr>)"

fun engine_name :: "EngineKind \<Rightarrow> string" where
  "engine_name EK_Docker = ''Docker''"
| "engine_name EK_Podman = ''Podman''"
| "engine_name EK_Unknown = ''Engine''"

definition running_containers :: "ContainersSnapshot \<Rightarrow> nat" where
  "running_containers cs = length (filter (\<lambda>c. ct_state c = CS_Running) (cts_containers cs))"

definition container_summary :: "Render \<Rightarrow> ContainersSnapshot \<Rightarrow> Line" where
  "container_summary r cs =
     (let t = r_theme r in
      [('' '' @ engine_name (cts_engine cs) @ '' '', accent_fill t),
       (''  '' @ dec (running_containers cs) @ '' running'', body t),
       ('' '' @ sep (r_glyphs r) @ '' '' @ dec (length (cts_containers cs)) @ '' total'', dim t)])"

definition container_cpu_history :: "AppState \<Rightarrow> string \<Rightarrow> fl list" where
  "container_cpu_history s i = unwrap_or (ap_container_cpu_hist s i) []"

definition container_rx_deltas :: "AppState \<Rightarrow> string \<Rightarrow> u64 list" where
  "container_rx_deltas s i = unwrap_or (ap_container_rx_hist s i) []"

definition container_graph :: "Render \<Rightarrow> Rect \<Rightarrow> ContainerSnapshot list \<Rightarrow> drawing list" where
  "container_graph r area rows =
     (case get_opt rows (ap_containers_selected (r_app r)) of
        None \<Rightarrow> []
      | Some c \<Rightarrow>
          let width = sat_sub (rwidth area) 10 in
          if width = 0 then []
          else
            let t = r_theme r; g = r_glyphs r in
            [plain area
              [[('' '' @ scrub_ctrl (ct_name c) @ '' '', accent t)],
               ('' CPU '', dim t) # line_percent (container_cpu_history (r_app r) (ct_id c)) width t g,
               ('' '' @ arrow_down g @ ''   '', dim t) #
                 spark_line (container_rx_deltas (r_app r) (ct_id c)) width None Flat (th_success t) t g]])"

definition draw_containers_tab :: "Render \<Rightarrow> Rect \<Rightarrow> drawing list" where
  "draw_containers_tab r area =
     (case ap_last_snapshot (r_app r) of
        None \<Rightarrow> render_empty r area (waiting_state (r_ellipsis r ''Waiting for data''))
      | Some sys \<Rightarrow>
          (case ss_containers sys of
             None \<Rightarrow>
               render_empty r area
                 (empty_state ''No container engine configured''
                   (Some ''Start Docker or Podman and relaunch, or pass --docker-socket.''))
           | Some cs \<Rightarrow>
               if \<not> cts_daemon_up cs then
                 render_empty r area
                   (error_state ''No container daemon detected'' ''The socket is not answering.''
                     ''Run `docker` or `podman system service`, and check your user is in the `docker` group.'')
               else
                 let rows = ap_containers_cache (r_app r);
                     gh = graph_h (rows \<noteq> []) 14 area;
                     split = vsplit r [Length 1, Fill 1, Length gh, Length (filter_h r)] area
                 in [plain (split 0) [container_summary r cs]] @
                    render_table r (split 1) (container_spec r)
                      (row_or_empty (container_row r (ss_timestamp_ms sys)) rows) @
                    (if 0 < gh then container_graph r (split 2) rows else []) @
                    filter_row r (split 3) ''Filter containers''))"

section \<open>Kubernetes\<close>

definition POD_COLUMNS :: "Column list" where
  "POD_COLUMNS =
     [col_fixed ''NAMESPACE'' 18 Left PRIO_MEDIUM, col_flex ''POD'' 20 PRIO_ESSENTIAL,
      col_fixed ''PHASE'' 15 Left PRIO_ESSENTIAL, col_fixed ''READY'' 8 Right PRIO_HIGH,
      col_fixed ''RESTARTS'' 10 Right PRIO_HIGH, col_fixed ''CPU'' 8 Right PRIO_LOW,
      col_fixed ''MEM'' 9 Right PRIO_LOW, col_fixed ''AGE'' 7 Right PRIO_MEDIUM]"

definition NODE_COLUMNS :: "Column list" where
  "NODE_COLUMNS =
     [col_flex ''NODE'' 20 PRIO_ESSENTIAL, col_fixed ''STATUS'' 20 Left PRIO_ESSENTIAL,
      col_fixed ''ROLES'' 16 Left PRIO_LOW, col_fixed ''CPU'' 9 Right PRIO_HIGH,
      col_fixed ''MEM'' 9 Right PRIO_HIGH, col_fixed ''PODS'' 9 Right PRIO_MEDIUM,
      col_fixed ''VERSION'' 14 Left PRIO_LOW, col_fixed ''AGE'' 7 Right PRIO_MEDIUM]"

definition DEPLOY_COLUMNS :: "Column list" where
  "DEPLOY_COLUMNS =
     [col_fixed ''NAMESPACE'' 18 Left PRIO_MEDIUM, col_flex ''DEPLOYMENT'' 20 PRIO_ESSENTIAL,
      col_fixed ''READY'' 9 Right PRIO_ESSENTIAL, col_fixed ''UP-TO-DATE'' 12 Right PRIO_HIGH,
      col_fixed ''AVAILABLE'' 11 Right PRIO_HIGH, col_fixed ''STRATEGY'' 15 Left PRIO_LOW,
      col_fixed ''AGE'' 7 Right PRIO_MEDIUM]"

fun phase_level :: "PodPhase \<Rightarrow> Level" where
  "phase_level PP_Running = Success"
| "phase_level PP_Succeeded = Neutral"
| "phase_level PP_Pending = Info"
| "phase_level PP_Terminating = Info"
| "phase_level PP_Failed = Error"
| "phase_level PP_CrashLoop = Error"
| "phase_level PP_Unknown = Warning"

fun phase_label :: "PodPhase \<Rightarrow> string" where
  "phase_label PP_Pending = ''Pending''"
| "phase_label PP_Running = ''Running''"
| "phase_label PP_Succeeded = ''Succeeded''"
| "phase_label PP_Failed = ''Failed''"
| "phase_label PP_CrashLoop = ''CrashLoop''"
| "phase_label PP_Terminating = ''Terminating''"
| "phase_label PP_Unknown = ''Unknown''"

fun pod_sort_column :: "KubeSortField \<Rightarrow> nat option" where
  "pod_sort_column PodName = Some 1"
| "pod_sort_column PodPhase = Some 2"
| "pod_sort_column PodRestarts = Some 4"
| "pod_sort_column PodCpu = Some 5"
| "pod_sort_column PodMem = Some 6"
| "pod_sort_column PodAge = Some 7"
| "pod_sort_column _ = None"

definition pod_row :: "Render \<Rightarrow> PodSnapshot \<Rightarrow> Row" where
  "pod_row r p =
     (let level = phase_level (pod_phase p); t = r_theme r; g = r_glyphs r;
          (up, want) = pod_ready p;
          ready_ok = (up = want \<and> 0 < want);
          ready = dec (unat up) @ ''/'' @ dec (unat want)
      in [cell_new (scrub_ctrl (pod_namespace p)), cell_new (scrub_ctrl (pod_name p)),
          cell_colored (marker level g @ '' '' @ phase_label (pod_phase p)) (level_color t level),
          (if ready_ok then cell_new ready else cell_colored ready (th_warning t)),
          (if 0 < pod_restarts p then cell_colored (dec (unat (pod_restarts p))) (th_warning t) else cell_new ''0''),
          (case pod_cpu_millis p of None \<Rightarrow> cell_new (gl_none g) | Some m \<Rightarrow> cell_new (dec (unat m) @ ''m'')),
          (case pod_mem_bytes p of None \<Rightarrow> cell_new (gl_none g) | Some b \<Rightarrow> cell_new (human_bytes b)),
          cell_new (format_age (pod_age_seconds p))])"

fun node_level :: "NodeStatus \<Rightarrow> Level" where
  "node_level NS_Ready = Success"
| "node_level NS_SchedulingDisabled = Warning"
| "node_level NS_NotReady = Error"
| "node_level NS_Unknown = Warning"

fun node_status_debug :: "NodeStatus \<Rightarrow> string" where
  "node_status_debug NS_Ready = ''Ready''"
| "node_status_debug NS_NotReady = ''NotReady''"
| "node_status_debug NS_SchedulingDisabled = ''SchedulingDisabled''"
| "node_status_debug NS_Unknown = ''Unknown''"

definition node_share :: "Render \<Rightarrow> nat option \<Rightarrow> nat \<Rightarrow> Cell" where
  "node_share r used cap =
     (case used of
        None \<Rightarrow> cell_new (gl_none (r_glyphs r))
      | Some u \<Rightarrow>
          let pct = (if 0 < cap then percent_of u cap else Fin 0)
          in cell_colored (fmt_fixed 0 pct @ ''%'') (gauge_color (r_theme r) pct))"

definition node_row :: "Render \<Rightarrow> NodeSnapshot \<Rightarrow> Row" where
  "node_row r n =
     (let level = node_level (nd_status n); t = r_theme r; g = r_glyphs r in
      [cell_new (scrub_ctrl (nd_name n)),
       cell_colored (marker level g @ '' '' @ node_status_debug (nd_status n)) (level_color t level),
       cell_new (if nd_roles n = [] then gl_none g else join '','' (nd_roles n)),
       node_share r (map_option unat (nd_cpu_used_millis n)) (unat (nd_cpu_allocatable_millis n)),
       node_share r (map_option unat (nd_mem_used_bytes n)) (unat (nd_mem_allocatable_bytes n)),
       cell_new (dec (unat (nd_pod_count n)) @ ''/'' @ dec (unat (nd_pod_capacity n))),
       cell_new (scrub_ctrl (nd_kubelet_version n)),
       cell_new (format_age (nd_age_seconds n))])"

fun node_sort_column :: "KubeSortField \<Rightarrow> nat option" where
  "node_sort_column NodeName = Some 0"
| "node_sort_column NodeCpuPct = Some 3"
| "node_sort_column NodeMemPct = Some 4"
| "node_sort_column NodePodCount = Some 5"
| "node_sort_column NodeAge = Some 7"
| "node_sort_column _ = None"

fun strategy_debug :: "DeploymentStrategy \<Rightarrow> string" where
  "strategy_debug RollingUpdate = ''RollingUpdate''"
| "strategy_debug Recreate = ''Recreate''"

definition deploy_row :: "Render \<Rightarrow> DeploymentSnapshot \<Rightarrow> Row" where
  "deploy_row r d =
     (let t = r_theme r; healthy = (dp_replicas_ready d = dp_replicas_desired d);
          ready = dec (unat (dp_replicas_ready d)) @ ''/'' @ dec (unat (dp_replicas_desired d))
      in [cell_new (scrub_ctrl (dp_namespace d)), cell_new (scrub_ctrl (dp_name d)),
          (if healthy then cell_colored ready (th_success t) else cell_colored ready (th_warning t)),
          cell_new (dec (unat (dp_replicas_uptodate d))), cell_new (dec (unat (dp_replicas_available d))),
          cell_new (strategy_debug (dp_strategy d)), cell_new (format_age (dp_age_seconds d))])"

fun deploy_sort_column :: "KubeSortField \<Rightarrow> nat option" where
  "deploy_sort_column DeployNamespace = Some 0"
| "deploy_sort_column DeployName = Some 1"
| "deploy_sort_column DeployReadyRatio = Some 2"
| "deploy_sort_column DeployAge = Some 6"
| "deploy_sort_column _ = None"

definition kube_spec :: "Render \<Rightarrow> Column list \<Rightarrow> nat option \<Rightarrow> nat \<Rightarrow> EmptyState \<Rightarrow> Spec" where
  "kube_spec r columns sort_col rows placeholder =
     (let s = r_app r in
      \<lparr>sp_columns = columns, sp_sort_col = sort_col, sp_descending = (ap_kube_sort_order s = Desc),
       sp_total = rows, sp_selected = ap_kube_selected s, sp_scroll = ap_kube_scroll_offset s,
       sp_col_scroll = ap_col_scroll s, sp_empty = placeholder\<rparr>)"

text \<open>The rows of a sub-view: the cached order, less the indices past the end of the snapshot.\<close>

definition cached_rows :: "AppState \<Rightarrow> 'a list \<Rightarrow> 'a list" where
  "cached_rows s xs = List.map_filter (get_opt xs) (ap_kube_view_cache s)"

definition draw_pods :: "Render \<Rightarrow> Rect \<Rightarrow> KubeSnapshot \<Rightarrow> drawing list" where
  "draw_pods r area snap =
     (let s = r_app r; pods = cached_rows s (ks_pods snap) in
      render_table r area
        (kube_spec r POD_COLUMNS (pod_sort_column (ap_kube_sort_field s)) (length pods)
          (if ap_kube_filter_input s = []
           then empty_state ''No pods'' (Some ''Nothing is scheduled in this scope.'')
           else no_match ''No matching pods''))
        (row_or_empty (pod_row r) pods))"

definition draw_nodes :: "Render \<Rightarrow> Rect \<Rightarrow> KubeSnapshot \<Rightarrow> drawing list" where
  "draw_nodes r area snap =
     (let s = r_app r; nodes = cached_rows s (ks_nodes snap) in
      render_table r area
        (kube_spec r NODE_COLUMNS (node_sort_column (ap_kube_sort_field s)) (length nodes)
          (if ap_kube_filter_input s \<noteq> [] then no_match ''No matching nodes''
           else if ks_current_namespace snap = [] \<or> ks_current_namespace snap = ''all''
           then empty_state ''No nodes'' None
           else error_state ''No nodes visible'' ''Nodes are cluster-scoped: there is no namespaced variant.''
                  ''Listing them needs cluster-wide access; Pods and Deployments are unaffected.''))
        (row_or_empty (node_row r) nodes))"

definition draw_deployments :: "Render \<Rightarrow> Rect \<Rightarrow> KubeSnapshot \<Rightarrow> drawing list" where
  "draw_deployments r area snap =
     (let s = r_app r; deploys = cached_rows s (ks_deployments snap) in
      render_table r area
        (kube_spec r DEPLOY_COLUMNS (deploy_sort_column (ap_kube_sort_field s)) (length deploys)
          (if ap_kube_filter_input s = [] then empty_state ''No deployments'' None
           else no_match ''No matching deployments''))
        (row_or_empty (deploy_row r) deploys))"

fun cluster_kind_debug :: "ClusterKind \<Rightarrow> string" where
  "cluster_kind_debug CK_Generic = ''Generic''"
| "cluster_kind_debug CK_Kind = ''Kind''"
| "cluster_kind_debug CK_K3d = ''K3d''"
| "cluster_kind_debug CK_K3s = ''K3s''"
| "cluster_kind_debug CK_Eks = ''Eks''"
| "cluster_kind_debug CK_Gke = ''Gke''"
| "cluster_kind_debug CK_Aks = ''Aks''"
| "cluster_kind_debug CK_Openshift = ''Openshift''"

definition kube_context :: "Render \<Rightarrow> KubeSnapshot \<Rightarrow> Line" where
  "kube_context r snap =
     (let t = r_theme r in
      [('' '' @ cluster_kind_debug (ks_cluster_kind snap) @ '' '', accent_fill t), (''  '', body t)] @
      chip ''ns'' (scrub_ctrl (ks_current_namespace snap)) t @
      (case ks_server_version snap of Some v \<Rightarrow> [(''   '' @ scrub_ctrl v, subtle t)] | None \<Rightarrow> []) @
      (if \<not> ks_metrics_available snap then [(''   no metrics-server '', level_style t Warning)] else []))"

text \<open>The sub-view selector: key, label and count, the active one marked.\<close>

definition subtabs :: "Render \<Rightarrow> (bool \<times> string \<times> string \<times> nat) list \<Rightarrow> Line" where
  "subtabs r views =
     (let t = r_theme r in
      concat (map (\<lambda>(active, key, label, n).
        [('' '' @ key @ '' '', if active then key_style t else subtle t),
         (label @ '' '' @ dec n @ ''  '', if active then accent t else dim t)]) views))"

definition kube_subtabs :: "Render \<Rightarrow> KubeSnapshot \<Rightarrow> Line" where
  "kube_subtabs r snap =
     (let sv = ap_kube_subview (r_app r) in
      subtabs r [(sv = KVPods, ''P'', ''Pods'', length (ks_pods snap)),
                 (sv = KVNodes, ''N'', ''Nodes'', length (ks_nodes snap)),
                 (sv = KVDeployments, ''D'', ''Deployments'', length (ks_deployments snap))])"

definition draw_kube_tab :: "Render \<Rightarrow> Rect \<Rightarrow> drawing list" where
  "draw_kube_tab r area =
     (case snapshot_kube (r_app r) of
        None \<Rightarrow> render_empty r area (waiting_state (r_ellipsis r ''Connecting to the cluster''))
      | Some snap \<Rightarrow>
          if \<not> ks_reachable snap then
            render_empty r area
              (error_state ''No cluster reachable''
                ''muxtop found no usable kubeconfig or in-cluster credentials.''
                ''Check $KUBECONFIG, or run `kubectl config use-context <name>`.'')
          else
            let split = vsplit r [Length 1, Length 1, Fill 1, Length (filter_h r)] area in
            [plain (split 0) [kube_context r snap], plain (split 1) [kube_subtabs r snap]] @
            (case ap_kube_subview (r_app r) of
               KVPods \<Rightarrow> draw_pods r (split 2) snap
             | KVNodes \<Rightarrow> draw_nodes r (split 2) snap
             | KVDeployments \<Rightarrow> draw_deployments r (split 2) snap) @
            filter_row r (split 3) ''Filter cluster'')"

section \<open>GPUs\<close>

definition DEVICE_COLUMNS :: "Column list" where
  "DEVICE_COLUMNS =
     [col_fixed ''#'' 4 Right PRIO_ESSENTIAL, col_flex ''DEVICE'' 18 PRIO_ESSENTIAL,
      col_fixed ''VENDOR'' 9 Left PRIO_LOW, col_fixed ''UTIL'' 7 Right PRIO_ESSENTIAL,
      col_fixed ''VRAM'' 18 Right PRIO_HIGH, col_fixed ''TEMP'' 7 Right PRIO_HIGH,
      col_fixed ''POWER'' 12 Right PRIO_MEDIUM, col_fixed ''CLOCK'' 9 Right PRIO_LOW,
      col_fixed ''FAN'' 6 Right PRIO_LOW, col_fixed ''ENC/DEC'' 10 Right PRIO_LOW]"

definition DEVICE_MEM_COLUMN :: nat where "DEVICE_MEM_COLUMN = 4"

definition PROC_COLUMNS :: "Column list" where
  "PROC_COLUMNS =
     [col_fixed ''PID'' 8 Right PRIO_ESSENTIAL, col_fixed ''GPU'' 5 Right PRIO_MEDIUM,
      col_flex ''PROCESS'' 18 PRIO_ESSENTIAL, col_fixed ''TYPE'' 10 Left PRIO_LOW,
      col_fixed ''VRAM'' 10 Right PRIO_ESSENTIAL]"

fun table_backend_label :: "GpuBackend \<Rightarrow> string" where
  "table_backend_label Nvml = ''NVML''"
| "table_backend_label AmdSysfs = ''amdgpu''"
| "table_backend_label AppleIoReport = ''IOReport''"

definition memory_label :: "GpusSnapshot \<Rightarrow> string" where
  "memory_label snap =
     (if gs_devices snap \<noteq> [] \<and> list_all (\<lambda>d. gd_vendor d = GV_Apple) (gs_devices snap) then ''MEM'' else ''VRAM'')"

definition device_columns :: "GpusSnapshot \<Rightarrow> Column list" where
  "device_columns snap =
     DEVICE_COLUMNS[DEVICE_MEM_COLUMN := (DEVICE_COLUMNS ! DEVICE_MEM_COLUMN)\<lparr>co_label := memory_label snap\<rparr>]"

fun fabs :: "fl \<Rightarrow> fl" where
  "fabs (Fin x) = Fin \<bar>x\<bar>"
| "fabs NInf = PInf"
| "fabs a = a"

definition watts :: "fl \<Rightarrow> string" where
  "watts w = (if flt (fabs w) (Fin 10) then fmt_fixed 1 w else fmt_fixed 0 w)"

text \<open>A cell of the devices table: the metric's text and colour, or a dash when it is not reported.\<close>

definition metric_cell :: "Render \<Rightarrow> ('a \<Rightarrow> Cell) \<Rightarrow> 'a option \<Rightarrow> Cell" where
  "metric_cell r f m = (case m of Some x \<Rightarrow> f x | None \<Rightarrow> cell_new (gl_none (r_glyphs r)))"

definition vram_cell :: "Render \<Rightarrow> GpuDeviceSnapshot \<Rightarrow> Cell" where
  "vram_cell r d =
     (case (gd_mem_used_bytes d, gd_mem_total_bytes d) of
        (Some used, Some cap) \<Rightarrow>
          if 0 < cap
          then cell_colored (human_bytes used @ ''/'' @ human_bytes cap)
                 (gauge_color (r_theme r) (percent_of (unat used) (unat cap)))
          else cell_new (human_bytes used)
      | (Some used, None) \<Rightarrow> cell_new (human_bytes used)
      | _ \<Rightarrow> cell_new (gl_none (r_glyphs r)))"

definition temp_color :: "Theme \<Rightarrow> fl \<Rightarrow> Color" where
  "temp_color t temp =
     (if fle (Fin 83) temp then th_danger t else if fle (Fin 70) temp then th_warning t else th_success t)"

definition power_cell :: "Render \<Rightarrow> GpuDeviceSnapshot \<Rightarrow> Cell" where
  "power_cell r d =
     (case (gd_power_watts d, gd_power_limit_watts d) of
        (Some w, Some limit) \<Rightarrow> cell_new (watts w @ ''/'' @ watts limit @ ''W'')
      | (Some w, None) \<Rightarrow> cell_new (watts w @ ''W'')
      | _ \<Rightarrow> cell_new (gl_none (r_glyphs r)))"

definition codec_cell :: "Render \<Rightarrow> GpuDeviceSnapshot \<Rightarrow> Cell" where
  "codec_cell r d =
     (case (gd_encoder_pct d, gd_decoder_pct d) of
        (Some e, Some x) \<Rightarrow> cell_new (fmt_fixed 0 e @ ''/'' @ fmt_fixed 0 x @ ''%'')
      | _ \<Rightarrow> cell_new (gl_none (r_glyphs r)))"

definition device_row :: "Render \<Rightarrow> GpuDeviceSnapshot \<Rightarrow> Row" where
  "device_row r d =
     (let t = r_theme r in
      [cell_new (dec (unat (gd_index d))), cell_new (scrub_ctrl (gd_name d)),
       cell_new (table_vendor_label (gd_vendor d)),
       metric_cell r (\<lambda>p. cell_colored (fmt_fixed 0 p @ ''%'') (gauge_color t p)) (gd_utilization_pct d),
       vram_cell r d,
       metric_cell r (\<lambda>x. cell_colored (fmt_fixed 0 x @ ''C'') (temp_color t x)) (gd_temperature_c d),
       power_cell r d,
       metric_cell r (\<lambda>c. cell_new (dec (unat c) @ ''MHz'')) (gd_graphics_clock_mhz d),
       metric_cell r (\<lambda>f. cell_new (fmt_fixed 0 f @ ''%'')) (gd_fan_pct d),
       codec_cell r d])"

fun device_sort_column :: "GpuSortField \<Rightarrow> nat option" where
  "device_sort_column DeviceIndex = Some 0"
| "device_sort_column DeviceName = Some 1"
| "device_sort_column DeviceUtil = Some 3"
| "device_sort_column DeviceMem = Some 4"
| "device_sort_column DeviceTemp = Some 5"
| "device_sort_column DevicePower = Some 6"
| "device_sort_column _ = None"

fun process_kind_label :: "GpuProcessKind \<Rightarrow> string" where
  "process_kind_label GK_Compute = ''compute''"
| "process_kind_label GK_Graphics = ''graphics''"
| "process_kind_label GK_Both = ''both''"
| "process_kind_label GK_Unknown = ''unknown''"

definition proc_row :: "Render \<Rightarrow> GpuProcessSnapshot \<Rightarrow> Row" where
  "proc_row r p =
     (let g = r_glyphs r in
      [cell_new (dec (unat (gp_pid p))), cell_new (dec (unat (gp_device_index p))),
       cell_new (if gp_name p = [] then gl_none g else scrub_ctrl (gp_name p)),
       cell_new (process_kind_label (gp_kind p)),
       cell_new (case gp_mem_bytes p of None \<Rightarrow> gl_none g | Some b \<Rightarrow> human_bytes b)])"

fun proc_sort_column :: "GpuSortField \<Rightarrow> nat option" where
  "proc_sort_column ProcPid = Some 0"
| "proc_sort_column ProcDevice = Some 1"
| "proc_sort_column ProcName = Some 2"
| "proc_sort_column ProcMem = Some 4"
| "proc_sort_column _ = None"

definition gpu_spec :: "Render \<Rightarrow> Column list \<Rightarrow> nat option \<Rightarrow> nat \<Rightarrow> EmptyState \<Rightarrow> Spec" where
  "gpu_spec r columns sort_col rows placeholder =
     (let s = r_app r in
      \<lparr>sp_columns = columns, sp_sort_col = sort_col, sp_descending = (ap_gpu_sort_order s = Desc),
       sp_total = rows, sp_selected = ap_gpu_selected s, sp_scroll = ap_gpu_scroll_offset s,
       sp_col_scroll = ap_col_scroll s, sp_empty = placeholder\<rparr>)"

definition table_devices :: "Render \<Rightarrow> GpusSnapshot \<Rightarrow> GpuDeviceSnapshot list" where
  "table_devices r snap =
     (let s = r_app r in
      device_rows (e_ulc (r_env r)) (ap_gpu_filter_input s) (ap_gpu_sort_field s) (ap_gpu_sort_order s) snap)"

definition table_gpu_procs :: "Render \<Rightarrow> GpusSnapshot \<Rightarrow> GpuProcessSnapshot list" where
  "table_gpu_procs r snap =
     (let s = r_app r in
      proc_rows (e_ulc (r_env r)) (ap_gpu_filter_input s) (ap_gpu_sort_field s) (ap_gpu_sort_order s) snap)"

definition draw_devices :: "Render \<Rightarrow> Rect \<Rightarrow> GpusSnapshot \<Rightarrow> drawing list" where
  "draw_devices r area snap =
     (let s = r_app r; devices = table_devices r snap in
      render_table r area
        (gpu_spec r (device_columns snap) (device_sort_column (ap_gpu_sort_field s)) (length devices)
          (if r_lower r (ap_gpu_filter_input s) = [] then empty_state ''No GPU devices'' None
           else no_match ''No matching GPUs''))
        (row_or_empty (device_row r) devices))"

definition draw_procs :: "Render \<Rightarrow> Rect \<Rightarrow> GpusSnapshot \<Rightarrow> drawing list" where
  "draw_procs r area snap =
     (if gs_processes snap = [] \<and> \<not> list_ex gd_supports_process_stats (gs_devices snap) then
        render_empty r area
          (empty_state ''Per-process GPU usage is unavailable''
            (Some ''This backend exposes no per-process accounting: a driver limitation, not an idle GPU.''))
      else
        let s = r_app r; procs = table_gpu_procs r snap in
        render_table r area
          (gpu_spec r PROC_COLUMNS (proc_sort_column (ap_gpu_sort_field s)) (length procs)
            (if r_lower r (ap_gpu_filter_input s) = [] then empty_state ''No processes are using the GPU'' None
             else no_match ''No matching processes''))
          (row_or_empty (proc_row r) procs))"

definition gpu_summary :: "Render \<Rightarrow> GpusSnapshot \<Rightarrow> Line" where
  "gpu_summary r snap =
     (let t = r_theme r; n = length (gs_devices snap) in
      [('' GPU '', accent_fill t), (''  '' @ dec n @ '' device'', body t),
       (if n = 1 then [] else ''s'', body t),
       ('' '' @ sep (r_glyphs r) @ '' '' @ join '' + '' (map table_backend_label (gs_backends snap)), dim t)])"

definition gpu_subtabs :: "Render \<Rightarrow> GpusSnapshot \<Rightarrow> Line" where
  "gpu_subtabs r snap =
     (let sv = ap_gpu_subview (r_app r) in
      subtabs r [(sv = GVDevices, ''D'', ''Devices'', length (gs_devices snap)),
                 (sv = GVProcs, ''P'', ''Procs'', length (gs_processes snap))])"

definition draw_gpu_tab :: "Render \<Rightarrow> Rect \<Rightarrow> drawing list" where
  "draw_gpu_tab r area =
     (case snapshot_gpu (r_app r) of
        None \<Rightarrow> render_empty r area (waiting_state (r_ellipsis r ''Probing for GPUs''))
      | Some snap \<Rightarrow>
          if \<not> gs_available snap then
            let detail = scrub_ctrl (gs_detail snap) in
            render_empty r area (empty_state ''No GPU detected'' (if detail = [] then None else Some detail))
          else
            let split = vsplit r [Length 1, Length 1, Fill 1, Length (filter_h r)] area in
            [plain (split 0) [gpu_summary r snap], plain (split 1) [gpu_subtabs r snap]] @
            (case ap_gpu_subview (r_app r) of
               GVDevices \<Rightarrow> draw_devices r (split 2) snap
             | GVProcs \<Rightarrow> draw_procs r (split 2) snap) @
            filter_row r (split 3) ''Filter GPUs'')"

definition device_level :: "GpuDeviceSnapshot \<Rightarrow> Level" where
  "device_level d =
     (case gd_utilization_pct d of
        Some p \<Rightarrow> if fle (Fin 80) p then Error else if fle (Fin 50) p then Warning else Success
      | None \<Rightarrow> Neutral)"

definition device_summary :: "GpuDeviceSnapshot \<Rightarrow> Glyphs \<Rightarrow> string" where
  "device_summary d g =
     (let util = (case gd_utilization_pct d of None \<Rightarrow> gl_none g | Some p \<Rightarrow> fmt_fixed 0 p @ ''%'') in
      case (gd_mem_used_bytes d, gd_mem_total_bytes d) of
        (Some used, Some cap) \<Rightarrow> util @ '' '' @ sep g @ '' '' @ human_bytes used @ ''/'' @ human_bytes cap
      | _ \<Rightarrow> util)"

end
