(* ===== verification/App.thy ===== *)
theory App
  imports App_State
begin

text \<open>
  The handlers of the terminal client (\<open>muxtop-tui/src/app.rs\<close>) and its event loop (\<open>lib.rs\<close>,
  \<open>event.rs\<close>): overlays, the confirmation dialog and the actions behind it, the palette, commands,
  key and mouse events, the outcomes of spawned tasks, and one turn of the loop. Drawing is outside
  the model; a turn reports whether it draws.
\<close>

section \<open>Overlays and row identity\<close>

definition open_overlay :: "Overlay \<Rightarrow> AppState \<Rightarrow> AppState" where
  "open_overlay ov s = mark_dirty (s\<lparr>ap_overlay := ov, ap_overlay_scroll := 0\<rparr>)"

definition close_overlay :: "AppState \<Rightarrow> AppState" where
  "close_overlay s =
     mark_dirty (s\<lparr>ap_overlay := ONone, ap_overlay_scroll := 0,
       ap_palette := (ap_palette s)\<lparr>pal_input := [], pal_selected := 0, pal_arg := None\<rparr>\<rparr>)"

definition copy_selection :: "env \<Rightarrow> AppState \<Rightarrow> AppState" where
  "copy_selection E s =
     (case selected_identifier E s of
        None \<Rightarrow> notify E Info ''Nothing selected'' s
      | Some i \<Rightarrow>
          (case copy (e_stdout_ok E) i of
             Inr seq \<Rightarrow> notify E Success (''Copied '' @ i) (s\<lparr>ap_stdout := ap_stdout s @ [seq]\<rparr>)
           | Inl e \<Rightarrow> notify E Error (''Clipboard unavailable: '' @ e) s))"

definition PAGE :: nat where "PAGE = 20"
definition MAX_COL_SCROLL :: nat where "MAX_COL_SCROLL = 8"
definition WHEEL_ROWS :: nat where "WHEEL_ROWS = 3"

definition handle_scrollable_overlay_key :: "env \<Rightarrow> KeyCode \<Rightarrow> KeyModifiers \<Rightarrow> AppState \<Rightarrow> AppState" where
  "handle_scrollable_overlay_key E code mods s =
     mark_dirty
       (if code = KEsc \<or> code = KChar ''q'' then close_overlay s
        else if code = KChar ''?'' \<and> ap_overlay s = OHelp then close_overlay s
        else if code = KEnter \<and> ap_overlay s = OInspector then close_overlay s
        else if code = KChar ''l'' \<and> km_control mods then close_overlay s
        else if code = KDown \<or> code = KChar ''j'' then s\<lparr>ap_overlay_scroll := ap_overlay_scroll s + 1\<rparr>
        else if code = KUp \<or> code = KChar ''k'' then s\<lparr>ap_overlay_scroll := ap_overlay_scroll s - 1\<rparr>
        else if code = KPageDown then s\<lparr>ap_overlay_scroll := ap_overlay_scroll s + PAGE\<rparr>
        else if code = KPageUp then s\<lparr>ap_overlay_scroll := ap_overlay_scroll s - PAGE\<rparr>
        else if code = KHome \<or> code = KChar ''g'' then s\<lparr>ap_overlay_scroll := 0\<rparr>
        else if code = KChar ''y'' \<and> ap_overlay s = OInspector then copy_selection E s
        else s)"

definition tab_actions :: "AppState \<Rightarrow> (string \<times> string \<times> Action) list" where
  "tab_actions s =
     map (\<lambda>b. (b_display b, b_label b, b_action b))
       (filter (\<lambda>b. \<not> (is_remote s \<and> is_local_only (b_action b)))
         (filter (\<lambda>b. b_group b = GActions \<and> b_primary b)
           (filter (\<lambda>b. b_scope b = OnTab (ap_tab s)) (for_tab (ap_tab s)))))"

section \<open>Navigation\<close>

definition go_to_tab :: "Tab \<Rightarrow> AppState \<Rightarrow> AppState" where
  "go_to_tab tab s =
     (if ap_tab s = tab then s
      else s\<lparr>ap_tab := tab, ap_col_scroll := 0, ap_filter_active := False, ap_net_filter_active := False,
             ap_containers_filter_active := False, ap_kube_filter_active := False\<rparr>)"

definition cycle_in :: "'a list \<Rightarrow> 'a \<Rightarrow> int \<Rightarrow> 'a" where
  "cycle_in order x delta =
     order ! nat ((int (unwrap_or (position (\<lambda>y. y = x) order) 0) + delta) mod int (length order))"

definition cycle_subview :: "env \<Rightarrow> int \<Rightarrow> AppState \<Rightarrow> AppState" where
  "cycle_subview E delta s =
     (case ap_tab s of
        TKube \<Rightarrow> switch_kube_subview E (cycle_in [KVPods, KVNodes, KVDeployments] (ap_kube_subview s) delta) s
      | TGpu \<Rightarrow> switch_gpu_subview (cycle_in [GVDevices, GVProcs] (ap_gpu_subview s) delta) s
      | _ \<Rightarrow> s)"

definition move_selection :: "env \<Rightarrow> int \<Rightarrow> AppState \<Rightarrow> AppState" where
  "move_selection E delta s =
     (let cnt = item_count E s in
      if cnt = 0 then s
      else
        let (sel, off) = sel_off s;
            next = max 0 (min (int sel + delta) (int cnt - 1))
        in set_sel_off (nat next, off) s)"

definition select_index :: "env \<Rightarrow> nat \<Rightarrow> AppState \<Rightarrow> AppState" where
  "select_index E index s =
     (let cnt = item_count E s in
      if cnt = 0 then s else set_sel_off (min index (cnt - 1), snd (sel_off s)) s)"

definition scroll_rows :: "env \<Rightarrow> int \<Rightarrow> AppState \<Rightarrow> AppState" where
  "scroll_rows E delta s =
     (let cnt = item_count E s in
      if cnt = 0 then s
      else
        let (sel, off) = sel_off s;
            new_off = nat (max (int off + delta) 0);
            off = min new_off (cnt - 1)
        in set_sel_off (min (max sel off) (cnt - 1), off) s)"

definition go_back :: "env \<Rightarrow> AppState \<Rightarrow> AppState" where
  "go_back E s =
     (if ap_overlay s \<noteq> ONone then close_overlay s
      else if \<not> notifier_is_empty (ap_notifier s) then s\<lparr>ap_notifier := dismiss_all (ap_notifier s)\<rparr>
      else if filter_editing s then set_filter_editing False s
      else if filter_text s \<noteq> [] then clear_filter E s
      else s)"

section \<open>Requests and their confirmation\<close>

definition request_kill :: "env \<Rightarrow> Signal \<Rightarrow> AppState \<Rightarrow> AppState" where
  "request_kill E signal s =
     (case selected_process s of
        Some p \<Rightarrow> s\<lparr>ap_confirm := Some (ConfirmKill (pr_pid p) (pr_name p) signal)\<rparr>
      | None \<Rightarrow> notify E Info ''No process selected'' s)"

definition request_renice :: "env \<Rightarrow> int \<Rightarrow> AppState \<Rightarrow> AppState" where
  "request_renice E delta s =
     (case selected_process s of
        Some p \<Rightarrow> s\<lparr>ap_confirm := Some (ConfirmRenice (pr_pid p) (pr_name p) delta)\<rparr>
      | None \<Rightarrow> notify E Info ''No process selected'' s)"

definition remote_refusal :: string where
  "remote_refusal = ''Actions are disabled in remote mode''"

definition request_container_action :: "env \<Rightarrow> (string \<Rightarrow> string \<Rightarrow> ConfirmAction) \<Rightarrow> AppState \<Rightarrow> AppState" where
  "request_container_action E build s =
     (if is_remote s then notify E Warning remote_refusal s
      else case selected_container s of
        Some c \<Rightarrow> s\<lparr>ap_confirm := Some (build (ct_id_full c) (ct_name c))\<rparr>
      | None \<Rightarrow> s)"

definition toggle_kube_scope :: "env \<Rightarrow> AppState \<Rightarrow> AppState" where
  "toggle_kube_scope E s =
     (if \<not> ap_cluster_engine s
      then notify E Warning ''Namespace scope is local-only (unavailable in remote mode / --no-kube)'' s
      else s\<lparr>ap_tasks := ap_tasks s @ [ToggleScopeTask], ap_kube_selected := 0, ap_kube_scroll_offset := 0,
             ap_needs_redraw := True\<rparr>)"

definition spawn_container_task :: "env \<Rightarrow> task \<Rightarrow> AppState \<Rightarrow> AppState" where
  "spawn_container_task E t s =
     (if \<not> ap_container_engine s then notify E Error ''No container engine is configured'' s
      else s\<lparr>ap_tasks := ap_tasks s @ [t]\<rparr>)"

definition engine_error_text :: "env \<Rightarrow> EngineError \<Rightarrow> string" where
  "engine_error_text E e =
     (case e of
        ConnectFailed m \<Rightarrow> ''container engine connection failed: '' @ m
      | ContainerNotFound m \<Rightarrow> ''container not found: '' @ m
      | PermissionDenied m \<Rightarrow> ''permission denied: '' @ m
      | EngineTimeout d \<Rightarrow> ''operation timed out after '' @ e_dur_text E d
      | EngineOther m \<Rightarrow> ''engine error: '' @ m)"

definition cluster_error_text :: "ClusterError \<Rightarrow> string" where
  "cluster_error_text e =
     (case e of
        KubeconfigNotFound \<Rightarrow> ''no kubeconfig found''
      | Unreachable m \<Rightarrow> ''cluster unreachable: '' @ m
      | Forbidden resource ns \<Rightarrow>
          ''forbidden: cannot access '' @ resource @ (case ns of Some n \<Rightarrow> '' in namespace '' @ n | None \<Rightarrow> [])
      | MetricsUnavailable \<Rightarrow> ''metrics-server unavailable on this cluster''
      | Stale since_secs \<Rightarrow> ''snapshot stale (last update '' @ dec (unat since_secs) @ ''s ago)''
      | ClusterOther m \<Rightarrow> ''cluster engine error: '' @ m)"

definition core_error_text :: "env \<Rightarrow> CoreError \<Rightarrow> string" where
  "core_error_text E e =
     (case e of
        Collection m \<Rightarrow> ''collection failed: '' @ m
      | ProcessNotFound pid \<Rightarrow> ''process '' @ dec (unat pid) @ '' not found''
      | Permission m \<Rightarrow> ''permission denied: '' @ m
      | CoreIo n \<Rightarrow> ''I/O error: '' @ e_io_text E n
      | ChannelClosed \<Rightarrow> ''channel closed''
      | Engine x \<Rightarrow> ''container engine: '' @ engine_error_text E x
      | Cluster x \<Rightarrow> ''cluster engine: '' @ cluster_error_text x)"

definition execute_kill :: "env \<Rightarrow> u32 \<Rightarrow> string \<Rightarrow> Signal \<Rightarrow> AppState \<Rightarrow> AppState" where
  "execute_kill E pid name signal s =
     (case kill_process (e_kernel E) pid signal (ap_os s) of
        (Inr _, world) \<Rightarrow>
          notify E Success (''Sent '' @ sig_name signal @ '' to '' @ name @ '' (PID '' @ dec (unat pid) @ '')'')
            (s\<lparr>ap_os := world\<rparr>)
      | (Inl e, world) \<Rightarrow> notify E Error (''Kill failed: '' @ core_error_text E e) (s\<lparr>ap_os := world\<rparr>))"

definition execute_renice :: "env \<Rightarrow> u32 \<Rightarrow> string \<Rightarrow> int \<Rightarrow> AppState \<Rightarrow> AppState" where
  "execute_renice E pid name delta s =
     (case get_process_priority (e_kernel E) pid (ap_os s) of
        (r, world) \<Rightarrow>
          let current = (case r of Inr v \<Rightarrow> v | Inl _ \<Rightarrow> 0);
              new_nice = current + delta
          in (case renice_process (e_kernel E) pid new_nice world of
                (Inr _, world) \<Rightarrow>
                  notify E Success
                    (''Reniced '' @ name @ '' (PID '' @ dec (unat pid) @ '') to nice='' @ dec_int new_nice)
                    (s\<lparr>ap_os := world\<rparr>)
              | (Inl e, world) \<Rightarrow> notify E Error (''Renice failed: '' @ core_error_text E e) (s\<lparr>ap_os := world\<rparr>)))"

fun execute_confirm :: "env \<Rightarrow> ConfirmAction \<Rightarrow> AppState \<Rightarrow> AppState" where
  "execute_confirm E (ConfirmKill pid name signal) s = execute_kill E pid name signal s"
| "execute_confirm E (ConfirmRenice pid name delta) s = execute_renice E pid name delta s"
| "execute_confirm E (ConfirmStopContainer i name) s = spawn_container_task E (StopTask i name) s"
| "execute_confirm E (ConfirmKillContainer i name) s = spawn_container_task E (KillTask i name) s"
| "execute_confirm E (ConfirmRestartContainer i name) s = spawn_container_task E (RestartTask i name) s"

definition confirms :: "KeyCode \<Rightarrow> bool" where
  "confirms code \<longleftrightarrow> code = KChar ''y'' \<or> code = KChar ''Y'' \<or> code = KEnter"

definition handle_confirm_key :: "env \<Rightarrow> KeyCode \<Rightarrow> AppState \<Rightarrow> AppState" where
  "handle_confirm_key E code s =
     mark_dirty
       (if confirms code then
          (case ap_confirm s of
             Some action \<Rightarrow> execute_confirm E action (s\<lparr>ap_confirm := None\<rparr>)
           | None \<Rightarrow> s)
        else if code = KChar ''n'' \<or> code = KChar ''N'' \<or> code = KEsc then s\<lparr>ap_confirm := None\<rparr>
        else s)"

section \<open>Spawned tasks\<close>

text \<open>
  What the engine answers to a task, and the message the task sends. A task that finds the token
  cancelled returns without calling the engine: the \<open>select!\<close> is biased towards the token.
\<close>

datatype answer = ActionAnswer "EngineError + unit" | ScopeAnswer KubeScope

definition action_message :: "env \<Rightarrow> string \<Rightarrow> string \<Rightarrow> string \<Rightarrow> EngineError + unit \<Rightarrow> Level \<times> string" where
  "action_message E vb past name r =
     (case r of
        Inr _ \<Rightarrow> (Success, ''Container '' @ name @ '' '' @ past)
      | Inl e \<Rightarrow> (Error, ''Failed to '' @ vb @ '' '' @ name @ '': '' @ engine_error_text E e))"

fun task_message :: "env \<Rightarrow> task \<Rightarrow> answer \<Rightarrow> (Level \<times> string) option" where
  "task_message E (StopTask i name) (ActionAnswer r) = Some (action_message E ''stop'' ''stopped'' name r)"
| "task_message E (KillTask i name) (ActionAnswer r) = Some (action_message E ''kill'' ''killed'' name r)"
| "task_message E (RestartTask i name) (ActionAnswer r) = Some (action_message E ''restart'' ''restarted'' name r)"
| "task_message E ToggleScopeTask (ScopeAnswer scope) =
     Some (Info, case scope_namespace scope of
                   Some ns \<Rightarrow> ''Kube scope: namespace '' @ ns
                 | None \<Rightarrow> ''Kube scope: all namespaces'')"
| "task_message E _ _ = None"

definition finish_task :: "env \<Rightarrow> nat \<Rightarrow> answer \<Rightarrow> AppState \<Rightarrow> AppState" where
  "finish_task E i ans s =
     (case get_opt (ap_tasks s) i of
        None \<Rightarrow> s
      | Some t \<Rightarrow>
          let s' = s\<lparr>ap_tasks := take i (ap_tasks s) @ drop (Suc i) (ap_tasks s)\<rparr> in
          if ap_shutdown s then s'
          else (case task_message E t ans of
                  Some m \<Rightarrow> s'\<lparr>ap_action_rx := ap_action_rx s @ [m]\<rparr>
                | None \<Rightarrow> s))"

section \<open>The palette\<close>

definition REMOTE_BLOCKED_COMMANDS :: "Command list" where
  "REMOTE_BLOCKED_COMMANDS =
     [CKillProcess, CForceKillProcess, CKillNamed, CNiceDown, CNiceUp, CStopContainer, CKillContainer,
      CRestartContainer, CStopNamed, CRestartNamed, CKubeToggleScope]"

definition excluded_commands :: "AppState \<Rightarrow> Command list" where
  "excluded_commands s = (if is_remote s then REMOTE_BLOCKED_COMMANDS else [])"

definition refilter_palette :: "env \<Rightarrow> AppState \<Rightarrow> AppState" where
  "refilter_palette E s =
     s\<lparr>ap_palette := refilter_ctx (e_ulc E) (e_score E) (excluded_commands s) (Some (ap_tab s)) (ap_palette s)\<rparr>"

definition open_palette_as :: "env \<Rightarrow> Overlay \<Rightarrow> AppState \<Rightarrow> AppState" where
  "open_palette_as E ov s =
     mark_dirty (refilter_palette E
       (s\<lparr>ap_overlay := ov, ap_palette := (ap_palette s)\<lparr>pal_input := [], pal_selected := 0\<rparr>\<rparr>))"

definition open_palette :: "env \<Rightarrow> AppState \<Rightarrow> AppState" where
  "open_palette E = open_palette_as E OPalette"

definition open_command_line :: "env \<Rightarrow> AppState \<Rightarrow> AppState" where
  "open_command_line E = open_palette_as E OCommand"

section \<open>Actions\<close>

definition paused_message :: string where
  "paused_message = ''Paused '' @ [CHR 0xE2] @ [CHR 0x80] @ [CHR 0x94] @ '' press Space to resume''"

definition toggle_pause :: "env \<Rightarrow> AppState \<Rightarrow> AppState" where
  "toggle_pause E s =
     (let s = s\<lparr>ap_paused := \<not> ap_paused s\<rparr> in
      notify E Info (if ap_paused s then paused_message else ''Resumed'') s)"

definition refresh :: "env \<Rightarrow> AppState \<Rightarrow> AppState" where
  "refresh E s =
     (if ap_paused s then notify E Info ''Resumed'' (s\<lparr>ap_paused := False\<rparr>)
      else notify E Info ''Refreshing on the next collector tick'' s)"

definition open_inspector :: "env \<Rightarrow> AppState \<Rightarrow> AppState" where
  "open_inspector E s =
     (if item_count E s = 0 then notify E Info ''Nothing selected'' s else open_overlay OInspector s)"

definition open_actions_menu :: "env \<Rightarrow> AppState \<Rightarrow> AppState" where
  "open_actions_menu E s =
     (if tab_actions s = [] then notify E Info ''No actions available on this tab'' s
      else open_overlay OActions (s\<lparr>ap_actions_selected := 0\<rparr>))"

definition toggle_tree :: "env \<Rightarrow> AppState \<Rightarrow> AppState" where
  "toggle_tree E s =
     recompute_visible E (s\<lparr>ap_tree_mode := \<not> ap_tree_mode s, ap_selected := 0, ap_scroll_offset := 0\<rparr>)"

primrec perform :: "env \<Rightarrow> Action \<Rightarrow> AppState \<Rightarrow> AppState" where
  "perform E AQuit s = quit s"
| "perform E AHelp s = open_overlay OHelp s"
| "perform E APalette s = open_palette E s"
| "perform E ACommandMode s = open_command_line E s"
| "perform E AToggleLog s = open_overlay OLog s"
| "perform E ATogglePause s = toggle_pause E s"
| "perform E ARefresh s = refresh E s"
| "perform E ANextTab s = go_to_tab (tab_next (ap_tab s)) s"
| "perform E APrevTab s = go_to_tab (tab_prev (ap_tab s)) s"
| "perform E (AGoTab tab) s = go_to_tab tab s"
| "perform E ANextSubview s = cycle_subview E 1 s"
| "perform E APrevSubview s = cycle_subview E (- 1) s"
| "perform E ARowDown s = move_selection E 1 s"
| "perform E ARowUp s = move_selection E (- 1) s"
| "perform E ARowPageDown s = move_selection E (int PAGE) s"
| "perform E ARowPageUp s = move_selection E (- int PAGE) s"
| "perform E ARowHalfDown s = move_selection E (int PAGE div 2) s"
| "perform E ARowHalfUp s = move_selection E (- (int PAGE div 2)) s"
| "perform E ARowFirst s = select_index E 0 s"
| "perform E ARowLast s = select_index E (item_count E s - 1) s"
| "perform E AColLeft s = s\<lparr>ap_col_scroll := ap_col_scroll s - 1\<rparr>"
| "perform E AColRight s = s\<lparr>ap_col_scroll := min (ap_col_scroll s + 1) MAX_COL_SCROLL\<rparr>"
| "perform E AOpenInspector s = open_inspector E s"
| "perform E AActionsMenu s = open_actions_menu E s"
| "perform E ACopySelection s = copy_selection E s"
| "perform E AOpenFilter s = set_filter_editing True s"
| "perform E ABack s = go_back E s"
| "perform E ACycleSort s = cycle_sort E s"
| "perform E AReverseSort s = reverse_sort E s"
| "perform E AToggleTree s = toggle_tree E s"
| "perform E (ARenice delta) s = request_renice E delta s"
| "perform E (AKill signal) s = request_kill E signal s"
| "perform E AContainerStop s = request_container_action E ConfirmStopContainer s"
| "perform E AContainerKill s = request_container_action E ConfirmKillContainer s"
| "perform E AContainerRestart s = request_container_action E ConfirmRestartContainer s"
| "perform E (AKubeSubview sv) s = switch_kube_subview E sv s"
| "perform E AToggleKubeScope s = toggle_kube_scope E s"
| "perform E (AGpuSubview sv) s = switch_gpu_subview sv s"

definition dispatch :: "env \<Rightarrow> Action \<Rightarrow> AppState \<Rightarrow> AppState" where
  "dispatch E action s =
     (if is_local_only action \<and> is_remote s then notify E Warning remote_refusal s else perform E action s)"

definition handle_actions_key :: "env \<Rightarrow> KeyCode \<Rightarrow> AppState \<Rightarrow> AppState" where
  "handle_actions_key E code s =
     mark_dirty
       (if code = KEsc \<or> code = KChar ''x'' then close_overlay s
        else if code = KDown \<or> code = KChar ''j'' then
          s\<lparr>ap_actions_selected := clamp_selection (ap_actions_selected s + 1) (length (tab_actions s))\<rparr>
        else if code = KUp \<or> code = KChar ''k'' then s\<lparr>ap_actions_selected := ap_actions_selected s - 1\<rparr>
        else if code = KEnter then
          (case get_opt (tab_actions s) (ap_actions_selected s) of
             Some (_, _, action) \<Rightarrow> dispatch E action (close_overlay s)
           | None \<Rightarrow> s)
        else s)"

section \<open>Commands\<close>

definition kill_named :: "env \<Rightarrow> string \<Rightarrow> AppState \<Rightarrow> AppState" where
  "kill_named E needle s =
     (let needle_lower = to_lowercase (e_ulc E) needle;
          found = filter (\<lambda>p. str_contains (to_lowercase (e_ulc E) (pr_name p)) needle_lower \<or>
                              str_contains (to_lowercase (e_ulc E) (pr_command p)) needle_lower)
                    (ap_visible_processes s)
      in case found of
           [] \<Rightarrow> notify E Warning (''No process matches `'' @ needle @ ''`'') s
         | target # _ \<Rightarrow>
             (if 1 < length found
              then notify E Info (dec (length found) @ '' processes match `'' @ needle @ ''` '' @
                     [CHR 0xE2] @ [CHR 0x80] @ [CHR 0x94] @ '' targeting the busiest'') s
              else s)\<lparr>ap_confirm := Some (ConfirmKill (pr_pid target) (pr_name target) SigTerm)\<rparr>)"

definition container_named :: "env \<Rightarrow> string \<Rightarrow> (string \<Rightarrow> string \<Rightarrow> ConfirmAction) \<Rightarrow> AppState \<Rightarrow> AppState" where
  "container_named E needle build s =
     (if is_remote s then notify E Warning remote_refusal s
      else
        let needle_lower = to_lowercase (e_ulc E) needle in
        case find (\<lambda>c. str_contains (to_lowercase (e_ulc E) (ct_name c)) needle_lower \<or>
                       str_contains (to_lowercase (e_ulc E) (ct_image c)) needle_lower \<or>
                       starts_with (to_lowercase (e_ulc E) (ct_id c)) needle_lower) (ap_containers_cache s) of
          Some c \<Rightarrow> s\<lparr>ap_confirm := Some (build (ct_id_full c) (ct_name c))\<rparr>
        | None \<Rightarrow> notify E Warning (''No container matches `'' @ needle @ ''`'') s)"

definition net_field_named :: "string \<Rightarrow> NetworkSortField option" where
  "net_field_named f =
     (if f = ''name'' \<or> f = ''interface'' then Some NSF_Name
      else if f = ''rx'' \<or> f = ''down'' then Some NSF_RxRate
      else if f = ''tx'' \<or> f = ''up'' then Some NSF_TxRate
      else if f = ''errors'' \<or> f = ''err'' then Some NSF_Errors
      else None)"

definition container_field_named :: "string \<Rightarrow> ContainerSortField option" where
  "container_field_named f =
     (if f = ''name'' then Some CSF_Name
      else if f = ''cpu'' then Some CSF_Cpu
      else if f = ''mem'' \<or> f = ''memory'' then Some CSF_Mem
      else if f = ''rx'' \<or> f = ''net'' then Some CSF_NetRx
      else if f = ''tx'' then Some CSF_NetTx
      else if f = ''uptime'' \<or> f = ''age'' then Some CSF_Uptime
      else None)"

definition process_field_named :: "string \<Rightarrow> SortField option" where
  "process_field_named f =
     (if f = ''cpu'' then Some SF_Cpu
      else if f = ''mem'' \<or> f = ''memory'' then Some SF_Mem
      else if f = ''pid'' then Some SF_Pid
      else if f = ''name'' \<or> f = ''command'' then Some SF_Name
      else if f = ''user'' then Some SF_User
      else None)"

definition set_process_sort :: "env \<Rightarrow> SortField \<Rightarrow> AppState \<Rightarrow> AppState" where
  "set_process_sort E field s = recompute_visible E (s\<lparr>ap_sort_field := field\<rparr>)"

definition set_container_sort :: "env \<Rightarrow> ContainerSortField \<Rightarrow> AppState \<Rightarrow> AppState" where
  "set_container_sort E field s = recompute_containers_view E (s\<lparr>ap_containers_sort_field := field\<rparr>)"

definition sort_by_name :: "env \<Rightarrow> string \<Rightarrow> AppState \<Rightarrow> AppState" where
  "sort_by_name E field s =
     (let f = to_lowercase (e_ulc E) (trim field);
          changed =
            (case ap_tab s of
               TNetwork \<Rightarrow> map_option (\<lambda>x. s\<lparr>ap_net_sort_field := x\<rparr>) (net_field_named f)
             | TContainers \<Rightarrow> map_option (\<lambda>x. set_container_sort E x s) (container_field_named f)
             | TKube \<Rightarrow> None
             | _ \<Rightarrow> map_option (\<lambda>x. set_process_sort E x s) (process_field_named f))
      in case changed of
           Some s' \<Rightarrow> notify E Info (''Sorted by '' @ f) s'
         | None \<Rightarrow> notify E Warning (''`'' @ f @ ''` is not a sortable column on this tab'') s)"

definition set_theme :: "env \<Rightarrow> string \<Rightarrow> AppState \<Rightarrow> AppState" where
  "set_theme E name s =
     (case theme_from_str (e_ulc E) name of
        Inr kind \<Rightarrow> notify E Success (''Theme: '' @ theme_name kind) (s\<lparr>ap_theme_kind := kind\<rparr>)
      | Inl e \<Rightarrow> notify E Warning e s)"

definition go_to_tab_named :: "env \<Rightarrow> string \<Rightarrow> AppState \<Rightarrow> AppState" where
  "go_to_tab_named E name s =
     (let n = to_lowercase (e_ulc E) (trim name) in
      case find (\<lambda>t. starts_with (to_lowercase (e_ulc E) (tab_label t)) n) Tab_ALL of
        Some t \<Rightarrow> go_to_tab t s
      | None \<Rightarrow> notify E Warning (''No tab named `'' @ name @ ''`'') s)"

definition kube_command :: "env \<Rightarrow> KubeSubview \<Rightarrow> AppState \<Rightarrow> AppState" where
  "kube_command E sv s = switch_kube_subview E sv (go_to_tab TKube s)"

primrec run_command :: "env \<Rightarrow> Command \<Rightarrow> AppState \<Rightarrow> AppState" where
  "run_command E CQuit s = dispatch E AQuit s"
| "run_command E CToggleTreeView s = dispatch E AToggleTree (go_to_tab TProcesses s)"
| "run_command E CSortByCpu s = set_process_sort E SF_Cpu s"
| "run_command E CSortByMem s = set_process_sort E SF_Mem s"
| "run_command E CSortByPid s = set_process_sort E SF_Pid s"
| "run_command E CSortByName s = set_process_sort E SF_Name s"
| "run_command E CSortByUser s = set_process_sort E SF_User s"
| "run_command E CToggleSortOrder s = reverse_sort E s"
| "run_command E CCycleSort s = cycle_sort E s"
| "run_command E CSwitchToGeneral s = go_to_tab TGeneral s"
| "run_command E CSwitchToProcesses s = go_to_tab TProcesses s"
| "run_command E CSwitchToNetwork s = go_to_tab TNetwork s"
| "run_command E CSwitchToContainers s = go_to_tab TContainers s"
| "run_command E CSwitchToKube s = go_to_tab TKube s"
| "run_command E COpenFilter s = set_filter_editing True s"
| "run_command E CClearFilter s = clear_filter E s"
| "run_command E CNextTab s = go_to_tab (tab_next (ap_tab s)) s"
| "run_command E CPrevTab s = go_to_tab (tab_prev (ap_tab s)) s"
| "run_command E CKillProcess s = request_kill E SigTerm s"
| "run_command E CForceKillProcess s = request_kill E SigKill s"
| "run_command E CNiceDown s = request_renice E 1 s"
| "run_command E CNiceUp s = request_renice E (- 1) s"
| "run_command E CSortNetByRx s = s\<lparr>ap_net_sort_field := NSF_RxRate\<rparr>"
| "run_command E CSortNetByTx s = s\<lparr>ap_net_sort_field := NSF_TxRate\<rparr>"
| "run_command E CSortNetByName s = s\<lparr>ap_net_sort_field := NSF_Name\<rparr>"
| "run_command E CSortNetByErrors s = s\<lparr>ap_net_sort_field := NSF_Errors\<rparr>"
| "run_command E CSortContainersByCpu s = set_container_sort E CSF_Cpu s"
| "run_command E CSortContainersByMem s = set_container_sort E CSF_Mem s"
| "run_command E CSortContainersByName s = set_container_sort E CSF_Name s"
| "run_command E CSortContainersByNetRx s = set_container_sort E CSF_NetRx s"
| "run_command E CStopContainer s = request_container_action E ConfirmStopContainer s"
| "run_command E CKillContainer s = request_container_action E ConfirmKillContainer s"
| "run_command E CRestartContainer s = request_container_action E ConfirmRestartContainer s"
| "run_command E CShowHelp s = open_overlay OHelp s"
| "run_command E CTogglePause s = dispatch E ATogglePause s"
| "run_command E CRefreshNow s = dispatch E ARefresh s"
| "run_command E CShowLog s = open_overlay OLog s"
| "run_command E CInspectRow s = dispatch E AOpenInspector s"
| "run_command E CCopyRowId s = copy_selection E s"
| "run_command E CKubePods s = kube_command E KVPods s"
| "run_command E CKubeNodes s = kube_command E KVNodes s"
| "run_command E CKubeDeployments s = kube_command E KVDeployments s"
| "run_command E CKubeToggleScope s = toggle_kube_scope E (go_to_tab TKube s)"
| "run_command E CKillNamed s = notify E Info (''Usage: '' @ shortcut CKillNamed) s"
| "run_command E CStopNamed s = notify E Info (''Usage: '' @ shortcut CStopNamed) s"
| "run_command E CRestartNamed s = notify E Info (''Usage: '' @ shortcut CRestartNamed) s"
| "run_command E CSortBy s = notify E Info (''Usage: '' @ shortcut CSortBy) s"
| "run_command E CFilterBy s = notify E Info (''Usage: '' @ shortcut CFilterBy) s"
| "run_command E CSetTheme s = notify E Info (''Usage: '' @ shortcut CSetTheme) s"
| "run_command E CGoToTab s = notify E Info (''Usage: '' @ shortcut CGoToTab) s"
| "run_command E CSwitchToGpu s = s\<lparr>ap_tab := TGpu\<rparr>"

definition execute_command :: "env \<Rightarrow> Command \<Rightarrow> AppState \<Rightarrow> AppState" where
  "execute_command E cmd s =
     (if is_remote s \<and> cmd \<in> set REMOTE_BLOCKED_COMMANDS then notify E Warning remote_refusal s
      else run_command E cmd s)"

definition execute_invocation :: "env \<Rightarrow> Command \<Rightarrow> string option \<Rightarrow> AppState \<Rightarrow> AppState" where
  "execute_invocation E cmd arg s =
     (case (cmd, arg) of
        (CKillNamed, Some name) \<Rightarrow> kill_named E name s
      | (CStopNamed, Some name) \<Rightarrow> container_named E name ConfirmStopContainer s
      | (CRestartNamed, Some name) \<Rightarrow> container_named E name ConfirmRestartContainer s
      | (CSortBy, Some field) \<Rightarrow> sort_by_name E field s
      | (CFilterBy, Some txt) \<Rightarrow> set_filter E txt s
      | (CSetTheme, Some name) \<Rightarrow> set_theme E name s
      | (CGoToTab, Some name) \<Rightarrow> go_to_tab_named E name s
      | (c, _) \<Rightarrow>
          if is_verb_only c then notify E Info (''Usage: '' @ shortcut c) s else execute_command E c s)"

definition handle_palette_key :: "env \<Rightarrow> KeyCode \<Rightarrow> KeyModifiers \<Rightarrow> AppState \<Rightarrow> AppState" where
  "handle_palette_key E code mods s =
     mark_dirty
       (case code of
          KEsc \<Rightarrow> close_overlay s
        | KChar c \<Rightarrow>
            if km_control mods then (if c = ''p'' \<or> c = ''k'' then close_overlay s else s)
            else if length (pal_input (ap_palette s)) < MAX_FILTER_LEN
            then refilter_palette E (s\<lparr>ap_palette := (ap_palette s)\<lparr>pal_input := pal_input (ap_palette s) @ c\<rparr>\<rparr>)
            else s
        | KEnter \<Rightarrow>
            (case get_opt (pal_filtered (ap_palette s)) (pal_selected (ap_palette s)) of
               Some (cmd, _) \<Rightarrow>
                 execute_invocation E cmd (pal_arg (ap_palette s))
                   (close_overlay (s\<lparr>ap_palette := remember cmd (ap_palette s)\<rparr>))
             | None \<Rightarrow> s)
        | KDown \<Rightarrow>
            s\<lparr>ap_palette := (ap_palette s)\<lparr>pal_selected :=
                clamp_selection (pal_selected (ap_palette s) + 1) (length (pal_filtered (ap_palette s)))\<rparr>\<rparr>
        | KUp \<Rightarrow> s\<lparr>ap_palette := (ap_palette s)\<lparr>pal_selected := pal_selected (ap_palette s) - 1\<rparr>\<rparr>
        | KBackspace \<Rightarrow>
            refilter_palette E (s\<lparr>ap_palette := (ap_palette s)\<lparr>pal_input := pop_char (pal_input (ap_palette s))\<rparr>\<rparr>)
        | _ \<Rightarrow> s)"

section \<open>Events\<close>

definition handle_key_event :: "env \<Rightarrow> KeyCode \<Rightarrow> KeyModifiers \<Rightarrow> AppState \<Rightarrow> AppState" where
  "handle_key_event E code mods s =
     (let s = s\<lparr>ap_notifier := snd (notifier_expire (e_now E) (ap_notifier s))\<rparr> in
      if code = KChar ''c'' \<and> km_control mods then quit s
      else if ap_confirm s \<noteq> None then handle_confirm_key E code s
      else
        case ap_overlay s of
          OPalette \<Rightarrow> handle_palette_key E code mods s
        | OCommand \<Rightarrow> handle_palette_key E code mods s
        | OHelp \<Rightarrow> handle_scrollable_overlay_key E code mods s
        | OLog \<Rightarrow> handle_scrollable_overlay_key E code mods s
        | OInspector \<Rightarrow> handle_scrollable_overlay_key E code mods s
        | OActions \<Rightarrow> handle_actions_key E code s
        | ONone \<Rightarrow>
            if filter_editing s then handle_filter_key E code mods s
            else mark_dirty
              (case resolve code mods (ap_tab s) of
                 Some action \<Rightarrow> dispatch E action s
               | None \<Rightarrow> s))"

datatype MouseEventKind = ScrollDown | ScrollUp | OtherMouse

definition handle_mouse_event :: "env \<Rightarrow> MouseEventKind \<Rightarrow> AppState \<Rightarrow> AppState" where
  "handle_mouse_event E kind s =
     (if ap_overlay s \<noteq> ONone then
        (case kind of
           ScrollDown \<Rightarrow> mark_dirty (s\<lparr>ap_overlay_scroll := ap_overlay_scroll s + WHEEL_ROWS\<rparr>)
         | ScrollUp \<Rightarrow> mark_dirty (s\<lparr>ap_overlay_scroll := ap_overlay_scroll s - WHEEL_ROWS\<rparr>)
         | OtherMouse \<Rightarrow> s)
      else
        (case kind of
           ScrollDown \<Rightarrow> mark_dirty (scroll_rows E (int WHEEL_ROWS) s)
         | ScrollUp \<Rightarrow> mark_dirty (scroll_rows E (- int WHEEL_ROWS) s)
         | OtherMouse \<Rightarrow> s))"

datatype Event =
    Tick
  | Key KeyCode KeyModifiers
  | Mouse MouseEventKind
  | Resize u16 u16
  | Snapshot SystemSnapshot

text \<open>
  \<open>poll_event\<close>: the newest of the pending snapshots, or else the next terminal event, if one
  arrives within a tick.
\<close>

datatype TermEvent = TKey KeyCode KeyModifiers | TMouse MouseEventKind | TResize u16 u16 | TOther

definition poll_event :: "SystemSnapshot list \<Rightarrow> TermEvent option \<Rightarrow> Event" where
  "poll_event pending term_event =
     (if pending \<noteq> [] then Snapshot (last pending)
      else case term_event of
        Some (TKey code mods) \<Rightarrow> Key code mods
      | Some (TMouse kind) \<Rightarrow> Mouse kind
      | Some (TResize w h) \<Rightarrow> Resize w h
      | Some TOther \<Rightarrow> Tick
      | None \<Rightarrow> Tick)"

primrec handle_event :: "env \<Rightarrow> Event \<Rightarrow> AppState \<Rightarrow> bool \<times> AppState" where
  "handle_event E Tick s = status_message_just_expired E s"
| "handle_event E (Key code mods) s = (True, handle_key_event E code mods s)"
| "handle_event E (Mouse kind) s = (True, handle_mouse_event E kind s)"
| "handle_event E (Resize w h) s = (True, s\<lparr>ap_term_caps := set_size w h (ap_term_caps s)\<rparr>)"
| "handle_event E (Snapshot snap) s = (True, apply_snapshot E snap s)"

text \<open>One turn of the loop of \<open>run\<close>: whether it draws, and the state it leaves.\<close>

definition turn :: "env \<Rightarrow> Event \<Rightarrow> AppState \<Rightarrow> bool \<times> AppState" where
  "turn E ev s =
     (let s = pump_action_results E s;
          (redraw, s) = take_needs_redraw s;
          (changed, s) = handle_event E ev s;
          should_draw = (redraw \<or> changed)
      in (should_draw, if should_draw then tick s else s))"

end
