(* ===== verification/Overlays.thy ===== *)
theory Overlays
  imports Tables App
begin

text \<open>
  The overlays (\<open>ui/inspector.rs\<close>, \<open>ui/actions_menu.rs\<close>, \<open>ui/confirm.rs\<close>, \<open>ui/log_view.rs\<close>,
  \<open>ui/palette.rs\<close>, \<open>ui/help.rs\<close>): the detail rows of the inspector and how they wrap, and what each
  overlay renders over the content.
\<close>

section \<open>Inspector rows\<close>

definition KEY_WIDTH :: nat where "KEY_WIDTH = 14"

datatype inspector_row = Kv string string | Section string | Wrapped string string | Meter string fl string

function chunks :: "nat \<Rightarrow> 'a list \<Rightarrow> 'a list list" where
  "chunks n xs = (if n = 0 \<or> xs = [] then [] else take n xs # chunks n (drop n xs))"
  by pat_completeness auto
termination
  by (relation "measure (\<lambda>(n, xs). length xs)") auto

declare chunks.simps [simp del]

fun wrap_lines :: "Theme \<Rightarrow> string \<Rightarrow> string list list \<Rightarrow> Line list" where
  "wrap_lines t k [] = []"
| "wrap_lines t k (c # cs) =
     [(pad_right KEY_WIDTH k, dim t), (concat c, body t)] # wrap_lines t [] cs"

primrec render_row :: "Render \<Rightarrow> u16 \<Rightarrow> inspector_row \<Rightarrow> Line list" where
  "render_row r width (Section title) = [[], [(title, accent (r_theme r))]]"
| "render_row r width (Kv k v) = [[(pad_right KEY_WIDTH k, dim (r_theme r)), (v, body (r_theme r))]]"
| "render_row r width (Meter k pct label) =
     (let bar_w = sat_sub width (of_nat KEY_WIDTH + of_nat (length label) + 2) in
      [[(pad_right KEY_WIDTH k, dim (r_theme r))] @ inline pct bar_w (r_theme r) (r_glyphs r) @
       [('' '' @ label, body (r_theme r))]])"
| "render_row r width (Wrapped k v) =
     wrap_lines (r_theme r) k (chunks (max (unat width - KEY_WIDTH) 8) (str_chars v))"

section \<open>Inspector details\<close>

definition dash_or :: "Render \<Rightarrow> ('a \<Rightarrow> string) \<Rightarrow> 'a option \<Rightarrow> string" where
  "dash_or r f v = (case v of Some x \<Rightarrow> f x | None \<Rightarrow> gl_none (r_glyphs r))"

definition device_details :: "Render \<Rightarrow> GpuDeviceSnapshot \<Rightarrow> inspector_row list" where
  "device_details r d =
     (let memory_label = (if gd_vendor d = GV_Apple then ''Unified memory'' else ''VRAM'');
          dash = gl_none (r_glyphs r) in
      [Kv ''Index'' (dec (unat (gd_index d))),
       Kv ''Bus'' (if gd_bus_id d = [] then dash else scrub_ctrl (gd_bus_id d)),
       Kv ''Driver'' (dash_or r scrub_ctrl (gd_driver_version d)),
       Section ''LOAD'',
       (case gd_utilization_pct d of
          Some p \<Rightarrow> Meter ''GPU'' p (fmt_fixed 0 p @ ''%'') | None \<Rightarrow> Kv ''GPU'' dash),
       (case (gd_mem_used_bytes d, gd_mem_total_bytes d) of
          (Some used, Some cap) \<Rightarrow>
            if 0 < cap
            then Meter memory_label (percent_of (unat used) (unat cap)) (human_bytes used @ '' / '' @ human_bytes cap)
            else Kv memory_label dash
        | _ \<Rightarrow> Kv memory_label dash),
       Section ''PHYSICAL'',
       Kv ''Temperature'' (dash_or r (\<lambda>t. fmt_fixed 0 t @ '' C'') (gd_temperature_c d)),
       Kv ''Power''
         (case (gd_power_watts d, gd_power_limit_watts d) of
            (Some w, Some l) \<Rightarrow> watts w @ '' W / '' @ watts l @ '' W''
          | (Some w, None) \<Rightarrow> watts w @ '' W''
          | _ \<Rightarrow> dash),
       Kv ''Fan'' (dash_or r (\<lambda>f. fmt_fixed 0 f @ ''%'') (gd_fan_pct d)),
       Kv ''Graphics clock'' (dash_or r (\<lambda>c. dec (unat c) @ '' MHz'') (gd_graphics_clock_mhz d)),
       Kv ''Memory clock'' (dash_or r (\<lambda>c. dec (unat c) @ '' MHz'') (gd_memory_clock_mhz d))] @
      (if \<not> gd_supports_process_stats d
       then [Section ''NOTE'', Wrapped [] ''This backend reports no per-process usage.''] else []))"

fun process_kind_debug :: "GpuProcessKind \<Rightarrow> string" where
  "process_kind_debug GK_Compute = ''Compute''"
| "process_kind_debug GK_Graphics = ''Graphics''"
| "process_kind_debug GK_Both = ''Both''"
| "process_kind_debug GK_Unknown = ''Unknown''"

definition gpu_details :: "Render \<Rightarrow> (string \<times> inspector_row list) option" where
  "gpu_details r =
     (case snapshot_gpu (r_app r) of
        None \<Rightarrow> None
      | Some snap \<Rightarrow>
          let f = r_lower r (ap_gpu_filter_input (r_app r)); sel = ap_gpu_selected (r_app r) in
          (case ap_gpu_subview (r_app r) of
             GVDevices \<Rightarrow>
               map_option (\<lambda>d. (titled r ''GPU'' (scrub_ctrl (gd_name d)), device_details r d))
                 (get_opt (filter (\<lambda>d. f = [] \<or> str_contains (r_lower r (gd_name d)) f) (gs_devices snap)) sel)
           | GVProcs \<Rightarrow>
               map_option (\<lambda>p.
                   (titled r ''GPU process'' (if gp_name p = [] then gl_none (r_glyphs r) else scrub_ctrl (gp_name p)),
                    [Kv ''PID'' (dec (unat (gp_pid p))), Kv ''Device'' (dec (unat (gp_device_index p))),
                     Kv ''Type'' (process_kind_debug (gp_kind p)), Kv ''VRAM'' (dash_or r human_bytes (gp_mem_bytes p))]))
                 (get_opt (filter (\<lambda>p. f = [] \<or> str_contains (r_lower r (gp_name p)) f) (gs_processes snap)) sel)))"

definition process_details :: "Render \<Rightarrow> (string \<times> inspector_row list) option" where
  "process_details r =
     map_option (\<lambda>p.
       (titled r ''Process'' (scrub_ctrl (pr_name p)),
        [Kv ''PID'' (dec (unat (pr_pid p))),
         Kv ''Parent'' (dash_or r (\<lambda>v. dec (unat v)) (pr_parent_pid p)),
         Kv ''User'' (scrub_ctrl (pr_user p)),
         Kv ''Status'' (pr_status p),
         Section ''RESOURCES'',
         Meter ''CPU'' (pr_cpu_percent p) (fmt_fixed 1 (pr_cpu_percent p) @ ''%''),
         Meter ''Memory'' (pr_memory_percent p)
           (human_bytes (pr_memory_bytes p) @ '' ('' @ fmt_fixed 1 (pr_memory_percent p) @ ''%)''),
         Section ''COMMAND'',
         Wrapped [] (scrub_ctrl (pr_command p))])) (selected_process (r_app r))"

definition network_details :: "Render \<Rightarrow> (string \<times> inspector_row list) option" where
  "network_details r =
     map_option (\<lambda>i.
       (titled r ''Interface'' (scrub_ctrl (if_name i)),
        [Kv ''State'' (if is_up i then ''up'' else ''down''),
         Kv ''MAC'' (scrub_ctrl (mac_address i)),
         Section ''TOTALS'',
         Kv ''Received'' (human_bytes (bytes_rx i)),
         Kv ''Sent'' (human_bytes (bytes_tx i)),
         Kv ''Packets rx'' (dec (unat (packets_rx i))),
         Kv ''Packets tx'' (dec (unat (packets_tx i))),
         Section ''ERRORS'',
         Kv ''Receive'' (dec (unat (errors_rx i))),
         Kv ''Transmit'' (dec (unat (errors_tx i)))]))
       (get_opt (visible_interfaces (e_ulc (r_env r)) (ap_net_filter_input (r_app r)) (ap_last_snapshot (r_app r)))
         (ap_net_selected (r_app r)))"

definition container_details :: "Render \<Rightarrow> (string \<times> inspector_row list) option" where
  "container_details r =
     map_option (\<lambda>c.
       let limited = 0 < ct_mem_limit_bytes c in
       (titled r ''Container'' (scrub_ctrl (ct_name c)),
        [Kv ''ID'' (ct_id c),
         Kv ''State'' (scrub_ctrl (ct_status_text c)),
         Wrapped ''Image'' (scrub_ctrl (ct_image c)),
         Section ''RESOURCES'',
         Meter ''CPU'' (ct_cpu_pct c) (fmt_fixed 1 (ct_cpu_pct c) @ ''%''),
         Meter ''Memory''
           (if limited then percent_of (unat (ct_mem_used_bytes c)) (unat (ct_mem_limit_bytes c)) else Fin 0)
           (if limited then human_bytes (ct_mem_used_bytes c) @ '' / '' @ human_bytes (ct_mem_limit_bytes c)
            else human_bytes (ct_mem_used_bytes c) @ '' (no limit)''),
         Section ''IO'',
         Kv ''Net rx'' (human_bytes (ct_net_rx_bytes c)),
         Kv ''Net tx'' (human_bytes (ct_net_tx_bytes c)),
         Kv ''Block read'' (human_bytes (ct_block_read_bytes c)),
         Kv ''Block write'' (human_bytes (ct_block_write_bytes c))]))
       (get_opt (ap_containers_cache (r_app r)) (ap_containers_selected (r_app r)))"

fun qos_debug :: "QosClass \<Rightarrow> string" where
  "qos_debug Guaranteed = ''Guaranteed''"
| "qos_debug Burstable = ''Burstable''"
| "qos_debug BestEffort = ''BestEffort''"

definition pod_details :: "Render \<Rightarrow> PodSnapshot \<Rightarrow> string \<times> inspector_row list" where
  "pod_details r p =
     (let missing = gl_none (r_glyphs r) @ '' (no metrics-server)'' in
      (titled r ''Pod'' (scrub_ctrl (pod_name p)),
       [Kv ''Namespace'' (scrub_ctrl (pod_namespace p)),
        Kv ''Phase'' (phase_label (pod_phase p)),
        Kv ''Ready'' (dec (unat (fst (pod_ready p))) @ ''/'' @ dec (unat (snd (pod_ready p)))),
        Kv ''Restarts'' (dec (unat (pod_restarts p))),
        Kv ''Node'' (scrub_ctrl (pod_node p)),
        Kv ''QoS'' (qos_debug (pod_qos p)),
        Kv ''Age'' (format_age (pod_age_seconds p)),
        Section ''METRICS'',
        Kv ''CPU'' (case pod_cpu_millis p of None \<Rightarrow> missing | Some m \<Rightarrow> dec (unat m) @ ''m''),
        Kv ''Memory'' (case pod_mem_bytes p of None \<Rightarrow> missing | Some b \<Rightarrow> human_bytes b)]))"

definition node_details :: "Render \<Rightarrow> NodeSnapshot \<Rightarrow> string \<times> inspector_row list" where
  "node_details r n =
     (titled r ''Node'' (scrub_ctrl (nd_name n)),
      [Kv ''Status'' (node_status_debug (nd_status n)),
       Kv ''Roles'' (join '', '' (nd_roles n)),
       Kv ''Kubelet'' (scrub_ctrl (nd_kubelet_version n)),
       Kv ''Age'' (format_age (nd_age_seconds n)),
       Section ''CAPACITY'',
       Kv ''Pods'' (dec (unat (nd_pod_count n)) @ '' / '' @ dec (unat (nd_pod_capacity n))),
       Kv ''CPU'' (dec (unat (nd_cpu_allocatable_millis n)) @ ''m allocatable of '' @
                   dec (unat (nd_cpu_capacity_millis n)) @ ''m''),
       Kv ''Memory'' (human_bytes (nd_mem_allocatable_bytes n) @ '' allocatable of '' @
                      human_bytes (nd_mem_capacity_bytes n))])"

definition deploy_details :: "Render \<Rightarrow> DeploymentSnapshot \<Rightarrow> string \<times> inspector_row list" where
  "deploy_details r d =
     (titled r ''Deployment'' (scrub_ctrl (dp_name d)),
      [Kv ''Namespace'' (scrub_ctrl (dp_namespace d)),
       Kv ''Ready'' (dec (unat (dp_replicas_ready d)) @ ''/'' @ dec (unat (dp_replicas_desired d))),
       Kv ''Up to date'' (dec (unat (dp_replicas_uptodate d))),
       Kv ''Available'' (dec (unat (dp_replicas_available d))),
       Kv ''Strategy'' (strategy_debug (dp_strategy d)),
       Kv ''Age'' (format_age (dp_age_seconds d))])"

definition kube_details :: "Render \<Rightarrow> (string \<times> inspector_row list) option" where
  "kube_details r =
     (case snapshot_kube (r_app r) of
        None \<Rightarrow> None
      | Some snap \<Rightarrow>
          let f = r_lower r (ap_kube_filter_input (r_app r));
              keep = (\<lambda>name ns. f = [] \<or> str_contains (r_lower r name) f \<or> str_contains (r_lower r ns) f);
              sel = ap_kube_selected (r_app r)
          in (case ap_kube_subview (r_app r) of
                KVPods \<Rightarrow>
                  map_option (pod_details r)
                    (get_opt (filter (\<lambda>p. keep (pod_name p) (pod_namespace p)) (ks_pods snap)) sel)
              | KVNodes \<Rightarrow>
                  map_option (node_details r) (get_opt (filter (\<lambda>n. keep (nd_name n) []) (ks_nodes snap)) sel)
              | KVDeployments \<Rightarrow>
                  map_option (deploy_details r)
                    (get_opt (filter (\<lambda>d. keep (dp_name d) (dp_namespace d)) (ks_deployments snap)) sel)))"

definition details :: "Render \<Rightarrow> (string \<times> inspector_row list) option" where
  "details r =
     (case ap_tab (r_app r) of
        TGeneral \<Rightarrow> process_details r
      | TProcesses \<Rightarrow> process_details r
      | TNetwork \<Rightarrow> network_details r
      | TContainers \<Rightarrow> container_details r
      | TKube \<Rightarrow> kube_details r
      | TGpu \<Rightarrow> gpu_details r)"

text \<open>The lines of a scrolled column: never past the last page.\<close>

definition scrolled :: "nat \<Rightarrow> u16 \<Rightarrow> Line list \<Rightarrow> Line list" where
  "scrolled scroll height ls = take (unat height) (drop (min scroll (length ls - unat height)) ls)"

definition draw_inspector :: "Render \<Rightarrow> Rect \<Rightarrow> Rect \<Rightarrow> drawing list" where
  "draw_inspector r screen content_area =
     (case details r of
        None \<Rightarrow> []
      | Some (title, rows) \<Rightarrow>
          let t = r_theme r;
              side_panel = (allows_side_panel (r_breakpoint r) \<and> 80 \<le> rwidth content_area \<and> 6 \<le> rheight content_area);
              area = (if side_panel then hsplit r [Percentage 58, Fill 1] content_area 1
                      else centered_percent 86 80 screen);
              (frame, inner) = popup r area title
          in frame @
             (if no_room inner then []
              else
                let split = vsplit r [Fill 1, Length 1] inner;
                    ls = concat (map (render_row r (rwidth (split 0))) rows)
                in [plain (split 0) (scrolled (ap_overlay_scroll (r_app r)) (rheight (split 0)) ls),
                    plain (split 1)
                      [[('' y '', key_style t), ('' copy id   '', key_desc t),
                        ('' Esc '', key_style t), ('' close '', key_desc t)]]]))"

section \<open>Actions menu, confirmation and log\<close>

definition action_line :: "Render \<Rightarrow> u16 \<Rightarrow> bool \<Rightarrow> string \<Rightarrow> string \<Rightarrow> Line" where
  "action_line r width selected key label =
     (let t = r_theme r;
          (edge, style) = (if selected then (sel_edge (r_glyphs r), selected_row t) else ('' '', body t))
      in [(edge, level_style t Info),
          ('' '' @ pad_right (unat (sat_sub width 12)) label, style),
          (pad_left 9 key @ '' '', if selected then style else dim t)])"

definition draw_actions :: "Render \<Rightarrow> Rect \<Rightarrow> drawing list" where
  "draw_actions r screen =
     (let t = r_theme r; s = r_app r; actions = tab_actions s;
          width = max (min 48 (sat_sub (rwidth screen) 2)) 20;
          height = min (of_nat (length actions) + 4) (rheight screen);
          (frame, inner) = popup r (centered width height screen) (titled r ''Actions'' (tab_label (ap_tab s)))
      in frame @
         (if no_room inner then []
          else
            let split = vsplit r [Fill 1, Length 1] inner; area = split 0 in
            (if actions = [] then [plain area [[(''  No actions on this tab'', dim t)]]]
             else
               map (\<lambda>(i, (key, label, _)).
                      plain \<lparr>rx = rx area, ry = ry area + of_nat i, rwidth = rwidth area, rheight = 1\<rparr>
                        [action_line r (rwidth area) (i = ap_actions_selected s) key label])
                 (enumerate 0 (take (unat (rheight area)) actions))) @
            [plain (split 1)
              [[('' Enter '', key_style t), ('' run   '', key_desc t),
                ('' Esc '', key_style t), ('' cancel '', key_desc t)]]]))"

definition draw_confirm :: "Render \<Rightarrow> Rect \<Rightarrow> drawing list" where
  "draw_confirm r screen =
     (case ap_confirm (r_app r) of
        None \<Rightarrow> []
      | Some action \<Rightarrow>
          let t = r_theme r;
              width = min (max 24 (min 72 (of_nat (char_count (prompt action)) + 6))) (rwidth screen);
              area = centered width (min 7 (rheight screen)) screen
          in if rwidth area < 6 \<or> rheight area < 3 then []
             else
               let b = (panel_block (Some ''Confirm'') True t (r_glyphs r))
                         \<lparr>bk_border := level_style t Error, bk_title_style := level_style t Error\<rparr>;
                   inner = rt_inner (r_rt r) b area
               in [Clear area, DrawBlock area b] @
                  (if rheight inner = 0 then []
                   else
                     let split = vsplit r [Fill 1, Length 1, Length 1] inner in
                     [Paragraph (split 0) AlignCenterWrapped style_default [[(prompt action, strong t)]],
                      Paragraph (split 2) AlignCenter style_default
                        [[('' Esc '', key_style t), ('' cancel   '', key_desc t),
                          ('' y '', level_fill t Error), ('' confirm '', key_desc t)]]]))"

definition draw_log :: "Render \<Rightarrow> Rect \<Rightarrow> drawing list" where
  "draw_log r screen =
     (let t = r_theme r; (frame, inner) = popup r (centered_percent 80 70 screen) ''Messages'' in
      frame @
      (if no_room inner then []
       else
         let split = vsplit r [Fill 1, Length 1] inner; area = split 0;
             history = nt_log (ap_notifier (r_app r))
         in (if history = []
             then render_empty r area (empty_state ''No messages yet'' (Some ''Actions and errors land here.''))
             else
               [plain area
                 (map (\<lambda>toast. [(marker (to_level toast) (r_glyphs r) @ '' '', level_style t (to_level toast)),
                                 (to_text toast, body t)])
                   (take (unat (rheight area)) (drop (ap_overlay_scroll (r_app r)) (rev history))))]) @
            [plain (split 1)
              [[('' Ctrl+L '', key_style t), ('' or '', key_desc t), ('' Esc '', key_style t),
                ('' close   '' @ dec (length history) @ '' messages '', key_desc t)]]]))"

section \<open>The palette\<close>

definition PALETTE_WIDTH :: u16 where "PALETTE_WIDTH = 64"

definition MAX_RESULTS :: nat where "MAX_RESULTS = 12"

definition command_mode :: "AppState \<Rightarrow> bool" where
  "command_mode s \<longleftrightarrow> ap_overlay s = OCommand"

definition palette_input :: "Render \<Rightarrow> Line" where
  "palette_input r =
     (let s = r_app r; t = r_theme r in
      [((if command_mode s then '':'' else ''>'') @ '' '', accent t), (pal_input (ap_palette s), body t),
       (cursor (r_glyphs r), accent t)] @
      (case pal_arg (ap_palette s) of
         Some arg \<Rightarrow> if arg \<noteq> [] then [(''   '' @ chevron (r_glyphs r) @ '' '' @ arg, subtle t)] else []
       | None \<Rightarrow> []))"

text \<open>
  The runs of matched and unmatched characters: the characters of the label, those of the query not
  matched yet, the current run and whether it is a match.
\<close>

fun highlight_runs :: "string list \<Rightarrow> string list \<Rightarrow> string \<Rightarrow> bool \<Rightarrow> (string \<times> bool) list" where
  "highlight_runs [] q run run_hit = (if run \<noteq> [] then [(run, run_hit)] else [])"
| "highlight_runs (ch # chs) q run run_hit =
     (let hit = (case q of c # _ \<Rightarrow> eq_ignore_ascii_case c (to_ascii_lowercase ch) | [] \<Rightarrow> False);
          q = (if hit then tl q else q);
          flush = (hit \<noteq> run_hit \<and> run \<noteq> [])
      in (if flush then [(run, run_hit)] else []) @
         highlight_runs chs q ((if flush then [] else run) @ ch) hit)"

definition result_line :: "Render \<Rightarrow> Command \<Rightarrow> bool \<Rightarrow> u16 \<Rightarrow> Line" where
  "result_line r cmd selected width =
     (let t = r_theme r; g = r_glyphs r; p = ap_palette (r_app r);
          base = (if selected then selected_row t else body t);
          shortcut_w = char_count (shortcut cmd) + 2;
          label_w = unat width - (2 + shortcut_w);
          query = (if pal_arg p \<noteq> None then [] else r_lower r (pal_input p));
          highlight = with_fg (th_accent_primary t) base;
          truncated = glyph_truncate g (command_label cmd) label_w
      in [(if selected then sel_edge g @ '' '' else ''  '', if selected then level_style t Info else base)] @
         map (\<lambda>(run, hit). (run, if hit then highlight else base))
           (highlight_runs (str_chars truncated) (str_chars query) [] False) @
         [(spaces (label_w - char_count truncated), base),
          (pad_left (shortcut_w - 2) (shortcut cmd) @ ''  '', if selected then base else subtle t)])"

definition palette_results :: "Render \<Rightarrow> Rect \<Rightarrow> drawing list" where
  "palette_results r area =
     (let p = ap_palette (r_app r); visible = min (unat (rheight area)) (length (pal_filtered p)) in
      if visible = 0 then []
      else
        let scroll = pal_selected p - (visible - 1) in
        map (\<lambda>(i, (cmd, _)).
               plain \<lparr>rx = rx area, ry = ry area + of_nat i, rwidth = rwidth area, rheight = 1\<rparr>
                 [result_line r cmd (scroll + i = pal_selected p) (rwidth area)])
          (enumerate 0 (take visible (drop scroll (pal_filtered p)))))"

definition palette_hint :: "Render \<Rightarrow> Line" where
  "palette_hint r =
     (let t = r_theme r in
      if command_mode (r_app r) then
        [('' try '', subtle t), (''kill firefox'', dim t), (''  '', subtle t), (''sort mem'', dim t),
         (''  '', subtle t), (''theme mono'', dim t)]
      else
        [('' Enter '', key_style t), ('' run  '', key_desc t), ('' : '', key_style t),
         ('' command with arguments  '', key_desc t), ('' Esc '', key_style t), ('' close '', key_desc t)])"

definition draw_palette :: "Render \<Rightarrow> Rect \<Rightarrow> drawing list" where
  "draw_palette r screen =
     (let s = r_app r; p = ap_palette s;
          result_rows = max 1 (min (length (pal_filtered p)) MAX_RESULTS);
          height = min (of_nat result_rows + 5) (rheight screen);
          width = max (min PALETTE_WIDTH (sat_sub (rwidth screen) 2)) 20;
          (frame, inner) = popup r (centered width height screen)
                             (if command_mode s then ''Command'' else ''Command Palette'')
      in frame @
         (if no_room inner then []
          else
            let split = vsplit r [Length 1, Fill 1, Length 1] inner in
            [plain (split 0) [palette_input r]] @
            (if pal_filtered p = [] then [plain (split 1) [[(''  No matches'', dim (r_theme r))]]]
             else palette_results r (split 1)) @
            [plain (split 2) [palette_hint r]]))"

section \<open>Help\<close>

definition TWO_COLUMN_WIDTH :: u16 where "TWO_COLUMN_WIDTH = 76"

definition HELP_KEY_WIDTH :: nat where "HELP_KEY_WIDTH = 16"

definition PKG_VERSION :: string where "PKG_VERSION = ''0.7.0''"

definition replace_char :: "string \<Rightarrow> string \<Rightarrow> string \<Rightarrow> string" where
  "replace_char ch rep s = concat (map (\<lambda>c. if c = ch then rep else c) (str_chars s))"

definition heading :: "Render \<Rightarrow> string \<Rightarrow> Line" where
  "heading r txt = [(txt, accent (r_theme r))]"

definition binding_line :: "Render \<Rightarrow> string \<Rightarrow> string \<Rightarrow> Line" where
  "binding_line r keys label =
     (let keys = (if gl_unicode (r_glyphs r) then keys
                  else replace_char (utf3 0x86 0x92) ''Right''
                         (replace_char (utf3 0x86 0x90) ''Left''
                           (replace_char (utf3 0x86 0x93) ''Down'' (replace_char (utf3 0x86 0x91) ''Up'' keys))))
      in [(pad_right HELP_KEY_WIDTH keys, strong (r_theme r)), (label, dim (r_theme r))])"

definition help_group :: "Render \<Rightarrow> (string \<times> string \<times> Group) list \<Rightarrow> Group \<Rightarrow> Line list" where
  "help_group r rows grp =
     (let in_group = filter (\<lambda>(_, _, x). x = grp) rows in
      if in_group = [] then []
      else heading r (group_title grp) # map (\<lambda>(keys, label, _). binding_line r keys label) in_group @ [[]])"

definition sections :: "Render \<Rightarrow> Line list \<times> Line list" where
  "sections r =
     (let s = r_app r; t = r_theme r;
          tab_rows = help_rows (ap_tab s) (OnTab (ap_tab s));
          global = help_rows (ap_tab s) Global
      in ((if tab_rows = [] then []
           else heading r (''THIS TAB '' @ gl_dash (r_glyphs r) @ '' '' @ tab_label (ap_tab s)) #
                map (\<lambda>(keys, label, _). binding_line r keys label) tab_rows @ [[]]) @
          concat (map (help_group r global) [GActions, GTable]),
          concat (map (help_group r global) [GNavigation, GSortFilter, GApp]) @
          (if is_remote s
           then [[], [(''Remote mode: kill, renice and container'', level_style t Warning)],
                 [(''actions are disabled: the server owns them.'', level_style t Warning)]]
           else [])))"

definition render_column :: "Rect \<Rightarrow> Line list \<Rightarrow> nat \<Rightarrow> drawing list" where
  "render_column area ls scroll = (if rheight area = 0 then [] else [plain area (scrolled scroll (rheight area) ls)])"

definition ascii_safe :: "Render \<Rightarrow> Line \<Rightarrow> Line" where
  "ascii_safe r l =
     (if gl_unicode (r_glyphs r) then l
      else map (\<lambda>(txt, style).
                  (replace_char (utf3 0x86 0x93) (arrow_down (r_glyphs r))
                     (replace_char (utf3 0x86 0x91) (arrow_up (r_glyphs r)) txt), style)) l)"

definition draw_help :: "Render \<Rightarrow> Rect \<Rightarrow> drawing list" where
  "draw_help r screen =
     (let t = r_theme r; scroll = ap_overlay_scroll (r_app r);
          (frame, inner) = popup r (centered_percent 88 88 screen) (titled r ''Help'' (''muxtop v'' @ PKG_VERSION))
      in frame @
         (if no_room inner then []
          else
            let split = vsplit r [Fill 1, Length 1] inner; area = split 0; (left, right) = sections r in
            (if TWO_COLUMN_WIDTH \<le> rwidth area then
               let cols = hsplit r [Percentage 50, Length 2, Fill 1] area
               in render_column (cols 0) left scroll @ render_column (cols 2) right scroll
             else render_column area (left @ [[]] @ right) scroll) @
            [plain (split 1)
              [ascii_safe r
                [('' '' @ utf3 0x86 0x91 @ utf3 0x86 0x93 @ '' '', key_style t), ('' scroll   '', key_desc t),
                 ('' ? '', key_style t), ('' or '', key_desc t), ('' Esc '', key_style t), ('' close '', key_desc t)]]]))"

end
