(* ===== verification/Screen.thy ===== *)
theory Screen
  imports Overlays
begin

text \<open>
  The dashboard, the chrome and the whole screen (\<open>ui/general.rs\<close>, \<open>ui/chrome.rs\<close>, \<open>ui/mod.rs\<close>):
  the panels of the General tab, the header, tab bar and status bar, and \<open>draw_root\<close>, which draws
  the chrome, the active tab and the overlays from the state of the application.
\<close>

section \<open>The dashboard\<close>

definition div_ceil2 :: "'a::len word \<Rightarrow> 'a word" where
  "div_ceil2 n = n div 2 + n mod 2"

definition cpu_height :: "SystemSnapshot \<Rightarrow> u16 \<Rightarrow> bool \<Rightarrow> u16" where
  "cpu_height sys available two_column =
     (let cs = of_nat (length (cores (ss_cpu sys))) in
      if cs = 0 then 3
      else let rows = (if 8 < cs \<or> two_column then div_ceil2 cs else cs)
           in min (max (rows + 2) 3) (max (available div 2) 3))"

definition core_bar :: "Render \<Rightarrow> u16 \<Rightarrow> CoreSnapshot \<Rightarrow> Line" where
  "core_bar r width c =
     bar_line (core_label c) 6 (fmt_fixed 1 (core_usage c) @ ''%'') (core_usage c) width (r_theme r) (r_glyphs r)"

text \<open>A panel of the dashboard: its block, and the content when there is room inside.\<close>

definition draw_panel :: "Render \<Rightarrow> Rect \<Rightarrow> string \<Rightarrow> (Rect \<Rightarrow> drawing list) \<Rightarrow> drawing list" where
  "draw_panel r area title content =
     (let b = panel_block (Some title) False (r_theme r) (r_glyphs r); inner = rt_inner (r_rt r) b area in
      DrawBlock area b # (if no_room inner then [] else content inner))"

definition draw_cpu :: "Render \<Rightarrow> Rect \<Rightarrow> SystemSnapshot \<Rightarrow> drawing list" where
  "draw_cpu r area sys =
     draw_panel r area ''CPU'' (\<lambda>inner.
       let cs = cores (ss_cpu sys) in
       if cs = [] then []
       else if unat (rheight inner) < length cs \<or> 64 \<le> rwidth inner then
         let split = hsplit r [Percentage 50, Fill 1] inner;
             mid = (length cs + 1) div 2;
             build = (\<lambda>xs a. plain a (map (core_bar r (rwidth a)) (take (unat (rheight a)) xs)))
         in [build (take mid cs) (split 0), build (drop mid cs) (split 1)]
       else [plain inner (map (core_bar r (rwidth inner)) (take (unat (rheight inner)) cs))])"

definition percent :: "u64 \<Rightarrow> u64 \<Rightarrow> fl" where
  "percent used cap = (if cap = 0 then Fin 0 else fclamp (percent_of (unat used) (unat cap)) (Fin 0) (Fin 100))"

definition mem_bar :: "Render \<Rightarrow> string \<Rightarrow> u64 \<Rightarrow> u64 \<Rightarrow> u16 \<Rightarrow> Line" where
  "mem_bar r label used cap width =
     (let pct = (if 0 < cap then fclamp (percent_of (unat used) (unat cap)) (Fin 0) (Fin 100) else Fin 0) in
      bar_line label 6 (fmt_fixed 0 pct @ ''%  '' @ human_bytes used @ ''/'' @ human_bytes cap) pct width
        (r_theme r) (r_glyphs r))"

definition draw_memory :: "Render \<Rightarrow> Rect \<Rightarrow> SystemSnapshot \<Rightarrow> drawing list" where
  "draw_memory r area sys =
     draw_panel r area ''Memory'' (\<lambda>inner.
       let m = ss_memory sys in
       [plain inner
         ([mem_bar r ''Mem'' (mem_used m) (mem_total m) (rwidth inner)] @
          (if 0 < swap_total m then [mem_bar r ''Swap'' (swap_used m) (swap_total m) (rwidth inner)] else []))])"

definition draw_load :: "Render \<Rightarrow> Rect \<Rightarrow> SystemSnapshot \<Rightarrow> drawing list" where
  "draw_load r area sys =
     draw_panel r area ''Load'' (\<lambda>inner.
       let cs = of_nat_fl F64 (max (length (cores (ss_cpu sys))) 1); l = ss_load sys in
       [plain inner
         (map (\<lambda>(label, val).
                 bar_line label 4 (fmt_fixed 2 val)
                   (fclamp (fmul F64 (fdiv F64 val cs) (Fin 100)) (Fin 0) (Fin 100)) (rwidth inner)
                   (r_theme r) (r_glyphs r))
            (take (unat (rheight inner))
              [(''1m'', load_one l), (''5m'', load_five l), (''15m'', load_fifteen l)]))])"

text \<open>
  \<open>Iterator::max_by\<close>: the last of the greatest, where the comparison says whether the first is greater.
\<close>

fun max_by :: "('a \<Rightarrow> 'a \<Rightarrow> bool) \<Rightarrow> 'a list \<Rightarrow> 'a option" where
  "max_by beats [] = None"
| "max_by beats (x # xs) = Some (foldl (\<lambda>a b. if beats a b then a else b) x xs)"

definition busiest_interface :: "Render \<Rightarrow> NetworkInterfaceSnapshot option" where
  "busiest_interface r =
     (let s = r_app r; h = ap_network_history s;
          rate = (\<lambda>i. fadd F64 (bandwidth_rx h (if_name i)) (bandwidth_tx h (if_name i)))
      in max_by (\<lambda>a b. flt (rate b) (rate a))
           (visible_interfaces (e_ulc (r_env r)) (ap_net_filter_input s) (ap_last_snapshot s)))"

definition draw_network_panel :: "Render \<Rightarrow> Rect \<Rightarrow> drawing list" where
  "draw_network_panel r area =
     (let b = panel_block (Some ''Network'') False (r_theme r) (r_glyphs r); inner = rt_inner (r_rt r) b area in
      DrawBlock area b #
      (if rheight inner = 0 \<or> rwidth inner < 12 then []
       else
         case busiest_interface r of
           None \<Rightarrow> []
         | Some i \<Rightarrow>
             let h = ap_network_history (r_app r); t = r_theme r; g = r_glyphs r;
                 width = sat_sub (rwidth inner) 12;
                 down = sparkline_rx h (if_name i) (unat width);
                 up = sparkline_tx h (if_name i) (unat width);
                 scale = series_scale down up
             in [plain inner
                   (map (\<lambda>(arrow, series, rate, color).
                           (arrow @ '' '' @ pad_left 9 (human_rate (of_nat (to_usize rate))) @ '' '', dim t) #
                           spark_line series width (Some scale) Flat color t g)
                      [(arrow_down g, down, bandwidth_rx h (if_name i), th_success t),
                       (arrow_up g, up, bandwidth_tx h (if_name i), th_info t)])]))"

definition draw_top_processes :: "Render \<Rightarrow> Rect \<Rightarrow> SystemSnapshot \<Rightarrow> drawing list" where
  "draw_top_processes r area sys =
     draw_panel r area ''Top processes'' (\<lambda>inner.
       let t = r_theme r;
           procs = sort_by (\<lambda>a b. not_gt (pr_cpu_percent b) (pr_cpu_percent a)) (ss_processes sys);
           cmd_w = unat (rwidth inner) - 15
       in [plain inner
            ([(pad_left 6 ''CPU%'' @ '' '' @ pad_left 6 ''MEM%'' @ ''  COMMAND'', dim t)] #
             map (\<lambda>p. [(pad_left 6 (fmt_fixed 1 (pr_cpu_percent p)) @ '' '',
                          with_fg (gauge_color t (pr_cpu_percent p)) style_default),
                         (pad_left 6 (fmt_fixed 1 (pr_memory_percent p)) @ ''  '', body t),
                         (glyph_truncate (r_glyphs r) (scrub_ctrl (pr_command p)) cmd_w, body t)])
               (take (unat (sat_sub (rheight inner) 1)) procs))])"

definition summary_row :: "Render \<Rightarrow> string \<Rightarrow> string \<Rightarrow> Level \<Rightarrow> Line" where
  "summary_row r label val level =
     [(pad_right 12 label, dim (r_theme r)), (val, level_style (r_theme r) level)]"

definition containers_card :: "Render \<Rightarrow> ContainersSnapshot option \<Rightarrow> Line" where
  "containers_card r cs =
     (case cs of
        None \<Rightarrow> summary_row r ''Containers'' ''no engine'' Neutral
      | Some cs \<Rightarrow>
          if \<not> cts_daemon_up cs then summary_row r ''Containers'' ''daemon down'' Error
          else summary_row r ''Containers''
                 (dec (running_containers cs) @ '' running '' @ sep (r_glyphs r) @ '' '' @
                  dec (length (cts_containers cs)) @ '' total'') Success)"

definition kube_card :: "Render \<Rightarrow> KubeSnapshot option \<Rightarrow> Line" where
  "kube_card r ks =
     (case ks of
        None \<Rightarrow> summary_row r ''Kubernetes'' ''not configured'' Neutral
      | Some k \<Rightarrow>
          if \<not> ks_reachable k then summary_row r ''Kubernetes'' ''unreachable'' Error
          else
            let broken = length (filter (\<lambda>p. pod_phase p = PP_CrashLoop \<or> pod_phase p = PP_Failed) (ks_pods k));
                pods = dec (length (ks_pods k)) @ '' pods '' @ sep (r_glyphs r) @ '' ''
            in if 0 < broken then summary_row r ''Kubernetes'' (pods @ dec broken @ '' failing'') Error
               else summary_row r ''Kubernetes'' (pods @ dec (length (ks_nodes k)) @ '' nodes'') Success)"

text \<open>
  \<open>f32::total_cmp\<close> orders the numbers, with a NaN above them all; the two zeros are one value here.
\<close>

definition total_gt :: "fl \<Rightarrow> fl \<Rightarrow> bool" where
  "total_gt a b \<longleftrightarrow> (if a = NaN then b \<noteq> NaN else b \<noteq> NaN \<and> flt b a)"

definition gpu_card :: "Render \<Rightarrow> GpusSnapshot option \<Rightarrow> Line" where
  "gpu_card r gs =
     (case gs of
        None \<Rightarrow> summary_row r ''GPU'' ''not probed'' Neutral
      | Some gpus \<Rightarrow>
          if \<not> gs_available gpus then summary_row r ''GPU'' ''none detected'' Neutral
          else
            let g = r_glyphs r in
            (case gs_devices gpus of
               [] \<Rightarrow> summary_row r ''GPU'' ''none detected'' Neutral
             | [only] \<Rightarrow>
                 summary_row r ''GPU'' (scrub_ctrl (gd_name only) @ '' '' @ sep g @ '' '' @ device_summary only g)
                   (device_level only)
             | many \<Rightarrow>
                 (case max_by (\<lambda>a b. total_gt (unwrap_or (gd_utilization_pct a) (Fin (- 1)))
                                              (unwrap_or (gd_utilization_pct b) (Fin (- 1)))) many of
                    Some busiest \<Rightarrow>
                      summary_row r ''GPU''
                        (dec (length many) @ '' devices '' @ sep g @ '' busiest '' @ device_summary busiest g)
                        (device_level busiest)
                  | None \<Rightarrow> [])))"

definition draw_workloads :: "Render \<Rightarrow> Rect \<Rightarrow> SystemSnapshot \<Rightarrow> drawing list" where
  "draw_workloads r area sys =
     draw_panel r area ''Workloads'' (\<lambda>inner.
       let running = length (filter (\<lambda>p. pr_status p = ''Running'') (ss_processes sys)) in
       [plain inner
         (take (unat (rheight inner))
           [summary_row r ''Processes''
              (dec (length (ss_processes sys)) @ '' '' @ sep (r_glyphs r) @ '' '' @ dec running @ '' running'')
              Neutral,
            containers_card r (ss_containers sys), kube_card r (ss_kube sys),
            gpu_card r (ss_gpu sys)])])"

definition draw_general_tab :: "Render \<Rightarrow> Rect \<Rightarrow> drawing list" where
  "draw_general_tab r area =
     (case ap_last_snapshot (r_app r) of
        None \<Rightarrow> render_empty r area (waiting_state (r_ellipsis r ''Waiting for data''))
      | Some sys \<Rightarrow>
          let two_column = (Md \<le> r_breakpoint r \<and> 96 \<le> rwidth area);
              cpu_h = cpu_height sys (rheight area) two_column;
              mem_h = (if 0 < swap_total (ss_memory sys) then 4 else 3);
              split = vsplit r [Length cpu_h, Length mem_h, Fill 1] area;
              halves = hsplit r [Percentage 60, Fill 1]
          in (if two_column then
                draw_cpu r (halves (split 0) 0) sys @ draw_load r (halves (split 0) 1) sys @
                draw_memory r (halves (split 1) 0) sys @ draw_network_panel r (halves (split 1) 1)
              else draw_cpu r (split 0) sys @ draw_memory r (split 1) sys) @
             (if 3 \<le> rheight (split 2) then
                (if two_column then
                   draw_top_processes r (halves (split 2) 0) sys @ draw_workloads r (halves (split 2) 1) sys
                 else draw_top_processes r (split 2) sys)
              else []))"

section \<open>Header and tab bar\<close>

definition COMPACT_WIDTH :: u16 where "COMPACT_WIDTH = 60"

definition header_rows :: "u16 \<Rightarrow> u16" where
  "header_rows width = (if width < COMPACT_WIDTH then 1 else 2)"

definition format_uptime :: "u64 \<Rightarrow> string" where
  "format_uptime secs =
     (let s = unat secs; days = s div 86400; hours = s mod 86400 div 3600; mins = s mod 3600 div 60 in
      if 0 < days then dec days @ ''d '' @ dec hours @ ''h '' @ dec mins @ ''m''
      else if 0 < hours then dec hours @ ''h '' @ dec mins @ ''m''
      else dec mins @ ''m'')"

definition on_header :: "Theme \<Rightarrow> Style \<Rightarrow> Style" where
  "on_header t style = with_bg (th_header_bg t) style"

text \<open>The port of a socket address, from its text: what follows the last colon.\<close>

definition addr_port :: "string \<Rightarrow> string" where
  "addr_port addr = rev (takeWhile (\<lambda>c. c \<noteq> CHR '':'') (rev addr))"

definition connection_spans :: "Render \<Rightarrow> Line" where
  "connection_spans r =
     (let t = r_theme r; g = r_glyphs r;
          remote = on_header t (with_fg (th_accent_secondary t) style_default) in
      case ap_connection_mode (r_app r) of
        Local \<Rightarrow>
          [(''  '' @ conn_local g @ '' '', on_header t (level_style t Success)),
           (unwrap_or (r_host r) ''local'', chrome t)]
      | Remote hostname addr \<Rightarrow>
          [(''  '' @ conn_remote g @ '' '', remote),
           (scrub_ctrl hostname @ '':'' @ addr_port addr @ '' '', remote),
           (''read-only '', on_header t (subtle t))])"

definition header_vitals :: "Render \<Rightarrow> SystemSnapshot \<Rightarrow> Line" where
  "header_vitals r sys =
     (let t = r_theme r; g = r_glyphs r; style = on_header t (dim t);
          cpu = global_usage (ss_cpu sys);
          mem = percent (mem_used (ss_memory sys)) (mem_total (ss_memory sys))
      in [('' CPU '', style)] @ inline cpu 8 t g @ [('' '' @ pad_left 3 (fmt_fixed 0 cpu) @ ''% '', style)] @
         [('' MEM '', style)] @ inline mem 8 t g @ [('' '' @ pad_left 3 (fmt_fixed 0 mem) @ ''% '', style)])"

definition header_spans :: "Render \<Rightarrow> u16 \<Rightarrow> Line" where
  "header_spans r width =
     (let t = r_theme r; s = r_app r in
      [('' muxtop '', accent_fill t), ('' v'' @ PKG_VERSION @ '' '', on_header t (dim t))] @
      connection_spans r @
      (case ap_last_snapshot s of
         Some sys \<Rightarrow>
           [(''  up '' @ format_uptime (load_uptime_secs (ss_load sys)) @ '' '', on_header t (dim t))] @
           (if 90 \<le> width then header_vitals r sys else [])
       | None \<Rightarrow> []) @
      (if ap_paused s then [('' PAUSED '', level_fill t Warning)] else []))"

definition chrome_line :: "Render \<Rightarrow> Rect \<Rightarrow> Line \<Rightarrow> drawing" where
  "chrome_line r area l = Paragraph area AlignLeft (chrome (r_theme r)) [l]"

definition draw_header :: "Render \<Rightarrow> Rect \<Rightarrow> drawing list" where
  "draw_header r area = [chrome_line r area (header_spans r (rwidth area))]"

definition tab_available :: "AppState \<Rightarrow> Tab \<Rightarrow> bool" where
  "tab_available s tab =
     (case tab of
        TContainers \<Rightarrow>
          (case Option.bind (ap_last_snapshot s) ss_containers of Some c \<Rightarrow> cts_daemon_up c | None \<Rightarrow> False)
      | TKube \<Rightarrow> (case snapshot_kube s of Some k \<Rightarrow> ks_reachable k | None \<Rightarrow> False)
      | TGpu \<Rightarrow> (case snapshot_gpu s of Some g \<Rightarrow> gs_available g | None \<Rightarrow> False)
      | _ \<Rightarrow> True)"

definition tab_count :: "env \<Rightarrow> AppState \<Rightarrow> Tab \<Rightarrow> nat option" where
  "tab_count E s tab =
     (if ap_last_snapshot s = None then None
      else
        case tab of
          TGeneral \<Rightarrow> None
        | TProcesses \<Rightarrow> Some (process_count s)
        | TNetwork \<Rightarrow> Some (net_interface_count E s)
        | TContainers \<Rightarrow> if tab_available s tab then Some (containers_count E s) else None
        | TKube \<Rightarrow> if tab_available s tab then Some (kube_count s) else None
        | TGpu \<Rightarrow> if tab_available s tab then Some (gpu_count E s) else None)"

definition SUPERSCRIPTS :: "string list" where
  "SUPERSCRIPTS = [[CHR 0xC2, CHR 0xB9], [CHR 0xC2, CHR 0xB2], [CHR 0xC2, CHR 0xB3], utf3 0x81 0xB4, utf3 0x81 0xB5,
          utf3 0x81 0xB6, utf3 0x81 0xB7, utf3 0x81 0xB8, utf3 0x81 0xB9]"

definition tab_number :: "nat \<Rightarrow> Glyphs \<Rightarrow> string" where
  "tab_number n g = (if \<not> gl_unicode g then dec n else unwrap_or (get_opt SUPERSCRIPTS (n - 1)) (dec n))"

definition tab_spans :: "Render \<Rightarrow> bool \<Rightarrow> nat \<Rightarrow> Tab \<Rightarrow> Line" where
  "tab_spans r narrow i tab =
     (let t = r_theme r; s = r_app r; active = (tab = ap_tab s);
          style = (if active then on_header t (accent t)
                   else if tab_available s tab then on_header t (dim t) else on_header t (subtle t))
      in [((if active then '' '' else ''  '') @ tab_number (i + 1) (r_glyphs r), on_header t (subtle t)),
          (tab_label tab, style)] @
         (if narrow then []
          else case tab_count (r_env r) s tab of
                 Some n \<Rightarrow> [('' '' @ dec n, on_header t (if active then strong t else subtle t))]
               | None \<Rightarrow> []) @
         [('' '', chrome t)])"

definition draw_tabbar :: "Render \<Rightarrow> Rect \<Rightarrow> drawing list" where
  "draw_tabbar r area =
     [chrome_line r area (concat (map (\<lambda>(i, tab). tab_spans r (rwidth area < 100) i tab) (enumerate 0 Tab_ALL)))]"

definition draw_compact_chrome :: "Render \<Rightarrow> Rect \<Rightarrow> drawing list" where
  "draw_compact_chrome r area =
     (let t = r_theme r; s = r_app r in
      [chrome_line r area
        ([('' muxtop '', accent_fill t), ('' '' @ tab_label (ap_tab s) @ '' '', on_header t (accent t))] @
         (case tab_count (r_env r) s (ap_tab s) of Some n \<Rightarrow> [(dec n @ '' '', on_header t (dim t))] | None \<Rightarrow> []) @
         (if ap_paused s then [('' PAUSED '', level_fill t Warning)] else []))])"

section \<open>Status bar\<close>

definition sort_descending :: "AppState \<Rightarrow> bool" where
  "sort_descending s \<longleftrightarrow>
     (case ap_tab s of
        TNetwork \<Rightarrow> ap_net_sort_order s
      | TContainers \<Rightarrow> ap_containers_sort_order s
      | TKube \<Rightarrow> ap_kube_sort_order s
      | TGpu \<Rightarrow> ap_gpu_sort_order s
      | _ \<Rightarrow> ap_sort_order s) = Desc"

fun net_sort_label :: "NetworkSortField \<Rightarrow> string" where
  "net_sort_label NSF_Name = ''name''"
| "net_sort_label NSF_RxRate = ''rx''"
| "net_sort_label NSF_TxRate = ''tx''"
| "net_sort_label NSF_TotalRx = ''total rx''"
| "net_sort_label NSF_TotalTx = ''total tx''"
| "net_sort_label NSF_Errors = ''errors''"

fun containers_sort_label :: "ContainerSortField \<Rightarrow> string" where
  "containers_sort_label CSF_Name = ''name''"
| "containers_sort_label CSF_Cpu = ''cpu''"
| "containers_sort_label CSF_Mem = ''mem''"
| "containers_sort_label CSF_NetRx = ''rx''"
| "containers_sort_label CSF_NetTx = ''tx''"
| "containers_sort_label CSF_Uptime = ''uptime''"

fun gpu_sort_label :: "GpuSortField \<Rightarrow> string" where
  "gpu_sort_label DeviceIndex = ''index''"
| "gpu_sort_label DeviceName = ''name''"
| "gpu_sort_label ProcName = ''name''"
| "gpu_sort_label DeviceUtil = ''util''"
| "gpu_sort_label DeviceMem = ''vram''"
| "gpu_sort_label ProcMem = ''vram''"
| "gpu_sort_label DeviceTemp = ''temp''"
| "gpu_sort_label DevicePower = ''power''"
| "gpu_sort_label ProcPid = ''pid''"
| "gpu_sort_label ProcDevice = ''device''"

fun kube_sort_label :: "KubeSortField \<Rightarrow> string" where
  "kube_sort_label PodName = ''name''"
| "kube_sort_label NodeName = ''name''"
| "kube_sort_label DeployName = ''name''"
| "kube_sort_label PodCpu = ''cpu''"
| "kube_sort_label NodeCpuPct = ''cpu''"
| "kube_sort_label PodMem = ''mem''"
| "kube_sort_label NodeMemPct = ''mem''"
| "kube_sort_label PodRestarts = ''restarts''"
| "kube_sort_label PodAge = ''age''"
| "kube_sort_label NodeAge = ''age''"
| "kube_sort_label DeployAge = ''age''"
| "kube_sort_label PodPhase = ''phase''"
| "kube_sort_label NodePodCount = ''pods''"
| "kube_sort_label DeployNamespace = ''namespace''"
| "kube_sort_label DeployReadyRatio = ''ready''"

fun process_sort_label :: "SortField \<Rightarrow> string" where
  "process_sort_label SF_Cpu = ''cpu''"
| "process_sort_label SF_Mem = ''mem''"
| "process_sort_label SF_Pid = ''pid''"
| "process_sort_label SF_Name = ''name''"
| "process_sort_label SF_User = ''user''"

definition sort_label :: "AppState \<Rightarrow> string" where
  "sort_label s =
     (case ap_tab s of
        TNetwork \<Rightarrow> net_sort_label (ap_net_sort_field s)
      | TContainers \<Rightarrow> containers_sort_label (ap_containers_sort_field s)
      | TGpu \<Rightarrow> gpu_sort_label (ap_gpu_sort_field s)
      | TKube \<Rightarrow> kube_sort_label (ap_kube_sort_field s)
      | _ \<Rightarrow> process_sort_label (ap_sort_field s))"

definition state_segments :: "Render \<Rightarrow> string list" where
  "state_segments r =
     (let s = r_app r; g = r_glyphs r; n = item_count (r_env r) s;
          arrow = (if sort_descending s then sort_desc g else sort_asc g)
      in (if ap_paused s then [''PAUSED''] else []) @
         [''sort '' @ sort_label s @ arrow] @
         (if filter_text s \<noteq> [] then [''filter '' @ [CHR 0x22] @ filter_text s @ [CHR 0x22] @ '' '' @ dec n] else []) @
         (case position_label (fst (sel_off s)) n of Some pos \<Rightarrow> [pos] | None \<Rightarrow> []))"

text \<open>A span goes on the bar only when it fits in what is left of the width.\<close>

definition push_span :: "nat \<Rightarrow> Span \<Rightarrow> Line \<times> nat \<Rightarrow> bool \<times> Line \<times> nat" where
  "push_span width sp st =
     (let len = char_count (fst sp) in
      if width < snd st + len then (False, st) else (True, fst st @ [sp], snd st + len))"

fun segment_loop :: "Render \<Rightarrow> nat \<Rightarrow> string list \<Rightarrow> Line \<times> nat \<Rightarrow> Line \<times> nat" where
  "segment_loop r width [] st = st"
| "segment_loop r width (seg # segs) st =
     (if width < snd st + char_count seg + 3 then st
      else
        let t = r_theme r;
            st = snd (push_span width ('' '' @ seg @ '' '', on_header t (dim t)) st);
            st = snd (push_span width (sep (r_glyphs r), on_header t (subtle t)) st)
        in segment_loop r width segs st)"

fun hint_loop :: "Render \<Rightarrow> nat \<Rightarrow> (string \<times> string) list \<Rightarrow> Line \<times> nat \<Rightarrow> Line \<times> nat" where
  "hint_loop r width [] st = st"
| "hint_loop r width ((key, label) # hs) st =
     (case push_span width ('' '' @ key @ '' '', key_style (r_theme r)) st of
        (False, st) \<Rightarrow> st
      | (True, st) \<Rightarrow>
          (case push_span width (label @ '' '', key_desc (r_theme r)) st of
             (False, st) \<Rightarrow> st
           | (True, st) \<Rightarrow> hint_loop r width hs st))"

definition status_spans :: "Render \<Rightarrow> u16 \<Rightarrow> Line" where
  "status_spans r width =
     (let s = r_app r; w = unat width in
      fst (hint_loop r w (hints (ap_tab s) (is_remote s)) (segment_loop r w (state_segments r) ([], 0))))"

definition draw_statusbar :: "Render \<Rightarrow> Rect \<Rightarrow> drawing list" where
  "draw_statusbar r area =
     (if no_room area then []
      else
        let s = r_app r; t = r_theme r in
        case notifier_latest (ap_notifier s) of
          Some toast \<Rightarrow>
            let extra = length (nt_active (ap_notifier s)) - 1 in
            [chrome_line r area
              ([('' '' @ to_text toast @ '' '', level_fill t (to_level toast))] @
               (if 0 < extra then [('' +'' @ dec extra @ '' more (Ctrl+L) '', on_header t (dim t))] else []))]
        | None \<Rightarrow> [chrome_line r area (status_spans r (rwidth area))])"

section \<open>The screen\<close>

definition chrome_split :: "Render \<Rightarrow> Rect \<Rightarrow> Rect \<times> Rect option \<times> Rect \<times> Rect" where
  "chrome_split r area =
     (if header_rows (rwidth area) = 1 then
        let split = vsplit r [Length 1, Fill 1, Length 1] area in (split 0, None, split 1, split 2)
      else
        let split = vsplit r [Length 1, Length 1, Fill 1, Length 1] area in
        (split 0, Some (split 1), split 2, split 3))"

definition draw_content :: "Render \<Rightarrow> Rect \<Rightarrow> drawing list" where
  "draw_content r area =
     (if no_room area then []
      else
        case ap_tab (r_app r) of
          TGeneral \<Rightarrow> draw_general_tab r area
        | TProcesses \<Rightarrow> draw_processes_tab r area
        | TNetwork \<Rightarrow> draw_network_tab r area
        | TContainers \<Rightarrow> draw_containers_tab r area
        | TKube \<Rightarrow> draw_kube_tab r area
        | TGpu \<Rightarrow> draw_gpu_tab r area)"

definition draw_overlay :: "Render \<Rightarrow> Rect \<Rightarrow> Rect \<Rightarrow> drawing list" where
  "draw_overlay r screen content_area =
     (case ap_overlay (r_app r) of
        ONone \<Rightarrow> []
      | OPalette \<Rightarrow> draw_palette r screen
      | OCommand \<Rightarrow> draw_palette r screen
      | OHelp \<Rightarrow> draw_help r screen
      | OLog \<Rightarrow> draw_log r screen
      | OActions \<Rightarrow> draw_actions r screen
      | OInspector \<Rightarrow> draw_inspector r screen content_area)"

definition render_of :: "env \<Rightarrow> ratatui \<Rightarrow> string option \<Rightarrow> Rect \<Rightarrow> AppState \<Rightarrow> Render" where
  "render_of E rt host screen s =
     \<lparr>r_app = s, r_theme = with_kind (ap_theme_kind s) (tc_color_support (ap_term_caps s)),
      r_glyphs = glyphs_new (tc_unicode (ap_term_caps s)), r_breakpoint = from_width (rwidth screen),
      r_env = E, r_rt = rt, r_host = host\<rparr>"

definition draw_root :: "env \<Rightarrow> ratatui \<Rightarrow> string option \<Rightarrow> Rect \<Rightarrow> AppState \<Rightarrow> drawing list" where
  "draw_root E rt host screen s =
     (let r = render_of E rt host screen s;
          (header_area, tabbar_area, content_area, status_area) = chrome_split r screen
      in (case tabbar_area of
            Some tabs \<Rightarrow> draw_header r header_area @ draw_tabbar r tabs
          | None \<Rightarrow> draw_compact_chrome r header_area) @
         draw_content r content_area @ draw_statusbar r status_area @
         draw_overlay r screen content_area @
         (if ap_confirm s \<noteq> None then draw_confirm r screen else []))"

end
