(* ===== verification/Screen_Safety.thy ===== *)
theory Screen_Safety
  imports Screen
begin

text \<open>
  What reaches the terminal: every string of a frame, from the literals and glyphs through the widgets
  and rows to the whole screen, is free of control characters. The lemmas follow the drawing
  functions bottom up; the last section says which strings the program draws as they come.
\<close>

section \<open>Clean text\<close>

definition clean :: "string \<Rightarrow> bool" where
  "clean s \<longleftrightarrow> \<not> list_ex is_offending s"

definition line_clean :: "Line \<Rightarrow> bool" where
  "line_clean l \<longleftrightarrow> list_all (clean \<circ> fst) l"

lemma clean_simps [simp]:
  "clean []"
  "clean (c # s) \<longleftrightarrow> \<not> is_offending c \<and> clean s"
  "clean (a @ b) \<longleftrightarrow> clean a \<and> clean b"
  "clean (scrub_ctrl s)"
  by (simp_all add: clean_def scrub_ctrl_clean)

lemma clean_set: "clean s \<longleftrightarrow> (\<forall>c\<in>set s. \<not> is_offending c)"
  by (simp add: clean_def list_ex_iff)

lemma clean_literal [simp]: "is_offending (Char b0 b1 b2 b3 b4 b5 b6 b7) \<longleftrightarrow>
    (\<not> b5 \<and> \<not> b6 \<and> \<not> b7 \<and> (b0, b1, b2, b3, b4) \<noteq> (True, False, False, True, False)) \<or>
    (b0 \<and> b1 \<and> b2 \<and> b3 \<and> b4 \<and> b5 \<and> b6 \<and> \<not> b7)"
  by (cases b0; cases b1; cases b2; cases b3; cases b4; cases b5; cases b6; cases b7) (simp_all add: is_offending_def)

lemma clean_spaces [simp]: "clean (spaces n)"
  by (simp add: clean_set spaces_def)

lemma clean_repeat [simp]: "clean s \<Longrightarrow> clean (repeat_str n s)"
  by (auto simp: clean_set repeat_str_def)

lemma clean_digit: "is_ascii_digit c \<Longrightarrow> \<not> is_offending c"
  by (simp add: is_ascii_digit_def is_offending_def)

lemma clean_dec [simp]: "clean (dec n)"
  using dec_digits [of n] by (auto simp: clean_set list_all_iff clean_digit)

lemma clean_replicate [simp]: "clean (replicate n c) \<longleftrightarrow> n = 0 \<or> \<not> is_offending c"
  by (auto simp: clean_set)

lemma clean_fmt_fixed [simp]: "clean (fmt_fixed d x)"
  by (cases x) (simp_all add: fmt_digits_def Let_def)

lemma clean_units: "list_all (clean \<circ> snd) units \<Longrightarrow> clean (units_loop n units)"
  by (induction n units rule: units_loop.induct) (auto simp: Let_def)

lemma clean_human_bytes [simp]: "clean (human_bytes b)" "clean (human_rate b)"
proof -
  have "list_all (clean \<circ> snd) UNITS" by (simp add: UNITS_def)
  then show "clean (human_bytes b)" by (simp add: human_bytes_def clean_units)
  then show "clean (human_rate b)" by (simp add: human_rate_def)
qed

lemma clean_concat: "clean (concat xs) \<longleftrightarrow> list_all clean xs"
  by (induction xs) auto

lemma clean_chars: "list_all clean (str_chars s) \<longleftrightarrow> clean s"
  using clean_concat [of "str_chars s"] by simp

lemma clean_take_chars [simp]: "clean s \<Longrightarrow> clean (take_chars n s)"
  using clean_chars [of s] by (auto simp: take_chars_def clean_concat list_all_iff dest: in_set_takeD)

lemma clean_pad [simp]: "clean (pad_right n s) \<longleftrightarrow> clean s" "clean (pad_left n s) \<longleftrightarrow> clean s"
  by (simp_all add: pad_right_def pad_left_def)

lemma clean_join [simp]: "clean d \<Longrightarrow> list_all clean xs \<Longrightarrow> clean (join d xs)"
  by (induction d xs rule: join.induct) auto

lemma clean_ages [simp]: "clean (format_age n)" "clean (uptime a b)" "clean (format_uptime n)" "clean (watts w)"
  by (simp_all add: format_age_def uptime_def format_uptime_def watts_def Let_def)

lemma clean_utf3 [simp]: "128 \<le> b \<Longrightarrow> b < 256 \<Longrightarrow> 128 \<le> c \<Longrightarrow> c < 256 \<Longrightarrow> clean (utf3 b c)"
  by (simp add: utf3_def is_offending_def byte_of_char_of)

section \<open>Clean glyphs and widgets\<close>

definition glyphs_clean :: "Glyphs \<Rightarrow> bool" where
  "glyphs_clean g \<longleftrightarrow>
     list_all clean [tree_pipe g, tree_gap g, tree_last g, tree_branch g, meter_full g, meter_empty g, sort_desc g,
       sort_asc g, sel_edge g, scroll_thumb g, scroll_track g, st_running g, st_idle g, st_paused g, st_warn g,
       st_dead g, st_unknown g, arrow_up g, arrow_down g, chevron g, sep g, cursor g, conn_local g, conn_remote g,
       conn_down g, gl_ellipsis g, gl_none g, gl_dash g] \<and>
     list_all clean (meter_partials g) \<and> length (meter_partials g) \<in> {0, 7} \<and>
     list_all clean (spark g) \<and> length (spark g) = 8"

lemma glyphs_clean_new [simp]: "glyphs_clean (glyphs_new u)"
  by (simp add: glyphs_clean_def glyphs_new_def UNICODE_def ASCII_def UNICODE_PARTIALS_def UNICODE_SPARK_def ASCII_SPARK_def)

lemma glyphs_cleanD [simp]:
  assumes "glyphs_clean g"
  shows "clean (tree_pipe g)" "clean (tree_gap g)" "clean (tree_last g)" "clean (tree_branch g)" "clean (meter_full g)"
    "clean (meter_empty g)" "clean (sort_desc g)" "clean (sort_asc g)" "clean (sel_edge g)" "clean (scroll_thumb g)"
    "clean (scroll_track g)" "clean (arrow_up g)" "clean (arrow_down g)" "clean (chevron g)" "clean (sep g)"
    "clean (cursor g)" "clean (conn_local g)" "clean (conn_remote g)" "clean (gl_ellipsis g)" "clean (gl_none g)"
    "clean (gl_dash g)" "clean (st_running g)" "clean (st_idle g)" "clean (st_paused g)" "clean (st_warn g)"
    "clean (st_dead g)" "clean (marker level g)"
  using assms by (simp_all add: glyphs_clean_def) (cases level; simp)

lemma line_clean_simps [simp]:
  "line_clean []" "line_clean ((s, st) # l) \<longleftrightarrow> clean s \<and> line_clean l"
  "line_clean (a @ b) \<longleftrightarrow> line_clean a \<and> line_clean b"
  by (simp_all add: line_clean_def)

lemma clean_truncate [simp]: "glyphs_clean g \<Longrightarrow> clean s \<Longrightarrow> clean (glyph_truncate g s n)"
  by (simp add: glyph_truncate_def)

lemma clean_cell [simp]: "glyphs_clean g \<Longrightarrow> clean s \<Longrightarrow> clean (cell s w a g)"
  by (simp add: cell_def Let_def split: Align.split)

lemma clean_push_cells [simp]: "clean s \<Longrightarrow> line_clean (push_cells s n c)"
  by (simp add: push_cells_def)

lemma clean_partial: "glyphs_clean g \<Longrightarrow> meter_partial g e f n = Some p \<Longrightarrow> clean p"
  by (auto simp: meter_partial_def glyphs_clean_def Let_def list_all_length split: if_splits)

lemma clean_fill [simp]: "glyphs_clean g \<Longrightarrow> line_clean (fill_spans p n t g)"
  by (simp add: fill_spans_def Let_def clean_partial split: option.split)

lemma clean_bar [simp]: "glyphs_clean g \<Longrightarrow> clean label \<Longrightarrow> clean info \<Longrightarrow> line_clean (bar_line label n info p w t g)"
  by (simp add: bar_line_def Let_def)

lemma clean_inline [simp]: "glyphs_clean g \<Longrightarrow> line_clean (inline p w t g)"
  by (simp add: inline_def)

lemma clean_spark_level [simp]: "glyphs_clean g \<Longrightarrow> clean (spark_level g v m)"
  by (auto simp: spark_level_def glyphs_clean_def Let_def list_all_length)

lemma line_clean_map: "(\<And>x. x \<in> set xs \<Longrightarrow> clean (fst (f x))) \<Longrightarrow> line_clean (map f xs)"
  by (auto simp: line_clean_def list_all_iff)

lemma clean_spark [simp]: "glyphs_clean g \<Longrightarrow> line_clean (spark_line xs w m tint c t g)"
  by (simp add: spark_line_def Let_def line_clean_map)

lemma clean_line_percent [simp]: "glyphs_clean g \<Longrightarrow> line_clean (line_percent xs w t g)"
  by (simp add: line_percent_def)

lemma clean_chip [simp]: "clean a \<Longrightarrow> clean b \<Longrightarrow> line_clean (chip a b t)"
  by (simp add: chip_def)

lemma clean_position: "position_label a b = Some s \<Longrightarrow> clean s"
  by (auto simp: position_label_def split: if_splits)

definition columns_clean :: "Column list \<Rightarrow> bool" where
  "columns_clean cols \<longleftrightarrow> list_all (clean \<circ> co_label) cols"

definition row_clean :: "Row \<Rightarrow> bool" where
  "row_clean row \<longleftrightarrow> list_all (clean \<circ> ce_text) row"

lemma row_clean_simps [simp]:
  "row_clean []" "row_clean (c # cs) \<longleftrightarrow> clean (ce_text c) \<and> row_clean cs"
  "ce_text (cell_new s) = s" "ce_text (cell_colored s col) = s"
  by (simp_all add: row_clean_def cell_new_def cell_colored_def)

definition empty_clean :: "EmptyState \<Rightarrow> bool" where
  "empty_clean e \<longleftrightarrow> clean (es_title e) \<and> pred_option clean (es_reason e) \<and> pred_option clean (es_remedy e)"

lemma empty_clean_simps [simp]:
  "empty_clean (no_match s) \<longleftrightarrow> clean s" "empty_clean (empty_state s reason) \<longleftrightarrow> clean s \<and> pred_option clean reason"
  "empty_clean (error_state a b c) \<longleftrightarrow> clean a \<and> clean b \<and> clean c" "empty_clean (waiting_state s) \<longleftrightarrow> clean s"
  by (simp_all add: empty_clean_def no_match_def empty_state_def error_state_def waiting_state_def)

lemma clean_empty_lines [simp]: "empty_clean e \<Longrightarrow> list_all line_clean (empty_lines e t)"
  by (auto simp: empty_clean_def empty_lines_def split: option.split)

lemma clean_header:
  assumes "glyphs_clean g" "columns_clean cols" "\<And>i w. (i, w) \<in> set layout \<Longrightarrow> i < length cols"
  shows "line_clean (header_line cols layout sc d t g)"
  unfolding header_line_def Let_def
  by (rule line_clean_map) (use assms in \<open>auto simp: columns_clean_def list_all_length\<close>)

lemma clean_row_line:
  assumes "glyphs_clean g" "row_clean (row_at i)"
  shows "line_clean (row_line t g spec layout row_at i)"
proof -
  have c: "clean (case get_opt (row_at i) j of Some x \<Rightarrow> ce_text x | None \<Rightarrow> [])" for j
    using assms(2) by (auto simp: row_clean_def get_opt_def list_all_length)
  show ?thesis unfolding row_line_def Let_def
    using assms(1) c by (auto intro!: line_clean_map)
qed

definition table_clean :: "table_frame \<Rightarrow> bool" where
  "table_clean tf \<longleftrightarrow> line_clean (tf_header tf) \<and> list_all line_clean (tf_body tf) \<and> list_all line_clean (tf_bar tf)"

lemma clean_scrollbar [simp]: "glyphs_clean g \<Longrightarrow> list_all line_clean (scrollbar_vertical a b c d e t g)"
  by (auto simp: scrollbar_vertical_def Let_def list_all_iff)

lemma clean_draw_table:
  assumes "glyphs_clean g" "columns_clean (sp_columns spec)" "empty_clean (sp_empty spec)" "\<And>i. row_clean (row_at i)"
    and "draw_table t g w h spec row_at = (scroll, Some tf)"
  shows "table_clean tf"
proof -
  note hd = clean_header [OF assms(1,2) resolve_scrolled_index]
  show ?thesis
    using assms(5) unfolding draw_table_def Let_def
    by (auto simp: table_clean_def assms(1,3) hd clean_row_line [OF assms(1,4)] list_all_iff [of _ "map _ _"]
        split: if_splits)
qed

section \<open>Clean frames\<close>

primrec drawing_clean :: "drawing \<Rightarrow> bool" where
  "drawing_clean (Clear area) \<longleftrightarrow> True"
| "drawing_clean (DrawBlock area b) \<longleftrightarrow> pred_option clean (bk_title b)"
| "drawing_clean (Paragraph area al st ls) \<longleftrightarrow> list_all line_clean ls"
| "drawing_clean (DrawTable area tf) \<longleftrightarrow> table_clean tf"

definition frame_clean :: "drawing list \<Rightarrow> bool" where
  "frame_clean f \<longleftrightarrow> list_all drawing_clean f"

lemma frame_clean_simps [simp]:
  "frame_clean []" "frame_clean (d # f) \<longleftrightarrow> drawing_clean d \<and> frame_clean f"
  "frame_clean (a @ b) \<longleftrightarrow> frame_clean a \<and> frame_clean b"
  "drawing_clean (plain area ls) \<longleftrightarrow> list_all line_clean ls"
  by (simp_all add: frame_clean_def plain_def)

abbreviation rclean :: "Render \<Rightarrow> bool" where
  "rclean r \<equiv> glyphs_clean (r_glyphs r)"

lemma clean_panel [simp]: "pred_option clean (bk_title (panel_block (Some s) f t g)) \<longleftrightarrow> clean s"
  by (simp add: panel_block_def)

lemma clean_titled [simp]: "rclean r \<Longrightarrow> clean (titled r a b) \<longleftrightarrow> clean a \<and> clean b"
  by (simp add: titled_def)

lemma clean_ellipsis [simp]: "rclean r \<Longrightarrow> clean (r_ellipsis r s) \<longleftrightarrow> clean s"
  by (simp add: r_ellipsis_def)

lemma clean_popup [simp]: "clean title \<Longrightarrow> frame_clean (fst (popup r area title))"
  by (simp add: popup_def Let_def)

lemma clean_render_empty [simp]: "empty_clean e \<Longrightarrow> frame_clean (render_empty r area e)"
  by (simp add: render_empty_def)

lemma clean_render_table:
  assumes "rclean r" "columns_clean (sp_columns spec)" "empty_clean (sp_empty spec)" "\<And>i. row_clean (row_at i)"
  shows "frame_clean (render_table r area spec row_at)"
proof (cases "draw_table (r_theme r) (r_glyphs r) (rwidth area) (rheight area) spec row_at")
  case (Pair scroll fr)
  then show ?thesis
    using clean_draw_table [OF assms] by (auto simp: render_table_def split: option.split)
qed

lemma clean_filter_row [simp]:
  "rclean r \<Longrightarrow> clean label \<Longrightarrow> clean (filter_text (r_app r)) \<Longrightarrow> frame_clean (filter_row r area label)"
  by (simp add: filter_row_def draw_filter_bar_def Let_def)

lemma clean_row_or_empty: "(\<And>x. x \<in> set xs \<Longrightarrow> row_clean (f x)) \<Longrightarrow> row_clean (row_or_empty f xs i)"
  by (auto simp: row_or_empty_def get_opt_def)

section \<open>Clean tabs\<close>

lemma columns_clean_all [simp]:
  "columns_clean PROCESS_COLUMNS" "columns_clean NETWORK_COLUMNS" "columns_clean CONTAINER_COLUMNS"
  "columns_clean POD_COLUMNS" "columns_clean NODE_COLUMNS" "columns_clean DEPLOY_COLUMNS"
  "columns_clean (device_columns snap)" "columns_clean PROC_COLUMNS"
  by (simp_all add: columns_clean_def PROCESS_COLUMNS_def NETWORK_COLUMNS_def CONTAINER_COLUMNS_def POD_COLUMNS_def
      NODE_COLUMNS_def DEPLOY_COLUMNS_def device_columns_def DEVICE_COLUMNS_def DEVICE_MEM_COLUMN_def
      PROC_COLUMNS_def memory_label_def col_fixed_def col_flex_def)

lemma clean_labels [simp]:
  "clean (container_state_label cs)" "clean (engine_name ek)" "clean (phase_label ph)" "clean (node_status_debug ns)"
  "clean (strategy_debug ds)" "clean (cluster_kind_debug ck)" "clean (table_vendor_label gv)"
  "clean (table_backend_label gb)" "clean (process_kind_label gk)"
  by ((cases cs; simp), (cases ek; simp), (cases ph; simp), (cases ns; simp), (cases ds; simp), (cases ck; simp),
      (cases gv; simp), (cases gb; simp), (cases gk; simp))

lemma clean_tree_prefix [simp]:
  "glyphs_clean g \<Longrightarrow> clean (tree_prefix (tree_glyphs.truncate g) entries i)"
  by (auto simp: tree_prefix_def Let_def clean_concat list_all_iff tree_glyphs.truncate_def)

lemma clean_process_row:
  "rclean r \<Longrightarrow> pred_option clean pre \<Longrightarrow> row_clean (process_row r pre p)"
  by (cases pre) (simp_all add: process_row_def Let_def)

lemma clean_process_row_at: "rclean r \<Longrightarrow> row_clean (process_row_at r i)"
  by (auto simp: process_row_at_def Let_def clean_process_row intro!: clean_row_or_empty split: option.split)

lemma clean_processes_tab:
  assumes "rclean r" "clean (filter_text (r_app r))"
  shows "frame_clean (draw_processes_tab r area)"
  unfolding draw_processes_tab_def Let_def
  using assms by (auto intro!: clean_render_table clean_process_row_at simp: process_spec_def Let_def)

lemma clean_interface_row: "rclean r \<Longrightarrow> row_clean (interface_row r i)"
  by (simp add: interface_row_def Let_def)

lemma clean_network_graph: "rclean r \<Longrightarrow> frame_clean (network_graph r area ifs)"
  by (auto simp: network_graph_def Let_def split: option.split)

lemma clean_network_tab:
  assumes "rclean r" "clean (filter_text (r_app r))"
  shows "frame_clean (draw_network_tab r area)"
  unfolding draw_network_tab_def Let_def
  using assms by (auto intro!: clean_render_table clean_row_or_empty clean_interface_row clean_network_graph
      simp: network_spec_def network_summary_def Let_def)

lemma clean_container_row: "rclean r \<Longrightarrow> row_clean (container_row r now c)"
  by (simp add: container_row_def Let_def)

lemma clean_container_graph: "rclean r \<Longrightarrow> frame_clean (container_graph r area rows)"
  by (auto simp: container_graph_def Let_def split: option.split)

lemma clean_container_summary: "rclean r \<Longrightarrow> line_clean (container_summary r cs)"
  by (simp add: container_summary_def Let_def)

lemma clean_containers_tab:
  assumes "rclean r" "clean (filter_text (r_app r))"
  shows "frame_clean (draw_containers_tab r area)"
  unfolding draw_containers_tab_def Let_def
  using assms by (auto intro!: clean_render_table clean_row_or_empty clean_container_row clean_container_graph
      simp: container_spec_def clean_container_summary Let_def split: option.split)

lemma clean_pod_row: "rclean r \<Longrightarrow> row_clean (pod_row r p)"
  by (simp add: pod_row_def Let_def split: option.split prod.split)

lemma clean_node_row: "rclean r \<Longrightarrow> list_all clean (nd_roles n) \<Longrightarrow> row_clean (node_row r n)"
  by (simp add: node_row_def node_share_def Let_def split: option.split)

lemma clean_deploy_row: "rclean r \<Longrightarrow> row_clean (deploy_row r d)"
  by (simp add: deploy_row_def Let_def)

lemma cached_rows_set: "set (cached_rows s xs) \<subseteq> set xs"
  by (auto simp: cached_rows_def List.map_filter_def get_opt_def)

lemma clean_subtabs: "list_all (\<lambda>(_, key, label, _). clean key \<and> clean label) views \<Longrightarrow> line_clean (subtabs r views)"
  by (induction views) (auto simp: subtabs_def Let_def)

lemma clean_kube_spec [simp]:
  "sp_columns (kube_spec r cols sc n e) = cols" "sp_empty (kube_spec r cols sc n e) = e"
  "sp_columns (gpu_spec r cols sc n e) = cols" "sp_empty (gpu_spec r cols sc n e) = e"
  by (simp_all add: kube_spec_def gpu_spec_def Let_def)

lemma clean_pods: "rclean r \<Longrightarrow> frame_clean (draw_pods r a snap)"
  unfolding draw_pods_def Let_def
  by (rule clean_render_table) (simp_all add: clean_row_or_empty clean_pod_row)

lemma clean_deployments: "rclean r \<Longrightarrow> frame_clean (draw_deployments r a snap)"
  unfolding draw_deployments_def Let_def
  by (rule clean_render_table) (simp_all add: clean_row_or_empty clean_deploy_row)

lemma clean_nodes:
  assumes "rclean r" "\<And>n. n \<in> set (ks_nodes snap) \<Longrightarrow> list_all clean (nd_roles n)"
  shows "frame_clean (draw_nodes r a snap)"
proof -
  have "row_clean (node_row r n)" if "n \<in> set (cached_rows s (ks_nodes snap))" for n s
    by (rule clean_node_row [OF assms(1) assms(2)]) (use that cached_rows_set [of s "ks_nodes snap"] in auto)
  then show ?thesis
    unfolding draw_nodes_def Let_def
    by (intro clean_render_table) (simp_all add: assms(1) clean_row_or_empty)
qed

lemma clean_kube_context: "line_clean (kube_context r snap)"
  by (simp add: kube_context_def Let_def split: option.split)

lemma clean_kube_subtabs: "line_clean (kube_subtabs r snap)"
  unfolding kube_subtabs_def Let_def by (rule clean_subtabs) simp

lemma clean_kube_tab:
  assumes "rclean r" "clean (filter_text (r_app r))"
    and "\<And>snap n. snapshot_kube (r_app r) = Some snap \<Longrightarrow> n \<in> set (ks_nodes snap) \<Longrightarrow> list_all clean (nd_roles n)"
  shows "frame_clean (draw_kube_tab r area)"
proof (cases "snapshot_kube (r_app r)")
  case (Some snap)
  then have "frame_clean (draw_nodes r a snap)" for a using clean_nodes [OF assms(1)] assms(3) by blast
  then show ?thesis
    using assms(1,2) Some clean_pods clean_deployments clean_kube_context clean_kube_subtabs
    by (simp add: draw_kube_tab_def Let_def split: KubeSubview.split)
qed (use assms(1) in \<open>simp add: draw_kube_tab_def\<close>)

lemma clean_device_row: "rclean r \<Longrightarrow> row_clean (device_row r d)"
  by (simp add: device_row_def metric_cell_def vram_cell_def power_cell_def codec_cell_def Let_def split: option.split)

lemma clean_proc_row: "rclean r \<Longrightarrow> row_clean (proc_row r p)"
  by (simp add: proc_row_def Let_def split: option.split)

lemma clean_devices: "rclean r \<Longrightarrow> frame_clean (draw_devices r a snap)"
  unfolding draw_devices_def Let_def
  by (rule clean_render_table) (simp_all add: clean_row_or_empty clean_device_row)

lemma clean_procs: "rclean r \<Longrightarrow> frame_clean (draw_procs r a snap)"
  unfolding draw_procs_def Let_def
  using clean_render_table [of r "gpu_spec r PROC_COLUMNS sc n e" "row_or_empty (proc_row r) ps" for sc n e ps]
  by (simp add: clean_row_or_empty clean_proc_row)

lemma clean_gpu_summary: "rclean r \<Longrightarrow> line_clean (gpu_summary r snap)"
  by (simp add: gpu_summary_def Let_def list_all_iff)

lemma clean_gpu_subtabs: "line_clean (gpu_subtabs r snap)"
  unfolding gpu_subtabs_def Let_def by (rule clean_subtabs) simp

lemma clean_gpu_tab:
  assumes "rclean r" "clean (filter_text (r_app r))"
  shows "frame_clean (draw_gpu_tab r area)"
  using assms clean_devices clean_procs clean_gpu_summary clean_gpu_subtabs
  by (simp add: draw_gpu_tab_def Let_def split: option.split GpuSubview.split)

section \<open>Clean overlays\<close>

lemma line_clean_lists [simp]:
  "list_all line_clean xs \<Longrightarrow> list_all line_clean (take n xs)"
  "list_all line_clean xs \<Longrightarrow> list_all line_clean (drop n xs)"
  by (auto simp: list_all_iff dest: in_set_takeD in_set_dropD)

lemma clean_scrolled [simp]: "list_all line_clean ls \<Longrightarrow> list_all line_clean (scrolled k h ls)"
  by (simp add: scrolled_def)

lemma clean_wrap_lines:
  "clean k \<Longrightarrow> list_all (list_all clean) cs \<Longrightarrow> list_all line_clean (wrap_lines t k cs)"
  by (induction t k cs rule: wrap_lines.induct) (simp_all add: clean_concat)

lemma chunks_all: "list_all P xs \<Longrightarrow> list_all (list_all P) (chunks n xs)"
proof (induction n xs rule: chunks.induct)
  case (1 n xs)
  then show ?case
    by (subst chunks.simps) (auto simp: list_all_iff dest: in_set_takeD in_set_dropD)
qed

fun inspector_clean :: "inspector_row \<Rightarrow> bool" where
  "inspector_clean (Kv k v) \<longleftrightarrow> clean k \<and> clean v"
| "inspector_clean (Section s) \<longleftrightarrow> clean s"
| "inspector_clean (Wrapped k v) \<longleftrightarrow> clean k \<and> clean v"
| "inspector_clean (Meter k p l) \<longleftrightarrow> clean k \<and> clean l"

lemma clean_render_row: "rclean r \<Longrightarrow> inspector_clean row \<Longrightarrow> list_all line_clean (render_row r w row)"
  by (cases row) (simp_all add: Let_def clean_wrap_lines chunks_all clean_chars)

definition details_clean :: "(string \<times> inspector_row list) option \<Rightarrow> bool" where
  "details_clean d \<longleftrightarrow> pred_option (\<lambda>(title, rows). clean title \<and> list_all inspector_clean rows) d"

lemma details_clean_map:
  "(\<And>x. v = Some x \<Longrightarrow> clean (fst (f x)) \<and> list_all inspector_clean (snd (f x))) \<Longrightarrow> details_clean (map_option f v)"
  by (cases v) (auto simp: details_clean_def split: prod.split)

lemma clean_dash_or [simp]: "rclean r \<Longrightarrow> (\<And>x. clean (f x)) \<Longrightarrow> clean (dash_or r f v)"
  by (simp add: dash_or_def split: option.split)

lemma clean_debug [simp]: "clean (qos_debug q)" "clean (process_kind_debug k)"
  by ((cases q; simp), (cases k; simp))

lemma clean_process_details:
  assumes "rclean r" "\<And>p. selected_process (r_app r) = Some p \<Longrightarrow> clean (pr_status p)"
  shows "details_clean (process_details r)"
  unfolding process_details_def by (rule details_clean_map) (use assms in simp)

lemma clean_network_details: "rclean r \<Longrightarrow> details_clean (network_details r)"
  unfolding network_details_def by (rule details_clean_map) simp

lemma clean_container_details:
  assumes "rclean r" "\<And>c. c \<in> set (ap_containers_cache (r_app r)) \<Longrightarrow> clean (ct_id c)"
  shows "details_clean (container_details r)"
  unfolding container_details_def
  by (rule details_clean_map) (use assms in \<open>auto simp: Let_def get_opt_def split: if_splits\<close>)

lemma clean_pod_details: "rclean r \<Longrightarrow> clean (fst (pod_details r p)) \<and> list_all inspector_clean (snd (pod_details r p))"
  by (simp add: pod_details_def Let_def split: option.split)

lemma clean_node_details:
  "rclean r \<Longrightarrow> list_all clean (nd_roles n) \<Longrightarrow>
   clean (fst (node_details r n)) \<and> list_all inspector_clean (snd (node_details r n))"
  by (simp add: node_details_def)

lemma clean_deploy_details:
  "rclean r \<Longrightarrow> clean (fst (deploy_details r d)) \<and> list_all inspector_clean (snd (deploy_details r d))"
  by (simp add: deploy_details_def)

lemma clean_device_details: "rclean r \<Longrightarrow> list_all inspector_clean (device_details r d)"
  by (simp add: device_details_def Let_def split: option.split)

lemma get_opt_mem: "get_opt xs i = Some x \<Longrightarrow> x \<in> set xs"
  by (auto simp: get_opt_def split: if_splits)

lemma get_opt_filter: "get_opt (filter P xs) i = Some x \<Longrightarrow> x \<in> set xs"
  by (drule get_opt_mem) simp

lemma clean_kube_details:
  assumes "rclean r"
    and "\<And>snap n. snapshot_kube (r_app r) = Some snap \<Longrightarrow> n \<in> set (ks_nodes snap) \<Longrightarrow> list_all clean (nd_roles n)"
  shows "details_clean (kube_details r)"
proof (cases "snapshot_kube (r_app r)")
  case (Some snap)
  have "list_all clean (nd_roles n)" if "get_opt (filter P (ks_nodes snap)) i = Some n" for P i n
    using assms(2) [OF Some] get_opt_filter [OF that] by simp
  then show ?thesis
    using assms(1) unfolding kube_details_def Some option.case Let_def
    by (auto intro!: details_clean_map clean_pod_details clean_node_details clean_deploy_details split: KubeSubview.split)
qed (simp add: kube_details_def details_clean_def)

lemma clean_gpu_details:
  assumes "rclean r" shows "details_clean (gpu_details r)"
  using assms unfolding gpu_details_def Let_def
  by (auto intro!: details_clean_map clean_device_details simp: details_clean_def [of None]
      split: option.split GpuSubview.split)

lemma popup_clean: "popup r area title = (fr, inner) \<Longrightarrow> clean title \<Longrightarrow> frame_clean fr"
  using clean_popup [of title r area] by simp

lemma clean_inspector:
  assumes "rclean r" "details_clean (details r)"
  shows "frame_clean (draw_inspector r screen area)"
proof (cases "details r")
  case (Some d)
  obtain title rows where d: "d = (title, rows)" by force
  with Some assms(2) have c: "clean title" "list_all inspector_clean rows" by (auto simp: details_clean_def)
  then have "list_all line_clean (concat (map (render_row r w) rows))" for w
    using clean_render_row [OF assms(1)] by (induction rows) auto
  with c(1) show ?thesis
    by (auto simp: draw_inspector_def Some d Let_def split: prod.split dest: popup_clean)
qed (simp add: draw_inspector_def)

lemma bindings_clean: "list_all (\<lambda>b. clean (b_display b) \<and> clean (b_label b)) BINDINGS"
  by (simp add: bindings_defs bind_def)

lemma clean_binding: "b \<in> set BINDINGS \<Longrightarrow> clean (b_display b) \<and> clean (b_label b)"
  using bindings_clean by (auto simp: list_all_iff)

lemma clean_tab_actions: "(key, label, act) \<in> set (tab_actions s) \<Longrightarrow> clean key \<and> clean label"
  by (auto simp: tab_actions_def for_tab_def clean_binding)

lemma clean_hints: "(key, label) \<in> set (hints tab remote) \<Longrightarrow> clean key \<and> clean label"
  by (auto simp: hints_def Let_def clean_binding)

lemma clean_tab_label [simp]: "clean (tab_label tab)"
  by (cases tab) simp_all

lemma clean_action_line: "rclean r \<Longrightarrow> clean key \<Longrightarrow> clean label \<Longrightarrow> line_clean (action_line r w sel key label)"
  by (simp add: action_line_def Let_def)

lemma frame_clean_map: "(\<And>x. x \<in> set xs \<Longrightarrow> drawing_clean (f x)) \<Longrightarrow> frame_clean (map f xs)"
  by (auto simp: frame_clean_def list_all_iff)

lemma set_enumerate_take: "(i, x) \<in> set (enumerate 0 (take n xs)) \<Longrightarrow> x \<in> set xs"
  by (auto simp: in_set_enumerate_eq dest!: nth_mem intro: in_set_takeD)

lemma clean_actions:
  assumes "rclean r" shows "frame_clean (draw_actions r screen)"
proof -
  have "frame_clean (map (\<lambda>(i, (key, label, act)). plain (a i) [action_line r w (i = k) key label])
      (enumerate 0 (take n (tab_actions s))))" for a w k n s
    by (rule frame_clean_map)
      (auto dest!: set_enumerate_take clean_tab_actions intro!: clean_action_line assms)
  then show ?thesis
    using assms by (auto simp: draw_actions_def Let_def split: prod.split dest!: popup_clean)
qed

lemma clean_command [simp]: "clean (command_label cmd)" "clean (shortcut cmd)"
  by (cases cmd; simp)+

lemma clean_runs:
  "list_all clean chs \<Longrightarrow> clean run \<Longrightarrow> list_all (clean \<circ> fst) (highlight_runs chs q run hit)"
  by (induction chs q run hit rule: highlight_runs.induct) (auto simp: Let_def)

lemma clean_result_line: "rclean r \<Longrightarrow> line_clean (result_line r cmd sel w)"
proof -
  assume r: "rclean r"
  have "line_clean (map (\<lambda>(run, hit). (run, if hit then a else b)) (highlight_runs (str_chars s) q [] False))"
    if "clean s" for a b s q
  proof (rule line_clean_map)
    fix x assume x: "x \<in> set (highlight_runs (str_chars s) q [] False)"
    from clean_runs [of "str_chars s" "[]" q False] that
    have "list_all (clean \<circ> fst) (highlight_runs (str_chars s) q [] False)" by (simp add: clean_chars)
    with x show "clean (fst (case x of (run, hit) \<Rightarrow> (run, if hit then a else b)))"
      by (auto simp: list_all_iff split: prod.split)
  qed
  then show ?thesis using r by (simp add: result_line_def Let_def)
qed

lemma clean_palette:
  assumes "rclean r" "clean (pal_input (ap_palette (r_app r)))" "pred_option clean (pal_arg (ap_palette (r_app r)))"
  shows "frame_clean (draw_palette r screen)"
proof -
  have "line_clean (palette_input r)"
    using assms by (auto simp: palette_input_def Let_def split: option.split)
  moreover have "frame_clean (palette_results r area)" for area
    unfolding palette_results_def Let_def
    by (auto intro!: frame_clean_map clean_result_line assms)
  ultimately show ?thesis
    using assms(1) by (auto simp: draw_palette_def palette_hint_def Let_def split: prod.split dest!: popup_clean)
qed

lemma clean_replace_char: "clean s \<Longrightarrow> clean rep \<Longrightarrow> clean (replace_char c rep s)"
  using clean_chars [of s] by (auto simp: replace_char_def clean_concat list_all_iff)

lemma clean_binding_line: "clean keys \<Longrightarrow> clean label \<Longrightarrow> line_clean (binding_line r keys label)"
  by (simp add: binding_line_def Let_def clean_replace_char)

lemma clean_help_loop:
  "set bs \<subseteq> set BINDINGS \<Longrightarrow> list_all (\<lambda>(k, l, _). clean k \<and> clean l) (help_loop scope bs seen)"
proof (induction scope bs seen rule: help_loop.induct)
  case (2 scope b bs seen)
  have "list_all clean (map b_display (filter P BINDINGS))" for P
    using clean_binding by (auto simp: list_all_iff)
  then show ?case using 2 clean_binding by simp
qed simp

lemma clean_help_rows: "list_all (\<lambda>(k, l, _). clean k \<and> clean l) (help_rows tab scope)"
  unfolding help_rows_def by (rule clean_help_loop) auto

lemma clean_rows_lines:
  "list_all (\<lambda>(k, l, _). clean k \<and> clean l) rows \<Longrightarrow>
   list_all line_clean (map (\<lambda>(keys, label, _). binding_line r keys label) rows)"
  by (auto simp: list_all_iff clean_binding_line)

lemma clean_help_group:
  "list_all (\<lambda>(k, l, _). clean k \<and> clean l) rows \<Longrightarrow> list_all line_clean (help_group r rows grp)"
proof -
  assume "list_all (\<lambda>(k, l, _). clean k \<and> clean l) rows"
  then have "list_all (\<lambda>(k, l, _). clean k \<and> clean l) (filter P rows)" for P by (auto simp: list_all_iff)
  then have "list_all line_clean (map (\<lambda>(keys, label, _). binding_line r keys label) (filter P rows))" for P
    by (rule clean_rows_lines)
  moreover have "clean (group_title grp)" by (cases grp) simp_all
  ultimately show ?thesis by (simp add: help_group_def heading_def Let_def)
qed

lemma clean_sections:
  assumes "rclean r" shows "list_all line_clean (fst (sections r)) \<and> list_all line_clean (snd (sections r))"
  using assms clean_help_group [OF clean_help_rows] clean_rows_lines [OF clean_help_rows]
  by (simp add: sections_def heading_def Let_def)

lemma clean_column: "list_all line_clean ls \<Longrightarrow> frame_clean (render_column area ls k)"
  by (simp add: render_column_def)

lemma clean_ascii_safe: "rclean r \<Longrightarrow> line_clean l \<Longrightarrow> line_clean (ascii_safe r l)"
  by (auto simp: ascii_safe_def line_clean_def list_all_iff clean_replace_char)

lemma clean_help:
  assumes "rclean r" shows "frame_clean (draw_help r screen)"
proof -
  obtain left right where s: "sections r = (left, right)" by force
  with clean_sections [OF assms] have "list_all line_clean left" "list_all line_clean right" by simp_all
  then show ?thesis
    using assms
    by (auto simp: draw_help_def s PKG_VERSION_def Let_def clean_column clean_ascii_safe split: prod.split dest!: popup_clean)
qed

lemma clean_log:
  assumes "rclean r" "list_all (clean \<circ> to_text) (nt_log (ap_notifier (r_app r)))"
  shows "frame_clean (draw_log r screen)"
proof -
  have "list_all line_clean (map (\<lambda>toast. [(marker (to_level toast) (r_glyphs r) @ '' '', a toast), (to_text toast, b)])
      (take n (drop k (rev (nt_log (ap_notifier (r_app r)))))))" for a b n k
    using assms by (auto simp: list_all_iff dest!: in_set_takeD in_set_dropD)
  then show ?thesis
    using assms(1) by (auto simp: draw_log_def Let_def split: prod.split dest!: popup_clean)
qed

fun confirm_id :: "ConfirmAction \<Rightarrow> string" where
  "confirm_id (ConfirmStopContainer i name) = i"
| "confirm_id (ConfirmKillContainer i name) = i"
| "confirm_id (ConfirmRestartContainer i name) = i"
| "confirm_id _ = []"

lemma clean_short_id: "clean i \<Longrightarrow> clean (short_id i)"
  by (simp add: short_id_def)

lemma clean_prompt: "clean (confirm_id a) \<Longrightarrow> clean (prompt a)"
proof (cases a)
  case (ConfirmKill x1 x2 x3)
  then show ?thesis by (cases x3) simp_all
qed (simp_all add: clean_short_id)

lemma clean_confirm:
  assumes "rclean r" "pred_option (clean \<circ> confirm_id) (ap_confirm (r_app r))"
  shows "frame_clean (draw_confirm r screen)"
  using assms by (auto simp: draw_confirm_def Let_def clean_prompt panel_block_def split: option.split)

section \<open>Clean dashboard\<close>

lemma clean_draw_panel:
  "clean title \<Longrightarrow> (\<And>inner. frame_clean (content inner)) \<Longrightarrow> frame_clean (draw_panel r area title content)"
  by (simp add: draw_panel_def Let_def)

lemma clean_core_bars:
  "rclean r \<Longrightarrow> list_all (clean \<circ> core_label) cs \<Longrightarrow> list_all line_clean (map (core_bar r w) cs)"
  by (auto simp: list_all_iff core_bar_def)

lemma clean_cpu:
  assumes "rclean r" "list_all (clean \<circ> core_label) (cores (ss_cpu sys))"
  shows "frame_clean (draw_cpu r area sys)"
proof -
  have "list_all (clean \<circ> core_label) (take n (cores (ss_cpu sys)))" "list_all (clean \<circ> core_label) (drop n (cores (ss_cpu sys)))" for n
    using assms(2) by (auto simp: list_all_iff dest: in_set_takeD in_set_dropD)
  then show ?thesis
    unfolding draw_cpu_def using clean_core_bars [OF assms(1)] assms(2)
    by (intro clean_draw_panel) (auto simp: Let_def take_map [symmetric])
qed

lemma clean_memory: "rclean r \<Longrightarrow> frame_clean (draw_memory r area sys)"
  unfolding draw_memory_def by (rule clean_draw_panel) (simp_all add: mem_bar_def Let_def)

lemma clean_load: "rclean r \<Longrightarrow> frame_clean (draw_load r area sys)"
  unfolding draw_load_def Let_def
  by (rule clean_draw_panel) (auto simp: list_all_iff dest!: in_set_takeD)

lemma clean_network_panel: "rclean r \<Longrightarrow> frame_clean (draw_network_panel r area)"
  by (simp add: draw_network_panel_def Let_def split: option.split)

lemma clean_top_processes: "rclean r \<Longrightarrow> frame_clean (draw_top_processes r area sys)"
  unfolding draw_top_processes_def Let_def
  by (rule clean_draw_panel) (simp_all add: list_all_iff)

lemma clean_summary_row [simp]: "line_clean (summary_row r a b l) \<longleftrightarrow> clean a \<and> clean b"
  by (simp add: summary_row_def)

lemma clean_device_summary [simp]: "glyphs_clean g \<Longrightarrow> clean (device_summary d g)"
  by (simp add: device_summary_def Let_def split: option.split)

lemma clean_cards:
  assumes "rclean r"
  shows "line_clean (containers_card r cs)" "line_clean (kube_card r ks)" "line_clean (gpu_card r gs)"
  using assms by (simp_all add: containers_card_def kube_card_def gpu_card_def Let_def split: option.split list.split)

lemma clean_workloads: "rclean r \<Longrightarrow> frame_clean (draw_workloads r area sys)"
  unfolding draw_workloads_def Let_def
  by (rule clean_draw_panel) (simp_all add: clean_cards)

lemma clean_general_tab:
  assumes "rclean r"
    and "\<And>sys. ap_last_snapshot (r_app r) = Some sys \<Longrightarrow> list_all (clean \<circ> core_label) (cores (ss_cpu sys))"
  shows "frame_clean (draw_general_tab r area)"
proof (cases "ap_last_snapshot (r_app r)")
  case (Some sys)
  then show ?thesis
    using assms clean_cpu [OF assms(1)]
    by (simp add: draw_general_tab_def Let_def clean_memory clean_load clean_network_panel clean_top_processes clean_workloads)
qed (use assms(1) in \<open>simp add: draw_general_tab_def\<close>)

section \<open>Clean chrome\<close>

lemma clean_addr_port: "clean a \<Longrightarrow> clean (addr_port a)"
  by (auto simp: addr_port_def clean_set dest: set_takeWhileD)

lemma clean_chrome_line [simp]: "drawing_clean (chrome_line r area l) \<longleftrightarrow> line_clean l"
  by (simp add: chrome_line_def)

definition connection_clean :: "string option \<Rightarrow> ConnectionMode \<Rightarrow> bool" where
  "connection_clean host mode \<longleftrightarrow>
     (case mode of Local \<Rightarrow> pred_option clean host | Remote hostname addr \<Rightarrow> clean addr)"

lemma clean_connection:
  "rclean r \<Longrightarrow> connection_clean (r_host r) (ap_connection_mode (r_app r)) \<Longrightarrow> line_clean (connection_spans r)"
  by (cases "r_host r")
    (auto simp: connection_spans_def connection_clean_def Let_def clean_addr_port unwrap_or_def split: ConnectionMode.splits)

lemma clean_header_vitals: "rclean r \<Longrightarrow> line_clean (header_vitals r sys)"
  by (simp add: header_vitals_def Let_def)

lemma clean_draw_header:
  "rclean r \<Longrightarrow> connection_clean (r_host r) (ap_connection_mode (r_app r)) \<Longrightarrow> frame_clean (draw_header r area)"
  by (auto simp: draw_header_def header_spans_def PKG_VERSION_def Let_def clean_connection clean_header_vitals split: option.split)

lemma clean_tab_number: "clean (tab_number n g)"
proof -
  have "list_all clean SUPERSCRIPTS" by (simp add: SUPERSCRIPTS_def)
  then show ?thesis by (auto simp: tab_number_def get_opt_def unwrap_or_def list_all_length split: option.split)
qed

lemma clean_tab_spans: "line_clean (tab_spans r narrow i tab)"
  by (simp add: tab_spans_def Let_def clean_tab_number split: option.split)

lemma clean_tabbar: "frame_clean (draw_tabbar r area)"
proof -
  have "line_clean (concat (map (\<lambda>(i, tab). tab_spans r b i tab) xs))" for b xs
    by (induction xs) (auto simp: clean_tab_spans)
  then show ?thesis by (simp add: draw_tabbar_def)
qed

lemma clean_compact: "frame_clean (draw_compact_chrome r area)"
  by (simp add: draw_compact_chrome_def Let_def split: option.split)

lemma clean_sort_label [simp]: "clean (sort_label s)"
proof -
  have "clean (net_sort_label a)" "clean (containers_sort_label b)" "clean (gpu_sort_label c)"
    "clean (kube_sort_label d)" "clean (process_sort_label e)" for a b c d e
    by ((cases a; simp), (cases b; simp), (cases c; simp), (cases d; simp), (cases e; simp))
  then show ?thesis by (simp add: sort_label_def split: Tab.split)
qed

lemma clean_state_segments:
  "rclean r \<Longrightarrow> clean (filter_text (r_app r)) \<Longrightarrow> list_all clean (state_segments r)"
  by (auto simp: state_segments_def Let_def clean_position split: option.split)

lemma clean_push: "line_clean (fst st) \<Longrightarrow> clean (fst sp) \<Longrightarrow> line_clean (fst (snd (push_span w sp st)))"
  by (cases sp) (simp add: push_span_def Let_def)

lemma clean_segment_loop:
  "rclean r \<Longrightarrow> list_all clean segs \<Longrightarrow> line_clean (fst st) \<Longrightarrow> line_clean (fst (segment_loop r w segs st))"
  by (induction r w segs st rule: segment_loop.induct) (auto simp: Let_def clean_push)

lemma clean_hint_loop:
  "list_all (\<lambda>(k, l). clean k \<and> clean l) hs \<Longrightarrow> line_clean (fst st) \<Longrightarrow> line_clean (fst (hint_loop r w hs st))"
proof (induction r w hs st rule: hint_loop.induct)
  case (2 r w key label hs st)
  have a: "line_clean (fst (snd (push_span w ('' '' @ key @ '' '', s) st)))" for s
    using 2 by (intro clean_push) auto
  have b: "line_clean (fst (snd (push_span w (label @ '' '', s') (snd (push_span w ('' '' @ key @ '' '', s) st)))))" for s s'
    using 2 a by (intro clean_push) auto
  show ?case
    using 2 a [of "key_style (r_theme r)"] b [of "key_desc (r_theme r)" "key_style (r_theme r)"]
    by (auto split: prod.split bool.split)
qed simp

lemma clean_statusbar:
  assumes "rclean r" "clean (filter_text (r_app r))" "list_all (clean \<circ> to_text) (nt_active (ap_notifier (r_app r)))"
  shows "frame_clean (draw_statusbar r area)"
proof -
  have "list_all (\<lambda>(k, l). clean k \<and> clean l) (hints a b)" for a b
    using clean_hints by (auto simp: list_all_iff)
  then have "line_clean (status_spans r w)" for w
    unfolding status_spans_def Let_def
    by (intro clean_hint_loop clean_segment_loop clean_state_segments) (use assms in auto)
  moreover have "clean (to_text toast)" if "notifier_latest (ap_notifier (r_app r)) = Some toast" for toast
    using that assms(3) by (auto simp: notifier_latest_def list_all_iff split: if_splits)
  ultimately show ?thesis by (auto simp: draw_statusbar_def Let_def split: option.split)
qed

section \<open>Property\<close>

text \<open>
  What a state may bring to the screen unscrubbed: the text the user typed, the messages of the
  notifier, the local host name and the address of the server, and, of the data an engine or a remote
  server delivers, the core names, the process states, the container ids and the node roles.
\<close>

definition trusted_text :: "string option \<Rightarrow> AppState \<Rightarrow> bool" where
  "trusted_text host s \<longleftrightarrow>
     connection_clean host (ap_connection_mode s) \<and>
     clean (filter_text s) \<and> clean (pal_input (ap_palette s)) \<and> pred_option clean (pal_arg (ap_palette s)) \<and>
     list_all (clean \<circ> to_text) (nt_active (ap_notifier s) @ nt_log (ap_notifier s)) \<and>
     pred_option (clean \<circ> confirm_id) (ap_confirm s) \<and>
     list_all (clean \<circ> pr_status) (ap_visible_processes s @ map fst (ap_visible_tree s)) \<and>
     list_all (clean \<circ> ct_id) (ap_containers_cache s) \<and>
     pred_option (\<lambda>sys. list_all (clean \<circ> core_label) (cores (ss_cpu sys)) \<and>
       pred_option (\<lambda>k. list_all (\<lambda>n. list_all clean (nd_roles n)) (ks_nodes k)) (ss_kube sys)) (ap_last_snapshot s)"

lemma trusted_roles:
  "trusted_text host s \<Longrightarrow> snapshot_kube s = Some snap \<Longrightarrow> n \<in> set (ks_nodes snap) \<Longrightarrow> list_all clean (nd_roles n)"
  by (cases "ap_last_snapshot s") (auto simp: trusted_text_def snapshot_kube_def list_all_iff)

lemma trusted_status:
  assumes "trusted_text host s" "selected_process s = Some p" shows "clean (pr_status p)"
proof -
  have "p \<in> set (ap_visible_processes s) \<or> p \<in> fst ` set (ap_visible_tree s)"
  proof (cases "ap_tree_mode s")
    case True
    then obtain e where "get_opt (ap_visible_tree s) (ap_selected s) = Some e" "p = fst e"
      using assms(2) by (auto simp: selected_process_def)
    then show ?thesis by (auto dest: get_opt_mem)
  qed (use assms(2) in \<open>auto simp: selected_process_def dest: get_opt_mem\<close>)
  then show ?thesis using assms(1) by (auto simp: trusted_text_def list_all_iff)
qed

lemma clean_details:
  assumes "trusted_text host (r_app r)" "rclean r" shows "details_clean (details r)"
proof -
  have "clean (ct_id c)" if "c \<in> set (ap_containers_cache (r_app r))" for c
    using that assms(1) by (auto simp: trusted_text_def list_all_iff)
  then show ?thesis
    using clean_process_details [OF assms(2) trusted_status [OF assms(1)]]
      clean_kube_details [OF assms(2) trusted_roles [OF assms(1)]] assms(2)
    by (simp add: details_def clean_network_details clean_container_details clean_gpu_details split: Tab.split)
qed

lemma clean_draw_content:
  assumes "trusted_text host (r_app r)" "rclean r" shows "frame_clean (draw_content r area)"
proof -
  have f: "clean (filter_text (r_app r))" using assms(1) by (simp add: trusted_text_def)
  have c: "list_all (clean \<circ> core_label) (cores (ss_cpu sys))" if "ap_last_snapshot (r_app r) = Some sys" for sys
    using that assms(1) by (simp add: trusted_text_def)
  show ?thesis
    using clean_general_tab [OF assms(2) c] clean_kube_tab [OF assms(2) f trusted_roles [OF assms(1)]]
      clean_processes_tab [OF assms(2) f] clean_network_tab [OF assms(2) f] clean_containers_tab [OF assms(2) f]
      clean_gpu_tab [OF assms(2) f]
    by (simp add: draw_content_def split: Tab.split)
qed

lemma clean_draw_overlay:
  assumes "trusted_text host (r_app r)" "rclean r" shows "frame_clean (draw_overlay r screen area)"
proof -
  have p: "clean (pal_input (ap_palette (r_app r)))" "pred_option clean (pal_arg (ap_palette (r_app r)))"
    and l: "list_all (clean \<circ> to_text) (nt_log (ap_notifier (r_app r)))"
    using assms(1) by (simp_all add: trusted_text_def)
  show ?thesis
    using clean_palette [OF assms(2) p] clean_log [OF assms(2) l] clean_inspector [OF assms(2) clean_details [OF assms]]
    by (simp add: draw_overlay_def clean_help clean_actions assms(2) split: Overlay.split)
qed

text \<open>
  C17. Nothing drawn carries a control character: whatever tab, sub-view or overlay is open and
  whatever the snapshot holds, every string of the frame is free of the bytes a terminal would obey,
  provided those few strings that reach the screen unscrubbed are.
\<close>

theorem screen_free_of_control_characters:
  assumes "trusted_text host s"
  shows "frame_clean (draw_root E rt host screen s)"
proof -
  let ?r = "render_of E rt host screen s"
  have r: "r_app ?r = s" "r_host ?r = host" and g: "rclean ?r" by (simp_all add: render_of_def)
  then have tr: "trusted_text host (r_app ?r)" using assms by simp
  have t: "connection_clean (r_host ?r) (ap_connection_mode (r_app ?r))" "clean (filter_text (r_app ?r))"
    "list_all (clean \<circ> to_text) (nt_active (ap_notifier (r_app ?r)))" "pred_option (clean \<circ> confirm_id) (ap_confirm (r_app ?r))"
    using assms by (simp_all add: trusted_text_def r)
  note parts = clean_draw_content [OF tr g] clean_draw_overlay [OF tr g]
    clean_statusbar [OF g t(2,3)] clean_draw_header [OF g t(1)] clean_confirm [OF g t(4)]
  show ?thesis
    unfolding draw_root_def Let_def
    by (simp add: parts clean_tabbar clean_compact split: prod.split option.split)
qed

definition hostile_state :: AppState where
  "hostile_state =
     (app_new \<lparr>calls = [], errno = 0\<rparr>)
       \<lparr>ap_tab := TProcesses, ap_connection_mode := Remote (CHR 0x1B # '']0;owned'') ''10.0.0.1:4242'',
        ap_visible_processes :=
          [\<lparr>pr_pid = 7, pr_parent_pid = None, pr_name = [CHR 0x1B], pr_command = CHR 0x1B # ''[2J'', pr_user = [CHR 0x07],
            pr_cpu_percent = Fin 1, pr_memory_bytes = 1, pr_memory_percent = Fin 1, pr_status = ''Running''\<rparr>]\<rparr>"

text \<open>A server and a process that try to drive the terminal.\<close>

theorem screen_free_of_control_characters_witness:
  "trusted_text None hostile_state \<and> (\<forall>E rt screen. frame_clean (draw_root E rt None screen hostile_state))"
proof -
  have "trusted_text None hostile_state"
    by (simp add: trusted_text_def hostile_state_def app_new_def connection_clean_def filter_text_def palette_new_def notifier_new_def)
  then show ?thesis using screen_free_of_control_characters by blast
qed

end
