(* ===== verification/App_Invariants.thy ===== *)
theory App_Invariants
  imports App
begin

text \<open>
  Invariants of the terminal client: the cached views agree with the state they are derived from, the
  process selection stays inside the table, nothing is signalled or handed to an engine without the
  confirmation of a dialog on screen, and a client of a remote server never does either.
\<close>

section \<open>Inputs\<close>

text \<open>What reaches the client: a turn of its loop at some instant, or the answer to a spawned task.\<close>

datatype input = Turn instant bool Event | Answer nat answer

definition at_instant :: "env \<Rightarrow> instant \<Rightarrow> bool \<Rightarrow> env" where
  "at_instant E now stdout_ok = E\<lparr>e_now := now, e_stdout_ok := stdout_ok\<rparr>"

primrec app_step :: "env \<Rightarrow> input \<Rightarrow> AppState \<Rightarrow> AppState" where
  "app_step E (Turn now ok ev) s = snd (turn (at_instant E now ok) ev s)"
| "app_step E (Answer i ans) s = finish_task E i ans s"

lemma at_instant_simps [simp]:
  "e_ulc (at_instant E now ok) = e_ulc E" "e_usort (at_instant E now ok) = e_usort E"
  "e_kernel (at_instant E now ok) = e_kernel E" "e_score (at_instant E now ok) = e_score E"
  by (simp_all add: at_instant_def)

section \<open>Control state\<close>

text \<open>The part of the state that decides who may act, and the effects so far.\<close>

definition ctl :: "AppState \<Rightarrow> ConnectionMode \<times> ConfirmAction option \<times> os \<times> task list \<times> Overlay \<times> PaletteState" where
  "ctl s = (ap_connection_mode s, ap_confirm s, ap_os s, ap_tasks s, ap_overlay s, ap_palette s)"

named_theorems ctl_simps \<open>operations that leave the control state alone\<close>

lemma ctl_eqD:
  assumes "ctl s = ctl t"
  shows "ap_connection_mode s = ap_connection_mode t" "ap_confirm s = ap_confirm t" "ap_os s = ap_os t"
    "ap_tasks s = ap_tasks t" "ap_overlay s = ap_overlay t" "ap_palette s = ap_palette t" "is_remote s = is_remote t"
  using assms by (simp_all add: ctl_def is_remote_def)

lemma ctl_leaf [ctl_simps]:
  "ctl (mark_dirty s) = ctl s" "ctl (notify E l m s) = ctl s" "ctl (tick s) = ctl s" "ctl (quit s) = ctl s"
  "ctl (recompute_kube_view E s) = ctl s" "ctl (recompute_containers_view E s) = ctl s"
  "ctl (switch_gpu_subview gv s) = ctl s" "ctl (push_container c s) = ctl s"
  "ctl (s\<lparr>ap_tab := t\<rparr>) = ctl s" "ctl (s\<lparr>ap_theme_kind := k\<rparr>) = ctl s" "ctl (s\<lparr>ap_paused := b\<rparr>) = ctl s"
  "ctl (s\<lparr>ap_col_scroll := n\<rparr>) = ctl s" "ctl (s\<lparr>ap_overlay_scroll := n\<rparr>) = ctl s"
  "ctl (s\<lparr>ap_actions_selected := n\<rparr>) = ctl s" "ctl (s\<lparr>ap_notifier := nt\<rparr>) = ctl s"
  "ctl (s\<lparr>ap_net_sort_field := nf\<rparr>) = ctl s" "ctl (s\<lparr>ap_term_caps := tc\<rparr>) = ctl s"
  "ctl (s\<lparr>ap_stdout := so\<rparr>) = ctl s" "ctl (s\<lparr>ap_needs_redraw := b\<rparr>) = ctl s" "ctl (s\<lparr>ap_action_rx := rx\<rparr>) = ctl s"
  "ctl (s\<lparr>ap_last_snapshot := ls\<rparr>) = ctl s" "ctl (s\<lparr>ap_network_history := nh\<rparr>) = ctl s"
  "ctl (s\<lparr>ap_sort_field := sf\<rparr>) = ctl s" "ctl (s\<lparr>ap_containers_sort_field := cf\<rparr>) = ctl s"
  "ctl (s\<lparr>ap_last_filter_change := fc\<rparr>) = ctl s"
  by (simp_all add: ctl_def mark_dirty_def notify_def tick_def quit_def recompute_kube_view_def
      recompute_containers_view_def switch_gpu_subview_def push_container_def Let_def)

lemma ctl_by_tab [ctl_simps]:
  "ctl (set_sel_off so s) = ctl s" "ctl (set_filter_editing b s) = ctl s" "ctl (set_filter_text x s) = ctl s"
  by (simp_all add: ctl_def set_sel_off_def set_filter_editing_def set_filter_text_def split: Tab.split)

lemma ctl_recompute [ctl_simps]: "ctl (recompute_visible E s) = ctl s" "ctl (recompute_visible_debounced E s) = ctl s"
proof -
  show "ctl (recompute_visible E s) = ctl s" for s
    by (simp add: ctl_def recompute_visible_def Let_def split: option.split)
  then show "ctl (recompute_visible_debounced E s) = ctl s"
    by (simp add: recompute_visible_debounced_def Let_def ctl_simps)
qed

lemma ctl_switch_kube [ctl_simps]: "ctl (switch_kube_subview E sv s) = ctl s"
  unfolding switch_kube_subview_def ctl_simps by (simp add: ctl_def)

lemma ctl_refilter [ctl_simps]: "ctl (refilter_tab E imm s) = ctl s"
  by (simp add: refilter_tab_def ctl_simps split: Tab.split)

lemma ctl_filter [ctl_simps]:
  "ctl (after_filter_change E imm s) = ctl s" "ctl (clear_filter E s) = ctl s" "ctl (set_filter E x s) = ctl s"
  by (simp_all add: after_filter_change_def clear_filter_def set_filter_def Let_def ctl_simps)

lemma ctl_filter_key [ctl_simps]: "ctl (handle_filter_key E code mods s) = ctl s"
  by (simp add: handle_filter_key_def ctl_simps split: KeyCode.split)

lemma ctl_sorts [ctl_simps]:
  "ctl (set_process_sort E f s) = ctl s" "ctl (set_container_sort E g s) = ctl s"
  by (simp_all add: set_process_sort_def set_container_sort_def ctl_simps)

lemma ctl_cycle_sort [ctl_simps]: "ctl (cycle_sort E s) = ctl s"
proof -
  have "ctl (s\<lparr>ap_kube_sort_field := a, ap_kube_selected := b, ap_kube_scroll_offset := c\<rparr>) = ctl s"
    "ctl (s\<lparr>ap_gpu_sort_field := d, ap_gpu_selected := b, ap_gpu_scroll_offset := c\<rparr>) = ctl s" for a b c d
    by (simp_all add: ctl_def)
  then show ?thesis by (simp add: cycle_sort_def ctl_simps split: Tab.split)
qed

lemma ctl_reverse_sort [ctl_simps]: "ctl (reverse_sort E s) = ctl s"
proof -
  have "ctl (s\<lparr>ap_kube_sort_order := a\<rparr>) = ctl s" "ctl (s\<lparr>ap_net_sort_order := a\<rparr>) = ctl s"
    "ctl (s\<lparr>ap_containers_sort_order := a\<rparr>) = ctl s" "ctl (s\<lparr>ap_gpu_sort_order := a\<rparr>) = ctl s"
    "ctl (s\<lparr>ap_sort_order := a\<rparr>) = ctl s" for a
    by (simp_all add: ctl_def)
  then show ?thesis by (simp add: reverse_sort_def ctl_simps split: Tab.split)
qed

lemma ctl_navigation [ctl_simps]:
  "ctl (go_to_tab t s) = ctl s" "ctl (cycle_subview E d s) = ctl s" "ctl (move_selection E d s) = ctl s"
  "ctl (select_index E i s) = ctl s" "ctl (scroll_rows E d s) = ctl s"
proof -
  show "ctl (go_to_tab t s) = ctl s" by (simp add: go_to_tab_def ctl_def)
  show "ctl (cycle_subview E d s) = ctl s" by (simp add: cycle_subview_def ctl_simps split: Tab.split)
  show "ctl (move_selection E d s) = ctl s" "ctl (select_index E i s) = ctl s" "ctl (scroll_rows E d s) = ctl s"
    by (simp_all add: move_selection_def select_index_def scroll_rows_def Let_def ctl_simps split: prod.split)
qed

lemma ctl_commands [ctl_simps]:
  "ctl (copy_selection E s) = ctl s" "ctl (toggle_pause E s) = ctl s" "ctl (refresh E s) = ctl s"
  "ctl (toggle_tree E s) = ctl s" "ctl (sort_by_name E f s) = ctl s" "ctl (set_theme E n s) = ctl s"
  "ctl (go_to_tab_named E n s) = ctl s" "ctl (kube_command E sv s) = ctl s"
proof -
  show "ctl (copy_selection E s) = ctl s"
    by (simp add: copy_selection_def ctl_simps split: option.split sum.split)
  show "ctl (toggle_pause E s) = ctl s" "ctl (refresh E s) = ctl s"
    by (simp_all add: toggle_pause_def refresh_def Let_def ctl_simps)
  show "ctl (toggle_tree E s) = ctl s"
    unfolding toggle_tree_def ctl_simps by (simp add: ctl_def)
  show "ctl (sort_by_name E f s) = ctl s"
    by (auto simp: sort_by_name_def Let_def ctl_simps split: option.split Tab.split)
  show "ctl (set_theme E n s) = ctl s" "ctl (go_to_tab_named E n s) = ctl s" "ctl (kube_command E sv s) = ctl s"
    by (simp_all add: set_theme_def go_to_tab_named_def kube_command_def Let_def ctl_simps split: option.split sum.split)
qed

lemma ctl_snapshot [ctl_simps]: "ctl (apply_snapshot E snap s) = ctl s"
proof -
  have "ctl (fold push_container cs s) = ctl s" for cs s
    by (induction cs arbitrary: s) (simp_all add: ctl_simps)
  then have "ctl (push_container_history cs s) = ctl s" for cs s
    by (simp add: push_container_history_def Let_def) (simp add: ctl_def)
  then show ?thesis
    by (simp add: apply_snapshot_def Let_def ctl_simps split: option.split)
qed

lemma ctl_pump [ctl_simps]: "ctl (pump_action_results E s) = ctl s"
proof -
  have "ctl (fold (\<lambda>(level, msg). notify E level msg) ms s) = ctl s" for ms s
    by (induction ms arbitrary: s) (auto simp: ctl_simps)
  then show ?thesis by (simp add: pump_action_results_def Let_def ctl_simps)
qed

section \<open>Effects\<close>

text \<open>
  The system calls made and the container actions handed to the engine. A change of the namespace
  scope is a task as well, but it is no destructive one.
\<close>

definition acts :: "AppState \<Rightarrow> os \<times> task list" where
  "acts s = (ap_os s, filter (\<lambda>t. t \<noteq> ToggleScopeTask) (ap_tasks s))"

named_theorems acts_simps \<open>operations that act on nothing outside the client\<close>

lemma ctl_acts: "ctl s = ctl t \<Longrightarrow> acts s = acts t"
  by (simp add: ctl_def acts_def)

lemmas acts_ctl [acts_simps] = ctl_simps [THEN ctl_acts]

lemma acts_control [acts_simps]:
  "acts (s\<lparr>ap_overlay := ov\<rparr>) = acts s" "acts (s\<lparr>ap_palette := pal\<rparr>) = acts s" "acts (s\<lparr>ap_confirm := cf\<rparr>) = acts s"
  by (simp_all add: acts_def)

lemma acts_overlay [acts_simps]:
  "acts (open_overlay ov s) = acts s" "acts (close_overlay s) = acts s" "acts (refilter_palette E s) = acts s"
  "acts (open_palette E s) = acts s" "acts (open_command_line E s) = acts s"
  by (simp_all add: acts_def open_overlay_def close_overlay_def refilter_palette_def open_palette_def
      open_command_line_def open_palette_as_def mark_dirty_def)

lemma acts_requests [acts_simps]:
  "acts (request_kill E sig s) = acts s" "acts (request_renice E d s) = acts s"
  "acts (request_container_action E b s) = acts s" "acts (toggle_kube_scope E s) = acts s"
  "acts (kill_named E n s) = acts s" "acts (container_named E n b s) = acts s"
proof -
  show "acts (request_kill E sig s) = acts s" "acts (request_renice E d s) = acts s"
    "acts (request_container_action E b s) = acts s"
    by (simp_all add: request_kill_def request_renice_def request_container_action_def acts_simps split: option.split)
  show "acts (toggle_kube_scope E s) = acts s"
    by (simp add: toggle_kube_scope_def acts_simps) (simp add: acts_def)
  show "acts (kill_named E n s) = acts s"
    by (simp add: kill_named_def Let_def acts_simps split: list.split)
  show "acts (container_named E n b s) = acts s"
    by (simp add: container_named_def Let_def acts_simps split: option.split)
qed

lemma acts_menus [acts_simps]:
  "acts (open_inspector E s) = acts s" "acts (open_actions_menu E s) = acts s" "acts (go_back E s) = acts s"
  by (simp_all add: open_inspector_def open_actions_menu_def go_back_def acts_simps)

lemma acts_perform [acts_simps]: "acts (perform E a s) = acts s"
  by (cases a) (simp_all add: acts_simps)

lemma acts_dispatch [acts_simps]: "acts (dispatch E a s) = acts s"
  by (simp add: dispatch_def acts_simps)

lemma acts_execute_command [acts_simps]: "acts (execute_command E c s) = acts s"
  by (cases c) (simp_all add: execute_command_def acts_simps)

lemma acts_execute_invocation [acts_simps]: "acts (execute_invocation E c arg s) = acts s"
  by (cases c; cases arg) (simp_all add: execute_invocation_def acts_simps)

lemma acts_keys [acts_simps]:
  "acts (handle_scrollable_overlay_key E code mods s) = acts s" "acts (handle_actions_key E code s) = acts s"
  "acts (handle_palette_key E code mods s) = acts s"
proof -
  show "acts (handle_scrollable_overlay_key E code mods s) = acts s"
    by (simp add: handle_scrollable_overlay_key_def acts_simps)
  show "acts (handle_actions_key E code s) = acts s"
    by (simp add: handle_actions_key_def acts_simps split: option.split)
  show "acts (handle_palette_key E code mods s) = acts s"
    by (simp add: handle_palette_key_def acts_simps split: KeyCode.split option.split)
qed

lemma acts_mouse [acts_simps]: "acts (handle_mouse_event E k s) = acts s"
  by (simp add: handle_mouse_event_def acts_simps split: MouseEventKind.split)

text \<open>What a confirmed action does outside the client.\<close>

fun carried_out :: "env \<Rightarrow> bool \<Rightarrow> ConfirmAction \<Rightarrow> os \<times> task list \<Rightarrow> os \<times> task list" where
  "carried_out E engine (ConfirmKill pid name signal) (world, ts) =
     (snd (kill_process (e_kernel E) pid signal world), ts)"
| "carried_out E engine (ConfirmRenice pid name delta) (world, ts) =
     (case get_process_priority (e_kernel E) pid world of
        (r, world) \<Rightarrow> (snd (renice_process (e_kernel E) pid ((case r of Inr v \<Rightarrow> v | Inl _ \<Rightarrow> 0) + delta) world), ts))"
| "carried_out E engine (ConfirmStopContainer i name) (world, ts) = (world, if engine then ts @ [StopTask i name] else ts)"
| "carried_out E engine (ConfirmKillContainer i name) (world, ts) = (world, if engine then ts @ [KillTask i name] else ts)"
| "carried_out E engine (ConfirmRestartContainer i name) (world, ts) = (world, if engine then ts @ [RestartTask i name] else ts)"

lemma acts_execute_confirm:
  "acts (execute_confirm E a s) = carried_out E (ap_container_engine s) a (acts s)"
proof (cases a)
  case (ConfirmKill pid name signal)
  obtain r world where "kill_process (e_kernel E) pid signal (ap_os s) = (r, world)" by fastforce
  with ConfirmKill show ?thesis
    by (cases r) (simp_all add: execute_kill_def acts_simps acts_def notify_def)
next
  case (ConfirmRenice pid name delta)
  obtain r world where g: "get_process_priority (e_kernel E) pid (ap_os s) = (r, world)" by fastforce
  obtain r' world' where "renice_process (e_kernel E) pid ((case r of Inr v \<Rightarrow> v | Inl _ \<Rightarrow> 0) + delta) world = (r', world')"
    by fastforce
  with ConfirmRenice g show ?thesis
    by (cases r') (simp_all add: execute_renice_def Let_def acts_def notify_def)
qed (simp_all add: spawn_container_task_def acts_def notify_def)

text \<open>The action an event carries out: the one in the dialog, when the key confirms it.\<close>

definition confirmed_by :: "Event \<Rightarrow> AppState \<Rightarrow> ConfirmAction option" where
  "confirmed_by ev s = (case ev of Key code _ \<Rightarrow> if confirms code then ap_confirm s else None | _ \<Rightarrow> None)"

lemma acts_key_event:
  "acts (handle_key_event E code mods s) =
     (if confirms code
      then (case ap_confirm s of Some a \<Rightarrow> carried_out E (ap_container_engine s) a (acts s) | None \<Rightarrow> acts s)
      else acts s)"
proof -
  define t where "t = s\<lparr>ap_notifier := snd (notifier_expire (e_now E) (ap_notifier s))\<rparr>"
  have t: "acts t = acts s" "ap_confirm t = ap_confirm s" "ap_container_engine t = ap_container_engine s"
    by (simp_all add: t_def acts_def)
  have h: "handle_key_event E code mods s =
      (if code = KChar ''c'' \<and> km_control mods then quit t
       else if ap_confirm t \<noteq> None then handle_confirm_key E code t
       else case ap_overlay t of
          OPalette \<Rightarrow> handle_palette_key E code mods t
        | OCommand \<Rightarrow> handle_palette_key E code mods t
        | OHelp \<Rightarrow> handle_scrollable_overlay_key E code mods t
        | OLog \<Rightarrow> handle_scrollable_overlay_key E code mods t
        | OInspector \<Rightarrow> handle_scrollable_overlay_key E code mods t
        | OActions \<Rightarrow> handle_actions_key E code t
        | ONone \<Rightarrow>
            if filter_editing t then handle_filter_key E code mods t
            else mark_dirty (case resolve code mods (ap_tab t) of Some action \<Rightarrow> dispatch E action t | None \<Rightarrow> t))"
    by (simp only: handle_key_event_def t_def Let_def)
  show ?thesis
  proof (cases "code = KChar ''c'' \<and> km_control mods")
    case True
    then show ?thesis unfolding h by (simp add: acts_simps t confirms_def)
  next
    case no_quit: False
    show ?thesis
    proof (cases "ap_confirm s")
      case None
      with no_quit show ?thesis
        by (auto simp: h t acts_simps split: Overlay.split option.split)
    next
      case (Some a)
      then have "handle_key_event E code mods s = handle_confirm_key E code t"
        unfolding h if_not_P [OF no_quit] by (simp add: t)
      then show ?thesis using Some
        by (simp add: handle_confirm_key_def t acts_simps acts_execute_confirm)
    qed
  qed
qed

text \<open>A turn first posts the answers of tasks and clears the redraw flag.\<close>

definition before_event :: "env \<Rightarrow> AppState \<Rightarrow> AppState" where
  "before_event E s = snd (take_needs_redraw (pump_action_results E s))"

lemma turn_cases:
  obtains b where "turn E ev s = (b, if b then tick (snd (handle_event E ev (before_event E s)))
    else snd (handle_event E ev (before_event E s)))"
proof -
  obtain c u where "handle_event E ev (before_event E s) = (c, u)" by fastforce
  then have "turn E ev s = (ap_needs_redraw (pump_action_results E s) \<or> c,
      if ap_needs_redraw (pump_action_results E s) \<or> c then tick u else u)"
    by (simp add: turn_def before_event_def take_needs_redraw_def)
  with \<open>handle_event E ev (before_event E s) = (c, u)\<close> show ?thesis
    by (intro that [of "ap_needs_redraw (pump_action_results E s) \<or> c"]) simp
qed

lemma ctl_before_event [ctl_simps]: "ctl (before_event E s) = ctl s"
  by (simp add: before_event_def take_needs_redraw_def ctl_simps)

lemma engine_before_event: "ap_container_engine (before_event E s) = ap_container_engine s"
proof -
  have n: "ap_container_engine (notify E l m u) = ap_container_engine u" for l m u
    by (simp add: notify_def)
  have "ap_container_engine (fold (\<lambda>(level, msg). notify E level msg) ms u) = ap_container_engine u" for ms u
    by (induction ms arbitrary: u) (simp_all add: n split_beta)
  then have "ap_container_engine (pump_action_results E s) = ap_container_engine s"
    by (cases "ap_action_rx s = []") (simp_all add: pump_action_results_def Let_def mark_dirty_def)
  then show ?thesis by (simp add: before_event_def take_needs_redraw_def)
qed

lemma acts_turn:
  "acts (snd (turn E ev s)) =
     (case confirmed_by ev s of Some a \<Rightarrow> carried_out E (ap_container_engine s) a (acts s) | None \<Rightarrow> acts s)"
proof -
  let ?t = "before_event E s"
  have t: "acts ?t = acts s" "ap_confirm ?t = ap_confirm s"
    by (rule ctl_acts [OF ctl_before_event], rule ctl_eqD(2) [OF ctl_before_event])
  obtain b where "turn E ev s = (b, if b then tick (snd (handle_event E ev ?t)) else snd (handle_event E ev ?t))"
    by (rule turn_cases)
  then have "acts (snd (turn E ev s)) = acts (snd (handle_event E ev ?t))"
    by (simp add: acts_simps)
  also have "\<dots> = (case confirmed_by ev s of
      Some a \<Rightarrow> carried_out E (ap_container_engine s) a (acts s) | None \<Rightarrow> acts s)"
    by (cases ev)
      (simp_all add: confirmed_by_def acts_simps acts_key_event t engine_before_event status_message_just_expired_def
        split: prod.split option.split)
  finally show ?thesis .
qed

section \<open>Caches and selection\<close>

definition kube_rows :: "(string \<Rightarrow> string) \<Rightarrow> AppState \<Rightarrow> nat list" where
  "kube_rows ulc s =
     (case snapshot_kube s of
        Some snap \<Rightarrow>
          compute_view_indices ulc snap (ap_kube_subview s) (ap_kube_filter_input s) (ap_kube_sort_field s) (ap_kube_sort_order s)
      | None \<Rightarrow> [])"

definition container_rows :: "(string \<Rightarrow> string) \<Rightarrow> AppState \<Rightarrow> ContainerSnapshot list" where
  "container_rows ulc s =
     containers_view ulc (ap_containers_filter_input s) (ap_containers_sort_field s) (ap_containers_sort_order s)
       (ap_last_snapshot s)"

definition in_rows :: "nat \<Rightarrow> nat \<Rightarrow> bool" where
  "in_rows i n \<longleftrightarrow> i < n \<or> i = 0"

definition kube_ok :: "(string \<Rightarrow> string) \<Rightarrow> AppState \<Rightarrow> bool" where
  "kube_ok ulc s \<longleftrightarrow> ap_kube_view_cache s = kube_rows ulc s"

definition containers_ok :: "(string \<Rightarrow> string) \<Rightarrow> AppState \<Rightarrow> bool" where
  "containers_ok ulc s \<longleftrightarrow> ap_containers_cache s = container_rows ulc s"

definition rows_in :: "AppState \<Rightarrow> bool" where
  "rows_in s \<longleftrightarrow>
     (ap_last_snapshot s = None \<longrightarrow> ap_visible_processes s = [] \<and> ap_visible_tree s = []) \<and>
     in_rows (ap_selected s) (process_count s) \<and> in_rows (ap_scroll_offset s) (process_count s)"

definition views_ok :: "(string \<Rightarrow> string) \<Rightarrow> AppState \<Rightarrow> bool" where
  "views_ok ulc s \<longleftrightarrow> kube_ok ulc s \<and> containers_ok ulc s \<and> rows_in s"

text \<open>The fields the three are about.\<close>

definition data :: "AppState \<Rightarrow> _" where
  "data s =
     ((ap_last_snapshot s, ap_kube_subview s, ap_kube_filter_input s, ap_kube_sort_field s, ap_kube_sort_order s,
       ap_kube_view_cache s),
      (ap_containers_filter_input s, ap_containers_sort_field s, ap_containers_sort_order s, ap_containers_cache s),
      (ap_visible_processes s, ap_visible_tree s, ap_tree_mode s, ap_selected s, ap_scroll_offset s))"

named_theorems views_simps \<open>operations that leave the views alone\<close>

lemma data_views:
  assumes "data s = data t"
  shows "views_ok ulc s = views_ok ulc t"
  using assms
  by (simp add: data_def views_ok_def kube_ok_def kube_rows_def snapshot_kube_def containers_ok_def container_rows_def
      rows_in_def process_count_def cong: option.case_cong)

lemma data_fields:
  "data (mark_dirty s) = data s" "data (notify E l m s) = data s" "data (tick s) = data s" "data (quit s) = data s"
  "data (switch_gpu_subview gv s) = data s" "data (push_container c s) = data s"
  "data (s\<lparr>ap_tab := t\<rparr>) = data s" "data (s\<lparr>ap_theme_kind := k\<rparr>) = data s" "data (s\<lparr>ap_paused := b\<rparr>) = data s"
  "data (s\<lparr>ap_col_scroll := n\<rparr>) = data s" "data (s\<lparr>ap_overlay_scroll := n\<rparr>) = data s"
  "data (s\<lparr>ap_actions_selected := n\<rparr>) = data s" "data (s\<lparr>ap_notifier := nt\<rparr>) = data s"
  "data (s\<lparr>ap_net_sort_field := nf\<rparr>) = data s" "data (s\<lparr>ap_term_caps := tc\<rparr>) = data s"
  "data (s\<lparr>ap_stdout := so\<rparr>) = data s" "data (s\<lparr>ap_needs_redraw := b\<rparr>) = data s" "data (s\<lparr>ap_action_rx := rx\<rparr>) = data s"
  "data (s\<lparr>ap_network_history := nh\<rparr>) = data s" "data (s\<lparr>ap_last_filter_change := fc\<rparr>) = data s"
  "data (s\<lparr>ap_overlay := ov\<rparr>) = data s" "data (s\<lparr>ap_palette := pal\<rparr>) = data s" "data (s\<lparr>ap_confirm := cf\<rparr>) = data s"
  "data (s\<lparr>ap_os := w\<rparr>) = data s" "data (s\<lparr>ap_tasks := ts\<rparr>) = data s" "data (s\<lparr>ap_sort_field := sf\<rparr>) = data s"
  "data (s\<lparr>ap_sort_order := o'\<rparr>) = data s" "data (s\<lparr>ap_net_sort_order := o'\<rparr>) = data s"
  "data (s\<lparr>ap_gpu_sort_order := o'\<rparr>) = data s" "data (s\<lparr>ap_filter_input := x\<rparr>) = data s"
  "data (s\<lparr>ap_gpu_filter_input := x\<rparr>) = data s" "data (s\<lparr>ap_net_filter_input := x\<rparr>) = data s"
  by (simp_all add: data_def mark_dirty_def notify_def tick_def quit_def switch_gpu_subview_def push_container_def Let_def)

lemma data_handlers:
  "data (set_filter_editing b s) = data s" "data (go_to_tab t s) = data s" "data (open_overlay ov s) = data s"
  "data (close_overlay s) = data s" "data (refilter_palette E s) = data s" "data (open_palette E s) = data s"
  "data (open_command_line E s) = data s" "data (toggle_kube_scope E s) = data s" "data (spawn_container_task E tk s) = data s"
proof -
  show "data (set_filter_editing b s) = data s" by (simp add: set_filter_editing_def data_def split: Tab.split)
  show "data (go_to_tab t s) = data s" by (simp add: go_to_tab_def data_def)
  show "data (open_overlay ov s) = data s" "data (close_overlay s) = data s" "data (refilter_palette E s) = data s"
    "data (open_palette E s) = data s" "data (open_command_line E s) = data s"
    by (simp_all add: open_overlay_def close_overlay_def refilter_palette_def open_palette_def open_command_line_def
        open_palette_as_def mark_dirty_def data_def)
  show "data (toggle_kube_scope E s) = data s" "data (spawn_container_task E tk s) = data s"
    by (simp_all add: toggle_kube_scope_def spawn_container_task_def notify_def data_def)
qed

lemmas views_frame [views_simps] = data_fields [THEN data_views] data_handlers [THEN data_views]

lemma views_requests [views_simps]:
  "views_ok u (request_kill E sig s) = views_ok u s" "views_ok u (request_renice E d s) = views_ok u s"
  "views_ok u (request_container_action E b s) = views_ok u s" "views_ok u (kill_named E n s) = views_ok u s"
  "views_ok u (container_named E n b s) = views_ok u s" "views_ok u (copy_selection E s) = views_ok u s"
  by (simp_all add: request_kill_def request_renice_def request_container_action_def kill_named_def container_named_def
      copy_selection_def Let_def views_simps split: option.split list.split sum.split)

lemma views_confirm [views_simps]: "views_ok u (execute_confirm E a s) = views_ok u s"
  by (cases a) (simp_all add: execute_kill_def execute_renice_def Let_def views_simps split: prod.split sum.split)

lemma views_misc [views_simps]:
  "views_ok u (toggle_pause E s) = views_ok u s" "views_ok u (refresh E s) = views_ok u s"
  "views_ok u (open_inspector E s) = views_ok u s" "views_ok u (open_actions_menu E s) = views_ok u s"
  "views_ok u (set_theme E n s) = views_ok u s" "views_ok u (go_to_tab_named E n s) = views_ok u s"
  by (simp_all add: toggle_pause_def refresh_def open_inspector_def open_actions_menu_def set_theme_def
      go_to_tab_named_def Let_def views_simps split: option.split sum.split)

text \<open>The recomputations establish their part and leave the others.\<close>

lemma recompute_kube_views:
  "e_ulc E = u \<Longrightarrow> kube_ok u (recompute_kube_view E s)"
  "containers_ok u (recompute_kube_view E s) = containers_ok u s" "rows_in (recompute_kube_view E s) = rows_in s"
  by (simp_all add: recompute_kube_view_def kube_ok_def kube_rows_def snapshot_kube_def containers_ok_def container_rows_def
      rows_in_def process_count_def cong: option.case_cong)

lemma recompute_containers_views:
  "e_ulc E = u \<Longrightarrow> containers_ok u (recompute_containers_view E s)"
  "kube_ok u (recompute_containers_view E s) = kube_ok u s" "rows_in (recompute_containers_view E s) = rows_in s"
  by (simp_all add: recompute_containers_view_def kube_ok_def kube_rows_def snapshot_kube_def containers_ok_def
      container_rows_def rows_in_def process_count_def cong: option.case_cong)

lemma recompute_visible_rows:
  assumes "ap_last_snapshot s = None \<Longrightarrow> ap_selected s = 0 \<and> ap_scroll_offset s = 0"
  shows "rows_in (recompute_visible E s)"
proof (cases "ap_last_snapshot s")
  case None
  with assms show ?thesis by (simp add: recompute_visible_def rows_in_def in_rows_def process_count_def)
next
  case (Some snap)
  have "min i (n - 1) < n" if "0 < n" for i n :: nat using that by linarith
  with Some show ?thesis
    by (auto simp: recompute_visible_def Let_def rows_in_def in_rows_def process_count_def)
qed

lemma recompute_visible_others:
  "kube_ok u (recompute_visible E s) = kube_ok u s" "containers_ok u (recompute_visible E s) = containers_ok u s"
proof -
  have d: "fst (data (recompute_visible E s)) = fst (data s) \<and> fst (snd (data (recompute_visible E s))) = fst (snd (data s))"
    by (simp add: recompute_visible_def Let_def data_def split: option.split)
  from d show "kube_ok u (recompute_visible E s) = kube_ok u s"
    by (simp add: data_def kube_ok_def kube_rows_def snapshot_kube_def cong: option.case_cong)
  from d show "containers_ok u (recompute_visible E s) = containers_ok u s"
    by (simp add: data_def containers_ok_def container_rows_def)
qed

lemma rows_in_start: "rows_in s \<Longrightarrow> ap_last_snapshot s = None \<Longrightarrow> ap_selected s = 0 \<and> ap_scroll_offset s = 0"
  by (auto simp: rows_in_def in_rows_def process_count_def split: if_splits)

lemma views_recompute:
  assumes "views_ok u s"
  shows "views_ok u (recompute_visible E s)" "views_ok u (recompute_visible_debounced E s)"
    "e_ulc E = u \<Longrightarrow> views_ok u (recompute_kube_view E s)" "e_ulc E = u \<Longrightarrow> views_ok u (recompute_containers_view E s)"
proof -
  have r: "views_ok u (recompute_visible E s)" if "views_ok u s" for s
    using that recompute_visible_rows [OF rows_in_start, of s E] by (simp add: views_ok_def recompute_visible_others)
  show "views_ok u (recompute_visible E s)" by (rule r [OF assms])
  have "views_ok u (s\<lparr>ap_last_filter_change := fc\<rparr>)" for fc using assms by (simp add: views_simps)
  with r show "views_ok u (recompute_visible_debounced E s)"
    by (simp add: recompute_visible_debounced_def Let_def)
  show "e_ulc E = u \<Longrightarrow> views_ok u (recompute_kube_view E s)" "e_ulc E = u \<Longrightarrow> views_ok u (recompute_containers_view E s)"
    using assms by (simp_all add: views_ok_def recompute_kube_views recompute_containers_views)
qed

text \<open>A change of the kube or container settings followed by the recomputation keeps the rest.\<close>

lemma views_kube_change:
  assumes "views_ok u s" "e_ulc E = u" "containers_ok u s' = containers_ok u s" "rows_in s' = rows_in s"
  shows "views_ok u (recompute_kube_view E s')"
  using assms by (simp add: views_ok_def recompute_kube_views)

lemma views_containers_change:
  assumes "views_ok u s" "e_ulc E = u" "kube_ok u s' = kube_ok u s" "rows_in s' = rows_in s"
  shows "views_ok u (recompute_containers_view E s')"
  using assms by (simp add: views_ok_def recompute_containers_views)

lemmas views_unfold = kube_ok_def kube_rows_def snapshot_kube_def containers_ok_def container_rows_def rows_in_def process_count_def

lemma views_switch_kube: "views_ok u s \<Longrightarrow> e_ulc E = u \<Longrightarrow> views_ok u (switch_kube_subview E sv s)"
  unfolding switch_kube_subview_def by (erule views_kube_change) (simp_all add: views_unfold)

lemma views_container_sort: "views_ok u s \<Longrightarrow> e_ulc E = u \<Longrightarrow> views_ok u (set_container_sort E f s)"
  unfolding set_container_sort_def
  by (erule views_containers_change) (simp_all add: views_unfold cong: option.case_cong)

lemma views_process_sort: "views_ok u s \<Longrightarrow> views_ok u (set_process_sort E f s)"
  by (simp add: set_process_sort_def views_recompute views_simps)

lemma views_cycle_sort:
  assumes "views_ok u s" "e_ulc E = u"
  shows "views_ok u (cycle_sort E s)"
proof (cases "ap_tab s")
  case TContainers
  with views_container_sort [OF assms] show ?thesis by (simp add: cycle_sort_def set_container_sort_def)
next
  case TKube
  have "views_ok u (recompute_kube_view E (s\<lparr>ap_kube_sort_field := a, ap_kube_selected := 0, ap_kube_scroll_offset := 0\<rparr>))" for a
    by (rule views_kube_change [OF assms]) (simp_all add: views_unfold)
  with TKube show ?thesis by (simp add: cycle_sort_def)
next
  case TGpu
  have "data (s\<lparr>ap_gpu_sort_field := a, ap_gpu_selected := 0, ap_gpu_scroll_offset := 0\<rparr>) = data s" for a
    by (simp add: data_def)
  from data_views [OF this] TGpu assms show ?thesis by (simp add: cycle_sort_def)
next
  case TNetwork
  with assms show ?thesis by (simp add: cycle_sort_def views_simps)
qed (simp_all add: cycle_sort_def views_process_sort [OF assms(1), unfolded set_process_sort_def])

lemma views_reverse_sort:
  assumes "views_ok u s" "e_ulc E = u"
  shows "views_ok u (reverse_sort E s)"
proof (cases "ap_tab s")
  case TContainers
  have "views_ok u (recompute_containers_view E (s\<lparr>ap_containers_sort_order := a\<rparr>))" for a
    by (rule views_containers_change [OF assms]) (simp_all add: views_unfold cong: option.case_cong)
  with TContainers show ?thesis by (simp add: reverse_sort_def)
next
  case TKube
  have "views_ok u (recompute_kube_view E (s\<lparr>ap_kube_sort_order := a\<rparr>))" for a
    by (rule views_kube_change [OF assms]) (simp_all add: views_unfold)
  with TKube show ?thesis by (simp add: reverse_sort_def)
qed (use assms in \<open>simp_all add: reverse_sort_def views_simps views_recompute\<close>)

lemma views_toggle_tree:
  assumes "views_ok u s"
  shows "views_ok u (toggle_tree E s)"
proof -
  let ?t = "s\<lparr>ap_tree_mode := \<not> ap_tree_mode s, ap_selected := 0, ap_scroll_offset := 0\<rparr>"
  have "rows_in (recompute_visible E ?t)" by (rule recompute_visible_rows) simp
  moreover have "kube_ok u ?t = kube_ok u s" "containers_ok u ?t = containers_ok u s"
    by (simp_all add: views_unfold cong: option.case_cong)
  ultimately show ?thesis using assms
    by (simp add: toggle_tree_def views_ok_def recompute_visible_others)
qed

text \<open>Selections: on the process tabs the new position has to lie inside the table.\<close>

lemma views_set_sel_off:
  assumes "views_ok u s"
    "ap_tab s = TGeneral \<or> ap_tab s = TProcesses \<Longrightarrow> in_rows (fst so) (process_count s) \<and> in_rows (snd so) (process_count s)"
  shows "views_ok u (set_sel_off so s)"
proof (cases "ap_tab s = TGeneral \<or> ap_tab s = TProcesses")
  case True
  then have "set_sel_off so s = s\<lparr>ap_selected := fst so, ap_scroll_offset := snd so\<rparr>"
    by (auto simp: set_sel_off_def)
  moreover have "kube_ok u (s\<lparr>ap_selected := a, ap_scroll_offset := b\<rparr>) = kube_ok u s"
    "containers_ok u (s\<lparr>ap_selected := a, ap_scroll_offset := b\<rparr>) = containers_ok u s"
    "process_count (s\<lparr>ap_selected := a, ap_scroll_offset := b\<rparr>) = process_count s" for a b
    by (simp_all add: views_unfold cong: option.case_cong)
  ultimately show ?thesis using assms(1) assms(2) [OF True] by (simp add: views_ok_def rows_in_def)
next
  case False
  then have "data (set_sel_off so s) = data s"
    by (cases "ap_tab s") (simp_all add: set_sel_off_def data_def)
  from data_views [OF this] assms(1) show ?thesis by simp
qed

lemma item_count_process: "ap_tab s = TGeneral \<or> ap_tab s = TProcesses \<Longrightarrow> item_count E s = process_count s"
  by (auto simp: item_count_def)

lemma sel_off_process:
  "rows_in s \<Longrightarrow> ap_tab s = TGeneral \<or> ap_tab s = TProcesses \<Longrightarrow>
   in_rows (fst (sel_off s)) (process_count s) \<and> in_rows (snd (sel_off s)) (process_count s)"
  by (auto simp: sel_off_def rows_in_def)

lemma clamped_in_rows:
  assumes "n \<noteq> 0"
  shows "in_rows (nat (max 0 (min x (int n - 1)))) n" "in_rows (min i (n - 1)) n"
  using assms by (auto simp: in_rows_def)

lemma views_moves:
  assumes "views_ok u s"
  shows "views_ok u (move_selection E d s)" "views_ok u (select_index E i s)" "views_ok u (scroll_rows E d s)"
proof -
  have rows: "rows_in s" using assms by (simp add: views_ok_def)
  obtain sel off where so: "sel_off s = (sel, off)" by fastforce
  define n where "n = item_count E s"
  have set: "views_ok u (set_sel_off (a, b) s)" if "in_rows a n" "in_rows b n \<or> b = off" for a b
  proof (rule views_set_sel_off [OF assms])
    assume tab: "ap_tab s = TGeneral \<or> ap_tab s = TProcesses"
    then have "n = process_count s" unfolding n_def by (rule item_count_process)
    with sel_off_process [OF rows tab] so that
    show "in_rows (fst (a, b)) (process_count s) \<and> in_rows (snd (a, b)) (process_count s)" by auto
  qed
  show "views_ok u (move_selection E d s)"
    using set [OF clamped_in_rows(1) [of n "int sel + d"], of off] assms
    by (cases "n = 0") (simp_all add: move_selection_def Let_def so n_def)
  show "views_ok u (select_index E i s)"
    using set [OF clamped_in_rows(2) [of n i], of off] assms
    by (cases "n = 0") (simp_all add: select_index_def Let_def so n_def)
  show "views_ok u (scroll_rows E d s)"
    using set [OF clamped_in_rows(2) disjI1 [OF clamped_in_rows(2)]] assms
    by (cases "n = 0") (simp_all add: scroll_rows_def Let_def so n_def)
qed

lemma views_subviews: "views_ok u s \<Longrightarrow> e_ulc E = u \<Longrightarrow> views_ok u (cycle_subview E d s)"
  by (simp add: cycle_subview_def views_simps views_switch_kube split: Tab.split)

text \<open>Filters: the text of a tab changes, then its view is recomputed and its selection clamped.\<close>

lemma views_after_filter:
  assumes "views_ok u (refilter_tab E imm s)"
  shows "views_ok u (after_filter_change E imm s)"
proof -
  let ?t = "refilter_tab E imm s"
  have "views_ok u (set_sel_off (clamp_selection (fst (sel_off ?t)) (item_count E ?t), 0) ?t)"
    by (rule views_set_sel_off [OF assms])
      (auto simp: in_rows_def clamp_selection_def item_count_process)
  then show ?thesis by (simp add: after_filter_change_def Let_def views_simps)
qed

lemma views_refilter: "views_ok u s \<Longrightarrow> e_ulc E = u \<Longrightarrow> views_ok u (refilter_tab E imm s)"
  by (simp add: refilter_tab_def views_recompute views_simps split: Tab.split)

lemma views_refilter_text:
  assumes "views_ok u s" "e_ulc E = u"
  shows "views_ok u (refilter_tab E imm (set_filter_text x s))"
proof (cases "ap_tab s")
  case TContainers
  have "views_ok u (recompute_containers_view E (s\<lparr>ap_containers_filter_input := x\<rparr>))"
    by (rule views_containers_change [OF assms]) (simp_all add: views_unfold cong: option.case_cong)
  with TContainers show ?thesis by (simp add: refilter_tab_def set_filter_text_def)
next
  case TKube
  have "views_ok u (recompute_kube_view E (s\<lparr>ap_kube_filter_input := x\<rparr>))"
    by (rule views_kube_change [OF assms]) (simp_all add: views_unfold)
  with TKube show ?thesis by (simp add: refilter_tab_def set_filter_text_def)
next
  case TGpu
  with assms(1) show ?thesis by (simp add: refilter_tab_def set_filter_text_def views_simps)
next
  case TNetwork
  with assms(1) show ?thesis by (simp add: refilter_tab_def set_filter_text_def views_simps)
next
  case TGeneral
  with assms show ?thesis
    by (intro views_refilter) (simp_all add: set_filter_text_def views_simps)
next
  case TProcesses
  with assms show ?thesis
    by (intro views_refilter) (simp_all add: set_filter_text_def views_simps)
qed

lemma views_filters:
  assumes "views_ok u s" "e_ulc E = u"
  shows "views_ok u (clear_filter E s)" "views_ok u (set_filter E x s)" "views_ok u (handle_filter_key E code mods s)"
proof -
  have typed: "views_ok u (after_filter_change E imm (set_filter_text x s))" for imm x
    by (intro views_after_filter views_refilter_text assms)
  have "views_ok u (set_filter_editing b s)" for b using assms(1) by (simp add: views_simps)
  then have edit: "views_ok u (after_filter_change E imm (set_filter_editing b s))" for imm b
    by (intro views_after_filter views_refilter assms(2))
  show "views_ok u (clear_filter E s)" "views_ok u (set_filter E x s)"
    by (simp_all add: clear_filter_def set_filter_def typed)
  show "views_ok u (handle_filter_key E code mods s)"
    using assms(1) by (simp add: handle_filter_key_def views_simps typed edit split: KeyCode.split)
qed

lemma views_snapshot:
  assumes "views_ok u s" "e_ulc E = u"
  shows "views_ok u (apply_snapshot E snap s)"
proof (cases "ap_paused s")
  case False
  have p: "ap_last_snapshot (t\<lparr>ap_last_snapshot := Some snap\<rparr>) \<noteq> None" for t by simp
  have "views_ok u (recompute_kube_view E (recompute_containers_view E (recompute_visible E (t\<lparr>ap_last_snapshot := Some snap\<rparr>))))" for t
    using recompute_visible_rows [of "t\<lparr>ap_last_snapshot := Some snap\<rparr>" E] assms(2)
    by (simp add: views_ok_def recompute_kube_views recompute_containers_views)
  with False show ?thesis by (simp add: apply_snapshot_def Let_def views_simps)
qed (use assms in \<open>simp add: apply_snapshot_def\<close>)

lemma views_perform:
  assumes "views_ok u s" "e_ulc E = u"
  shows "views_ok u (perform E a s)"
proof -
  have "views_ok u (go_back E s)"
    using assms by (simp add: go_back_def views_simps views_filters)
  with assms show ?thesis
    by (cases a) (simp_all add: views_simps views_subviews views_moves views_cycle_sort views_reverse_sort views_toggle_tree
        views_switch_kube)
qed

lemma views_dispatch: "views_ok u s \<Longrightarrow> e_ulc E = u \<Longrightarrow> views_ok u (dispatch E a s)"
  by (simp add: dispatch_def views_simps views_perform)

lemma views_run_command:
  assumes "views_ok u s" "e_ulc E = u"
  shows "views_ok u (run_command E c s)"
  using assms
  by (cases c) (simp_all add: views_simps views_dispatch views_process_sort views_container_sort views_reverse_sort
      views_cycle_sort views_filters kube_command_def views_switch_kube)

lemma views_sort_by_name:
  assumes "views_ok u s" "e_ulc E = u"
  shows "views_ok u (sort_by_name E f s)"
  using assms
  by (auto simp: sort_by_name_def Let_def views_simps views_process_sort views_container_sort split: option.split Tab.split)

lemma views_invocation:
  assumes "views_ok u s" "e_ulc E = u"
  shows "views_ok u (execute_invocation E c arg s)"
proof -
  have "views_ok u (execute_command E c s)" for c
    using assms by (simp add: execute_command_def views_simps views_run_command)
  then show ?thesis
    using assms by (cases c; cases arg) (simp_all add: execute_invocation_def views_simps views_sort_by_name views_filters)
qed

lemma views_key_event:
  assumes "views_ok u s" "e_ulc E = u"
  shows "views_ok u (handle_key_event E code mods s)"
proof -
  have palette: "views_ok u (handle_palette_key E code mods t)" if "views_ok u t" for t
    using that assms(2) views_invocation
    by (simp add: handle_palette_key_def views_simps split: KeyCode.split option.split)
  have menu: "views_ok u (handle_actions_key E code t)" if "views_ok u t" for t
    using that assms(2) by (simp add: handle_actions_key_def views_simps views_dispatch split: option.split)
  have scroll: "views_ok u (handle_scrollable_overlay_key E code mods t)" if "views_ok u t" for t
    using that by (simp add: handle_scrollable_overlay_key_def views_simps)
  have conf: "views_ok u (handle_confirm_key E code t)" if "views_ok u t" for t
    using that by (simp add: handle_confirm_key_def views_simps split: option.split)
  have "views_ok u (s\<lparr>ap_notifier := n\<rparr>)" for n using assms(1) by (simp add: views_simps)
  then show ?thesis unfolding handle_key_event_def Let_def
    by (auto simp: palette menu scroll conf views_simps views_filters views_dispatch assms(2) split: Overlay.split option.split)
qed

section \<open>Remote mode\<close>

text \<open>
  A client of a remote server: no dialog, no task, no system call since the start, and a palette on
  screen offers none of the commands that act on the local machine.
\<close>

definition viewer :: "os \<Rightarrow> AppState \<Rightarrow> bool" where
  "viewer w s \<longleftrightarrow>
     is_remote s \<and> ap_confirm s = None \<and> ap_tasks s = [] \<and> ap_os s = w \<and>
     (is_text_input (ap_overlay s) \<longrightarrow> set (map fst (pal_filtered (ap_palette s))) \<inter> set REMOTE_BLOCKED_COMMANDS = {})"

named_theorems viewer_simps \<open>operations that keep a client a mere viewer\<close>

lemma ctl_viewer: "ctl s = ctl t \<Longrightarrow> viewer w s = viewer w t"
  by (simp add: ctl_def viewer_def is_remote_def)

lemmas viewer_ctl [viewer_simps] = ctl_simps [THEN ctl_viewer]

lemma viewer_remote: "viewer w s \<Longrightarrow> is_remote s"
  by (simp add: viewer_def)

lemma viewer_overlay:
  assumes "viewer w s"
  shows "\<not> is_text_input ov \<Longrightarrow> viewer w (open_overlay ov s)" "viewer w (close_overlay s)"
    "viewer w (open_palette E s)" "viewer w (open_command_line E s)" "viewer w (refilter_palette E s)"
    "viewer w (s\<lparr>ap_palette := (ap_palette s)\<lparr>pal_input := x\<rparr>\<rparr>)" "viewer w (s\<lparr>ap_palette := (ap_palette s)\<lparr>pal_selected := n\<rparr>\<rparr>)"
    "viewer w (s\<lparr>ap_palette := remember c (ap_palette s)\<rparr>)"
proof -
  have offer: "set (map fst (pal_filtered (refilter_ctx ulc score (excluded_commands s) tab p))) \<inter>
      set REMOTE_BLOCKED_COMMANDS = {}" for ulc score tab p
    using assms refilter_ctx_ok [of "excluded_commands s" ulc score tab p]
    by (auto simp: palette_ok_def excluded_commands_def viewer_def)
  have e: "excluded_commands (s\<lparr>ap_overlay := ov, ap_palette := q\<rparr>) = excluded_commands s" for ov q
    by (simp add: excluded_commands_def is_remote_def)
  show "\<not> is_text_input ov \<Longrightarrow> viewer w (open_overlay ov s)" "viewer w (close_overlay s)"
    using assms by (simp_all add: viewer_def open_overlay_def close_overlay_def mark_dirty_def is_remote_def)
  show "viewer w (open_palette E s)" "viewer w (open_command_line E s)" "viewer w (refilter_palette E s)"
    using assms offer
    by (simp_all add: viewer_def open_palette_def open_command_line_def open_palette_as_def refilter_palette_def
        mark_dirty_def e is_remote_def)
  show "viewer w (s\<lparr>ap_palette := (ap_palette s)\<lparr>pal_input := x\<rparr>\<rparr>)" "viewer w (s\<lparr>ap_palette := (ap_palette s)\<lparr>pal_selected := n\<rparr>\<rparr>)"
    "viewer w (s\<lparr>ap_palette := remember c (ap_palette s)\<rparr>)"
    using assms by (simp_all add: viewer_def is_remote_def remember_def)
qed

lemma viewer_perform:
  assumes "viewer w s" "\<not> is_local_only a"
  shows "viewer w (perform E a s)"
proof -
  note v = assms(1)
  have "viewer w (open_inspector E s)" "viewer w (open_actions_menu E s)" "viewer w (go_back E s)"
    using v viewer_overlay(1) [of w "s\<lparr>ap_actions_selected := 0\<rparr>" OActions]
    by (simp_all add: open_inspector_def open_actions_menu_def go_back_def viewer_simps viewer_overlay)
  with assms show ?thesis
    by (cases a) (simp_all add: viewer_simps viewer_overlay)
qed

lemma viewer_dispatch: "viewer w s \<Longrightarrow> viewer w (dispatch E a s)"
  using viewer_remote by (simp add: dispatch_def viewer_simps viewer_perform)

lemma viewer_command: "viewer w s \<Longrightarrow> viewer w (execute_command E c s)"
  using viewer_remote
  by (cases c) (simp_all add: execute_command_def REMOTE_BLOCKED_COMMANDS_def viewer_simps viewer_dispatch viewer_overlay)

lemma viewer_invocation:
  "viewer w s \<Longrightarrow> c \<notin> set REMOTE_BLOCKED_COMMANDS \<Longrightarrow> viewer w (execute_invocation E c arg s)"
  by (cases c; cases arg)
    (simp_all add: execute_invocation_def REMOTE_BLOCKED_COMMANDS_def viewer_simps viewer_command)

lemma viewer_palette_key:
  assumes "viewer w s" "is_text_input (ap_overlay s)"
  shows "viewer w (handle_palette_key E code mods s)"
proof (cases "code = KEnter")
  case True
  show ?thesis
  proof (cases "get_opt (pal_filtered (ap_palette s)) (pal_selected (ap_palette s))")
    case None
    with True assms show ?thesis by (simp add: handle_palette_key_def viewer_simps)
  next
    case (Some p)
    then obtain c score where p: "p = (c, score)" "(c, score) \<in> set (pal_filtered (ap_palette s))"
      by (cases p) (auto dest: get_opt_in_set)
    with assms have "c \<notin> set REMOTE_BLOCKED_COMMANDS" by (force simp: viewer_def)
    with True Some p assms(1) show ?thesis
      by (simp add: handle_palette_key_def viewer_simps viewer_invocation viewer_overlay)
  qed
next
  case False
  with assms show ?thesis
    by (simp add: handle_palette_key_def viewer_simps viewer_overlay split: KeyCode.split)
qed

lemma viewer_key_event:
  assumes "viewer w s"
  shows "viewer w (handle_key_event E code mods s)"
proof -
  define t where "t = s\<lparr>ap_notifier := snd (notifier_expire (e_now E) (ap_notifier s))\<rparr>"
  have t: "viewer w t" using assms by (simp add: t_def viewer_simps)
  then have c: "ap_confirm t = None" by (simp add: viewer_def)
  have scroll: "viewer w (handle_scrollable_overlay_key E code mods t)"
    using t by (simp add: handle_scrollable_overlay_key_def viewer_simps viewer_overlay)
  have menu: "viewer w (handle_actions_key E code t)"
    using t by (simp add: handle_actions_key_def viewer_simps viewer_overlay viewer_dispatch split: option.split)
  show ?thesis
  proof (cases "ap_overlay t")
    case ONone
    with t c show ?thesis unfolding handle_key_event_def Let_def t_def [symmetric]
      by (simp add: viewer_simps viewer_dispatch split: option.split)
  next
    case OPalette
    with t c viewer_palette_key [OF t] show ?thesis unfolding handle_key_event_def Let_def t_def [symmetric]
      by (simp add: viewer_simps)
  next
    case OCommand
    with t c viewer_palette_key [OF t] show ?thesis unfolding handle_key_event_def Let_def t_def [symmetric]
      by (simp add: viewer_simps)
  qed (use t c scroll menu in \<open>simp_all add: handle_key_event_def Let_def viewer_simps flip: t_def\<close>)
qed

lemma viewer_turn:
  assumes "viewer w s"
  shows "viewer w (snd (turn E ev s))"
proof -
  let ?t = "before_event E s"
  have t: "viewer w ?t" using assms by (simp add: viewer_simps)
  have "viewer w (snd (handle_event E ev ?t))"
    using t by (cases ev) (simp_all add: viewer_simps viewer_key_event handle_mouse_event_def
        status_message_just_expired_def split: MouseEventKind.split prod.split)
  moreover obtain b where
    "turn E ev s = (b, if b then tick (snd (handle_event E ev ?t)) else snd (handle_event E ev ?t))"
    by (rule turn_cases)
  ultimately show ?thesis by (simp add: viewer_simps)
qed

lemma viewer_step:
  assumes "viewer w s"
  shows "viewer w (app_step E i s)"
proof (cases i)
  case (Turn now ok ev)
  with viewer_turn [OF assms] show ?thesis by simp
next
  case (Answer n ans)
  have "ap_tasks s = []" using assms by (simp add: viewer_def)
  with Answer assms show ?thesis by (simp add: finish_task_def get_opt_def)
qed

interpretation remote_client: step_invariant "app_step E" "viewer w" for E w
  by unfold_locales (rule viewer_step)

section \<open>The views over a run\<close>

lemma views_turn:
  assumes "views_ok u s" "e_ulc E = u"
  shows "views_ok u (snd (turn E ev s))"
proof -
  let ?t = "before_event E s"
  have "data (fold (\<lambda>(level, msg). notify E level msg) ms v) = data v" for ms v
    by (induction ms arbitrary: v) (simp_all add: data_fields split_beta)
  then have "data ?t = data s"
    by (simp add: before_event_def take_needs_redraw_def pump_action_results_def Let_def data_fields)
  from data_views [OF this] assms have t: "views_ok u ?t" by simp
  have mouse: "views_ok u (handle_mouse_event E k ?t)" for k
    using t by (simp add: handle_mouse_event_def views_simps views_moves split: MouseEventKind.split)
  have "views_ok u (snd (handle_event E ev ?t))"
    using t assms(2) by (cases ev) (simp_all add: views_key_event views_snapshot mouse views_simps
        status_message_just_expired_def split: prod.split)
  moreover obtain b where
    "turn E ev s = (b, if b then tick (snd (handle_event E ev ?t)) else snd (handle_event E ev ?t))"
    by (rule turn_cases)
  ultimately show ?thesis by (simp add: views_simps)
qed

lemma views_step: "views_ok (e_ulc E) s \<Longrightarrow> views_ok (e_ulc E) (app_step E i s)"
proof (cases i)
  case (Turn now ok ev)
  assume "views_ok (e_ulc E) s"
  then show ?thesis unfolding Turn app_step.simps by (rule views_turn) simp
next
  case (Answer n ans)
  assume "views_ok (e_ulc E) s"
  then show ?thesis unfolding Answer app_step.simps finish_task_def
    by (simp add: Let_def views_simps split: option.split)
qed

interpretation client_views: step_invariant "app_step E" "views_ok (e_ulc E)" for E
  by unfold_locales (rule views_step)

lemma with_config_start:
  "views_ok u (with_config cfg caps w)" "cfg_connection_mode cfg = Remote h a \<Longrightarrow> viewer w (with_config cfg caps w)"
  by (simp_all add: with_config_def app_new_def views_ok_def views_unfold containers_view_def in_rows_def viewer_def
      is_remote_def)

section \<open>Container histories\<close>

text \<open>The samples of a container since it last appeared: the newest snapshots that all list it.\<close>

definition container_in :: "string \<Rightarrow> ContainersSnapshot \<Rightarrow> ContainerSnapshot option" where
  "container_in i cs = find (\<lambda>c. ct_id c = i) (cts_containers cs)"

fun recent :: "string \<Rightarrow> ContainersSnapshot list \<Rightarrow> ContainerSnapshot list" where
  "recent i [] = []"
| "recent i (cs # older) = (case container_in i cs of Some c \<Rightarrow> recent i older @ [c] | None \<Rightarrow> [])"

fun rx_deltas :: "ContainerSnapshot list \<Rightarrow> u64 list" where
  "rx_deltas (a # b # cs) = sat_sub (ct_net_rx_bytes b) (ct_net_rx_bytes a) # rx_deltas (b # cs)"
| "rx_deltas _ = []"

definition rx_series :: "ContainerSnapshot list \<Rightarrow> u64 list" where
  "rx_series cs = (if cs = [] then [] else 0 # rx_deltas cs)"

definition history_is :: "string \<Rightarrow> ContainerSnapshot list \<Rightarrow> AppState \<Rightarrow> bool" where
  "history_is i cs s \<longleftrightarrow>
     (if cs = [] then ap_container_cpu_hist s i = None \<and> ap_container_rx_hist s i = None \<and> ap_container_rx_last s i = None
      else ap_container_cpu_hist s i = Some (last_n CONTAINER_HISTORY_LEN (map ct_cpu_pct cs)) \<and>
           ap_container_rx_hist s i = Some (last_n CONTAINER_HISTORY_LEN (rx_series cs)) \<and>
           ap_container_rx_last s i = Some (ct_net_rx_bytes (last cs)))"

lemma rx_deltas_snoc:
  "cs \<noteq> [] \<Longrightarrow> rx_deltas (cs @ [c]) = rx_deltas cs @ [sat_sub (ct_net_rx_bytes c) (ct_net_rx_bytes (last cs))]"
  by (induction cs rule: rx_deltas.induct) auto

lemma push_container_same:
  assumes "history_is (ct_id c) cs s"
  shows "history_is (ct_id c) (cs @ [c]) (push_container c s)"
proof -
  have cap: "0 < CONTAINER_HISTORY_LEN" by (simp add: CONTAINER_HISTORY_LEN_def)
  have nil: "last_n CONTAINER_HISTORY_LEN ([] :: 'z list) = []" by (simp add: last_n_def)
  show ?thesis
  proof (cases "cs = []")
    case True
    with assms show ?thesis
      using push_ring_last_n [OF cap, of "[]" "ct_cpu_pct c"] push_ring_last_n [OF cap, of "[]" "0 :: u64"]
      by (simp add: history_is_def push_container_def Let_def nil rx_series_def last_n_def)
  next
    case False
    with assms show ?thesis
      using push_ring_last_n [OF cap, of "map ct_cpu_pct cs" "ct_cpu_pct c"]
        push_ring_last_n [OF cap, of "rx_series cs" "sat_sub (ct_net_rx_bytes c) (ct_net_rx_bytes (last cs))"]
      by (simp add: history_is_def push_container_def Let_def rx_series_def rx_deltas_snoc)
  qed
qed

lemma push_container_other: "ct_id c \<noteq> i \<Longrightarrow> history_is i cs (push_container c s) = history_is i cs s"
  by (simp add: history_is_def push_container_def Let_def)

lemma fold_push_container:
  "distinct (map ct_id xs) \<Longrightarrow> history_is i cs s \<Longrightarrow>
   history_is i (case find (\<lambda>c. ct_id c = i) xs of Some c \<Rightarrow> cs @ [c] | None \<Rightarrow> cs) (fold push_container xs s)"
proof (induction xs arbitrary: s cs)
  case (Cons x xs)
  show ?case
  proof (cases "ct_id x = i")
    case True
    have "ct_id x \<notin> ct_id ` set xs" using Cons.prems(1) by simp
    with True have none: "find (\<lambda>c. ct_id c = i) xs = None"
      unfolding find_None_iff by (metis image_eqI)
    have "history_is i (cs @ [x]) (push_container x s)" using push_container_same Cons.prems(2) True by blast
    from Cons.IH [OF _ this] Cons.prems(1) True none show ?thesis by simp
  next
    case False
    then have "history_is i cs (push_container x s)" using Cons.prems(2) by (simp add: push_container_other)
    from Cons.IH [OF _ this] Cons.prems(1) False show ?thesis by simp
  qed
qed simp

lemma push_history:
  assumes "distinct (map ct_id (cts_containers cs))" "history_is i old s"
  shows "history_is i (case container_in i cs of Some c \<Rightarrow> old @ [c] | None \<Rightarrow> []) (push_container_history cs s)"
proof (cases "container_in i cs")
  case None
  then have "i \<notin> set (map ct_id (cts_containers cs))" by (auto simp: container_in_def find_None_iff)
  then have "history_is i [] (push_container_history cs s)"
    by (simp add: history_is_def push_container_history_def Let_def drop_missing_def)
  with None show ?thesis by simp
next
  case (Some c)
  then have "i \<in> set (map ct_id (cts_containers cs))" by (auto simp: container_in_def dest: find_Some_in)
  then have "history_is i old' (push_container_history cs s) = history_is i old' (fold push_container (cts_containers cs) s)" for old'
    by (simp add: history_is_def push_container_history_def Let_def drop_missing_def)
  with fold_push_container [OF assms] Some show ?thesis by (simp add: container_in_def)
qed

section \<open>Properties\<close>

text \<open>C6. The system calls made and the container actions handed to the engine change in a turn of the
  client only when the event is \<open>y\<close>, \<open>Y\<close> or Enter while a confirmation dialog is up, and then they
  grow by exactly the action in the dialog. Every other event, in every mode of the client, leaves them
  as they were.\<close>

theorem actions_need_confirmation:
  "acts (app_step E (Turn now ok ev) s) =
     (case confirmed_by ev s of
        Some a \<Rightarrow> carried_out (at_instant E now ok) (ap_container_engine s) a (acts s)
      | None \<Rightarrow> acts s)"
  by (simp add: acts_turn)

text \<open>C7. A client started against a remote server only views: whatever keys, mouse events, snapshots
  and answers it receives, it makes no system call, hands no task to an engine and never opens a
  confirmation dialog.\<close>

theorem remote_client_never_acts:
  assumes "cfg_connection_mode cfg = Remote host addr"
  shows "let s = fold (app_step E) inputs (with_config cfg caps world) in
    ap_os s = world \<and> ap_tasks s = [] \<and> ap_confirm s = None"
proof -
  have "viewer world (fold (app_step E) inputs (with_config cfg caps world))"
    by (rule remote_client.run_inv [OF with_config_start(2) [OF assms]])
  then show ?thesis by (simp only: Let_def viewer_def simp_thms)
qed

definition sample_env :: env where
  "sample_env =
     \<lparr>e_ulc = (\<lambda>s. s), e_score = (\<lambda>_ _. Some 0), e_usort = sort_by, e_kernel = (\<lambda>_ _. (0, None)),
      e_io_text = (\<lambda>_. []), e_dur_text = (\<lambda>_. []), e_now = 0, e_stdout_ok = True\<rparr>"

definition remote_config :: CliConfig where
  "remote_config =
     \<lparr>cfg_filter = None, cfg_sort_field = SF_Cpu, cfg_tree_mode = False,
      cfg_connection_mode = Remote ''prod-01'' ''10.0.0.1:4242'', cfg_theme = TokyoNight,
      cfg_caps = \<lparr>ov_no_color = False, ov_ascii = False, ov_no_mouse = False\<rparr>\<rparr>"

text \<open>The keys that stop a process on a local machine do nothing on a remote one.\<close>

theorem remote_client_never_acts_witness:
  "cfg_connection_mode remote_config = Remote ''prod-01'' ''10.0.0.1:4242'' \<and>
   ap_confirm (fold (app_step sample_env)
     [Turn 0 True (Key (KChar ''2'') MALT), Turn 1 True (Key (KF 9) MNONE), Turn 2 True (Key (KChar ''y'') MNONE)]
     (with_config remote_config TermCaps_default \<lparr>calls = [], errno = 0\<rparr>)) = None"
proof -
  have r: "cfg_connection_mode remote_config = Remote ''prod-01'' ''10.0.0.1:4242''" by (simp add: remote_config_def)
  with remote_client_never_acts [OF r, of sample_env
      "[Turn 0 True (Key (KChar ''2'') MALT), Turn 1 True (Key (KF 9) MNONE), Turn 2 True (Key (KChar ''y'') MNONE)]"
      TermCaps_default "\<lparr>calls = [], errno = 0\<rparr>"]
  show ?thesis by (simp only: Let_def simp_thms)
qed


text \<open>C20. Ctrl+C ends the client from every mode: the loop stops, the pending tasks find their token
  cancelled, and an answer that arrives afterwards posts no message.\<close>

theorem ctrl_c_always_quits:
  "let s' = app_step E (Turn now ok (Key (KChar ''c'') (Mods True alt shift oth))) s in
   \<not> ap_running s' \<and> ap_shutdown s' \<and> ap_action_rx (app_step E (Answer i ans) s') = ap_action_rx s'"
proof -
  define s' where "s' = app_step E (Turn now ok (Key (KChar ''c'') (Mods True alt shift oth))) s"
  obtain b where "turn (at_instant E now ok) (Key (KChar ''c'') (Mods True alt shift oth)) s =
      (b, if b then tick (snd (handle_event (at_instant E now ok) (Key (KChar ''c'') (Mods True alt shift oth)) (before_event (at_instant E now ok) s)))
          else snd (handle_event (at_instant E now ok) (Key (KChar ''c'') (Mods True alt shift oth)) (before_event (at_instant E now ok) s)))"
    by (rule turn_cases)
  then have s': "\<not> ap_running s'" "ap_shutdown s'"
    by (simp_all add: s'_def handle_key_event_def Let_def quit_def tick_def)
  moreover from s' have "ap_action_rx (app_step E (Answer i ans) s') = ap_action_rx s'"
    by (simp add: finish_task_def Let_def split: option.split)
  ultimately show ?thesis unfolding Let_def s'_def [symmetric] by blast
qed

text \<open>C21. The sparklines of a container hold its newest 60 samples since it last appeared: the CPU values
  in order, and for the network one zero followed by the growth of the cumulative counter, never
  negative. A container that left the newest snapshot has no history. The container ids of a snapshot
  are distinct.\<close>

theorem container_history_correct:
  assumes "\<forall>cs\<in>set css. distinct (map ct_id (cts_containers cs))"
  shows "history_is i (recent i (rev css)) (fold push_container_history css (app_new world))"
  using assms
proof (induction css rule: rev_induct)
  case Nil
  show ?case by (simp add: history_is_def app_new_def)
next
  case (snoc cs css)
  then have "history_is i (recent i (rev css)) (fold push_container_history css (app_new world))" by simp
  from push_history [OF _ this, of cs] snoc.prems show ?case by simp
qed

definition sample_container :: "fl \<Rightarrow> u64 \<Rightarrow> ContainerSnapshot" where
  "sample_container cpu rx =
     \<lparr>ct_id = ''abc'', ct_id_full = ''abcdef'', ct_name = ''web'', ct_image = ''nginx'', ct_state = CS_Running,
      ct_status_text = ''Up'', ct_cpu_pct = cpu, ct_mem_used_bytes = 0, ct_mem_limit_bytes = 0, ct_net_rx_bytes = rx,
      ct_net_tx_bytes = 0, ct_block_read_bytes = 0, ct_block_write_bytes = 0, ct_started_at_ms = 0\<rparr>"

definition sample_containers :: "fl \<Rightarrow> u64 \<Rightarrow> ContainersSnapshot" where
  "sample_containers cpu rx = \<lparr>cts_engine = EK_Docker, cts_daemon_up = True, cts_containers = [sample_container cpu rx]\<rparr>"

theorem container_history_correct_witness:
  "ap_container_rx_hist (fold push_container_history [sample_containers (Fin 1) 10, sample_containers (Fin 2) 25]
     (app_new \<lparr>calls = [], errno = 0\<rparr>)) ''abc'' = Some [0, 15]"
proof -
  have "\<forall>cs\<in>set [sample_containers (Fin 1) 10, sample_containers (Fin 2) 25]. distinct (map ct_id (cts_containers cs))"
    by (simp add: sample_containers_def)
  from container_history_correct [OF this, of "''abc''" "\<lparr>calls = [], errno = 0\<rparr>"] show ?thesis
    by (simp add: history_is_def container_in_def sample_containers_def sample_container_def rx_series_def sat_sub_def
        last_n_def CONTAINER_HISTORY_LEN_def)
qed

section \<open>Where the copied row is not the highlighted one\<close>

text \<open>
  The GPU and Network tables are sorted when they are drawn, but \<open>selected_identifier\<close> indexes the
  filtered list in snapshot order. Two devices and two interfaces are enough to see the difference; with
  the default sort (index, descending) the GPU table also lists the devices from the highest index down.
\<close>

definition sample_gpu :: "u32 \<Rightarrow> string \<Rightarrow> GpuDeviceSnapshot" where
  "sample_gpu i name =
     \<lparr>gd_index = i, gd_vendor = GV_Nvidia, gd_backend = Nvml, gd_name = name, gd_bus_id = [], gd_driver_version = None,
      gd_utilization_pct = None, gd_mem_utilization_pct = None, gd_mem_used_bytes = None, gd_mem_total_bytes = None,
      gd_temperature_c = None, gd_power_watts = None, gd_power_limit_watts = None, gd_graphics_clock_mhz = None,
      gd_memory_clock_mhz = None, gd_fan_pct = None, gd_encoder_pct = None, gd_decoder_pct = None,
      gd_supports_process_stats = False\<rparr>"

definition two_gpus :: GpusSnapshot where
  "two_gpus = \<lparr>gs_backends = [Nvml], gs_available = True, gs_devices = [sample_gpu 0 ''A100'', sample_gpu 1 ''T4''],
     gs_processes = [], gs_detail = []\<rparr>"

definition sample_iface :: "string \<Rightarrow> NetworkInterfaceSnapshot" where
  "sample_iface name =
     \<lparr>if_name = name, bytes_rx = 0, bytes_tx = 0, packets_rx = 0, packets_tx = 0, errors_rx = 0, errors_tx = 0,
      mac_address = [], is_up = True\<rparr>"

definition sample_snapshot :: SystemSnapshot where
  "sample_snapshot =
     \<lparr>ss_cpu = \<lparr>global_usage = Fin 0, cores = []\<rparr>,
      ss_memory = \<lparr>mem_total = 0, mem_used = 0, mem_available = 0, swap_total = 0, swap_used = 0\<rparr>,
      ss_load = \<lparr>load_one = Fin 0, load_five = Fin 0, load_fifteen = Fin 0, load_uptime_secs = 0\<rparr>,
      ss_processes = [],
      ss_networks = \<lparr>interfaces = [sample_iface ''eth0'', sample_iface ''lo''], total_rx = 0, total_tx = 0\<rparr>,
      ss_containers = None, ss_kube = None, ss_gpu = Some two_gpus, ss_timestamp_ms = 0\<rparr>"

theorem copied_gpu_not_highlighted:
  "let s = (app_new world)\<lparr>ap_tab := TGpu, ap_last_snapshot := Some sample_snapshot\<rparr> in
   map gd_name (device_rows (e_ulc E) (ap_gpu_filter_input s) (ap_gpu_sort_field s) (ap_gpu_sort_order s) two_gpus) = [''T4'', ''A100''] \<and>
   ap_gpu_selected s = 0 \<and> selected_identifier E s = Some ''A100''"
  by (simp add: app_new_def device_rows_def two_gpus_def sample_gpu_def sort_devices_def park_sort_def metric_missing_def
      device_le_def by_key_def selected_identifier_def selected_gpu_name_def snapshot_gpu_def sample_snapshot_def get_opt_def)

theorem copied_interface_not_highlighted:
  "let s = (app_new world)\<lparr>ap_tab := TNetwork, ap_net_sort_field := NSF_Name, ap_last_snapshot := Some sample_snapshot\<rparr> in
   map if_name (sorted_interfaces (e_ulc E) (ap_net_filter_input s) (ap_network_history s) (ap_net_sort_field s)
     (ap_net_sort_order s) (ap_last_snapshot s)) = [''lo'', ''eth0''] \<and>
   ap_net_selected s = 0 \<and> selected_identifier E s = Some ''eth0''"
  by (simp add: app_new_def sorted_interfaces_def visible_interfaces_def sample_snapshot_def sample_iface_def iface_le_def
      by_key_def selected_identifier_def get_opt_def)

end
