(* ===== verification/Screen_Facts.thy ===== *)
theory Screen_Facts
  imports Screen_Safety App_Invariants
begin

text \<open>
  What the screen shows: rows match their columns, the highlighted row is the one acted on, values
  wrap without loss, the status bar fits, a dash means a missing metric; and three places where what
  is drawn, counted or inspected disagree.
\<close>

section \<open>Rows and columns\<close>

lemmas column_defs = PROCESS_COLUMNS_def NETWORK_COLUMNS_def CONTAINER_COLUMNS_def POD_COLUMNS_def NODE_COLUMNS_def
  DEPLOY_COLUMNS_def DEVICE_COLUMNS_def PROC_COLUMNS_def device_columns_def
  DEVICE_MEM_COLUMN_def

text \<open>A row fits its table: a cell for every column, and a sort field that names one of them.\<close>

definition row_fits :: "Column list \<Rightarrow> Row \<Rightarrow> nat option \<Rightarrow> bool" where
  "row_fits cols row sort_col \<longleftrightarrow> length row = length cols \<and> pred_option (\<lambda>i. i < length cols) sort_col"


section \<open>The selected row\<close>

lemma cached_rows_all:
  "list_all (\<lambda>i. i < length xs) (ap_kube_view_cache s) \<Longrightarrow> cached_rows s xs = map ((!) xs) (ap_kube_view_cache s)"
proof -
  have "list_all (\<lambda>i. i < length xs) is \<Longrightarrow> List.map_filter (get_opt xs) is = map ((!) xs) is" for "is"
    by (induction "is") (simp_all add: map_filter_simps get_opt_def)
  then show "list_all (\<lambda>i. i < length xs) (ap_kube_view_cache s) \<Longrightarrow> cached_rows s xs = map ((!) xs) (ap_kube_view_cache s)"
    by (simp add: cached_rows_def)
qed

lemma get_opt_cached:
  "list_all (\<lambda>i. i < length xs) (ap_kube_view_cache s) \<Longrightarrow>
   get_opt (cached_rows s xs) i = Option.bind (get_opt (ap_kube_view_cache s) i) (get_opt xs)"
  by (simp add: cached_rows_all) (simp add: get_opt_def list_all_length)

definition subview_size :: "KubeSubview \<Rightarrow> KubeSnapshot \<Rightarrow> nat" where
  "subview_size sv snap =
     (case sv of KVPods \<Rightarrow> length (ks_pods snap) | KVNodes \<Rightarrow> length (ks_nodes snap) | KVDeployments \<Rightarrow> length (ks_deployments snap))"

lemma set_flip [simp]: "set (flip_if_asc ord xs) = set xs"
  by (cases ord) (simp_all add: flip_if_asc_def)

lemma view_indices_in:
  "list_all (\<lambda>i. i < subview_size sv snap) (compute_view_indices ulc snap sv pat f ord)"
  by (auto simp: compute_view_indices_def subview_size_def Let_def sort_pods_def sort_nodes_def sort_deployments_def
      list_all_iff split: KubeSubview.splits)

text \<open>What is drawn in front of the command of a process: its place in the tree, in the tree view.\<close>

definition row_prefix :: "Render \<Rightarrow> string option" where
  "row_prefix r =
     (if ap_tree_mode (r_app r)
      then Some (tree_prefix (tree_glyphs.truncate (r_glyphs r)) (ap_visible_tree (r_app r)) (ap_selected (r_app r)))
      else None)"

lemma process_row_selected:
  "process_row_at r (ap_selected (r_app r)) =
     (case selected_process (r_app r) of Some p \<Rightarrow> process_row r (row_prefix r) p | None \<Rightarrow> [])"
  by (simp add: process_row_at_def row_prefix_def selected_process_def row_or_empty_def Let_def split: option.split prod.split)


section \<open>Nothing lost, nothing over the edge\<close>

lemma concat_chunks: "0 < n \<Longrightarrow> concat (chunks n xs) = xs"
proof (induction n xs rule: chunks.induct)
  case (1 n xs)
  then show ?case by (subst chunks.simps) auto
qed

lemma chars_of_part:
  "\<exists>i. c = take n (drop i (str_chars s)) \<Longrightarrow> str_chars (concat c) = c"
proof -
  assume "\<exists>i. c = take n (drop i (str_chars s))"
  then obtain i where c: "c = take n (drop i (str_chars s))" by blast
  have "drop i (str_chars s) = str_chars (concat (drop i (str_chars s)))"
  proof (induction s arbitrary: i rule: str_chars.induct)
    case (2 ch cs)
    then show ?case by (cases i) simp_all
  qed simp
  then show ?thesis using str_chars_chars [of n "concat (drop i (str_chars s))"] by (simp add: c)
qed

lemma chunks_parts: "c \<in> set (chunks n xs) \<Longrightarrow> \<exists>i. c = take n (drop i xs)"
proof (induction n xs rule: chunks.induct)
  case (1 n xs)
  from 1(2) have "n \<noteq> 0 \<and> xs \<noteq> [] \<and> (c = take n xs \<or> c \<in> set (chunks n (drop n xs)))"
    by (subst (asm) chunks.simps) (auto split: if_splits)
  then show ?case
  proof (elim conjE disjE)
    assume "c = take n xs"
    then have "c = take n (drop 0 xs)" by simp
    then show ?thesis ..
  next
    assume "n \<noteq> 0" "xs \<noteq> []" "c \<in> set (chunks n (drop n xs))"
    with 1(1) obtain i where "c = take n (drop i (drop n xs))" by blast
    then have "c = take n (drop (i + n) xs)" by simp
    then show ?thesis ..
  qed
qed

lemma chunks_length: "c \<in> set (chunks n xs) \<Longrightarrow> length c \<le> n"
  by (drule chunks_parts) auto

lemma chunks_count: "c \<in> set (chunks n (str_chars s)) \<Longrightarrow> char_count (concat c) = length c"
  by (drule chunks_parts, drule chars_of_part) (simp add: char_count_def)

lemma concat_map_concat: "concat (map concat xss) = concat (concat xss)"
  by (induction xss) simp_all

lemma wrap_lines_text: "map (\<lambda>l. fst (l ! Suc 0)) (wrap_lines t k cs) = map concat cs"
  by (induction t k cs rule: wrap_lines.induct) simp_all

text \<open>
  A long value wraps without loss: the lines of the inspector put together are the value, and
  none holds more characters than the value column is wide.
\<close>

theorem wrapped_value_complete:
  "concat (map (\<lambda>l. fst (l ! 1)) (render_row r width (Wrapped k v))) = v \<and>
   list_all (\<lambda>l. char_count (fst (l ! 1)) \<le> max (unat width - KEY_WIDTH) 8) (render_row r width (Wrapped k v))"
proof -
  define n where "n = max (unat width - KEY_WIDTH) 8"
  have n: "0 < n" by (simp add: n_def)
  have wl: "map (\<lambda>l. fst (l ! 1)) (render_row r width (Wrapped k v)) = map concat (chunks n (str_chars v))"
    by (simp add: wrap_lines_text n_def)
  have "char_count (concat c) \<le> n" if "c \<in> set (chunks n (str_chars v))" for c
    using chunks_count [OF that] chunks_length [OF that] by simp
  then have "list_all (\<lambda>s. char_count s \<le> n) (map concat (chunks n (str_chars v)))"
    by (simp add: list_all_iff)
  then have "list_all (\<lambda>l. char_count (fst (l ! 1)) \<le> n) (render_row r width (Wrapped k v))"
    unfolding wl [symmetric] by (simp add: list_all_iff)
  moreover have "concat (map concat (chunks n (str_chars v))) = v"
    by (simp add: concat_map_concat concat_chunks n)
  ultimately show ?thesis unfolding wl n_def by blast
qed

lemma push_width:
  "line_width (fst st) = snd st \<and> snd st \<le> w \<Longrightarrow>
   let st' = snd (push_span w sp st) in line_width (fst st') = snd st' \<and> snd st' \<le> w"
  by (cases sp) (auto simp: push_span_def Let_def)

lemma segment_loop_width:
  "line_width (fst st) = snd st \<and> snd st \<le> w \<Longrightarrow>
   line_width (fst (segment_loop r w segs st)) = snd (segment_loop r w segs st) \<and> snd (segment_loop r w segs st) \<le> w"
proof (induction r w segs st rule: segment_loop.induct)
  case (2 r w seg segs st)
  note a = push_width [OF 2(2), of "('' '' @ seg @ '' '', on_header (r_theme r) (dim (r_theme r)))", unfolded Let_def]
  note b = push_width [OF a, of "(sep (r_glyphs r), on_header (r_theme r) (subtle (r_theme r)))", unfolded Let_def]
  show ?case using 2(1) [OF _ refl refl refl b] 2(2) by (simp add: Let_def)
qed simp

lemma hint_loop_width:
  "line_width (fst st) = snd st \<and> snd st \<le> w \<Longrightarrow>
   line_width (fst (hint_loop r w hs st)) = snd (hint_loop r w hs st) \<and> snd (hint_loop r w hs st) \<le> w"
proof (induction r w hs st rule: hint_loop.induct)
  case (2 r w key label hs st)
  note a = push_width [OF 2(2), of "('' '' @ key @ '' '', key_style (r_theme r))", unfolded Let_def]
  note b = push_width [OF a, of "(label @ '' '', key_desc (r_theme r))", unfolded Let_def]
  show ?case using 2 a b by (auto split: prod.split bool.split)
qed simp

text \<open>
  The status bar never overflows: its segments and hints take at most the width of the
  terminal.
\<close>

theorem statusbar_fits: "line_width (status_spans r width) \<le> unat width"
  using hint_loop_width [OF segment_loop_width [of "([], 0)" "unat width" r "state_segments r"], of r]
  by (simp add: status_spans_def Let_def)

section \<open>Missing metrics\<close>

lemma not_none: "byte_of c < 128 \<Longrightarrow> c \<noteq> CHR ''-'' \<Longrightarrow> a @ [c] \<noteq> gl_none (glyphs_new u)"
proof
  assume c: "byte_of c < 128" "c \<noteq> CHR ''-''" and "a @ [c] = gl_none (glyphs_new u)"
  then have "c = last (gl_none (glyphs_new u))" by (metis last_snoc)
  then have "byte_of c = 148 \<or> c = CHR ''-''"
    by (simp add: glyphs_new_def UNICODE_def ASCII_def utf3_def byte_of_char_of split: if_splits)
  with c show False by simp
qed

lemma units_loop_last:
  assumes "list_all (\<lambda>u. snd u \<in> (\<lambda>c. [c]) ` set ''PTGMKB'') units"
  shows "\<exists>a c. units_loop n units = a @ [c] \<and> c \<in> set ''PTGMKB''"
  using assms
proof (induction n units rule: units_loop.induct)
  case (1 n)
  have "''0B'' = ''0'' @ [CHR ''B'']" by simp
  then show ?case by fastforce
next
  case (2 n scale unit units)
  then show ?case by (auto simp: Let_def)
qed

lemma human_bytes_not_none: "human_bytes b \<noteq> gl_none (glyphs_new u)" "x @ human_bytes b \<noteq> gl_none (glyphs_new u)"
proof -
  have "list_all (\<lambda>u. snd u \<in> (\<lambda>c. [c]) ` set ''PTGMKB'') UNITS" by (simp add: UNITS_def)
  from units_loop_last [OF this, of "unat b"]
  obtain a c where c: "human_bytes b = a @ [c]" "c \<in> set ''PTGMKB''" by (auto simp: human_bytes_def)
  then have n: "byte_of c < 128" "c \<noteq> CHR ''-''" by auto
  show "human_bytes b \<noteq> gl_none (glyphs_new u)" "x @ human_bytes b \<noteq> gl_none (glyphs_new u)"
    using not_none [OF n, of a u] not_none [OF n, of "x @ a" u] c(1) by simp_all
qed

lemma tagged_not_none:
  "a @ ''%'' \<noteq> gl_none (glyphs_new u)" "a @ ''C'' \<noteq> gl_none (glyphs_new u)" "a @ ''W'' \<noteq> gl_none (glyphs_new u)"
  "a @ ''MHz'' \<noteq> gl_none (glyphs_new u)" "a @ ''m'' \<noteq> gl_none (glyphs_new u)"
  using not_none [of "CHR ''%''" a u] not_none [of "CHR ''C''" a u] not_none [of "CHR ''W''" a u]
    not_none [of "CHR ''z''" "a @ ''MH''" u] not_none [of "CHR ''m''" a u] by simp_all

text \<open>
  A dash means not reported: in the rows of GPU devices and pods a metric shows the dash exactly
  when its source is missing, never for a value, zero included.
\<close>

theorem dash_iff_unreported:
  "let r = render_of E rt host screen s; dash = gl_none (r_glyphs r);
       dev = (\<lambda>k. ce_text (device_row r d ! k)); pod = (\<lambda>k. ce_text (pod_row r p ! k)) in
   (dev 3 = dash \<longleftrightarrow> gd_utilization_pct d = None) \<and>
   (dev 4 = dash \<longleftrightarrow> gd_mem_used_bytes d = None) \<and>
   (dev 5 = dash \<longleftrightarrow> gd_temperature_c d = None) \<and>
   (dev 6 = dash \<longleftrightarrow> gd_power_watts d = None) \<and>
   (dev 7 = dash \<longleftrightarrow> gd_graphics_clock_mhz d = None) \<and>
   (dev 8 = dash \<longleftrightarrow> gd_fan_pct d = None) \<and>
   (dev 9 = dash \<longleftrightarrow> gd_encoder_pct d = None \<or> gd_decoder_pct d = None) \<and>
   (pod 5 = dash \<longleftrightarrow> pod_cpu_millis p = None) \<and>
   (pod 6 = dash \<longleftrightarrow> pod_mem_bytes p = None)"
proof -
  define r where "r = render_of E rt host screen s"
  obtain u where g: "r_glyphs r = glyphs_new u" by (simp add: r_def render_of_def)
  have joined: "a @ ''/'' @ b @ ''%'' \<noteq> gl_none (glyphs_new u)" "a @ ''/'' @ b @ ''W'' \<noteq> gl_none (glyphs_new u)"
    "a @ ''/'' @ human_bytes x \<noteq> gl_none (glyphs_new u)" for a b x
    using tagged_not_none(1,3) [of "a @ ''/'' @ b"] human_bytes_not_none(2) [of "a @ ''/''"] by simp_all
  note facts = joined tagged_not_none human_bytes_not_none
  have dev: "map ce_text (drop 3 (device_row r d)) =
      map ce_text [metric_cell r (\<lambda>p. cell_colored (fmt_fixed 0 p @ ''%'') (gauge_color (r_theme r) p)) (gd_utilization_pct d),
       vram_cell r d, metric_cell r (\<lambda>x. cell_colored (fmt_fixed 0 x @ ''C'') (temp_color (r_theme r) x)) (gd_temperature_c d),
       power_cell r d, metric_cell r (\<lambda>c. cell_new (dec (unat c) @ ''MHz'')) (gd_graphics_clock_mhz d),
       metric_cell r (\<lambda>f. cell_new (fmt_fixed 0 f @ ''%'')) (gd_fan_pct d), codec_cell r d]"
    by (simp add: device_row_def Let_def)
  have "length (device_row r d) = 10" by (simp add: device_row_def Let_def)
  then have k: "ce_text (device_row r d ! (3 + j)) = map ce_text (drop 3 (device_row r d)) ! j" if "j < 7" for j
    using that by simp
  have m: "ce_text (device_row r d ! 3) = gl_none (glyphs_new u) \<longleftrightarrow> gd_utilization_pct d = None"
    "ce_text (device_row r d ! 4) = gl_none (glyphs_new u) \<longleftrightarrow> gd_mem_used_bytes d = None"
    "ce_text (device_row r d ! 5) = gl_none (glyphs_new u) \<longleftrightarrow> gd_temperature_c d = None"
    "ce_text (device_row r d ! 6) = gl_none (glyphs_new u) \<longleftrightarrow> gd_power_watts d = None"
    "ce_text (device_row r d ! 7) = gl_none (glyphs_new u) \<longleftrightarrow> gd_graphics_clock_mhz d = None"
    "ce_text (device_row r d ! 8) = gl_none (glyphs_new u) \<longleftrightarrow> gd_fan_pct d = None"
    "ce_text (device_row r d ! 9) = gl_none (glyphs_new u) \<longleftrightarrow> gd_encoder_pct d = None \<or> gd_decoder_pct d = None"
    using k [of 0] k [of 1] k [of 2] k [of 3] k [of 4] k [of 5] k [of 6] facts
    unfolding dev metric_cell_def vram_cell_def power_cell_def codec_cell_def g
    by (auto split: option.split)
  have p: "ce_text (pod_row r p ! 5) = gl_none (glyphs_new u) \<longleftrightarrow> pod_cpu_millis p = None"
    "ce_text (pod_row r p ! 6) = gl_none (glyphs_new u) \<longleftrightarrow> pod_mem_bytes p = None"
    using facts by (simp_all add: pod_row_def Let_def g split: option.split prod.split)
  show ?thesis unfolding Let_def r_def [symmetric] g using m p by blast
qed

section \<open>Where the views disagree\<close>

definition sample_pod :: "string \<Rightarrow> u32 \<Rightarrow> PodSnapshot" where
  "sample_pod name cpu =
     \<lparr>pod_namespace = ''default'', pod_name = name, pod_phase = PP_Running, pod_ready = (1, 1), pod_restarts = 0,
      pod_age_seconds = 60, pod_node = [], pod_cpu_millis = Some cpu, pod_mem_bytes = None, pod_qos = Burstable\<rparr>"

definition two_pods :: KubeSnapshot where
  "two_pods =
     \<lparr>ks_cluster_kind = CK_Generic, ks_server_version = None, ks_current_namespace = ''all'', ks_reachable = True,
      ks_metrics_available = True, ks_pods = [sample_pod ''idle'' 1, sample_pod ''busy'' 900], ks_nodes = [],
      ks_deployments = []\<rparr>"

text \<open>
  The inspector takes the selected pod from the filtered list in snapshot order, the table from the
  sorted view: with two pods the first row shows one and the inspector the other.
\<close>

theorem inspected_pod_not_highlighted:
  "let s = recompute_kube_view E ((app_new world)\<lparr>ap_tab := TKube, ap_last_snapshot := Some (sample_snapshot\<lparr>ss_kube := Some two_pods\<rparr>)\<rparr>);
       r = render_of E rt host screen s in
   map pod_name (cached_rows s (ks_pods two_pods)) = [''busy'', ''idle''] \<and> ap_kube_selected s = 0 \<and>
   map_option fst (details r) = Some (titled r ''Pod'' ''idle'')"
proof -
  have "contains_ignore_case u x []" for u x by (simp add: contains_ignore_case_def Let_def)
  moreover have "\<not> (900 :: u32) \<le> 1" by (simp add: word_le_nat_alt)
  ultimately show ?thesis
    by (simp add: Let_def app_new_def recompute_kube_view_def snapshot_kube_def sample_snapshot_def two_pods_def sample_pod_def
        compute_view_indices_def sort_pods_def flip_if_asc_def pod_le_def by_key_rev_def unwrap_or_def cached_rows_def
        map_filter_simps get_opt_def details_def kube_details_def pod_details_def render_of_def titled_def
        scrub_ctrl_def upt_rec)
qed

definition gpu_client :: GpuProcessSnapshot where
  "gpu_client = \<lparr>gp_pid = 7, gp_device_index = 0, gp_name = ''python'', gp_kind = GK_Compute, gp_mem_bytes = None\<rparr>"

text \<open>
  The count of matching GPU processes also looks at their PIDs, the table only at their names: a
  filter on a PID reports a match and shows no row.
\<close>

theorem gpu_filter_counts_unlisted:
  "let s = (app_new world)\<lparr>ap_tab := TGpu, ap_gpu_subview := GVProcs, ap_gpu_filter_input := ''7'',
             ap_last_snapshot := Some (sample_snapshot\<lparr>ss_gpu := Some (two_gpus\<lparr>gs_processes := [gpu_client]\<rparr>)\<rparr>)\<rparr>;
       r = render_of E rt host screen s in
   item_count E s = 1 \<and> table_gpu_procs r (two_gpus\<lparr>gs_processes := [gpu_client]\<rparr>) = []"
proof -
  have "byte_of (char_of (55 :: nat)) = byte_of CHR ''7''" by (simp add: byte_of_char_of)
  then have "char_of (55 :: nat) = CHR ''7''" by (simp only: byte_of_inject)
  then have "dec 7 = ''7''" by (simp add: dec.simps digit_char_def)
  then show ?thesis
    by (simp add: Let_def app_new_def item_count_def gpu_count_def snapshot_gpu_def sample_snapshot_def two_gpus_def
        gpu_client_def table_gpu_procs_def proc_rows_def render_of_def to_lowercase_def to_ascii_lowercase_def
        ascii_lower_def is_ascii_def sort_procs_def park_sort_def starts_with_def)
qed

text \<open>
  A selection that points past the last row, as a smaller snapshot leaves it on the Kubernetes, GPU,
  network and container tabs, scrolls the whole table out of view.
\<close>

theorem stale_selection_blanks_table:
  assumes "0 < sp_total spec" "sp_total spec + unat height \<le> Suc (sp_selected spec)" "1 < unat height" "width \<noteq> 0"
  shows "\<exists>fr. snd (draw_table t g width height spec row_at) = Some fr \<and> tf_body fr = []"
proof -
  define h where "h = unat height - 1"
  have h: "0 < h" using assms(3) by (simp add: h_def)
  define scroll where "scroll = viewport_offset (sp_selected spec) (sp_scroll spec) h"
  have "sp_total spec \<le> scroll" using assms(2) h
    by (auto simp: scroll_def viewport_offset_def h_def)
  moreover have "height \<noteq> 0" using assms(3) by auto
  ultimately show ?thesis
    using assms h unfolding draw_table_def Let_def h_def [symmetric] scroll_def [symmetric] by auto
qed

end
