(* ===== verification/Apple_Gpu.thy ===== *)
theory Apple_Gpu
  imports Gpu_Engine "HOL-Library.Multiset"
begin

text \<open>
  The Apple Silicon backend (\<open>muxtop-core/src/apple\<close>): the pure derivations of \<open>metrics.rs\<close>, the
  property dictionaries of \<open>ioregistry.rs\<close>, the sampler of \<open>ioreport.rs\<close> and the engine of
  \<open>engine.rs\<close>. What IOKit, Core Foundation and the private \<open>IOReport\<close> library answer is an
  argument: dictionaries as maps from keys to tagged values, foreign objects as numbers. The calls
  that hand an object back are kept as a list, so that ownership can be stated.
\<close>

section \<open>Derivations\<close>

type_synonym DvfsTable = "u32 list"

definition DVFS_ENTRY_LEN :: nat where "DVFS_ENTRY_LEN = 8"

definition MAX_PLAUSIBLE_CLOCK_MHZ :: nat where "MAX_PLAUSIBLE_CLOCK_MHZ = 4000"

definition u32_from_le_bytes :: "u8 list \<Rightarrow> u32" where
  "u32_from_le_bytes bs =
     of_nat (unat (bs ! 0) + unat (bs ! 1) * 256 + unat (bs ! 2) * 65536 + unat (bs ! 3) * 16777216)"

text \<open>The loop over the pairs, with the table decoded so far; the sum is taken in 64 bits.\<close>

fun dvfs_loop :: "u8 list \<Rightarrow> DvfsTable \<Rightarrow> DvfsTable option" where
  "dvfs_loop (b0 # b1 # b2 # b3 # b4 # b5 # b6 # b7 # rest) table =
     (let hz = u32_from_le_bytes [b0, b1, b2, b3];
          mhz = (ucast ((ucast hz + 500000) div (1000000 :: u64)) :: u32)
      in if MAX_PLAUSIBLE_CLOCK_MHZ < unat mhz then None else dvfs_loop rest (table @ [mhz]))"
| "dvfs_loop _ table = Some table"

definition parse_dvfs_table :: "u8 list \<Rightarrow> DvfsTable option" where
  "parse_dvfs_table blob =
     (if blob = [] \<or> length blob mod DVFS_ENTRY_LEN \<noteq> 0 then None else dvfs_loop blob [])"

definition state_index :: "string \<Rightarrow> nat option" where
  "state_index name =
     (if eq_ignore_ascii_case name ''off'' then Some 0
      else
        (case or_else (strip_prefix ''P'' name) (strip_prefix ''p'' name) of
           None \<Rightarrow> None
         | Some digits \<Rightarrow>
             if digits = [] \<or> \<not> list_all is_ascii_digit digits then None
             else (case parse_uint (2 ^ 64) digits of Inr n \<Rightarrow> Some n | Inl _ \<Rightarrow> None)))"

text \<open>
  The counters are 128 bits wide; at most \<open>2\<^sup>3\<^sup>1\<close> states reach these loops, so they
  cannot overflow (\<open>residency_sums_fit\<close>) and are natural numbers here.
\<close>

fun clock_loop :: "DvfsTable \<Rightarrow> (string \<times> u64) list \<Rightarrow> nat \<times> nat \<times> nat \<Rightarrow> (nat \<times> nat \<times> nat) option" where
  "clock_loop table [] acc = Some acc"
| "clock_loop table ((name, ticks) # rest) (weighted, active_ticks, known_ticks) =
     (case Option.bind (state_index name) (get_opt table) of
        None \<Rightarrow> if ticks = 0 then clock_loop table rest (weighted, active_ticks, known_ticks) else None
      | Some clock \<Rightarrow>
          if 0 < clock
          then clock_loop table rest
                 (weighted + unat ticks * unat clock, active_ticks + unat ticks, known_ticks + unat ticks)
          else clock_loop table rest (weighted, active_ticks, known_ticks + unat ticks))"

definition residency_weighted_clock_mhz :: "(string \<times> u64) list \<Rightarrow> DvfsTable \<Rightarrow> u32 option" where
  "residency_weighted_clock_mhz residencies table =
     (case clock_loop table residencies (0, 0, 0) of
        None \<Rightarrow> None
      | Some (weighted, active_ticks, known_ticks) \<Rightarrow>
          if known_ticks = 0 then None
          else if active_ticks = 0 then Some 0
          else if weighted div active_ticks < 2 ^ 32 then Some (of_nat (weighted div active_ticks)) else None)"

fun active_loop :: "DvfsTable \<Rightarrow> (string \<times> u64) list \<Rightarrow> nat \<times> nat \<Rightarrow> (nat \<times> nat) option" where
  "active_loop table [] acc = Some acc"
| "active_loop table ((name, ticks) # rest) (active, tot) =
     (case Option.bind (state_index name) (get_opt table) of
        None \<Rightarrow> if ticks = 0 then active_loop table rest (active, tot) else None
      | Some clock \<Rightarrow>
          active_loop table rest (if 0 < clock then active + unat ticks else active, tot + unat ticks))"

definition active_residency_pct :: "(string \<times> u64) list \<Rightarrow> DvfsTable \<Rightarrow> fl option" where
  "active_residency_pct residencies table =
     (case active_loop table residencies (0, 0) of
        None \<Rightarrow> None
      | Some (active, tot) \<Rightarrow>
          if tot = 0 then None
          else Some (to_f32 (fmul F64 (fdiv F64 (of_nat_fl F64 active) (of_nat_fl F64 tot)) (Fin 100))))"

definition energy_unit_joules :: "string \<Rightarrow> fl option" where
  "energy_unit_joules label =
     (let u = trim label in
      if u = ''nJ'' then Some (fl_round F64 (1 / 10 ^ 9))
      else if u = ''uJ'' \<or> u = [CHR 0xC2, CHR 0xB5, CHR ''J''] \<or> u = [CHR 0xCE, CHR 0xBC, CHR ''J'']
           then Some (fl_round F64 (1 / 10 ^ 6))
      else if u = ''mJ'' then Some (fl_round F64 (1 / 10 ^ 3))
      else if u = ''J'' then Some (Fin 1)
      else None)"

definition energy_delta_to_watts :: "int \<Rightarrow> string \<Rightarrow> duration \<Rightarrow> fl option" where
  "energy_delta_to_watts delta label elapsed =
     (if delta < 0 then None
      else
        let seconds = as_secs F64 elapsed in
        if fle seconds (Fin 0) then None
        else
          (case energy_unit_joules label of
             None \<Rightarrow> None
           | Some u \<Rightarrow> Some (to_f32 (fdiv F64 (fmul F64 (fl_round F64 (of_int delta)) u) seconds))))"

definition clamp_pct :: "int \<Rightarrow> fl" where
  "clamp_pct raw = fclamp (fl_round F32 (of_int raw)) (Fin 0) (Fin 100)"

section \<open>The registry\<close>

text \<open>
  A property value by its Core Foundation type. A number carries what \<open>to_i64\<close> answers, a string
  the text, data its bytes; a nested dictionary is a map.
\<close>

datatype cf_value =
    CFText string
  | CFNum "int option"
  | CFBytes "u8 list"
  | CFDict "string \<Rightarrow> cf_value option"
  | CFOther

type_synonym Properties = "string \<Rightarrow> cf_value option"

type_synonym io_object = nat

text \<open>
  What a lookup of services answers: no matching dictionary, a failed call, or an iterator with the
  objects it yields (0 ends it) and, per object, its properties when the call for them succeeds.
\<close>

datatype services =
    NoMatching
  | LookupFailed
  | Services io_object "(io_object \<times> Properties option) list"

datatype MatchBy = Class string | Name string

fun entries_loop ::
    "(io_object \<times> Properties option) list \<Rightarrow> Properties list \<Rightarrow> io_object list \<Rightarrow> Properties list \<times> io_object list" where
  "entries_loop [] out released = (out, released)"
| "entries_loop ((entry, props) # rest) out released =
     (if entry = 0 then (out, released)
      else entries_loop rest (case props of Some p \<Rightarrow> out @ [p] | None \<Rightarrow> out) (released @ [entry]))"

definition matching_properties :: "(MatchBy \<Rightarrow> services) \<Rightarrow> MatchBy \<Rightarrow> Properties list \<times> io_object list" where
  "matching_properties iokit by =
     (case iokit by of
        NoMatching \<Rightarrow> ([], [])
      | LookupFailed \<Rightarrow> ([], [])
      | Services it entries \<Rightarrow>
          (case entries_loop entries [] [] of (out, released) \<Rightarrow> (out, released @ [it])))"

text \<open>
  \<open>String::from_utf8_lossy\<close>: the length of the sequence at the head of the bytes and whether it is
  well-formed; an ill-formed one ends before its first unexpected byte and is replaced by U+FFFD.
\<close>

definition in_span :: "nat \<Rightarrow> nat \<Rightarrow> u8 list \<Rightarrow> nat \<Rightarrow> bool" where
  "in_span lo hi bs i \<longleftrightarrow> i < length bs \<and> lo \<le> unat (bs ! i) \<and> unat (bs ! i) \<le> hi"

definition second_span :: "nat \<Rightarrow> nat \<times> nat" where
  "second_span b =
     (if b = 0xE0 then (0xA0, 0xBF) else if b = 0xED then (0x80, 0x9F)
      else if b = 0xF0 then (0x90, 0xBF) else if b = 0xF4 then (0x80, 0x8F) else (0x80, 0xBF))"

definition utf8_unit :: "u8 list \<Rightarrow> nat \<times> bool" where
  "utf8_unit bs =
     (let b = unat (bs ! 0); (lo, hi) = second_span b in
      if b < 0x80 then (1, True)
      else if b < 0xC2 \<or> 0xF4 < b then (1, False)
      else if \<not> in_span lo hi bs 1 then (1, False)
      else if b < 0xE0 then (2, True)
      else if \<not> in_span 0x80 0xBF bs 2 then (2, False)
      else if b < 0xF0 then (3, True)
      else if \<not> in_span 0x80 0xBF bs 3 then (3, False)
      else (4, True))"

lemma utf8_unit_pos: "0 < fst (utf8_unit bs)"
  by (simp add: utf8_unit_def Let_def split: prod.split)

function from_utf8_lossy :: "u8 list \<Rightarrow> string" where
  "from_utf8_lossy bs =
     (if bs = [] then []
      else
        let (n, ok) = utf8_unit bs in
        (if ok then map (\<lambda>b. char_of (unat b)) (take n bs) else [CHR 0xEF, CHR 0xBF, CHR 0xBD])
        @ from_utf8_lossy (drop n bs))"
  by pat_completeness auto
termination
proof (relation "measure length")
  fix bs x n ok
  assume "bs \<noteq> []" "x = utf8_unit bs" "(n, ok) = x"
  then have "n = fst (utf8_unit bs)" by (metis fst_conv)
  with \<open>bs \<noteq> []\<close> show "(drop n bs, bs) \<in> measure length"
    using utf8_unit_pos [of bs] by (simp add: diff_less)
qed simp

declare from_utf8_lossy.simps [simp del]

definition string_value :: "Properties \<Rightarrow> string \<Rightarrow> string option" where
  "string_value props key =
     (case props key of
        Some (CFText s) \<Rightarrow> Some s
      | Some (CFBytes bytes) \<Rightarrow>
          let txt = trim (rev (dropWhile (\<lambda>c. c = CHR 0x00) (rev (from_utf8_lossy bytes)))) in
          if txt \<noteq> [] then Some txt else None
      | _ \<Rightarrow> None)"

definition number_value :: "Properties \<Rightarrow> string \<Rightarrow> int option" where
  "number_value props key = (case props key of Some (CFNum n) \<Rightarrow> n | _ \<Rightarrow> None)"

definition data_value :: "Properties \<Rightarrow> string \<Rightarrow> u8 list option" where
  "data_value props key = (case props key of Some (CFBytes bs) \<Rightarrow> Some bs | _ \<Rightarrow> None)"

record AcceleratorInfo =
  ai_model :: "string option"
  ai_class :: "string option"
  ai_gpu_core_count :: "u32 option"
  ai_driver_version :: "string option"
  ai_utilization_pct :: "int option"
  ai_in_use_memory_bytes :: "u64 option"

definition is_apple_gpu :: "AcceleratorInfo \<Rightarrow> bool" where
  "is_apple_gpu info \<longleftrightarrow> (case ai_class info of Some c \<Rightarrow> starts_with c ''AGX'' | None \<Rightarrow> False)"

text \<open>\<open>try_from\<close> to an unsigned type.\<close>

definition unsigned_from :: "int \<Rightarrow> 'a::len word option" where
  "unsigned_from n = (if 0 \<le> n \<and> n < 2 ^ LENGTH('a) then Some (word_of_int n) else None)"

definition decode_accelerator :: "Properties \<Rightarrow> AcceleratorInfo" where
  "decode_accelerator props =
     (let stats = (case props ''PerformanceStatistics'' of Some (CFDict d) \<Rightarrow> d | _ \<Rightarrow> (\<lambda>_. None)) in
      \<lparr>ai_model = string_value props ''model'', ai_class = string_value props ''IOClass'',
       ai_gpu_core_count = Option.bind (number_value props ''gpu-core-count'') unsigned_from,
       ai_driver_version = string_value props ''IOSourceVersion'',
       ai_utilization_pct = number_value stats ''Device Utilization %'',
       ai_in_use_memory_bytes = Option.bind (number_value stats ''In use system memory'') unsigned_from\<rparr>)"

definition accelerators :: "(MatchBy \<Rightarrow> services) \<Rightarrow> AcceleratorInfo list" where
  "accelerators iokit = map decode_accelerator (fst (matching_properties iokit (Class ''IOAccelerator'')))"

fun blob_loop :: "Properties list \<Rightarrow> u8 list option" where
  "blob_loop [] = None"
| "blob_loop (props # rest) =
     (case data_value props ''voltage-states9'' of Some blob \<Rightarrow> Some blob | None \<Rightarrow> blob_loop rest)"

definition gpu_dvfs_blob :: "(MatchBy \<Rightarrow> services) \<Rightarrow> u8 list option" where
  "gpu_dvfs_blob iokit = blob_loop (fst (matching_properties iokit (Name ''pmgr'')))"

text \<open>The system call's return code, the length it wrote and the value.\<close>

definition unified_memory_bytes :: "int \<times> nat \<times> u64 \<Rightarrow> u64 option" where
  "unified_memory_bytes sysctl =
     (case sysctl of (rc, len, val) \<Rightarrow> if rc = 0 \<and> len = 8 then Some val else None)"

section \<open>The sampler\<close>

definition LIB_IOREPORT :: string where "LIB_IOREPORT = ''/usr/lib/libIOReport.dylib''"
definition GROUP_ENERGY :: string where "GROUP_ENERGY = ''Energy Model''"
definition GROUP_GPU_STATS :: string where "GROUP_GPU_STATS = ''GPU Stats''"
definition SUBGROUP_PERF_STATES :: string where "SUBGROUP_PERF_STATES = ''GPU Performance States''"
definition CHANNEL_GPU_ENERGY :: string where "CHANNEL_GPU_ENERGY = ''GPU Energy''"
definition CHANNEL_GPU :: string where "CHANNEL_GPU = ''GPU''"
definition MIN_SAMPLE_INTERVAL :: duration where "MIN_SAMPLE_INTERVAL = from_millis 100"

text \<open>A Core Foundation object, and a channel of a sample as the accessors of the library read it.\<close>

type_synonym cf_ref = nat

datatype cf_event = Create cf_ref | Release cf_ref

record channel =
  ch_group :: "string option"
  ch_subgroup :: "string option"
  ch_name :: "string option"
  ch_unit :: "string option"
  ch_value :: int
  ch_states :: "(string option \<times> int) list"

text \<open>
  The library: the outcome of loading it, the error of a symbol it lacks, the channels it copies for
  a group and subgroup, the subscription, the delta of two samples, and the channels of a delta.
\<close>

record ioreport =
  lib_load :: "string + unit"
  lib_missing :: "string \<Rightarrow> string option"
  lib_copy_channels :: "string \<Rightarrow> string option \<Rightarrow> cf_ref option"
  lib_subscription :: "cf_ref option"
  lib_delta :: "cf_ref \<Rightarrow> cf_ref \<Rightarrow> cf_ref option"
  lib_channels :: "cf_ref \<Rightarrow> channel list option"

definition cf_string :: "string option \<Rightarrow> string" where
  "cf_string raw = unwrap_or raw []"

record IntervalReport =
  ir_energy :: "(int \<times> string) option"
  ir_residencies :: "(string \<times> u64) list"
  ir_elapsed :: duration

record IoReportSampler =
  sm_subscription :: cf_ref
  sm_channels :: cf_ref
  sm_previous :: "(cf_ref \<times> instant) option"

definition ioreport_symbols :: "string list" where
  "ioreport_symbols =
     [''IOReportCopyChannelsInGroup'', ''IOReportMergeChannels'', ''IOReportCreateSubscription'',
      ''IOReportCreateSamples'', ''IOReportCreateSamplesDelta'', ''IOReportChannelGetGroup'',
      ''IOReportChannelGetSubGroup'', ''IOReportChannelGetChannelName'', ''IOReportChannelGetUnitLabel'',
      ''IOReportSimpleGetIntegerValue'', ''IOReportStateGetCount'', ''IOReportStateGetNameForIndex'',
      ''IOReportStateGetResidency'']"

fun resolve_symbols :: "(string \<Rightarrow> string option) \<Rightarrow> string list \<Rightarrow> GpuError + unit" where
  "resolve_symbols missing [] = Inr ()"
| "resolve_symbols missing (symb # rest) =
     (case missing symb of
        Some e \<Rightarrow> Inl (DriverUnavailable ''Apple'' (symb @ '' is missing from '' @ LIB_IOREPORT @ '': '' @ e))
      | None \<Rightarrow> resolve_symbols missing rest)"

text \<open>
  The opened sampler or the error, with the objects created and released on the way. The dictionary
  the subscription writes through its out-parameter is left alone: the library documents no owner.
\<close>

definition sampler_open :: "ioreport \<Rightarrow> (GpuError + IoReportSampler) \<times> cf_event list" where
  "sampler_open lib =
     (case lib_load lib of
        Inl e \<Rightarrow> (Inl (DriverUnavailable ''Apple'' (LIB_IOREPORT @ '' could not be loaded: '' @ e)), [])
      | Inr _ \<Rightarrow>
        (case resolve_symbols (lib_missing lib) ioreport_symbols of
           Inl e \<Rightarrow> (Inl e, [])
         | Inr _ \<Rightarrow>
           (case lib_copy_channels lib GROUP_ENERGY None of
              None \<Rightarrow>
                (Inl (Query (''IOReport has no '' @ [CHR 0x27] @ GROUP_ENERGY @ [CHR 0x27] @ '' group on this host'')), [])
            | Some channels \<Rightarrow>
              let evs = Create channels #
                (case lib_copy_channels lib GROUP_GPU_STATS (Some SUBGROUP_PERF_STATES) of
                   Some perf_channels \<Rightarrow> [Create perf_channels, Release perf_channels] | None \<Rightarrow> [])
              in
              (case lib_subscription lib of
                 None \<Rightarrow> (Inl (Query ''IOReportCreateSubscription was refused''), evs @ [Release channels])
               | Some subscription \<Rightarrow>
                   (Inr \<lparr>sm_subscription = subscription, sm_channels = channels, sm_previous = None\<rparr>,
                    evs @ [Create subscription])))))"

text \<open>The walk over the channels of a delta, with the report so far and whether it has the finer counter.\<close>

fun decode_loop :: "channel list \<Rightarrow> IntervalReport \<Rightarrow> bool \<Rightarrow> IntervalReport" where
  "decode_loop [] report have_preferred_energy = report"
| "decode_loop (channel # rest) report have_preferred_energy =
     (let group = cf_string (ch_group channel) in
      if group = GROUP_ENERGY then
        let name = cf_string (ch_name channel);
            preferred = (name = CHANNEL_GPU_ENERGY)
        in if preferred \<or> (name = CHANNEL_GPU \<and> \<not> have_preferred_energy)
           then decode_loop rest (report\<lparr>ir_energy := Some (ch_value channel, cf_string (ch_unit channel))\<rparr>)
                  (have_preferred_energy \<or> preferred)
           else decode_loop rest report have_preferred_energy
      else if group = GROUP_GPU_STATS \<and> cf_string (ch_subgroup channel) = SUBGROUP_PERF_STATES
      then decode_loop rest
             (report\<lparr>ir_residencies := ir_residencies report @
                map (\<lambda>(name, ticks). (cf_string name, word_of_int (max ticks 0))) (ch_states channel)\<rparr>)
             have_preferred_energy
      else decode_loop rest report have_preferred_energy)"

definition sampler_decode :: "ioreport \<Rightarrow> cf_ref \<Rightarrow> IntervalReport" where
  "sampler_decode lib delta =
     (let report = \<lparr>ir_energy = None, ir_residencies = [], ir_elapsed = 0\<rparr> in
      case lib_channels lib delta of
        None \<Rightarrow> report
      | Some items \<Rightarrow> decode_loop items report False)"

text \<open>
  One call: \<open>current\<close> is the sample the library creates, if any, and \<open>now\<close> the time it is taken.
  Besides the report and the new state it yields the objects it creates and releases, in order.
\<close>

definition sampler_sample ::
    "ioreport \<Rightarrow> cf_ref option \<Rightarrow> instant \<Rightarrow> IoReportSampler \<Rightarrow>
     IntervalReport option \<times> IoReportSampler \<times> cf_event list" where
  "sampler_sample lib current now s =
     (case current of
        None \<Rightarrow> (None, s, [])
      | Some cur \<Rightarrow>
          (case sm_previous s of
             None \<Rightarrow> (None, s\<lparr>sm_previous := Some (cur, now)\<rparr>, [Create cur])
           | Some (previous, taken) \<Rightarrow>
               if duration_since now taken < MIN_SAMPLE_INTERVAL
               then (None, s\<lparr>sm_previous := Some (previous, taken)\<rparr>, [Create cur, Release cur])
               else
                 let s' = s\<lparr>sm_previous := Some (cur, now)\<rparr> in
                 (case lib_delta lib previous cur of
                    None \<Rightarrow> (None, s', [Create cur, Release previous])
                  | Some delta \<Rightarrow>
                      (Some ((sampler_decode lib delta)\<lparr>ir_elapsed := duration_since now taken\<rparr>), s',
                       [Create cur, Create delta, Release previous, Release delta]))))"

definition sampler_drop :: "IoReportSampler \<Rightarrow> cf_event list" where
  "sampler_drop s =
     (case sm_previous s of Some (smp, _) \<Rightarrow> [Release smp] | None \<Rightarrow> []) @
     [Release (sm_channels s), Release (sm_subscription s)]"

section \<open>The engine\<close>

definition MACOS_UNSUPPORTED_GPU_DETAIL :: string where
  "MACOS_UNSUPPORTED_GPU_DETAIL =
     ''no Apple Silicon GPU on this Mac '' @ [CHR 0xE2, CHR 0x80, CHR 0x94] @ '' muxtop'' @ [CHR 0x27] @
     ''s macOS backend does not cover the AMD or Intel GPU in an Intel Mac''"

record AppleEngine =
  ax_unified_memory_bytes :: "u64 option"
  ax_dvfs :: "DvfsTable option"
  ax_sampler :: "IoReportSampler option"

definition apple_connect ::
    "(MatchBy \<Rightarrow> services) \<Rightarrow> ioreport \<Rightarrow> int \<times> nat \<times> u64 \<Rightarrow> GpuError + AppleEngine" where
  "apple_connect iokit lib sysctl =
     (let accs = accelerators iokit in
      if accs = [] then Inl (DriverUnavailable ''Apple'' ''no IOAccelerator service in the IORegistry'')
      else if \<not> list_ex is_apple_gpu accs then Inl (Unsupported MACOS_UNSUPPORTED_GPU_DETAIL)
      else Inr \<lparr>ax_unified_memory_bytes = unified_memory_bytes sysctl,
                ax_dvfs = Option.bind (gpu_dvfs_blob iokit) parse_dvfs_table,
                ax_sampler = (case fst (sampler_open lib) of Inr s \<Rightarrow> Some s | Inl _ \<Rightarrow> None)\<rparr>)"

definition device_name :: "AcceleratorInfo \<Rightarrow> string" where
  "device_name info =
     (let base = unwrap_or (or_else (ai_model info) (ai_class info)) ''Apple GPU'' in
      case ai_gpu_core_count info of
        Some k \<Rightarrow> if 0 < k then base @ '' ('' @ dec (unat k) @ ''-core GPU)'' else base
      | None \<Rightarrow> base)"

record DeviceInputs =
  di_index :: u32
  di_info :: AcceleratorInfo
  di_power_watts :: "fl option"
  di_graphics_clock_mhz :: "u32 option"
  di_residency_pct :: "fl option"
  di_unified_memory_bytes :: "u64 option"

definition build_device :: "DeviceInputs \<Rightarrow> GpuDeviceSnapshot" where
  "build_device inp =
     \<lparr>gd_index = di_index inp, gd_vendor = GV_Apple, gd_backend = AppleIoReport,
      gd_name = device_name (di_info inp), gd_bus_id = [],
      gd_driver_version = ai_driver_version (di_info inp),
      gd_utilization_pct = or_else (map_option clamp_pct (ai_utilization_pct (di_info inp))) (di_residency_pct inp),
      gd_mem_utilization_pct = None,
      gd_mem_used_bytes = ai_in_use_memory_bytes (di_info inp), gd_mem_total_bytes = di_unified_memory_bytes inp,
      gd_temperature_c = None, gd_power_watts = di_power_watts inp, gd_power_limit_watts = None,
      gd_graphics_clock_mhz = di_graphics_clock_mhz inp, gd_memory_clock_mhz = None, gd_fan_pct = None,
      gd_encoder_pct = None, gd_decoder_pct = None, gd_supports_process_stats = False\<rparr>"

text \<open>
  One collection: the sampler is called when there is one, with the sample the library creates and
  the time. A poisoned lock is taken over, so a panic elsewhere changes nothing here.
\<close>

definition apple_collect ::
    "(MatchBy \<Rightarrow> services) \<Rightarrow> ioreport \<Rightarrow> cf_ref option \<Rightarrow> instant \<Rightarrow> AppleEngine \<Rightarrow>
     GpusSnapshot \<times> AppleEngine \<times> cf_event list" where
  "apple_collect iokit lib current now e =
     (let (interval, e', evs) =
        (case ax_sampler e of
           None \<Rightarrow> (None, e, [])
         | Some s \<Rightarrow>
             (case sampler_sample lib current now s of
                (rep, s', rel) \<Rightarrow> (rep, e\<lparr>ax_sampler := Some s'\<rparr>, rel)));
        power_watts = Option.bind interval (\<lambda>report.
          Option.bind (ir_energy report) (\<lambda>(delta, label).
            energy_delta_to_watts delta label (ir_elapsed report)));
        residency = Option.bind interval (\<lambda>report. map_option (\<lambda>table. (ir_residencies report, table)) (ax_dvfs e));
        graphics_clock_mhz = Option.bind residency (\<lambda>(res, table). residency_weighted_clock_mhz res table);
        residency_pct = Option.bind residency (\<lambda>(res, table). active_residency_pct res table);
        devices = map (\<lambda>(index, info).
            build_device \<lparr>di_index = of_nat index, di_info = info, di_power_watts = power_watts,
              di_graphics_clock_mhz = graphics_clock_mhz, di_residency_pct = residency_pct,
              di_unified_memory_bytes = ax_unified_memory_bytes e\<rparr>)
          (enumerate 0 (filter is_apple_gpu (accelerators iokit)))
      in
      (if devices = [] then gpus_unavailable_with ''the Apple GPU disappeared from the IORegistry''
       else \<lparr>gs_backends = [AppleIoReport], gs_available = True, gs_devices = devices, gs_processes = [],
             gs_detail = []\<rparr>,
       e', evs))"

text \<open>The blocking task: an error text when it panicked or was cancelled.\<close>

definition apple_snapshot ::
    "(MatchBy \<Rightarrow> services) \<Rightarrow> ioreport \<Rightarrow> cf_ref option \<Rightarrow> instant \<Rightarrow> AppleEngine \<Rightarrow> string option \<Rightarrow>
     GpuError + GpusSnapshot" where
  "apple_snapshot iokit lib current now e join_error =
     (case join_error of
        Some err \<Rightarrow> Inl (Query (''Apple GPU collection task panicked or was cancelled: '' @ err))
      | None \<Rightarrow> Inr (fst (apple_collect iokit lib current now e)))"

lemma apple_collect_ok: "gpus_ok (fst (apple_collect iokit lib current now e))"
  by (auto simp: apple_collect_def gpus_ok_def dense_def points_def Let_def nth_enumerate_eq build_device_def
      simp del: gpus_ok_unavailable split: prod.splits option.splits)
    (auto simp: gpus_unavailable_with_def gpus_unavailable_def)

interpretation apple: gpu_backend "\<lambda>(iokit, lib, current, now, e, j). apple_snapshot iokit lib current now e j"
  by unfold_locales (auto simp: apple_snapshot_def apple_collect_ok split: option.splits)

section \<open>Clocks\<close>

text \<open>The clock the table gives a state; the states that ran, with their clocks and ticks.\<close>

definition clock_of :: "DvfsTable \<Rightarrow> string \<Rightarrow> u32 option" where
  "clock_of table name = Option.bind (state_index name) (get_opt table)"

definition runs :: "DvfsTable \<Rightarrow> (string \<times> u64) list \<Rightarrow> (u32 option \<times> nat) list" where
  "runs table res = map (\<lambda>(name, ticks). (clock_of table name, unat ticks)) (filter (\<lambda>(_, ticks). ticks \<noteq> 0) res)"

definition ran_clocks :: "DvfsTable \<Rightarrow> (string \<times> u64) list \<Rightarrow> u32 option list" where
  "ran_clocks table res = map fst (runs table res)"

definition weight_sum :: "(u32 option \<times> nat) list \<Rightarrow> nat" where
  "weight_sum rs = (\<Sum>(c, t)\<leftarrow>rs. t * unat (the c))"

definition active_sum :: "(u32 option \<times> nat) list \<Rightarrow> nat" where
  "active_sum rs = (\<Sum>(c, t)\<leftarrow>rs. if 0 < the c then t else 0)"

definition known_sum :: "(u32 option \<times> nat) list \<Rightarrow> nat" where
  "known_sum rs = (\<Sum>(c, t)\<leftarrow>rs. t)"

lemmas runs_defs = runs_def known_sum_def ran_clocks_def weight_sum_def active_sum_def clock_of_def

lemma runs_Nil [simp]: "runs table [] = []" "ran_clocks table [] = []" "weight_sum [] = 0" "active_sum [] = 0" "known_sum [] = 0"
  by (simp_all add: runs_defs)

lemma runs_Cons [simp]:
  "runs table ((name, ticks) # res) =
     (if ticks = 0 then runs table res else (clock_of table name, unat ticks) # runs table res)"
  "ran_clocks table ((name, ticks) # res) = (if ticks = 0 then ran_clocks table res else clock_of table name # ran_clocks table res)"
  "weight_sum ((c, t) # rs) = t * unat (the c) + weight_sum rs"
  "active_sum ((c, t) # rs) = (if 0 < the c then t else 0) + active_sum rs"
  "known_sum ((c, t) # rs) = t + known_sum rs"
  by (simp_all add: runs_defs)

lemma clock_loop_eq:
  "clock_loop table res (w, a, k) =
     (if None \<in> set (ran_clocks table res) then None
      else Some (w + weight_sum (runs table res), a + active_sum (runs table res),
                 k + known_sum (runs table res)))"
proof (induction table res "(w, a, k)" arbitrary: w a k rule: clock_loop.induct)
  case (2 table name ticks rest w a k)
  show ?case
  proof (cases "clock_of table name")
    case None
    then show ?thesis using 2(1) by (simp add: clock_of_def)
  next
    case (Some c)
    then show ?thesis using 2(2,3) by (cases "c = 0") (simp_all add: clock_of_def word_gt_0)
  qed
qed simp

lemma active_loop_eq:
  "active_loop table res (a, k) =
     (if None \<in> set (ran_clocks table res) then None
      else Some (a + active_sum (runs table res), k + known_sum (runs table res)))"
proof (induction table res "(a, k)" arbitrary: a k rule: active_loop.induct)
  case (2 table name ticks rest a k)
  show ?case
  proof (cases "clock_of table name")
    case None
    then show ?thesis using 2(1) by (simp add: clock_of_def)
  next
    case (Some c)
    then show ?thesis using 2(2) by (cases "c = 0") (simp_all add: clock_of_def word_gt_0)
  qed
qed simp

lemma runs_ticks: "(c, t) \<in> set (runs table res) \<Longrightarrow> 0 < t \<and> t < 2 ^ 64"
proof -
  assume "(c, t) \<in> set (runs table res)"
  then obtain ticks :: u64 where "t = unat ticks" "ticks \<noteq> 0" by (auto simp: runs_def)
  then show ?thesis using unsigned_less [of ticks, where ?'a = nat] by (simp add: unat_gt_0)
qed

text \<open>No accumulator can reach \<open>2\<^sup>1\<^sup>2\<^sup>8\<close> with the number of states a 32-bit count allows.\<close>

lemma residency_sums_fit:
  assumes "length res < 2 ^ 31"
  shows "weight_sum (runs table res) < 2 ^ 128" "known_sum (runs table res) < 2 ^ 128"
proof -
  have len: "length (runs table res) \<le> length res" by (simp add: runs_def)
  have b: "t * unat (the c :: u32) \<le> 2 ^ 96 \<and> t \<le> 2 ^ 96" if "(c, t) \<in> set (runs table res)" for c t
  proof
    have t: "t < 2 ^ 64" using runs_ticks [OF that] by simp
    then have "t * unat (the c) \<le> 2 ^ 64 * 2 ^ 32"
      using unsigned_less [of "the c", where ?'a = nat] by (intro mult_mono) auto
    then show "t * unat (the c) \<le> 2 ^ 96" by simp
    show "t \<le> 2 ^ 96" using t by simp
  qed
  have s: "(\<Sum>x\<leftarrow>xs. f x) \<le> length xs * m" if "\<forall>x\<in>set xs. f x \<le> m" for f :: "'a \<Rightarrow> nat" and xs m
    using that by (induction xs) (auto intro: add_mono)
  have "weight_sum (runs table res) \<le> length (runs table res) * 2 ^ 96"
    unfolding weight_sum_def by (rule s) (use b in auto)
  moreover have "known_sum (runs table res) \<le> length (runs table res) * 2 ^ 96"
    unfolding known_sum_def by (rule s) (use b in auto)
  moreover have "length (runs table res) * 2 ^ 96 < 2 ^ 31 * (2 ^ 96 :: nat)"
    using len assms by (intro mult_strict_right_mono) auto
  ultimately show "weight_sum (runs table res) < 2 ^ 128" "known_sum (runs table res) < 2 ^ 128"
    by simp_all
qed

lemma ticks_zero: "known_sum (runs table res) = 0 \<longleftrightarrow> ran_clocks table res = []"
  using runs_ticks [of _ _ table res] by (cases "runs table res") (auto simp: ran_clocks_def known_sum_def)

lemma active_zero: "active_sum (runs table res) = 0 \<longleftrightarrow> \<not> list_ex (\<lambda>c. 0 < the c) (ran_clocks table res)"
  using runs_ticks [of _ _ table res]
  by (fastforce simp: active_sum_def ran_clocks_def list_ex_iff sum_list_eq_0_iff)

text \<open>The weighted mean lies between two of the clocks it averages.\<close>

lemma mean_below:
  "list_all (\<lambda>(c, t). unat (the c) \<le> hi) rs \<Longrightarrow> weight_sum rs \<le> hi * active_sum rs"
  by (induction rs) (auto simp: weight_sum_def active_sum_def algebra_simps word_gt_0 intro: add_mono mult_mono)

lemma mean_above:
  "list_all (\<lambda>(c, t). 0 < the c \<longrightarrow> lo \<le> unat (the c)) rs \<Longrightarrow> lo * active_sum rs \<le> weight_sum rs"
  by (induction rs) (auto simp: weight_sum_def active_sum_def algebra_simps word_gt_0 intro: add_mono mult_mono)

text \<open>
  C33. The clock of the Apple backend: it is unknown exactly when no state ran or a state that ran
  has no entry in the table of clocks; zero when every state that ran is the parked one; otherwise it
  lies between two clocks at which the device really ran, so the parked ticks never enter it. The
  conversion to 32 bits never fails.
\<close>

theorem apple_clock_is_a_mean:
  "case residency_weighted_clock_mhz res table of
     None \<Rightarrow> ran_clocks table res = [] \<or> None \<in> set (ran_clocks table res)
   | Some c \<Rightarrow> ran_clocks table res \<noteq> [] \<and> None \<notin> set (ran_clocks table res) \<and>
       (if list_ex (\<lambda>k. 0 < the k) (ran_clocks table res)
        then list_ex (\<lambda>k. 0 < the k \<and> the k \<le> c) (ran_clocks table res) \<and> list_ex (\<lambda>k. c \<le> the k) (ran_clocks table res)
        else c = 0)"
proof (cases "None \<in> set (ran_clocks table res) \<or> \<not> list_ex (\<lambda>k. 0 < the k) (ran_clocks table res)")
  case True
  then show ?thesis
    by (auto simp: residency_weighted_clock_mhz_def clock_loop_eq ticks_zero active_zero)
next
  case False
  define rs where "rs = runs table res"
  define c where "c = weight_sum rs div active_sum rs"
  have a: "0 < active_sum rs" using active_zero [of table res] False by (auto simp: rs_def)
  have n: "ran_clocks table res \<noteq> []" using False by auto
  have rs: "set (ran_clocks table res) = fst ` set rs" by (simp add: ran_clocks_def rs_def)
  have lo: "list_ex (\<lambda>k. 0 < the k \<and> unat (the k) \<le> c) (ran_clocks table res)"
  proof (rule ccontr)
    assume "\<not> ?thesis"
    then have "Suc c * active_sum rs \<le> weight_sum rs"
      by (intro mean_above) (auto simp: list_all_iff list_ex_iff rs not_le)
    then have "Suc c \<le> weight_sum rs div active_sum rs" using a by (simp only: less_eq_div_iff_mult_less_eq)
    then show False by (simp add: c_def)
  qed
  have hi: "list_ex (\<lambda>k. c \<le> unat (the k)) (ran_clocks table res)"
  proof (rule ccontr)
    assume no: "\<not> ?thesis"
    then have "weight_sum rs \<le> (c - 1) * active_sum rs"
      by (intro mean_below) (auto simp: list_all_iff list_ex_iff rs not_le)
    then have "c \<le> c - 1" using a div_le_mono [of _ _ "active_sum rs"] by (fastforce simp: c_def)
    then show False using no n by (cases "ran_clocks table res") auto
  qed
  then have "c < 2 ^ 32"
    using unsigned_less [where ?'a = nat and ?'b = 32] by (auto simp: list_ex_iff intro: le_less_trans)
  moreover from this have u: "unat (of_nat c :: u32) = c" by (simp add: unat_of_nat)
  ultimately have "residency_weighted_clock_mhz res table = Some (of_nat c)"
    using False n a ticks_zero [of table res]
    by (simp add: residency_weighted_clock_mhz_def clock_loop_eq rs_def c_def)
  with False n lo hi show ?thesis by (simp add: word_le_nat_alt u)
qed

section \<open>Utilisation and rows\<close>

lemma fl_round_upto:
  assumes "0 \<le> x" "x \<le> of_nat n" "n < 2 ^ 24"
  obtains v where "fl_round m x = Fin v" "0 \<le> v" "v \<le> of_nat n"
proof -
  have "(16777216 :: nat) \<le> 2 ^ nat (prec m)" by (cases m) simp_all
  then have e: "rnd m (of_nat n) = of_nat n" using assms(3) by (intro rnd_nat_exact) simp
  have r: "0 \<le> rnd m x" "rnd m x \<le> of_nat n"
    using rnd_nonneg [OF assms(1)] rnd_mono [OF assms(1,2), of m] by (simp_all add: e)
  have "(of_nat n :: rat) < of_nat (2 ^ 24)" using assms(3) by (simp only: of_nat_less_iff)
  also have "of_nat (2 ^ 24) = pow2 24" by (simp add: pow2_def)
  also have "pow2 24 \<le> pow2 (emax m + 1)" by (cases m) (auto intro: pow2_mono)
  finally have "rnd m x < pow2 (emax m + 1)" using r(2) by linarith
  with r show thesis using that by (simp add: fl_round_cases [OF assms(1)])
qed

lemma ticks_finite:
  assumes "n < 2 ^ 128"
  shows "of_nat_fl F64 n = Fin (rnd F64 (of_nat n))"
proof -
  have p: "rnd F64 (of_int 1 * pow2 128) = of_int 1 * pow2 128" by (rule rnd_exact [OF refl]) auto
  have "(of_nat n :: rat) \<le> of_nat (2 ^ 128)" using assms by (simp only: of_nat_le_iff less_imp_le)
  then have "rnd F64 (of_nat n) \<le> pow2 128" using rnd_mono [of "of_nat n" "pow2 128" F64] p by (simp add: pow2_def)
  also have "pow2 128 < pow2 1024" by (simp add: pow2_less_iff)
  finally show ?thesis by (simp add: of_nat_fl_def fl_round_cases)
qed

text \<open>The share of time out of the parked state is a percentage, with the states a 32-bit count allows.\<close>

theorem active_residency_in_range:
  assumes "active_residency_pct res table = Some u" "length res < 2 ^ 31"
  shows "fle (Fin 0) u \<and> fle u (Fin 100)"
proof -
  define a t where "a = active_sum (runs table res)" and "t = known_sum (runs table res)"
  have u: "u = to_f32 (fmul F64 (fdiv F64 (of_nat_fl F64 a) (of_nat_fl F64 t)) (Fin 100))" and t0: "t \<noteq> 0"
    using assms(1) by (auto simp: active_residency_pct_def active_loop_eq a_def t_def split: if_splits)
  have at: "a \<le> t" unfolding a_def t_def
    by (induction "runs table res") (auto simp: active_sum_def known_sum_def intro: sum_list_mono)
  have t: "t < 2 ^ 128" unfolding t_def by (rule residency_sums_fit(2) [OF assms(2)])
  define x y where "x = rnd F64 (of_nat a)" and "y = rnd F64 (of_nat t)"
  have xy: "0 \<le> x" "x \<le> y" using at by (auto simp: x_def y_def rnd_nonneg rnd_mono)
  have "1 \<le> y" using rnd_mono [of 1 "of_nat t" F64] rnd_nat_exact [of 1 F64] t0 by (simp add: y_def)
  with xy have q: "0 \<le> x / y" "x / y \<le> of_nat 1" by (simp_all add: divide_le_eq)
  obtain v where v: "fl_round F64 (x / y) = Fin v" "0 \<le> v" "v \<le> of_nat 1"
    by (rule fl_round_upto [OF q]) simp
  have v100: "0 \<le> v * 100" "v * 100 \<le> of_nat 100" using v by simp_all
  obtain w where w: "fl_round F64 (v * 100) = Fin w" "0 \<le> w" "w \<le> of_nat 100"
    by (rule fl_round_upto [OF v100]) simp
  obtain z where z: "fl_round F32 w = Fin z" "0 \<le> z" "z \<le> of_nat 100"
    by (rule fl_round_upto [OF w(2,3)]) simp
  have "u = Fin z"
    using at t \<open>1 \<le> y\<close> by (simp add: u ticks_finite v w z flip: x_def y_def)
  with z show ?thesis by simp
qed

lemma map_enumerate: "map (\<lambda>p. f (snd p)) (enumerate n xs) = map f xs" "enumerate n xs = [] \<longleftrightarrow> xs = []"
  by (induction xs arbitrary: n) simp_all

text \<open>
  One row per accelerator whose driver is Apple's, in the registry's order, and none for another
  driver; the counters Apple does not publish stay unknown and the driver's percentage is clamped.
\<close>

theorem apple_rows_are_honest:
  "case apple_collect iokit lib current now e of (snap, _, _) \<Rightarrow>
     map gd_name (gs_devices snap) = map device_name (filter is_apple_gpu (accelerators iokit)) \<and>
     list_all (\<lambda>d. gd_vendor d = GV_Apple \<and> gd_temperature_c d = None \<and> gd_fan_pct d = None \<and>
       gd_power_limit_watts d = None \<and> gd_memory_clock_mhz d = None \<and> gd_encoder_pct d = None) (gs_devices snap) \<and>
     gs_processes snap = []"
  by (auto simp: apple_collect_def Let_def build_device_def gpus_unavailable_with_def gpus_unavailable_def comp_def
      list_all_iff case_prod_beta in_set_enumerate_eq map_enumerate split: prod.split)

lemma only_agx_drivers:
  "is_apple_gpu \<lparr>ai_model = None, ai_class = Some ''AGXAcceleratorG15G'', ai_gpu_core_count = None,
     ai_driver_version = None, ai_utilization_pct = None, ai_in_use_memory_bytes = None\<rparr>"
  "\<not> is_apple_gpu \<lparr>ai_model = None, ai_class = Some ''AMDRadeonX6000'', ai_gpu_core_count = None,
     ai_driver_version = None, ai_utilization_pct = None, ai_in_use_memory_bytes = None\<rparr>"
  by (simp_all add: is_apple_gpu_def starts_with_def)

section \<open>The table of clocks\<close>

definition le_bytes :: "u32 \<Rightarrow> u8 list" where
  "le_bytes w = map (\<lambda>i. ucast (drop_bit (8 * i) w)) [0..<4]"

definition rounded_mhz :: "u32 \<Rightarrow> nat" where
  "rounded_mhz hz = (unat hz + 500000) div 1000000"

definition dvfs_blob :: "(u32 \<times> u32) list \<Rightarrow> u8 list" where
  "dvfs_blob pairs = concat (map (\<lambda>(hz, mv). le_bytes hz @ le_bytes mv) pairs)"

lemma dvfs_blob_simps [simp]:
  "dvfs_blob [] = []" "dvfs_blob ((hz, mv) # pairs) = le_bytes hz @ le_bytes mv @ dvfs_blob pairs"
  by (simp_all add: dvfs_blob_def)

lemma base256:
  fixes n :: nat
  assumes "n < 2 ^ 32"
  shows "n mod 256 + n div 256 mod 256 * 256 + n div 65536 mod 256 * 65536 + n div 16777216 mod 256 * 16777216 = n"
proof -
  define q1 q2 q3 where "q1 = n div 256" and "q2 = q1 div 256" and "q3 = q2 div 256"
  have d: "n div 65536 = q2" "n div 16777216 = q3"
    unfolding q1_def q2_def q3_def by (simp_all flip: div_mult2_eq)
  have "q3 < 256" using assms d(2) by (simp add: less_mult_imp_div_less)
  then show ?thesis
    using div_mult_mod_eq [of n 256] div_mult_mod_eq [of q1 256] div_mult_mod_eq [of q2 256]
    unfolding d by (simp flip: q1_def q2_def q3_def)
qed

lemma byte_of_word: "unat (ucast w :: u8) = unat (w :: u32) mod 256"
  by (simp add: unsigned_ucast_eq take_bit_eq_mod)

lemma unat_drop_bit: "unat (drop_bit k w) = unat (w :: u32) div 2 ^ k"
proof -
  have "unat w < 2 ^ 32" using unsigned_less [of w, where ?'a = nat] by simp
  then show ?thesis
    by (simp add: unsigned_drop_bit_eq take_bit_eq_mod) (simp add: drop_bit_eq_div)
qed

lemma from_le_bytes_le_bytes: "u32_from_le_bytes (le_bytes w) = w"
proof -
  have n: "unat w < 2 ^ 32" using unsigned_less [of w, where ?'a = nat] by simp
  then show ?thesis
    using base256 [OF n] by (simp add: u32_from_le_bytes_def le_bytes_def upt_rec byte_of_word unat_drop_bit del: of_nat_add of_nat_mult)
qed

lemma le_bytes_from_le_bytes: "le_bytes (u32_from_le_bytes [a, b, c, d]) = [a, b, c, d]"
proof -
  define n where "n = unat a + unat b * 256 + unat c * 65536 + unat d * 16777216"
  have lt: "unat x < 256" for x :: u8 using unsigned_less [of x, where ?'a = nat] by simp
  have w: "u32_from_le_bytes [a, b, c, d] = of_nat n"
    by (simp add: u32_from_le_bytes_def n_def)
  have n: "n < 2 ^ 32" using lt [of a] lt [of b] lt [of c] lt [of d] by (simp add: n_def)
  have u: "unat (of_nat n :: u32) = n" using n by (simp add: unat_of_nat)
  have "n = unat a + 256 * (unat b + unat c * 256 + unat d * 65536)" by (simp add: n_def)
  then have "n mod 256 = unat a mod 256" by (metis mod_mult_self2)
  moreover have "unat b + unat c * 256 + unat d * 65536 = unat b + 256 * (unat c + unat d * 256)" by simp
  then have "(unat b + unat c * 256 + unat d * 65536) mod 256 = unat b mod 256" by (metis mod_mult_self2)
  ultimately have "n mod 256 = unat a" "(unat b + unat c * 256 + unat d * 65536) mod 256 = unat b" "n div 256 = unat b + unat c * 256 + unat d * 65536"
    "n div 65536 = unat c + unat d * 256" "n div 16777216 = unat d"
    using lt [of a] lt [of b] lt [of c] lt [of d] by (simp_all add: n_def)
  then show ?thesis
    using lt [of b] lt [of c] lt [of d]
    by (simp add: w le_bytes_def upt_rec word_unat_eq_iff byte_of_word unat_drop_bit u del: of_nat_add of_nat_mult)
qed

lemma rounded_mhz_word:
  "unat (ucast ((ucast hz + 500000) div (1000000 :: u64)) :: u32) = rounded_mhz hz"
proof -
  have h: "unat hz < 2 ^ 32" using unsigned_less [of hz, where ?'a = nat] by simp
  have "unat (ucast hz + 500000 :: u64) = unat hz + 500000"
    using h by (simp add: unat_plus_if' unsigned_ucast_eq take_bit_eq_mod)
  then have "unat ((ucast hz + 500000) div (1000000 :: u64)) = rounded_mhz hz"
    by (simp add: unat_div rounded_mhz_def)
  moreover have "rounded_mhz hz < 2 ^ 32" using h by (simp add: rounded_mhz_def)
  ultimately show ?thesis by (simp add: unsigned_ucast_eq take_bit_eq_mod)
qed

lemma le_bytes_eq: "\<exists>a b c d. le_bytes w = [a, b, c, d]"
  by (simp add: le_bytes_def upt_rec)

lemma dvfs_loop_pairs:
  "dvfs_loop (dvfs_blob es) table =
     (if list_all (\<lambda>(hz, _). rounded_mhz hz \<le> 4000) es
      then Some (table @ map (\<lambda>(hz, _). of_nat (rounded_mhz hz)) es) else None)"
proof (induction es arbitrary: table)
  case (Cons p es)
  obtain hz mv where p: "p = (hz, mv)" by fastforce
  obtain a b c d where h: "le_bytes hz = [a, b, c, d]" using le_bytes_eq by blast
  obtain a' b' c' d' where m: "le_bytes mv = [a', b', c', d']" using le_bytes_eq by blast
  have "u32_from_le_bytes [a, b, c, d] = hz" using from_le_bytes_le_bytes [of hz] by (simp add: h)
  moreover have "ucast ((ucast hz + 500000) div (1000000 :: u64)) = (of_nat (rounded_mhz hz) :: u32)"
    by (simp flip: rounded_mhz_word)
  ultimately show ?case using Cons.IH rounded_mhz_word [of hz]
    by (simp add: p h m Let_def MAX_PLAUSIBLE_CLOCK_MHZ_def not_less)
qed simp

lemma length_pairs: "length (dvfs_blob es) = 8 * length es"
  by (induction es) (auto simp: le_bytes_def)

lemma blob_pairs:
  "8 dvd length blob \<Longrightarrow> \<exists>pairs. blob = dvfs_blob pairs"
proof (induction blob rule: length_induct)
  case (1 blob)
  show ?case
  proof (cases "blob = []")
    case False
    with 1(2) have "8 \<le> length blob" by (auto dest: dvd_imp_le)
    then obtain a b c d a' b' c' d' rest where blob: "blob = a # b # c # d # a' # b' # c' # d' # rest"
      by (auto simp: Suc_le_length_iff numeral_eq_Suc)
    have "8 dvd length rest" using 1(2) by (simp add: blob) presburger
    with 1(1) [rule_format, of rest] obtain pairs where "rest = dvfs_blob pairs"
      by (auto simp: blob)
    then have "blob = dvfs_blob
        ((u32_from_le_bytes [a, b, c, d], u32_from_le_bytes [a', b', c', d']) # pairs)"
      by (simp add: blob le_bytes_from_le_bytes)
    then show ?thesis by blast
  qed (auto intro: exI [of _ "[]"])
qed

text \<open>
  C34. The table of clocks the firmware publishes: a blob of little-endian frequency and voltage pairs
  decodes, pair by pair and in the firmware's order, to the frequencies rounded to the nearest MHz;
  one clock above 4000 MHz, or no pair at all, rejects the whole table, and so does a blob that is not
  a whole number of pairs.
\<close>

theorem dvfs_table_decodes:
  "parse_dvfs_table (dvfs_blob es) =
     (if es \<noteq> [] \<and> list_all (\<lambda>(hz, _). rounded_mhz hz \<le> 4000) es
      then Some (map (\<lambda>(hz, _). of_nat (rounded_mhz hz)) es) else None) \<and>
   (parse_dvfs_table blob \<noteq> None \<longleftrightarrow>
      (\<exists>pairs. blob = dvfs_blob pairs \<and> pairs \<noteq> [] \<and>
         list_all (\<lambda>(hz, _). rounded_mhz hz \<le> 4000) pairs))"
proof
  have ok: "parse_dvfs_table (dvfs_blob es) =
     (if es \<noteq> [] \<and> list_all (\<lambda>(hz, _). rounded_mhz hz \<le> 4000) es
      then Some (map (\<lambda>(hz, _). of_nat (rounded_mhz hz)) es) else None)" for es
    using length_pairs [of es]
    by (cases "es = []") (auto simp: parse_dvfs_table_def DVFS_ENTRY_LEN_def dvfs_loop_pairs simp flip: length_greater_0_conv)
  then show "parse_dvfs_table (dvfs_blob es) =
     (if es \<noteq> [] \<and> list_all (\<lambda>(hz, _). rounded_mhz hz \<le> 4000) es
      then Some (map (\<lambda>(hz, _). of_nat (rounded_mhz hz)) es) else None)" .
  show "parse_dvfs_table blob \<noteq> None \<longleftrightarrow>
      (\<exists>pairs. blob = dvfs_blob pairs \<and> pairs \<noteq> [] \<and>
         list_all (\<lambda>(hz, _). rounded_mhz hz \<le> 4000) pairs)"
  proof
    assume some: "parse_dvfs_table blob \<noteq> None"
    then have "8 dvd length blob"
      by (auto simp: parse_dvfs_table_def DVFS_ENTRY_LEN_def split: if_splits)
    from blob_pairs [OF this] obtain pairs where p: "blob = dvfs_blob pairs"
      by blast
    with ok [of pairs] some show "\<exists>pairs. blob = dvfs_blob pairs \<and>
        pairs \<noteq> [] \<and> list_all (\<lambda>(hz, _). rounded_mhz hz \<le> 4000) pairs"
      by (auto split: if_splits)
  qed (use ok in auto)
qed

section \<open>Ownership and intervals\<close>

text \<open>
  What is held after a trace of creations and releases; \<open>None\<close> when an object is released that is
  not held.
\<close>

fun owned :: "cf_event list \<Rightarrow> cf_ref multiset \<Rightarrow> cf_ref multiset option" where
  "owned [] held = Some held"
| "owned (Create r # evs) held = owned evs (add_mset r held)"
| "owned (Release r # evs) held = (if r \<in># held then owned evs (held - {#r#}) else None)"

fun sampler_run ::
    "ioreport \<Rightarrow> (cf_ref option \<times> instant) list \<Rightarrow> IoReportSampler \<Rightarrow>
     IntervalReport option list \<times> IoReportSampler \<times> cf_event list" where
  "sampler_run lib [] s = ([], s, [])"
| "sampler_run lib ((current, now) # calls) s =
     (case sampler_sample lib current now s of
        (r, s', evs) \<Rightarrow>
          (case sampler_run lib calls s' of (rs, s'', evs') \<Rightarrow> (r # rs, s'', evs @ evs')))"

definition holds :: "IoReportSampler \<Rightarrow> cf_ref multiset" where
  "holds s = (case sm_previous s of Some (p, _) \<Rightarrow> {#p#} | None \<Rightarrow> {#}) + {#sm_channels s, sm_subscription s#}"

lemma owned_append: "owned (a @ b) h = Option.bind (owned a h) (owned b)"
  by (induction a h rule: owned.induct) auto

lemma sample_owned:
  "sampler_sample lib current now s = (r, s', evs) \<Longrightarrow> owned evs (holds s) = Some (holds s')"
  by (auto simp: sampler_sample_def holds_def Let_def split: option.splits prod.splits if_splits)

lemma run_owned: "sampler_run lib calls s = (rs, s', evs) \<Longrightarrow> owned evs (holds s) = Some (holds s')"
  by (induction lib calls s arbitrary: rs s' evs rule: sampler_run.induct)
    (auto simp: owned_append dest!: sample_owned split: prod.splits)

lemma drop_owned: "owned (sampler_drop s) (holds s) = Some {#}"
  by (auto simp: sampler_drop_def holds_def split: option.splits)

lemma open_owned:
  "sampler_open lib = (res, evs) \<Longrightarrow> owned evs {#} = Some (case res of Inr s \<Rightarrow> holds s | Inl _ \<Rightarrow> {#})"
  by (auto simp: sampler_open_def holds_def Let_def split: option.splits sum.splits)


text \<open>The interval reports of a run, in order, and what they add up to.\<close>

definition reported :: "IntervalReport option list \<Rightarrow> IntervalReport list" where
  "reported rs = List.map_filter id rs"

lemma reported_simps [simp]: "reported [] = []" "reported (None # rs) = reported rs" "reported (Some r # rs) = r # reported rs"
  by (simp_all add: reported_def List.map_filter_simps)

definition elapsed_sum :: "IntervalReport option list \<Rightarrow> duration" where
  "elapsed_sum rs = (\<Sum>r\<leftarrow>reported rs. ir_elapsed r)"

definition energy_sum :: "IntervalReport option list \<Rightarrow> int" where
  "energy_sum rs = (\<Sum>r\<leftarrow>reported rs. case ir_energy r of Some (e, _) \<Rightarrow> e | None \<Rightarrow> 0)"

text \<open>A library whose deltas are differences of an energy counter.\<close>

definition counts :: "ioreport \<Rightarrow> (cf_ref \<Rightarrow> int) \<Rightarrow> string \<Rightarrow> bool" where
  "counts lib joules label \<longleftrightarrow>
     (\<forall>p c. \<exists>d. lib_delta lib p c = Some d \<and> ir_energy (sampler_decode lib d) = Some (joules c - joules p, label))"

lemma sample_step:
  assumes "counts lib joules label" "sm_previous s = Some (p, t)" "t \<le> now"
    and "sampler_sample lib current now s = (r, s', evs)"
  obtains p' t' where "sm_previous s' = Some (p', t')" "t \<le> t'" "t' \<le> now"
    "elapsed_sum [r] = t' - t" "energy_sum [r] = joules p' - joules p"
    "list_all (\<lambda>x. MIN_SAMPLE_INTERVAL \<le> ir_elapsed x) (reported [r])"
    "current \<noteq> None \<longrightarrow> now < t' + MIN_SAMPLE_INTERVAL"
proof -
  have min: "0 < MIN_SAMPLE_INTERVAL" by (simp add: MIN_SAMPLE_INTERVAL_def from_millis_def nanos_per_sec_def)
  note defs = sampler_sample_def duration_since_def Let_def elapsed_sum_def energy_sum_def
  show thesis
  proof (cases current)
    case None
    then show thesis using assms(2-4) that by (simp add: defs)
  next
    case (Some c)
    obtain d where "lib_delta lib p c = Some d" "ir_energy (sampler_decode lib d) = Some (joules c - joules p, label)"
      using assms(1) by (auto simp: counts_def)
    with Some assms(2-4) that min show thesis
      by (cases "now - t < MIN_SAMPLE_INTERVAL") (auto simp: defs)
  qed
qed

lemma sums_Cons: "elapsed_sum (r # rs) = elapsed_sum [r] + elapsed_sum rs"
  "energy_sum (r # rs) = energy_sum [r] + energy_sum rs"
  by (cases r; simp add: elapsed_sum_def energy_sum_def)+

lemma reported_Cons: "list_all P (reported (r # rs)) \<longleftrightarrow> list_all P (reported [r]) \<and> list_all P (reported rs)"
  by (cases r) simp_all

text \<open>
  C12. The intervals the sampler reports cover the time it runs without gap or overlap: from one
  baseline on, however often it is called, the reported durations add up to the time between the first
  and the last baseline and the reported energies to the difference of the counter between them, each
  interval is at least 100 ms long, and every sample taken is less than 100 ms past the last baseline,
  so calling it too fast delays a reading but never starves it. The library's deltas are differences
  of a counter and its clock does not go back.
\<close>

theorem sampler_intervals_tile:
  assumes "counts lib joules label" "sm_previous s = Some (p, t)" "sorted (t # map snd calls)"
  shows "case sampler_run lib calls s of (rs, s', _) \<Rightarrow>
    (case sm_previous s' of
       None \<Rightarrow> False
     | Some (p', t') \<Rightarrow>
         t + elapsed_sum rs = t' \<and> energy_sum rs = joules p' - joules p \<and>
         list_all (\<lambda>r. MIN_SAMPLE_INTERVAL \<le> ir_elapsed r) (reported rs) \<and>
         list_all (\<lambda>(current, now). current = None \<or> now < t' + MIN_SAMPLE_INTERVAL) calls)"
  using assms(2,3)
proof (induction calls arbitrary: s p t)
  case (Cons call calls)
  obtain current now where c: "call = (current, now)" by fastforce
  obtain r s1 e1 where r: "sampler_sample lib current now s = (r, s1, e1)" by (metis prod_cases3)
  obtain p1 t1 where one: "sm_previous s1 = Some (p1, t1)" "t \<le> t1" "t1 \<le> now"
      "elapsed_sum [r] = t1 - t" "energy_sum [r] = joules p1 - joules p"
      "list_all (\<lambda>x. MIN_SAMPLE_INTERVAL \<le> ir_elapsed x) (reported [r])"
      "current \<noteq> None \<longrightarrow> now < t1 + MIN_SAMPLE_INTERVAL"
    using sample_step [OF assms(1) Cons.prems(1) _ r] Cons.prems(2) by (auto simp: c)
  obtain rs s2 e2 where rest: "sampler_run lib calls s1 = (rs, s2, e2)" by (metis prod_cases3)
  have "sorted (t1 # map snd calls)" using Cons.prems(2) one(3) by (auto simp: c)
  from Cons.IH [OF one(1) this] rest obtain p2 t2 where two: "sm_previous s2 = Some (p2, t2)"
      "t1 + elapsed_sum rs = t2" "energy_sum rs = joules p2 - joules p1"
      "list_all (\<lambda>r. MIN_SAMPLE_INTERVAL \<le> ir_elapsed r) (reported rs)"
      "list_all (\<lambda>(current, now). current = None \<or> now < t2 + MIN_SAMPLE_INTERVAL) calls"
    by (auto split: option.splits)
  have run: "sampler_run lib (call # calls) s = (r # rs, s2, e1 @ e2)" by (simp add: c r rest)
  have "t + elapsed_sum (r # rs) = t2" "energy_sum (r # rs) = joules p2 - joules p"
    "current = None \<or> now < t2 + MIN_SAMPLE_INTERVAL"
    using one two(2,3) by (auto simp: sums_Cons [of r rs])
  moreover have "list_all (\<lambda>r. MIN_SAMPLE_INTERVAL \<le> ir_elapsed r) (reported (r # rs))"
    using one(6) two(4) by (subst reported_Cons) simp
  ultimately show ?case unfolding run using two(1,5) by (simp add: c)
qed (simp add: elapsed_sum_def energy_sum_def)

definition sample_lib :: ioreport where
  "sample_lib =
     \<lparr>lib_load = Inr (), lib_missing = (\<lambda>_. None), lib_copy_channels = (\<lambda>_ _. Some 7), lib_subscription = Some 8,
      lib_delta = (\<lambda>p c. Some (if p \<le> c then 2 * (c - p) else 2 * (p - c) + 1)),
      lib_channels = (\<lambda>d. Some [\<lparr>ch_group = Some ''Energy Model'', ch_subgroup = None, ch_name = Some ''GPU Energy'',
        ch_unit = Some ''nJ'', ch_value = (if even d then int (d div 2) else - int (d div 2)), ch_states = []\<rparr>])\<rparr>"

lemma sample_lib_counts: "counts sample_lib int ''nJ''"
  by (simp add: counts_def sample_lib_def sampler_decode_def Let_def cf_string_def unwrap_or_def GROUP_ENERGY_def
      CHANNEL_GPU_ENERGY_def)

definition sample_calls :: "(cf_ref option \<times> instant) list" where
  "sample_calls = [(Some 40, 5), (None, 6), (Some 90, 250000000)]"

theorem sampler_intervals_tile_witness:
  "case sampler_run sample_lib sample_calls
      \<lparr>sm_subscription = 8, sm_channels = 7, sm_previous = Some (10, 0)\<rparr> of (rs, s', _) \<Rightarrow>
    (case sm_previous s' of
       None \<Rightarrow> False
     | Some (p', t') \<Rightarrow>
         0 + elapsed_sum rs = t' \<and> energy_sum rs = int p' - int 10 \<and>
         list_all (\<lambda>r. MIN_SAMPLE_INTERVAL \<le> ir_elapsed r) (reported rs) \<and>
         list_all (\<lambda>(current, now). current = None \<or> now < t' + MIN_SAMPLE_INTERVAL) sample_calls)"
  by (rule sampler_intervals_tile [OF sample_lib_counts, of "\<lparr>sm_subscription = 8, sm_channels = 7, sm_previous = Some (10, 0)\<rparr>" 10 0 sample_calls]) (simp_all add: sample_calls_def)

end
