(* ===== verification/Client_Main.thy ===== *)
theory Client_Main
  imports App_Invariants Remote_Client Docker_Engine Kube_Engine Gpu_Engine
begin

text \<open>
  The command line client (\<open>src/main.rs\<close>), the certificates it trusts (\<open>muxtop-proto/src/tls.rs\<close>)
  and the run of the interface around its loop (\<open>muxtop-tui/src/lib.rs\<close>): which engines and which
  source of snapshots a command line leads to, what it is refused for, and how the terminal is left.
  The parsed command line is a record; files, name resolution, the daemon, the cluster and the GPU
  probes are fields of a record of outcomes.
\<close>

section \<open>Trusted certificates\<close>

datatype TlsClientError = TC_Io io_error_kind | TC_NoCertificates | TC_Rustls string

type_synonym cert = "u8 list"

datatype TlsConnector = Trusting "cert list" | AcceptAny

fun add_roots :: "(cert \<Rightarrow> string option) \<Rightarrow> cert list \<Rightarrow> cert list \<Rightarrow> TlsClientError + cert list" where
  "add_roots add [] root_store = Inr root_store"
| "add_roots add (c # cs) root_store =
     (case add c of Some e \<Rightarrow> Inl (TC_Rustls e) | None \<Rightarrow> add_roots add cs (root_store @ [c]))"

text \<open>\<open>pem\<close> reads the certificates of a file, all of them or none; \<open>add\<close> is the error of adding a root.\<close>

definition connector_from_ca ::
    "(string \<Rightarrow> cert list option) \<Rightarrow> (cert \<Rightarrow> string option) \<Rightarrow> string \<Rightarrow> TlsClientError + TlsConnector" where
  "connector_from_ca pem add ca_path =
     (case pem ca_path of
        None \<Rightarrow> Inl TC_NoCertificates
      | Some certs \<Rightarrow>
          if certs = [] then Inl TC_NoCertificates
          else (case add_roots add certs [] of Inl e \<Rightarrow> Inl e | Inr roots \<Rightarrow> Inr (Trusting roots)))"

definition connector_insecure :: TlsConnector where
  "connector_insecure = AcceptAny"

text \<open>
  The decision about a server certificate: the library's verification against the roots, or the
  verifier that accepts everything.
\<close>

fun verify_server_cert :: "(cert list \<Rightarrow> 'ip ServerName \<Rightarrow> cert \<Rightarrow> bool) \<Rightarrow> TlsConnector \<Rightarrow> 'ip ServerName \<Rightarrow> cert \<Rightarrow> bool" where
  "verify_server_cert webpki (Trusting roots) server_name end_entity = webpki roots server_name end_entity"
| "verify_server_cert webpki AcceptAny server_name end_entity = True"

section \<open>The command line\<close>

record client_cli =
  cc_refresh :: u64
  cc_filter :: "string option"
  cc_sort :: SortField
  cc_tree :: bool
  cc_theme :: ThemeKind
  cc_no_color :: bool
  cc_ascii :: bool
  cc_no_mouse :: bool
  cc_about :: bool
  cc_remote :: "string option"
  cc_token :: "string option"
  cc_token_file :: "string option"
  cc_tls_ca :: "string option"
  cc_tls_skip_verify :: bool
  cc_docker_socket :: "string option"
  cc_no_containers :: bool
  cc_kube_context :: "string option"
  cc_kube_namespace :: "string option"
  cc_no_kube :: bool
  cc_no_gpu :: bool
  cc_bench_run :: "u64 option"

datatype client_error =
    CE_Runtime string
  | CE_Tracing string
  | CE_TokenFileUnreadable string
  | CE_TokenFileEmpty string
  | CE_TokenFileTooShort string nat
  | CE_TokenTooShort nat
  | CE_TokenRequired
  | CE_RemoteTarget string RemoteTargetError
  | CE_TlsCa TlsClientError
  | CE_TlsRequired

text \<open>The host: what the files, the resolver, the environment and the engines' endpoints answer.\<close>

record ('ip, 'kc, 'gpu) client_host =
  ch_runtime_error :: "string option"
  ch_tracing_error :: "string option"
  ch_read_to_string :: "string \<Rightarrow> string option"
  ch_pem :: "string \<Rightarrow> cert list option"
  ch_add_root :: "cert \<Rightarrow> string option"
  ch_ip_from_str :: "string \<Rightarrow> 'ip option"
  ch_to_socket_addrs :: "string \<Rightarrow> u16 \<Rightarrow> io_error_kind + ('ip \<times> u16) list"
  ch_sni :: "string \<Rightarrow> string + 'ip ServerName"
  ch_addr_text :: "'ip \<times> u16 \<Rightarrow> string"
  ch_ip_loopback :: "string \<Rightarrow> bool option"
  ch_env :: "string \<Rightarrow> string option"
  ch_exists :: "string \<Rightarrow> bool"
  ch_home_dir :: "string option"
  ch_symlink_metadata :: "string \<Rightarrow> bool option"
  ch_open_docker :: "ConnectionTarget \<Rightarrow> string + unit"
  ch_docker_info :: "(bollard_error + string option \<times> string option) timed"
  ch_kube :: "'kc kube_rs"
  ch_gpu_probes :: "(GpuError + 'gpu) list"

definition client_read_token_file :: "(string \<Rightarrow> string option) \<Rightarrow> string \<Rightarrow> client_error + string" where
  "client_read_token_file read_to_string path =
     (case read_to_string path of
        None \<Rightarrow> Inl (CE_TokenFileUnreadable path)
      | Some txt \<Rightarrow>
          let trimmed = trim txt in
          if trimmed = [] then Inl (CE_TokenFileEmpty path)
          else if length trimmed < 16 then Inl (CE_TokenFileTooShort path (length trimmed))
          else Inr trimmed)"

definition client_token :: "('ip, 'kc, 'gpu) client_host \<Rightarrow> client_cli \<Rightarrow> client_error + string" where
  "client_token h c =
     (case cc_token_file c of
        Some path \<Rightarrow> client_read_token_file (ch_read_to_string h) path
      | None \<Rightarrow>
          (case cc_token c of
             Some t \<Rightarrow>
               if 16 \<le> length t then Inr t
               else if t \<noteq> [] then Inl (CE_TokenTooShort (length t))
               else Inl CE_TokenRequired
           | None \<Rightarrow> Inl CE_TokenRequired))"

definition client_tls :: "('ip, 'kc, 'gpu) client_host \<Rightarrow> client_cli \<Rightarrow> client_error + TlsConnector" where
  "client_tls h c =
     (case cc_tls_ca c of
        Some ca_path \<Rightarrow>
          (case connector_from_ca (ch_pem h) (ch_add_root h) ca_path of Inl e \<Rightarrow> Inl (CE_TlsCa e) | Inr k \<Rightarrow> Inr k)
      | None \<Rightarrow> if cc_tls_skip_verify c then Inr connector_insecure else Inl CE_TlsRequired)"

section \<open>Engines\<close>

definition client_container_engine :: "('ip, 'kc, 'gpu) client_host \<Rightarrow> client_cli \<Rightarrow> DockerEngine option" where
  "client_container_engine h c =
     (if cc_remote c = None \<and> \<not> cc_no_containers c
      then maybe_connect_default_engine (ch_symlink_metadata h) (ch_open_docker h) (ch_docker_info h)
             (fst (detect_socket (ch_ip_loopback h) (ch_env h) (ch_exists h))) (cc_docker_socket c)
      else None)"

definition client_cluster_engine :: "('ip, 'kc, 'gpu) client_host \<Rightarrow> client_cli \<Rightarrow> KubeEngine option" where
  "client_cluster_engine h c =
     (if cc_remote c = None \<and> \<not> cc_no_kube c
      then (case kube_connect (ch_kube h) (detect_kubeconfig (ch_env h) (ch_exists h) (ch_home_dir h))
                   (cc_kube_context c) (cc_kube_namespace c) of
              Inr engine \<Rightarrow> Some engine | Inl _ \<Rightarrow> None)
      else None)"

definition client_gpu_engine :: "('ip, 'kc, 'gpu) client_host \<Rightarrow> client_cli \<Rightarrow> (string + 'gpu list) option" where
  "client_gpu_engine h c =
     (if cc_remote c = None \<and> \<not> cc_no_gpu c then Some (detect_gpu_engines (ch_gpu_probes h)) else None)"

section \<open>Running\<close>

definition CARGO_PKG_VERSION :: string where "CARGO_PKG_VERSION = ''0.7.0''"

datatype ('ip, 'gpu) source =
    LocalCollector duration "DockerEngine option" "KubeEngine option" "(string + 'gpu list) option"
  | RemoteSource "'ip \<times> u16" RemoteCollector TlsConnector "'ip ServerName"

record ('ip, 'gpu) launch =
  la_source :: "('ip, 'gpu) source"
  la_config :: CliConfig
  la_container_engine :: "DockerEngine option"
  la_cluster_engine :: "KubeEngine option"
  la_bench_run :: "u64 option"

definition TLS_BANNER :: string where
  "TLS_BANNER =
     replicate 60 (CHR ''='') @ [CHR 0x0A] @ ''WARNING: --tls-skip-verify is set.'' @ [CHR 0x0A] @
     ''Server certificates will NOT be validated. Anyone on the'' @ [CHR 0x0A] @
     ''network path can impersonate the muxtop-server. Use only'' @ [CHR 0x0A] @
     ''on a trusted local-loopback or development network.'' @ [CHR 0x0A] @ replicate 60 (CHR ''='')"

definition REFRESH_WARNING :: string where
  "REFRESH_WARNING = ''warning: --refresh is ignored in remote mode (server dictates timing)''"

definition startup_warnings :: "client_cli \<Rightarrow> string list" where
  "startup_warnings c =
     (if cc_tls_skip_verify c then [TLS_BANNER] else []) @
     (if cc_remote c \<noteq> None \<and> cc_refresh c \<noteq> 1 then [REFRESH_WARNING] else [])"

definition cli_config :: "ConnectionMode \<Rightarrow> client_cli \<Rightarrow> CliConfig" where
  "cli_config connection_mode c =
     \<lparr>cfg_filter = cc_filter c, cfg_sort_field = cc_sort c, cfg_tree_mode = cc_tree c,
      cfg_connection_mode = connection_mode, cfg_theme = cc_theme c,
      cfg_caps = \<lparr>ov_no_color = cc_no_color c, ov_ascii = cc_ascii c, ov_no_mouse = cc_no_mouse c\<rparr>\<rparr>"

text \<open>The lines written to the standard error and the error or what is started.\<close>

definition run_app ::
    "('ip, 'kc, 'gpu) client_host \<Rightarrow> client_cli \<Rightarrow> string list \<times> (client_error + ('ip, 'gpu) launch)" where
  "run_app h c =
     (case ch_tracing_error h of
        Some e \<Rightarrow> ([], Inl (CE_Tracing e))
      | None \<Rightarrow>
        (startup_warnings c,
         let container_engine = client_container_engine h c;
             cluster_engine = client_cluster_engine h c;
             gpu_engine = client_gpu_engine h c
         in case cc_remote c of
           None \<Rightarrow>
             Inr \<lparr>la_source = LocalCollector (from_secs (unat (cc_refresh c))) container_engine cluster_engine gpu_engine,
                  la_config = cli_config Local c, la_container_engine = container_engine,
                  la_cluster_engine = cluster_engine, la_bench_run = cc_bench_run c\<rparr>
         | Some addr_str \<Rightarrow>
             (case parse_remote_target (ch_ip_from_str h) (ch_to_socket_addrs h) (ch_sni h) addr_str of
                Inl e \<Rightarrow> Inl (CE_RemoteTarget addr_str e)
              | Inr (addr, sni) \<Rightarrow>
                (case client_token h c of
                   Inl e \<Rightarrow> Inl e
                 | Inr tok \<Rightarrow>
                   (case client_tls h c of
                      Inl e \<Rightarrow> Inl e
                    | Inr connector \<Rightarrow>
                        Inr \<lparr>la_source = RemoteSource addr \<lparr>rc_token = Some tok, rc_version = CARGO_PKG_VERSION\<rparr> connector sni,
                             la_config = cli_config (Remote addr_str (ch_addr_text h addr)) c,
                             la_container_engine = container_engine, la_cluster_engine = cluster_engine,
                             la_bench_run = cc_bench_run c\<rparr>)))))"

definition print_about :: "string list" where
  "print_about =
     [''muxtop v'' @ CARGO_PKG_VERSION,
      ''A modern, multiplexed system monitor for the terminal'',
      [],
      ''License:     MIT OR Apache-2.0'',
      ''Repository:  https://github.com/lucasschimmel/muxtop'',
      ''Authors:     Lucas Schimmel'',
      [],
      ''Privacy:     muxtop collects NO telemetry, NO analytics,'',
      ''             and phones home to NOBODY. Ever.'']"

datatype ('ip, 'gpu) main_outcome =
    Printed "string list"
  | Refused "string list" client_error
  | Started "string list" "('ip, 'gpu) launch"

definition client_main :: "('ip, 'kc, 'gpu) client_host \<Rightarrow> client_cli \<Rightarrow> ('ip, 'gpu) main_outcome" where
  "client_main h c =
     (if cc_about c then Printed print_about
      else
        (case ch_runtime_error h of
           Some e \<Rightarrow> Refused [] (CE_Runtime e)
         | None \<Rightarrow>
             (case run_app h c of (err, Inl e) \<Rightarrow> Refused err e | (err, Inr la) \<Rightarrow> Started err la)))"

section \<open>The benchmark loop\<close>

datatype bench_event = DeadlineReached | Received "SystemSnapshot option"

fun bench_loop :: "env \<Rightarrow> bench_event list \<Rightarrow> AppState \<Rightarrow> AppState" where
  "bench_loop E [] app = app"
| "bench_loop E (DeadlineReached # evs) app = app"
| "bench_loop E (Received None # evs) app = app"
| "bench_loop E (Received (Some snap) # evs) app =
     bench_loop E evs (recompute_visible E (apply_snapshot E snap app))"

definition bench_run_loop :: "env \<Rightarrow> bench_event list \<Rightarrow> CliConfig \<Rightarrow> os \<Rightarrow> AppState" where
  "bench_run_loop E evs config world = bench_loop E evs (with_config config TermCaps_default world)"

section \<open>The run of the interface\<close>

definition app_start :: "CliConfig \<Rightarrow> TermCaps \<Rightarrow> bool \<Rightarrow> bool \<Rightarrow> os \<Rightarrow> AppState" where
  "app_start config term_caps container_engine cluster_engine world =
     (let app = with_config config term_caps world;
          app = (if container_engine then set_container_engine app else app)
      in if cluster_engine then set_cluster_engine app else app)"

text \<open>
  What the loop meets: an event, with the time, whether the standard output takes a sequence and
  whether drawing succeeds (frames are \<open>draw_root\<close> and change no mode of the terminal); a failing
  poll; a panic; between turns, the answer to a spawned task. \<open>Waiting\<close> is a loop that has not ended.
\<close>

datatype loop_input = Polled instant bool Event bool | PollFails | Panics | Answered nat answer

datatype loop_end = Waiting | Quit | Failed | Panicked

fun tui_loop :: "env \<Rightarrow> loop_input list \<Rightarrow> AppState \<Rightarrow> loop_end \<times> AppState" where
  "tui_loop E [] app = (if ap_running app then Waiting else Quit, app)"
| "tui_loop E (i # rest) app =
     (if \<not> ap_running app then (Quit, app)
      else
        (case i of
           Polled now ok ev draw_ok \<Rightarrow>
             (case turn (at_instant E now ok) ev app of
                (should_draw, app') \<Rightarrow> if should_draw \<and> \<not> draw_ok then (Failed, app') else tui_loop E rest app')
         | PollFails \<Rightarrow> (Failed, snd (take_needs_redraw (pump_action_results E app)))
         | Panics \<Rightarrow> (Panicked, app)
         | Answered n ans \<Rightarrow> tui_loop E rest (finish_task E n ans app)))"

text \<open>The hook runs its commands without looking at failures of the first, and stops at one of the others.\<close>

definition panic_hook :: "(tty_cmd \<Rightarrow> 's \<Rightarrow> bool \<times> 's) \<Rightarrow> 's \<Rightarrow> 's" where
  "panic_hook tty t =
     (case tty DisableMouseCapture (snd (tty DisableRawMode t)) of
        (False, t) \<Rightarrow> t
      | (True, t) \<Rightarrow>
          (case tty LeaveAlternateScreen t of (False, t) \<Rightarrow> t | (True, t) \<Rightarrow> snd (tty ShowCursor t)))"

text \<open>The terminal's surroundings: whether the system assumes UTF-8, the environment and the size.\<close>

record term_env =
  te_utf8_os :: bool
  te_vars :: "string \<Rightarrow> string option"
  te_size :: "(u16 \<times> u16) option"

text \<open>
  \<open>run\<close>: whether and how it ends (\<open>True\<close> without error), the terminal and the application it leaves.
  The guard restores the terminal once more when it is dropped; a panic runs the hook, and then the
  guard only if it unwinds.
\<close>

definition tui_run ::
    "(tty_cmd \<Rightarrow> 's \<Rightarrow> bool \<times> 's) \<Rightarrow> bool \<Rightarrow> env \<Rightarrow> loop_input list \<Rightarrow> CliConfig \<Rightarrow> term_env \<Rightarrow> bool \<Rightarrow> bool \<Rightarrow> os \<Rightarrow> 's \<Rightarrow>
     bool option \<times> 's \<times> AppState" where
  "tui_run tty unwinds E inputs config te container_engine cluster_engine world t =
     (let term_caps = detect_terminal_caps_with (e_ulc E) (te_utf8_os te) (te_vars te) (te_size te) (cfg_caps config);
          app = app_start config term_caps container_engine cluster_engine world in
      case init_terminal tty (tc_mouse term_caps) t of
        (None, t) \<Rightarrow> (Some False, t, app)
      | (Some mouse_enabled, t) \<Rightarrow>
          (case tui_loop E inputs app of
             (Waiting, app) \<Rightarrow> (None, t, app)
           | (Quit, app) \<Rightarrow>
               (case restore_terminal tty mouse_enabled t of
                  (ok, t) \<Rightarrow> (Some ok, snd (restore_terminal tty mouse_enabled t), app))
           | (Failed, app) \<Rightarrow> (Some False, snd (restore_terminal tty mouse_enabled t), app)
           | (Panicked, app) \<Rightarrow>
               let t = panic_hook tty t in
               (Some False, if unwinds then snd (restore_terminal tty mouse_enabled t) else t, app)))"

section \<open>A remote run is guarded\<close>

lemma add_roots_ok: "add_roots add cs store = Inr roots \<Longrightarrow> roots = store @ cs"
  by (induction add cs store rule: add_roots.induct) (auto split: option.splits)

lemma connector_from_ca_ok:
  "connector_from_ca pem add path = Inr k \<Longrightarrow> \<exists>certs. certs \<noteq> [] \<and> pem path = Some certs \<and> k = Trusting certs"
  by (auto simp: connector_from_ca_def dest!: add_roots_ok split: option.splits if_splits sum.splits)

lemma client_token_long: "client_token h c = Inr tok \<Longrightarrow> 16 \<le> length tok"
  by (auto simp: client_token_def client_read_token_file_def Let_def split: option.splits if_splits)

lemma client_tls_ok:
  "client_tls h c = Inr k \<Longrightarrow>
   (case cc_tls_ca c of
      Some path \<Rightarrow> \<exists>certs. certs \<noteq> [] \<and> ch_pem h path = Some certs \<and> k = Trusting certs
    | None \<Rightarrow> cc_tls_skip_verify c \<and> k = AcceptAny)"
  by (auto simp: client_tls_def connector_insecure_def dest: connector_from_ca_ok split: option.splits sum.splits if_splits)

lemma no_engines_remote:
  assumes "cc_remote c = Some target"
  shows "client_container_engine h c = None" "client_cluster_engine h c = None" "client_gpu_engine h c = None"
  using assms by (simp_all add: client_container_engine_def client_cluster_engine_def client_gpu_engine_def)

lemma run_app_remote:
  assumes "run_app h c = (err, Inr la)" "cc_remote c = Some target"
  obtains addr sni tok k where
    "parse_remote_target (ch_ip_from_str h) (ch_to_socket_addrs h) (ch_sni h) target = Inr (addr, sni)"
    "client_token h c = Inr tok" "client_tls h c = Inr k" "err = startup_warnings c"
    "la = \<lparr>la_source = RemoteSource addr \<lparr>rc_token = Some tok, rc_version = CARGO_PKG_VERSION\<rparr> k sni,
           la_config = cli_config (Remote target (ch_addr_text h addr)) c,
           la_container_engine = None, la_cluster_engine = None, la_bench_run = cc_bench_run c\<rparr>"
  using assms by (auto simp: run_app_def Let_def no_engines_remote split: option.splits sum.splits prod.splits)

lemma app_start_viewer:
  "cfg_connection_mode cfg = Remote host addr \<Longrightarrow> viewer w (app_start cfg caps ce cl w)"
  using with_config_start(2) [of cfg host addr w caps]
  by (simp add: app_start_def Let_def set_container_engine_def set_cluster_engine_def viewer_def is_remote_def)

lemma tui_loop_viewer: "viewer w app \<Longrightarrow> viewer w (snd (tui_loop E is app))"
proof (induction E "is" app rule: tui_loop.induct)
  case (2 E i rest app)
  show ?case
  proof (cases i)
    case (Polled now ok ev draw_ok)
    have "viewer w (snd (turn (at_instant E now ok) ev app))"
      using viewer_step [of w app E "Turn now ok ev"] 2(3) by simp
    then show ?thesis using 2 by (auto simp: Polled split: prod.split)
  next
    case (Answered n ans)
    have "viewer w (finish_task E n ans app)"
      using viewer_step [of w app E "Answer n ans"] 2(3) by simp
    then show ?thesis using 2 by (simp add: Answered)
  next
    case PollFails
    have "viewer w (before_event E app)" using 2(3) by (simp add: viewer_simps)
    then show ?thesis using 2(3) by (simp add: PollFails before_event_def)
  qed (use 2 in simp)
qed simp


definition sample_term :: term_env where
  "sample_term = \<lparr>te_utf8_os = True, te_vars = (\<lambda>_. None), te_size = None\<rparr>"

definition sample_host :: "(nat, unit, unit) client_host" where
  "sample_host =
     \<lparr>ch_runtime_error = None, ch_tracing_error = None, ch_read_to_string = (\<lambda>_. None),
      ch_pem = (\<lambda>_. Some [[1]]), ch_add_root = (\<lambda>_. None), ch_ip_from_str = sample_ip,
      ch_to_socket_addrs = (\<lambda>_ _. Inr []), ch_sni = (\<lambda>s. Inr (DnsName s)), ch_addr_text = (\<lambda>_. ''localhost:80''),
      ch_ip_loopback = (\<lambda>_. None), ch_env = (\<lambda>_. None), ch_exists = (\<lambda>_. False), ch_home_dir = None,
      ch_symlink_metadata = (\<lambda>_. None), ch_open_docker = (\<lambda>_. Inr ()), ch_docker_info = timed.TimedOut,
      ch_kube = sample_kube ''web'', ch_gpu_probes = []\<rparr>"

definition sample_remote_cli :: client_cli where
  "sample_remote_cli =
     \<lparr>cc_refresh = 1, cc_filter = None, cc_sort = SF_Cpu, cc_tree = False, cc_theme = TokyoNight, cc_no_color = False,
      cc_ascii = False, cc_no_mouse = False, cc_about = False, cc_remote = Some (''127.0.0.1'' @ '':'' @ dec 80),
      cc_token = Some ''correct-horse-16'', cc_token_file = None, cc_tls_ca = Some ''ca.pem'',
      cc_tls_skip_verify = False, cc_docker_socket = None, cc_no_containers = False, cc_kube_context = None,
      cc_kube_namespace = None, cc_no_kube = False, cc_no_gpu = False, cc_bench_run = None\<rparr>"

lemma sample_client_starts: "\<exists>la. client_main sample_host sample_remote_cli = Started [] la"
proof -
  have "\<exists>r. parse_remote_target sample_ip (\<lambda>_ _. Inr []) (\<lambda>s. Inr (DnsName s)) (''127.0.0.1'' @ '':'' @ dec 80) = Inr r"
  proof -
    have "CHR '':'' \<notin> set (dec 80)" by (rule dec_no_char) (simp add: is_ascii_digit_def)
    then have "split_host_port (''127.0.0.1'' @ '':'' @ dec 80) = Inr (''127.0.0.1'', 80)"
      using split_host_port_plain [of "''127.0.0.1''" "dec 80"] by (simp add: port_of_Inr parse_u16_dec)
    then show ?thesis by (simp add: parse_remote_target_def sample_ip_def)
  qed
  then show ?thesis
    by (auto simp: client_main_def run_app_def sample_remote_cli_def sample_host_def client_token_def client_tls_def
        connector_from_ca_def startup_warnings_def Let_def simp del: dec.simps split: prod.splits)
qed


section \<open>The terminal is restored\<close>

lemma restore_modes:
  assumes law: "tty_law tty modes" and m: "mouse_capture (modes s) \<Longrightarrow> flag"
  shows "modes (snd (restore_terminal tty flag s)) = shell_modes" "fst (restore_terminal tty flag s)"
proof -
  obtain s1 where 1: "tty DisableRawMode s = (True, s1)" using tty_lawD(2) [OF law, of DisableRawMode s] by (auto simp: leaving_def)
  obtain s2 where 2: "(if flag then tty DisableMouseCapture s1 else (True, s1)) = (True, s2)"
    using tty_lawD(2) [OF law, of DisableMouseCapture s1] by (cases flag) (auto simp: leaving_def)
  obtain s3 where 3: "tty LeaveAlternateScreen s2 = (True, s3)" using tty_lawD(2) [OF law, of LeaveAlternateScreen s2] by (auto simp: leaving_def)
  obtain s4 where 4: "tty ShowCursor s3 = (True, s4)" using tty_lawD(2) [OF law, of ShowCursor s3] by (auto simp: leaving_def)
  have "modes s4 = shell_modes"
    using tty_lawD(1) [OF law, of DisableRawMode s] tty_lawD(1) [OF law, of DisableMouseCapture s1]
      tty_lawD(1) [OF law, of LeaveAlternateScreen s2] tty_lawD(1) [OF law, of ShowCursor s3] 2 m
    by (cases flag; cases "modes s") (auto simp: 1 3 4 shell_modes_def)
  then show "modes (snd (restore_terminal tty flag s)) = shell_modes" "fst (restore_terminal tty flag s)"
    by (simp_all add: restore_terminal_def 1 2 3 4)
qed

lemma panic_hook_modes:
  assumes law: "tty_law tty modes"
  shows "modes (panic_hook tty s) = shell_modes"
proof -
  obtain s1 where 1: "tty DisableRawMode s = (True, s1)" using tty_lawD(2) [OF law, of DisableRawMode s] by (auto simp: leaving_def)
  obtain s2 where 2: "tty DisableMouseCapture s1 = (True, s2)" using tty_lawD(2) [OF law, of DisableMouseCapture s1] by (auto simp: leaving_def)
  obtain s3 where 3: "tty LeaveAlternateScreen s2 = (True, s3)" using tty_lawD(2) [OF law, of LeaveAlternateScreen s2] by (auto simp: leaving_def)
  show ?thesis
    using tty_lawD(1) [OF law, of DisableRawMode s] tty_lawD(1) [OF law, of DisableMouseCapture s1]
      tty_lawD(1) [OF law, of LeaveAlternateScreen s2] tty_lawD(1) [OF law, of ShowCursor s3]
    by (simp add: panic_hook_def 1 2 3 shell_modes_def split: if_splits)
qed

lemma tui_loop_waiting: "tui_loop E inputs app = (Waiting, app') \<Longrightarrow> ap_running app'"
  by (induction E inputs app rule: tui_loop.induct) (auto split: if_splits loop_input.splits prod.splits)


definition sample_events :: "loop_input list" where
  "sample_events = [Polled 0 True Tick True, Panics]"


end
