(* ===== verification/Server_Main.thy ===== *)
theory Server_Main
  imports Session Docker_Engine Kube_Engine Gpu_Engine
begin

text \<open>
  The start of the server binary (\<open>muxtop-server/src/main.rs\<close>, \<open>tls.rs\<close>): the self-signed certificate
  and where its files go, the engines and the configuration handed to the accept loop. The file
  system holds directories with their modes and, under paths whose directory part is resolved,
  regular files and symbolic links; what the system refuses is an argument, and so are the
  certificate generator, the PEM readers and the TLS configuration.
\<close>

unbundle bit_operations_syntax

section \<open>Files\<close>

type_synonym mode = "12 word"

datatype leaf = File mode string | Symlink string

record machine =
  mc_dirs :: "string \<Rightarrow> mode option"
  mc_leaves :: "string \<Rightarrow> leaf option"
  mc_stderr :: "string list"

text \<open>
  The process: its umask and the errors of making, changing, opening and writing a path, if any. A
  failing write comes with the number of bytes it wrote.
\<close>

record syscalls =
  sc_umask :: mode
  sc_mkdir_error :: "string \<Rightarrow> string option"
  sc_chmod_error :: "string \<Rightarrow> string option"
  sc_open_error :: "string \<Rightarrow> string option"
  sc_write_error :: "string \<Rightarrow> string \<Rightarrow> (string \<times> nat) option"

datatype start_error =
    SE_Tracing string
  | SE_Start startup_error
  | SE_CertGen TlsError
  | SE_CertParse
  | SE_Mkdir string
  | SE_Chmod string string
  | SE_Open string string
  | SE_Write string string
  | SE_Acceptor TlsError
  | SE_GeneratedAcceptor TlsError
  | SE_Panic
  | SE_Bind string

text \<open>The question mark operator on a step that changes the machine.\<close>

definition and_then ::
    "(start_error + 'a) \<times> machine \<Rightarrow> ('a \<Rightarrow> machine \<Rightarrow> (start_error + 'b) \<times> machine) \<Rightarrow> (start_error + 'b) \<times> machine" where
  "and_then r f = (case r of (Inl e, m) \<Rightarrow> (Inl e, m) | (Inr a, m) \<Rightarrow> f a m)"

definition eprintln :: "string \<Rightarrow> machine \<Rightarrow> machine" where
  "eprintln line m = m\<lparr>mc_stderr := mc_stderr m @ [line]\<rparr>"

definition MODE_DIR :: mode where "MODE_DIR = 448"
definition MODE_SECRET :: mode where "MODE_SECRET = 384"
definition MODE_PUBLIC :: mode where "MODE_PUBLIC = 420"

definition create_dir_all :: "syscalls \<Rightarrow> string \<Rightarrow> machine \<Rightarrow> (start_error + unit) \<times> machine" where
  "create_dir_all sc path m =
     (case mc_dirs m path of
        Some _ \<Rightarrow> (Inr (), m)
      | None \<Rightarrow>
          if mc_leaves m path \<noteq> None then (Inl (SE_Mkdir ''File exists''), m)
          else (case sc_mkdir_error sc path of
                  Some e \<Rightarrow> (Inl (SE_Mkdir e), m)
                | None \<Rightarrow> (Inr (), m\<lparr>mc_dirs := (mc_dirs m)(path \<mapsto> 511 AND NOT (sc_umask sc))\<rparr>)))"

definition ensure_data_dir :: "syscalls \<Rightarrow> string \<Rightarrow> machine \<Rightarrow> (start_error + unit) \<times> machine" where
  "ensure_data_dir sc path m =
     and_then (create_dir_all sc path m) (\<lambda>_ m.
       case sc_chmod_error sc path of
         Some e \<Rightarrow> (Inl (SE_Chmod path e), m)
       | None \<Rightarrow> (Inr (), m\<lparr>mc_dirs := (mc_dirs m)(path \<mapsto> MODE_DIR)\<rparr>))"

text \<open>
  \<open>open\<close> for writing with \<open>O_CREAT\<close>, \<open>O_TRUNC\<close> and \<open>O_NOFOLLOW\<close>: the mode is that of a file it creates; a
  file that is there is emptied and keeps its mode; a symbolic link is refused.
\<close>

definition open_nofollow :: "syscalls \<Rightarrow> mode \<Rightarrow> string \<Rightarrow> machine \<Rightarrow> (start_error + unit) \<times> machine" where
  "open_nofollow sc md path m =
     (case sc_open_error sc path of
        Some e \<Rightarrow> (Inl (SE_Open path e), m)
      | None \<Rightarrow>
          if mc_dirs m path \<noteq> None then (Inl (SE_Open path ''Is a directory''), m)
          else
            (case mc_leaves m path of
               None \<Rightarrow> (Inr (), m\<lparr>mc_leaves := (mc_leaves m)(path \<mapsto> File (md AND NOT (sc_umask sc)) [])\<rparr>)
             | Some (File old _) \<Rightarrow> (Inr (), m\<lparr>mc_leaves := (mc_leaves m)(path \<mapsto> File old [])\<rparr>)
             | Some (Symlink _) \<Rightarrow> (Inl (SE_Open path ''Too many levels of symbolic links''), m)))"

definition append_leaf :: "string \<Rightarrow> string \<Rightarrow> machine \<Rightarrow> machine" where
  "append_leaf path bytes m =
     (case mc_leaves m path of
        Some (File md old) \<Rightarrow> m\<lparr>mc_leaves := (mc_leaves m)(path \<mapsto> File md (old @ bytes))\<rparr>
      | _ \<Rightarrow> m)"

definition write_all :: "syscalls \<Rightarrow> string \<Rightarrow> string \<Rightarrow> machine \<Rightarrow> (start_error + unit) \<times> machine" where
  "write_all sc path bytes m =
     (case sc_write_error sc path bytes of
        Some (e, n) \<Rightarrow> (Inl (SE_Write path e), append_leaf path (take n bytes) m)
      | None \<Rightarrow> (Inr (), append_leaf path bytes m))"

definition open_secret_file_for_write :: "syscalls \<Rightarrow> string \<Rightarrow> machine \<Rightarrow> (start_error + unit) \<times> machine" where
  "open_secret_file_for_write sc path m = open_nofollow sc MODE_SECRET path m"

definition write_fingerprint_file :: "syscalls \<Rightarrow> string \<Rightarrow> string \<Rightarrow> machine \<Rightarrow> (start_error + unit) \<times> machine" where
  "write_fingerprint_file sc path fingerprint m =
     and_then (open_nofollow sc MODE_PUBLIC path m) (\<lambda>_ m.
       and_then (write_all sc path fingerprint m) (\<lambda>_ m. write_all sc path [CHR 0x0A] m))"

section \<open>The self-signed certificate\<close>

datatype 'ip SanType = San_IpAddress 'ip | San_DnsName string

datatype KeyUsagePurpose = DigitalSignature | KeyEncipherment

text \<open>Times in seconds.\<close>

record 'ip CertificateParams =
  cp_subject_alt_names :: "'ip SanType list"
  cp_common_name :: string
  cp_key_usages :: "KeyUsagePurpose list"
  cp_not_before :: int
  cp_not_after :: int

definition CERT_VALIDITY_DAYS :: int where "CERT_VALIDITY_DAYS = 90"

text \<open>The certificate library: why a DNS name is refused, key generation, signing and the key's PEM form.\<close>

record ('ip, 'key) rcgen =
  rg_ip_from_str :: "string \<Rightarrow> 'ip option"
  rg_dns_error :: "string \<Rightarrow> string option"
  rg_key_pair :: "string + 'key"
  rg_self_signed :: "'ip CertificateParams \<Rightarrow> 'key \<Rightarrow> string + string"
  rg_key_pem :: "'key \<Rightarrow> string"

definition generate_self_signed ::
    "('ip, 'key) rcgen \<Rightarrow> int \<Rightarrow> string \<Rightarrow> TlsError + string \<times> string" where
  "generate_self_signed rg now hostname =
     (case (case rg_ip_from_str rg hostname of
              Some ip \<Rightarrow> Inr (San_IpAddress ip)
            | None \<Rightarrow> (case rg_dns_error rg hostname of
                         Some e \<Rightarrow> Inl (CertGen e) | None \<Rightarrow> Inr (San_DnsName hostname))) of
        Inl e \<Rightarrow> Inl e
      | Inr san \<Rightarrow>
          let params =
            \<lparr>cp_subject_alt_names = [san], cp_common_name = hostname,
             cp_key_usages = [DigitalSignature, KeyEncipherment],
             cp_not_before = now - 3600, cp_not_after = now + CERT_VALIDITY_DAYS * 86400\<rparr>
          in
          (case rg_key_pair rg of
             Inl e \<Rightarrow> Inl (CertGen e)
           | Inr key_pair \<Rightarrow>
               (case rg_self_signed rg params key_pair of
                  Inl e \<Rightarrow> Inl (CertGen e)
                | Inr cert_pem \<Rightarrow> Inr (cert_pem, rg_key_pem rg key_pair))))"

section \<open>The command line and the host\<close>

record 'ip server_cli =
  sv_bind :: "'ip \<times> u16"
  sv_refresh :: u64
  sv_token :: "string option"
  sv_token_file :: "string option"
  sv_max_clients :: nat
  sv_rate_limit_per_ip :: fl
  sv_tls_cert :: "string option"
  sv_tls_key :: "string option"
  sv_tls_generate :: bool
  sv_docker_socket :: "string option"
  sv_no_containers :: bool
  sv_kube_context :: "string option"
  sv_kube_namespace :: "string option"
  sv_no_kube :: bool
  sv_no_gpu :: bool

text \<open>
  \<open>sh_pem_certs\<close> and \<open>sh_pem_key\<close> read certificates and a key from a text, \<open>sh_read\<close> is what a path reads
  as on the machine, \<open>sh_build\<close> builds the TLS configuration.
\<close>

record ('ip, 'key, 'c, 'k, 'acc, 'kc, 'gpu) server_host =
  sh_tracing_error :: "string option"
  sh_sys :: syscalls
  sh_read :: "machine \<Rightarrow> string \<Rightarrow> string option"
  sh_now :: int
  sh_ip_text :: "'ip \<Rightarrow> string"
  sh_rcgen :: "('ip, 'key) rcgen"
  sh_pem_certs :: "string \<Rightarrow> 'c list option"
  sh_pem_key :: "string \<Rightarrow> 'k option"
  sh_der :: "'c \<Rightarrow> u8 list"
  sh_sha256 :: "u8 list \<Rightarrow> u8 list"
  sh_build :: "'c list \<Rightarrow> 'k \<Rightarrow> string + 'acc"
  sh_data_local_dir :: "string option"
  sh_ip_loopback :: "string \<Rightarrow> bool option"
  sh_env :: "string \<Rightarrow> string option"
  sh_exists :: "string \<Rightarrow> bool"
  sh_home_dir :: "string option"
  sh_symlink_metadata :: "string \<Rightarrow> bool option"
  sh_open_docker :: "ConnectionTarget \<Rightarrow> string + unit"
  sh_docker_info :: "(bollard_error + string option \<times> string option) timed"
  sh_kube :: "'kc kube_rs"
  sh_gpu_probes :: "(GpuError + 'gpu) list"
  sh_bind_error :: "'ip \<times> u16 \<Rightarrow> string option"

definition acceptor_of_files ::
    "('ip, 'key, 'c, 'k, 'acc, 'kc, 'gpu) server_host \<Rightarrow> machine \<Rightarrow> string \<Rightarrow> string \<Rightarrow> TlsError + 'acc" where
  "acceptor_of_files h m cert_path key_path =
     acceptor_from_pem (Option.bind (sh_read h m cert_path) (sh_pem_certs h))
       (Option.bind (sh_read h m key_path) (sh_pem_key h)) (sh_build h)"

definition data_dir :: "('ip, 'key, 'c, 'k, 'acc, 'kc, 'gpu) server_host \<Rightarrow> string" where
  "data_dir h = path_join (unwrap_or (sh_data_local_dir h) ''.'') ''muxtop''"

definition generated_acceptor ::
    "('ip, 'key, 'c, 'k, 'acc, 'kc, 'gpu) server_host \<Rightarrow> 'ip server_cli \<Rightarrow> machine \<Rightarrow> (start_error + 'acc) \<times> machine" where
  "generated_acceptor h c m =
     (case generate_self_signed (sh_rcgen h) (sh_now h) (sh_ip_text h (fst (sv_bind c))) of
        Inl e \<Rightarrow> (Inl (SE_CertGen e), m)
      | Inr (cert_pem, key_pem) \<Rightarrow>
        (case sh_pem_certs h cert_pem of
           None \<Rightarrow> (Inl SE_CertParse, m)
         | Some [] \<Rightarrow> (Inl SE_Panic, m)
         | Some (cert # _) \<Rightarrow>
             let fingerprint = cert_fingerprint (sh_sha256 h) (sh_der h cert);
                 m = eprintln (''TLS: SHA-256 fingerprint: '' @ fingerprint)
                       (eprintln ''TLS: using auto-generated self-signed certificate'' m);
                 cert_path = path_join (data_dir h) ''server.crt'';
                 key_path = path_join (data_dir h) ''server.key'';
                 fp_path = path_join (data_dir h) ''server.fingerprint''
             in
             and_then (ensure_data_dir (sh_sys h) (data_dir h) m) (\<lambda>_ m.
             and_then (open_secret_file_for_write (sh_sys h) cert_path m) (\<lambda>_ m.
             and_then (write_all (sh_sys h) cert_path cert_pem m) (\<lambda>_ m.
             and_then (open_secret_file_for_write (sh_sys h) key_path m) (\<lambda>_ m.
             and_then (write_all (sh_sys h) key_path key_pem m) (\<lambda>_ m.
             and_then (write_fingerprint_file (sh_sys h) fp_path fingerprint m) (\<lambda>_ m.
               let m = eprintln (''TLS: fingerprint saved to '' @ fp_path)
                         (eprintln (''TLS: cert saved to '' @ cert_path @ '', key saved to '' @ key_path) m)
               in case acceptor_of_files h m cert_path key_path of
                    Inl e \<Rightarrow> (Inl (SE_GeneratedAcceptor e), m)
                  | Inr acc \<Rightarrow> (Inr acc, m)))))))))"

definition server_acceptor ::
    "('ip, 'key, 'c, 'k, 'acc, 'kc, 'gpu) server_host \<Rightarrow> 'ip server_cli \<Rightarrow> machine \<Rightarrow> (start_error + 'acc) \<times> machine" where
  "server_acceptor h c m =
     (case (sv_tls_cert c, sv_tls_key c) of
        (Some cert_path, Some key_path) \<Rightarrow>
          (case acceptor_of_files h m cert_path key_path of Inl e \<Rightarrow> (Inl (SE_Acceptor e), m) | Inr acc \<Rightarrow> (Inr acc, m))
      | _ \<Rightarrow> if sv_tls_generate c then generated_acceptor h c m else (Inl (SE_Start TlsRequired), m))"

section \<open>Engines\<close>

definition server_container_engine ::
    "('ip, 'key, 'c, 'k, 'acc, 'kc, 'gpu) server_host \<Rightarrow> 'ip server_cli \<Rightarrow> DockerEngine option" where
  "server_container_engine h c =
     (if sv_no_containers c then None
      else maybe_connect_default_engine (sh_symlink_metadata h) (sh_open_docker h) (sh_docker_info h)
             (fst (detect_socket (sh_ip_loopback h) (sh_env h) (sh_exists h))) (sv_docker_socket c))"

definition server_cluster_engine ::
    "('ip, 'key, 'c, 'k, 'acc, 'kc, 'gpu) server_host \<Rightarrow> 'ip server_cli \<Rightarrow> KubeEngine option" where
  "server_cluster_engine h c =
     (if sv_no_kube c then None
      else (case kube_connect (sh_kube h) (detect_kubeconfig (sh_env h) (sh_exists h) (sh_home_dir h))
                   (sv_kube_context c) (sv_kube_namespace c) of
              Inr engine \<Rightarrow> Some engine | Inl _ \<Rightarrow> None))"

definition server_gpu_engine ::
    "('ip, 'key, 'c, 'k, 'acc, 'kc, 'gpu) server_host \<Rightarrow> 'ip server_cli \<Rightarrow> (string + 'gpu list) option" where
  "server_gpu_engine h c = (if sv_no_gpu c then None else Some (detect_gpu_engines (sh_gpu_probes h)))"

section \<open>Starting\<close>

text \<open>The address, the TLS configuration and the engines, beside the settings of the accept loop.\<close>

record ('ip, 'acc, 'gpu) server_launch =
  sl_bind :: "'ip \<times> u16"
  sl_tls_acceptor :: 'acc
  sl_config :: ServerConfig
  sl_refresh :: duration
  sl_container_engine :: "DockerEngine option"
  sl_cluster_engine :: "KubeEngine option"
  sl_gpu_engine :: "(string + 'gpu list) option"

definition server_main ::
    "('ip, 'key, 'c, 'k, 'acc, 'kc, 'gpu) server_host \<Rightarrow> 'ip server_cli \<Rightarrow> machine \<Rightarrow>
     (start_error + ('ip, 'acc, 'gpu) server_launch) \<times> machine" where
  "server_main h c m =
     (case sh_tracing_error h of
        Some e \<Rightarrow> (Inl (SE_Tracing e), m)
      | None \<Rightarrow>
        (case auth_token_of (map_option (sh_read h m) (sv_token_file c)) (sv_token c) of
           Inl e \<Rightarrow> (Inl (SE_Start e), m)
         | Inr auth_token \<Rightarrow>
           and_then (server_acceptor h c m) (\<lambda>tls_acceptor m.
             if flt (sv_rate_limit_per_ip c) (Fin 0) then (Inl (SE_Start NegativeRate), m)
             else
               (case sh_bind_error h (sv_bind c) of
                  Some e \<Rightarrow> (Inl (SE_Bind e), m)
                | None \<Rightarrow>
                    (Inr \<lparr>sl_bind = sv_bind c, sl_tls_acceptor = tls_acceptor,
                          sl_config = \<lparr>cfg_max_clients = sv_max_clients c, cfg_auth_token = auth_token,
                            cfg_refresh_hz = ucast (sv_refresh c), cfg_rate_limit = sv_rate_limit_per_ip c\<rparr>,
                          sl_refresh = from_secs (unat (sv_refresh c)),
                          sl_container_engine = server_container_engine h c,
                          sl_cluster_engine = server_cluster_engine h c,
                          sl_gpu_engine = server_gpu_engine h c\<rparr>, m)))))"

section \<open>What starting may touch\<close>

lemma and_then_Inr:
  "and_then r f = (Inr b, m') \<longleftrightarrow> (\<exists>a m. r = (Inr a, m) \<and> f a m = (Inr b, m'))"
  by (cases r; cases "fst r") (auto simp: and_then_def)

lemma map_error_Inr:
  "(case r of Inl e \<Rightarrow> (Inl (f e), m) | Inr a \<Rightarrow> (Inr a, m)) = (Inr b, m') \<longleftrightarrow> r = Inr b \<and> m' = m"
  by (auto split: sum.split)

text \<open>Every leaf outside a set is as it was, and so is every symbolic link.\<close>

definition touches :: "string set \<Rightarrow> machine \<Rightarrow> machine \<Rightarrow> bool" where
  "touches S m m' \<longleftrightarrow>
     (\<forall>p. p \<notin> S \<longrightarrow> mc_leaves m' p = mc_leaves m p) \<and>
     (\<forall>p t. mc_leaves m p = Some (Symlink t) \<longrightarrow> mc_leaves m' p = Some (Symlink t))"

named_theorems touch_intros \<open>steps and the leaves they touch\<close>

lemma touches_refl [touch_intros, simp]: "touches S m m"
  by (simp add: touches_def)

lemma touches_trans: "touches S m m' \<Longrightarrow> touches S m' m'' \<Longrightarrow> touches S m m''"
  by (simp add: touches_def)

lemma touches_and_then [touch_intros]:
  assumes "touches S m (snd r)" "\<And>a m'. touches S m' (snd (f a m'))"
  shows "touches S m (snd (and_then r f))"
  using assms touches_trans by (cases r; cases "fst r") (auto simp: and_then_def)

lemma touches_eprintln [simp]: "touches S m (eprintln line m') \<longleftrightarrow> touches S m m'" "mc_leaves (eprintln line m) = mc_leaves m"
  "mc_dirs (eprintln line m) = mc_dirs m"
  by (simp_all add: touches_def eprintln_def)

lemma touches_append [touch_intros]: "p \<in> S \<Longrightarrow> touches S m (append_leaf p bytes m)"
  by (auto simp: touches_def append_leaf_def split: option.splits leaf.splits)

lemma touches_write [touch_intros]: "p \<in> S \<Longrightarrow> touches S m (snd (write_all sc p bytes m))"
  by (auto simp: write_all_def intro: touches_append split: option.split)

lemma touches_open [touch_intros]: "p \<in> S \<Longrightarrow> touches S m (snd (open_nofollow sc md p m))"
  by (auto simp: touches_def open_nofollow_def split: option.splits leaf.splits)

lemma touches_secret [touch_intros]: "p \<in> S \<Longrightarrow> touches S m (snd (open_secret_file_for_write sc p m))"
  by (simp add: open_secret_file_for_write_def touches_open)

lemma touches_dir [touch_intros]: "touches S m m' \<Longrightarrow> touches S m (snd (ensure_data_dir sc p m'))"
  by (auto simp: touches_def ensure_data_dir_def create_dir_all_def and_then_def split: option.splits)

lemma touches_fingerprint [touch_intros]: "p \<in> S \<Longrightarrow> touches S m (snd (write_fingerprint_file sc p fp m))"
  by (simp add: write_fingerprint_file_def touch_intros)

definition key_files :: "('ip, 'key, 'c, 'k, 'acc, 'kc, 'gpu) server_host \<Rightarrow> string list" where
  "key_files h = map (path_join (data_dir h)) [''server.crt'', ''server.key'', ''server.fingerprint'']"

lemma touches_generated: "touches (set (key_files h)) m (snd (generated_acceptor h c m))"
proof -
  note member = key_files_def [THEN arg_cong [where f = set]]
  show ?thesis
    unfolding generated_acceptor_def Let_def
    by (auto simp: member intro!: touch_intros split: sum.split option.split list.split)
qed

lemma touches_main: "touches (set (key_files h)) m (snd (server_main h c m))"
  unfolding server_main_def
  by (auto simp: server_acceptor_def touches_generated intro!: touch_intros split: option.split sum.split)

section \<open>What a successful start leaves\<close>

lemma open_nofollow_ok:
  assumes "open_nofollow sc md p m = (Inr (), m')"
  shows "mc_dirs m' = mc_dirs m \<and> (\<forall>t. mc_leaves m p \<noteq> Some (Symlink t)) \<and>
    mc_leaves m' = (mc_leaves m)(p \<mapsto> File (case mc_leaves m p of Some (File old _) \<Rightarrow> old | _ \<Rightarrow> md AND NOT (sc_umask sc)) [])"
  using assms by (auto simp: open_nofollow_def split: option.splits leaf.splits if_splits)

lemma write_all_ok:
  assumes "write_all sc p bytes m = (Inr (), m')" "mc_leaves m p = Some (File md old)"
  shows "mc_dirs m' = mc_dirs m \<and> mc_leaves m' = (mc_leaves m)(p \<mapsto> File md (old @ bytes))"
  using assms by (auto simp: write_all_def append_leaf_def split: option.splits)

lemma ensure_data_dir_ok:
  assumes "ensure_data_dir sc p m = (Inr (), m')"
  shows "mc_leaves m' = mc_leaves m \<and> mc_dirs m' p = Some MODE_DIR"
  using assms by (auto simp: ensure_data_dir_def create_dir_all_def and_then_def split: option.splits if_splits)

text \<open>The mode a file has after it is opened for writing with a mode.\<close>

definition opened_mode :: "syscalls \<Rightarrow> mode \<Rightarrow> leaf option \<Rightarrow> mode" where
  "opened_mode sc md l = (case l of Some (File old _) \<Rightarrow> old | _ \<Rightarrow> md AND NOT (sc_umask sc))"

lemma written_file:
  assumes "open_nofollow sc md p m = (Inr (), m1)" "write_all sc p bytes m1 = (Inr (), m2)"
  shows "mc_dirs m2 = mc_dirs m \<and> (\<forall>t. mc_leaves m p \<noteq> Some (Symlink t)) \<and>
    mc_leaves m2 = (mc_leaves m)(p \<mapsto> File (opened_mode sc md (mc_leaves m p)) bytes)"
  using open_nofollow_ok [OF assms(1)] write_all_ok [OF assms(2)] by (auto simp: opened_mode_def)

lemma written_fingerprint:
  assumes "write_fingerprint_file sc p fp m = (Inr (), m')"
  shows "mc_dirs m' = mc_dirs m \<and> (\<forall>t. mc_leaves m p \<noteq> Some (Symlink t)) \<and>
    mc_leaves m' = (mc_leaves m)(p \<mapsto> File (opened_mode sc MODE_PUBLIC (mc_leaves m p)) (fp @ [CHR 0x0A]))"
proof -
  obtain m1 m2 where 1: "open_nofollow sc MODE_PUBLIC p m = (Inr (), m1)" "write_all sc p fp m1 = (Inr (), m2)"
    and 2: "write_all sc p [CHR 0x0A] m2 = (Inr (), m')"
    using assms by (auto simp: write_fingerprint_file_def and_then_Inr)
  from written_file [OF 1] write_all_ok [OF 2] show ?thesis by auto
qed

lemma key_files_distinct: "distinct (key_files h)"
  by (auto simp: key_files_def path_join_def)

text \<open>What is served and stored after a start with a generated certificate.\<close>

definition generated_state ::
    "('ip, 'key, 'c, 'k, 'acc, 'kc, 'gpu) server_host \<Rightarrow> 'ip server_cli \<Rightarrow> machine \<Rightarrow> machine \<Rightarrow> 'acc \<Rightarrow> bool" where
  "generated_state h c m m' acc \<longleftrightarrow>
     (case generate_self_signed (sh_rcgen h) (sh_now h) (sh_ip_text h (fst (sv_bind c))) of
        Inl _ \<Rightarrow> False
      | Inr (cert_pem, key_pem) \<Rightarrow>
          (\<exists>cert chain key.
             sh_pem_certs h cert_pem = Some (cert # chain) \<and> sh_pem_key h key_pem = Some key \<and>
             sh_build h (cert # chain) key = Inr acc \<and>
             mc_dirs m' (data_dir h) = Some MODE_DIR \<and>
             map (mc_leaves m') (key_files h) =
               map2 (\<lambda>(md, txt) p. Some (File (opened_mode (sh_sys h) md (mc_leaves m p)) txt))
                 [(MODE_SECRET, cert_pem), (MODE_SECRET, key_pem),
                  (MODE_PUBLIC, cert_fingerprint (sh_sha256 h) (sh_der h cert) @ [CHR 0x0A])] (key_files h)))"

text \<open>Reading a path that is a regular file gives its contents.\<close>

definition reads_files :: "('ip, 'key, 'c, 'k, 'acc, 'kc, 'gpu) server_host \<Rightarrow> bool" where
  "reads_files h \<longleftrightarrow> (\<forall>m p md txt. mc_leaves m p = Some (File md txt) \<longrightarrow> sh_read h m p = Some txt)"

lemma generated_ok:
  assumes reads: "reads_files h" and ok: "generated_acceptor h c m = (Inr acc, m')"
  shows "generated_state h c m m' acc"
proof -
  obtain cert_pem key_pem where g:
      "generate_self_signed (sh_rcgen h) (sh_now h) (sh_ip_text h (fst (sv_bind c))) = Inr (cert_pem, key_pem)"
    using ok by (auto simp: generated_acceptor_def split: sum.splits)
  obtain cert chain where certs: "sh_pem_certs h cert_pem = Some (cert # chain)"
    using ok by (auto simp: generated_acceptor_def g split: option.splits list.splits)
  define fp where "fp = cert_fingerprint (sh_sha256 h) (sh_der h cert)"
  define d where "d = data_dir h"
  obtain a b e where p: "path_join d ''server.crt'' = a" "path_join d ''server.key'' = b"
      "path_join d ''server.fingerprint'' = e" by simp
  have ne: "a \<noteq> b" "a \<noteq> e" "b \<noteq> e" using key_files_distinct [of h] by (auto simp: key_files_def p simp flip: d_def)
  obtain m0 m1 m2 m3 m4 m5 m6 where steps:
      "ensure_data_dir (sh_sys h) d m0 = (Inr (), m1)"
      "open_nofollow (sh_sys h) MODE_SECRET a m1 = (Inr (), m2)" "write_all (sh_sys h) a cert_pem m2 = (Inr (), m3)"
      "open_nofollow (sh_sys h) MODE_SECRET b m3 = (Inr (), m4)" "write_all (sh_sys h) b key_pem m4 = (Inr (), m5)"
      "write_fingerprint_file (sh_sys h) e fp m5 = (Inr (), m6)"
      "mc_leaves m0 = mc_leaves m" "mc_leaves m' = mc_leaves m6" "mc_dirs m' = mc_dirs m6" "acceptor_of_files h m' a b = Inr acc"
    using ok unfolding generated_acceptor_def
    by (auto simp: g certs Let_def and_then_Inr map_error_Inr open_secret_file_for_write_def p simp flip: d_def fp_def)
  note w = ensure_data_dir_ok [OF steps(1)] written_file [OF steps(2,3)] written_file [OF steps(4,5)]
    written_fingerprint [OF steps(6)]
  have leaves: "mc_leaves m' a = Some (File (opened_mode (sh_sys h) MODE_SECRET (mc_leaves m a)) cert_pem)"
      "mc_leaves m' b = Some (File (opened_mode (sh_sys h) MODE_SECRET (mc_leaves m b)) key_pem)"
      "mc_leaves m' e = Some (File (opened_mode (sh_sys h) MODE_PUBLIC (mc_leaves m e)) (fp @ [CHR 0x0A]))"
    using w steps(7,8) ne by auto
  have dir: "mc_dirs m' d = Some MODE_DIR" using w steps(9) by auto
  have rd: "sh_read h m' a = Some cert_pem" "sh_read h m' b = Some key_pem"
    using reads leaves(1,2) by (auto simp: reads_files_def)
  with steps(10) certs obtain key where "sh_pem_key h key_pem = Some key" "sh_build h (cert # chain) key = Inr acc"
    by (auto simp: acceptor_of_files_def acceptor_from_pem_def split: option.splits sum.splits)
  then show ?thesis
    unfolding generated_state_def using certs leaves dir
    by (simp add: g key_files_def p fp_def flip: d_def)
qed


definition sample_server :: "(nat, unit, nat, nat, nat, unit, unit) server_host" where
  "sample_server =
     \<lparr>sh_tracing_error = None,
      sh_sys = \<lparr>sc_umask = 18, sc_mkdir_error = (\<lambda>_. None), sc_chmod_error = (\<lambda>_. None), sc_open_error = (\<lambda>_. None),
        sc_write_error = (\<lambda>_ _. None)\<rparr>,
      sh_read = (\<lambda>m p. case mc_leaves m p of Some (File _ txt) \<Rightarrow> Some txt | _ \<Rightarrow> None),
      sh_now = 0, sh_ip_text = (\<lambda>_. ''10.0.0.1''),
      sh_rcgen = \<lparr>rg_ip_from_str = (\<lambda>_. Some 1), rg_dns_error = (\<lambda>_. None), rg_key_pair = Inr (),
        rg_self_signed = (\<lambda>_ _. Inr ''CERT''), rg_key_pem = (\<lambda>_. ''KEY'')\<rparr>,
      sh_pem_certs = (\<lambda>txt. if txt = ''CERT'' then Some [7] else None),
      sh_pem_key = (\<lambda>txt. if txt = ''KEY'' then Some 9 else None), sh_der = (\<lambda>_. [1]), sh_sha256 = (\<lambda>_. [2]),
      sh_build = (\<lambda>_ k. Inr k), sh_data_local_dir = Some ''/d'', sh_ip_loopback = (\<lambda>_. None), sh_env = (\<lambda>_. None),
      sh_exists = (\<lambda>_. False), sh_home_dir = None, sh_symlink_metadata = (\<lambda>_. None), sh_open_docker = (\<lambda>_. Inr ()),
      sh_docker_info = TimedOut, sh_kube = sample_kube ''web'', sh_gpu_probes = [], sh_bind_error = (\<lambda>_. None)\<rparr>"

definition sample_server_cli :: "nat server_cli" where
  "sample_server_cli =
     \<lparr>sv_bind = (1, 4242), sv_refresh = 1, sv_token = Some ''correct-horse-16'', sv_token_file = None,
      sv_max_clients = 8, sv_rate_limit_per_ip = Fin 10, sv_tls_cert = None, sv_tls_key = None, sv_tls_generate = True,
      sv_docker_socket = None, sv_no_containers = True, sv_kube_context = None, sv_kube_namespace = None,
      sv_no_kube = True, sv_no_gpu = True\<rparr>"

definition empty_machine :: machine where
  "empty_machine = \<lparr>mc_dirs = (\<lambda>_. None), mc_leaves = (\<lambda>_. None), mc_stderr = []\<rparr>"

lemmas sample_defs = sample_server_def sample_server_cli_def empty_machine_def server_main_def server_acceptor_def
  generated_acceptor_def generate_self_signed_def auth_token_of_def and_then_def ensure_data_dir_def create_dir_all_def
  open_secret_file_for_write_def open_nofollow_def write_all_def append_leaf_def write_fingerprint_file_def eprintln_def
  data_dir_def path_join_def acceptor_of_files_def acceptor_from_pem_def unwrap_or_def

lemma sample_server_starts:
  "\<exists>l m'. server_main sample_server sample_server_cli empty_machine = (Inr l, m') \<and> sl_tls_acceptor l = 9"
  by (simp add: sample_defs Let_def)


text \<open>
  A key file that is already there keeps the mode it has, however open, and the new key is written
  into it; only the mode of the directory protects it.
\<close>

theorem existing_key_file_keeps_mode:
  assumes "mc_leaves m p = Some (File md txt)" "sc_open_error sc p = None" "mc_dirs m p = None"
    "sc_write_error sc p key_pem = None"
  shows "mc_leaves (snd (and_then (open_secret_file_for_write sc p m) (\<lambda>_ m. write_all sc p key_pem m))) p =
    Some (File md key_pem)"
  using assms by (simp add: and_then_def open_secret_file_for_write_def open_nofollow_def write_all_def append_leaf_def)

end
