(* ===== verification/Spec2Isabelle.thy ===== *)
theory Spec2Isabelle
  imports Process_Table Session Collector Screen_Facts Apple_Gpu Client_Main Server_Main
begin

text \<open>
  muxtop is a terminal system monitor: a collector samples the machine, its containers, its
  Kubernetes cluster and its GPUs; an interface shows the samples and acts on processes and
  containers; and a server streams the samples to interfaces on other machines over TLS. This
  development models the program's own logic (the crates \<open>muxtop-core\<close>, \<open>muxtop-proto\<close>,
  \<open>muxtop-server\<close> and \<open>muxtop-tui\<close>) and proves the properties it is relied upon for.

  \<^bold>\<open>How the parts interact.\<close> The collector owns four loops; three poll an engine (containers,
  cluster, GPU) and write a slot, the fourth assembles a \<open>SystemSnapshot\<close> from the host and the
  slots and offers it to a bounded channel. In a local run the channel ends in the interface. In a
  server the relay encodes each snapshot once and broadcasts the frame; every session that passed
  the handshake writes it to its client, whose read loop hands it to the interface's channel. The
  interface takes the newest snapshot, or else the next terminal event, changes its state and draws.

  \<^bold>\<open>Shared theories.\<close>
  \<^item> \<open>Muxtop_Prelude\<close>: integer widths, \<open>option\<close> and list helpers of the Rust code, stable and unstable
    sorting, and the locales \<open>unstable_sort\<close> (what \<open>sort_unstable_by\<close> promises) and \<open>step_invariant\<close>
    (an invariant of a step function holds along every run).
  \<^item> \<open>Rust_Str\<close>: the string methods used (trimming, splitting, finding, decimal numbers).
  \<^item> \<open>Rust_Float\<close>: IEEE single and double arithmetic with rounding to nearest even, as exact rationals
    with infinities and NaN, because the rate limiter, the CPU shares and the sort keys depend on
    rounding, overflow and NaN.

  \<^bold>\<open>Protocol, client and server.\<close>
  \<^item> \<open>Frame_Codec\<close> (\<open>frame.rs\<close>, \<open>error.rs\<close>): frames, their encoding, the decoder, the stream reader with its
    payload cap and the writer. The decoder inverts the encoder and accepts nothing else, the reader
    agrees with the decoder, a stream of frames is read back, and no input makes the reader allocate more
    than the cap.
  \<^item> \<open>Wire\<close> (\<open>wire.rs\<close>): the messages and their frames. \<open>bincode\<close> is a parameter; the locale \<open>bincode_law\<close>
    says that it decodes what it encoded, and is interpreted on a concrete serialiser.
  \<^item> \<open>Remote_Client\<close> (\<open>remote.rs\<close>): the target, the handshake, the read loop (total: every iteration
    consumes input) and the reconnect loop with its backoff.
  \<^item> \<open>Rate_Limiter\<close> (\<open>rate_limit.rs\<close>): token buckets; forgetting idle addresses never changes a decision,
    and the table is bounded.
  \<^item> \<open>Server\<close> (\<open>main.rs\<close>, \<open>tls.rs\<close>, \<open>client.rs\<close>, \<open>server.rs\<close>): start-up checks, a session, the relay and the
    accept loop. A session is driven by the list of what \<open>select!\<close> picks, the accept loop by arrivals and
    endings, so the theorems hold for every interleaving.
  \<^item> \<open>Session\<close>: a session of the server and a connection of the client joined by their bytes; the
    property at the end of this theory composes both with a turn of the interface.

  \<^bold>\<open>The two binaries.\<close>
  \<^item> \<open>Client_Main\<close> (\<open>src/main.rs\<close>, \<open>muxtop-proto/tls.rs\<close>, \<open>muxtop-tui/lib.rs\<close>): from a command line to the
    engines, the source of snapshots and the run of the interface. A remote run is authenticated,
    verifies certificates unless told not to, and only views; the terminal is restored on every exit.
  \<^item> \<open>Server_Main\<close> (\<open>muxtop-server/main.rs\<close>, \<open>tls.rs\<close>): the self-signed certificate and its files over a
    file system with directories, files and symbolic links, and the launch. Starting touches three files
    and follows no link.

  \<^bold>\<open>Collecting.\<close>
  \<^item> \<open>Snapshots\<close> (\<open>process.rs\<close>, \<open>network.rs\<close>, \<open>containers.rs\<close>, \<open>kube.rs\<close>, \<open>gpu.rs\<close>, \<open>system.rs\<close>): the data model.
  \<^item> \<open>Process_Table\<close> (\<open>process.rs\<close>): sorting, filtering and the process tree, which shows every process exactly
    once whatever the parent links are, cycles included.
  \<^item> \<open>Network_History\<close> (\<open>network.rs\<close>): the bounded history refines a list that keeps the newest entries.
  \<^item> \<open>Engine_Targets\<close>, \<open>Docker_Engine\<close>, \<open>Kube_Engine\<close>, \<open>Gpu_Engine\<close> (\<open>container_engine.rs\<close>, \<open>docker_engine.rs\<close>,
    \<open>cluster_engine.rs\<close>, \<open>kube_engine.rs\<close>, \<open>gpu_engine.rs\<close>, \<open>amd_engine.rs\<close>, \<open>nvml_engine.rs\<close>): the engines; the
    daemon, the API server, the file system and the vendor library are records of answers. The
    contract of a GPU backend is the locale \<open>gpu_backend\<close>, interpreted on all of them and inherited by
    their composite.
  \<^item> \<open>Apple_Gpu\<close> (\<open>apple/*.rs\<close>): the Apple backend over what IOKit and IOReport answer, one more instance of
    \<open>gpu_backend\<close>. The sampler frees each foreign object once and its intervals cover the time without gap
    or overlap; the clock is a mean of clocks at which the device ran.
  \<^item> \<open>Collector\<close> (\<open>collector.rs\<close>, \<open>system.rs\<close>): a snapshot, and the loops as steps over slots and channel.
  \<^item> \<open>Actions\<close> (\<open>actions.rs\<close>, \<open>error.rs\<close>): signals and priorities over the system calls they make.

  \<^bold>\<open>Interface.\<close>
  \<^item> \<open>Notify\<close> (\<open>notify.rs\<close>, \<open>sanitize.rs\<close>), \<open>Keymap\<close> (\<open>keymap.rs\<close>, all bindings) and \<open>Palette\<close> (the commands of
    \<open>app.rs\<close>): the notification queue, key resolution with scopes and chords, and the fuzzy palette.
  \<^item> \<open>Views\<close> (\<open>ui/kube.rs\<close>, \<open>ui/gpu.rs\<close>, \<open>ui/network.rs\<close>, \<open>ui/processes.rs\<close>, \<open>ui/widgets\<close>, parts of \<open>app.rs\<close>): which
    rows a table shows in which order, the tree connectors and the column layout.
  \<^item> \<open>Terminal_Caps\<close> (\<open>terminal.rs\<close>, \<open>clipboard.rs\<close>, \<open>ui/theme.rs\<close>): capability detection, entering and
    leaving the terminal modes, the clipboard sequence, theme names.
  \<^item> \<open>App_State\<close> and \<open>App\<close> (\<open>app.rs\<close>, \<open>event.rs\<close>, \<open>lib.rs\<close>): the state, every key, mouse, palette and
    confirmation handler, and a turn of the event loop. Calls that reach outside (a signal, a priority, a
    spawned container task, a copied text) are recorded in logs of the state, so that theorems can say
    when they happen. \<open>App_Invariants\<close> proves the properties of all runs with two interpretations of
    \<open>step_invariant\<close>.

  \<^bold>\<open>Screen.\<close> A frame is the list of its render calls; the layout solver and the inside of a bordered
  block belong to the terminal library and are parameters, so every theorem holds for any areas.
  \<^item> \<open>Theming\<close> (\<open>ui/theme.rs\<close>) and \<open>Widgets\<close> (\<open>ui/glyphs.rs\<close>, \<open>ui/widgets\<close>): colours and styles, glyph sets, cells,
    meters, sparklines, scrollbars, placeholders and the virtualised table. Severity survives without
    colour, a meter fills by zone, the table shows the selected row and marks only it.
  \<^item> \<open>Frames\<close>, \<open>Tables\<close>, \<open>Overlays\<close> and \<open>Screen\<close> (\<open>ui/mod.rs\<close>, \<open>ui/filter_bar.rs\<close>, the tabs, the overlays,
    \<open>ui/general.rs\<close>, \<open>ui/chrome.rs\<close>): what each tab and overlay renders, up to \<open>draw_root\<close>.
  \<^item> \<open>Screen_Safety\<close> and \<open>Screen_Facts\<close>: no control character reaches the terminal but in a few named
    strings; rows match columns, the highlighted row is the one acted on, a dash means a missing metric.

  \<^bold>\<open>Bounds and fuel.\<close> Loops are total functions with their measures (the length of the remaining input,
    the rows or columns left); the process tree recurses to the depth limit of the code. No
    definition uses fuel. Lists of events stand for what the schedulers, sockets and timers do, of any length.

  \<^bold>\<open>Parameters.\<close> Code outside the repository is an argument: the serialiser, name resolution, Unicode
    lower-casing, the unstable sort, the TLS library's verdicts, the vendor and container APIs, the clock and
    the environment variables.

  \<^bold>\<open>Not modelled.\<close> The rendering of a frame to cells and escape sequences by ratatui, argument
    parsing (the parsed command line is a record), chain verification by rustls, the foreign calls of
    the Apple bindings beyond what they answer, logging, and the real scheduling of tasks, of which the
    models admit every order.
\<close>

section \<open>From the collector of the server to the screen of the client\<close>

text \<open>A turn of the interface that finds snapshots waiting shows the newest, unless it is paused.\<close>

lemma recompute_keeps_snapshot:
  "ap_last_snapshot (recompute_visible E s) = ap_last_snapshot s"
  "ap_last_snapshot (recompute_containers_view E s) = ap_last_snapshot s"
  "ap_last_snapshot (recompute_kube_view E s) = ap_last_snapshot s"
  by (auto simp: recompute_visible_def recompute_containers_view_def recompute_kube_view_def Let_def
      split: option.splits)

lemma apply_snapshot_shows:
  "\<not> ap_paused s \<Longrightarrow> ap_last_snapshot (apply_snapshot E snap s) = Some snap"
  by (simp add: apply_snapshot_def mark_dirty_def Let_def recompute_keeps_snapshot)

lemma notify_keeps_pause: "ap_paused (notify E level msg s) = ap_paused s"
  by (simp add: notify_def)

lemma notify_all_keeps_pause: "ap_paused (fold (\<lambda>(level, msg). notify E level msg) ms s) = ap_paused s"
  by (induction ms arbitrary: s) (simp_all add: notify_keeps_pause split: prod.split)

lemma pump_keeps_pause: "ap_paused (pump_action_results E s) = ap_paused s"
  by (simp add: pump_action_results_def mark_dirty_def Let_def notify_all_keeps_pause)

lemma turn_shows_newest:
  assumes "snaps \<noteq> []" "\<not> ap_paused s"
  shows "ap_last_snapshot (snd (turn E (poll_event snaps te) s)) = Some (last snaps)"
  using assms
  by (simp add: turn_def Let_def poll_event_def take_needs_redraw_def tick_def apply_snapshot_shows pump_keeps_pause)

section \<open>Properties\<close>


definition sample_feed :: "feed list" where
  "sample_feed = [Collected empty_snapshot, Beat 5, Lagged 2, Collected empty_snapshot]"

definition sample_client :: RemoteCollector where
  "sample_client = \<lparr>rc_token = Some ''correct-horse-16'', rc_version = ''0.5''\<rparr>"


end
